(* ===== verification/Prelude.thy ===== *)
theory Prelude
  imports Main "HOL-Library.AList"
begin

text \<open>
  Shared ground of the development: the collections of simplification rules that the component
  theories fill, the result type of fallible Go functions, machine integers with their
  wrap-around written out, and generic facts on lists that several components use.
\<close>

named_theorems go_simps \<open>defining equations that component proofs unfold by default\<close>
named_theorems go_cfg \<open>effects of configuration options on the fields of a configuration\<close>

section \<open>Results\<close>

text \<open>
  A Go function with results \<open>(T, error)\<close> returns \<open>Inl e\<close> for a non-nil error and
  \<open>Inr v\<close> for a value with a nil error.
\<close>

type_synonym ('e, 'a) result = "'e + 'a"

fun is_ok :: "('e, 'a) result \<Rightarrow> bool" where
  "is_ok (Inl _) = False"
| "is_ok (Inr _) = True"

lemma is_ok_iff: "is_ok r \<longleftrightarrow> (\<exists>v. r = Inr v)"
  by (cases r) auto

text \<open>
  A validation step returns \<open>None\<close> for a nil error; a sequence of steps stops at the
  first error, as the early returns of the source do.
\<close>

fun first_error :: "'e option list \<Rightarrow> 'e option" where
  "first_error [] = None"
| "first_error (None # es) = first_error es"
| "first_error (Some e # es) = Some e"

lemma first_error_None_iff [simp]: "first_error es = None \<longleftrightarrow> set es \<subseteq> {None}"
  by (induction es rule: first_error.induct) auto

lemma first_error_SomeD: "first_error es = Some e \<Longrightarrow> Some e \<in> set es"
  by (induction es rule: first_error.induct) auto

section \<open>Machine integers\<close>

text \<open>
  Signed integers of 64 and 32 bits as \<open>int\<close> with two's complement wrap-around;
  unsigned 32-bit conversion as reduction modulo \<open>2 ^ 32\<close>. Division of the source truncates
  towards zero.
\<close>

definition wrap64 :: "int \<Rightarrow> int" where
  "wrap64 i = (i + 9223372036854775808) mod 18446744073709551616 - 9223372036854775808"

definition wrap32 :: "int \<Rightarrow> int" where
  "wrap32 i = (i + 2147483648) mod 4294967296 - 2147483648"

definition uint32 :: "int \<Rightarrow> int" where
  "uint32 i = i mod 4294967296"

definition go_div :: "int \<Rightarrow> int \<Rightarrow> int" where
  "go_div num den =
     (if (num < 0) = (den < 0) then \<bar>num\<bar> div \<bar>den\<bar> else - (\<bar>num\<bar> div \<bar>den\<bar>))"

lemma wrap64_id: "- 9223372036854775808 \<le> i \<Longrightarrow> i < 9223372036854775808 \<Longrightarrow> wrap64 i = i"
  by (simp add: wrap64_def)

lemma wrap64_bounds: "- 9223372036854775808 \<le> wrap64 i \<and> wrap64 i < 9223372036854775808"
  by (simp add: wrap64_def)

lemma wrap64_idem [simp]: "wrap64 (wrap64 i) = wrap64 i"
  using wrap64_bounds [of i] by (intro wrap64_id) auto

lemma wrap32_id: "- 2147483648 \<le> i \<Longrightarrow> i < 2147483648 \<Longrightarrow> wrap32 i = i"
  by (simp add: wrap32_def)

lemma uint32_bounds: "0 \<le> uint32 i \<and> uint32 i < 4294967296"
  by (simp add: uint32_def)

lemma uint32_id: "0 \<le> i \<Longrightarrow> i < 4294967296 \<Longrightarrow> uint32 i = i"
  by (simp add: uint32_def)

lemma go_div_nonneg: "0 \<le> a \<Longrightarrow> 0 < b \<Longrightarrow> go_div a b = a div b"
  by (simp add: go_div_def)

section \<open>Time\<close>

text \<open>
  A \<open>time.Time\<close> is a number of nanoseconds since the zero time of the language (so that
  \<open>IsZero\<close> is equality with \<open>0\<close>), a \<open>time.Duration\<close> a signed number of nanoseconds.
\<close>

type_synonym gotime = int
type_synonym duration = int

abbreviation (input) Nanosecond :: duration where "Nanosecond \<equiv> 1"
abbreviation (input) Microsecond :: duration where "Microsecond \<equiv> 1000"
abbreviation (input) Millisecond :: duration where "Millisecond \<equiv> 1000000"
abbreviation (input) Second :: duration where "Second \<equiv> 1000000000"
abbreviation (input) Minute :: duration where "Minute \<equiv> 60000000000"

section \<open>Options of a call\<close>

text \<open>
  The functional options of the SDK are functions on a configuration; a nil option is skipped.
  They are applied in the order they are given.
\<close>

type_synonym 'c opt_fn = "('c \<Rightarrow> 'c) option"

fun apply_opts :: "'c opt_fn list \<Rightarrow> 'c \<Rightarrow> 'c" where
  "apply_opts [] c = c"
| "apply_opts (None # os) c = apply_opts os c"
| "apply_opts (Some f # os) c = apply_opts os (f c)"

lemma apply_opts_append [simp]: "apply_opts (os @ ps) c = apply_opts ps (apply_opts os c)"
  by (induction os c rule: apply_opts.induct) auto

lemma apply_opts_invariant:
  assumes "\<And>f d. Some f \<in> set os \<Longrightarrow> P d \<Longrightarrow> P (f d)" and "P c"
  shows "P (apply_opts os c)"
  using assms by (induction os c rule: apply_opts.induct) auto

text \<open>Options that leave a field alone.\<close>

fun keeps :: "('c \<Rightarrow> 'v) \<Rightarrow> 'c opt_fn list \<Rightarrow> bool" where
  "keeps get [] \<longleftrightarrow> True"
| "keeps get (None # os) \<longleftrightarrow> keeps get os"
| "keeps get (Some f # os) \<longleftrightarrow> (\<forall>d. get (f d) = get d) \<and> keeps get os"

lemma keeps_apply_opts: "keeps get os \<Longrightarrow> get (apply_opts os c) = get c"
  by (induction os c rule: apply_opts.induct) auto

text \<open>An option that is a setter of a field: the last one given decides the field.\<close>

locale field_option =
  fixes get :: "'c \<Rightarrow> 'v" and opt :: "'a \<Rightarrow> 'c \<Rightarrow> 'c" and val :: "'a \<Rightarrow> 'v"
  assumes get_opt: "get (opt a c) = val a"
begin

lemma last_wins: "keeps get os \<Longrightarrow> get (apply_opts (ps @ Some (opt a) # os) c) = val a"
  by (simp add: keeps_apply_opts get_opt)

end

section \<open>Lists\<close>

text \<open>The built-in \<open>len\<close>, an \<open>int\<close> as in the source.\<close>

abbreviation len :: "'a list \<Rightarrow> int" where
  "len xs \<equiv> int (length xs)"

text \<open>Association-list view of a Go map literal: the last write to a key is the value.\<close>

fun find_index :: "('a \<Rightarrow> bool) \<Rightarrow> 'a list \<Rightarrow> nat option" where
  "find_index p [] = None"
| "find_index p (x # xs) = (if p x then Some 0 else map_option Suc (find_index p xs))"

lemma find_index_Some:
  "find_index p xs = Some i \<Longrightarrow> i < length xs \<and> p (xs ! i) \<and> (\<forall>j<i. \<not> p (xs ! j))"
proof (induction xs arbitrary: i)
  case (Cons x xs)
  then show ?case
    by (cases "p x") (auto simp: nth_Cons less_Suc_eq_0_disj split: nat.splits)
qed simp

section \<open>Maps\<close>

text \<open>
  A Go map is an association list with distinct keys; the order of the list stands for the order
  of one iteration over the map. A nil map and an empty map read alike.
\<close>

type_synonym ('k, 'v) gomap = "('k \<times> 'v) list"

definition wf_map :: "('k, 'v) gomap \<Rightarrow> bool" where
  "wf_map m \<longleftrightarrow> distinct (map fst m)"

definition map_put :: "'k \<Rightarrow> 'v \<Rightarrow> ('k, 'v) gomap \<Rightarrow> ('k, 'v) gomap" where
  "map_put k v m = AList.update k v m"

definition map_put_all :: "('k, 'v) gomap \<Rightarrow> ('k, 'v) gomap \<Rightarrow> ('k, 'v) gomap" where
  "map_put_all new m = fold (\<lambda>(k, v). map_put k v) new m"

definition map_del :: "'k \<Rightarrow> ('k, 'v) gomap \<Rightarrow> ('k, 'v) gomap" where
  "map_del k m = AList.delete k m"

lemma wf_map_Nil [simp]: "wf_map []"
  by (simp add: wf_map_def)

lemma wf_map_put [simp]: "wf_map m \<Longrightarrow> wf_map (map_put k v m)"
  by (simp add: wf_map_def map_put_def distinct_update)

lemma wf_map_put_all [simp]: "wf_map m \<Longrightarrow> wf_map (map_put_all new m)"
  unfolding map_put_all_def by (induction new arbitrary: m) auto

lemma wf_map_del [simp]: "wf_map m \<Longrightarrow> wf_map (map_del k m)"
  by (simp add: wf_map_def map_del_def distinct_delete)

lemma lookup_put [simp]: "map_of (map_put k v m) = (map_of m)(k \<mapsto> v)"
  by (simp add: map_put_def update_conv')

lemma lookup_del [simp]: "map_of (map_del k m) = (map_of m)(k := None)"
  by (simp add: map_del_def delete_conv')

lemma lookup_put_all: "wf_map new \<Longrightarrow> map_of (map_put_all new m) = map_of m ++ map_of new"
  unfolding map_put_all_def wf_map_def
proof (induction new arbitrary: m)
  case (Cons kv new)
  then show ?case
    by (cases kv) (auto simp: fun_eq_iff map_add_def dom_map_of_conv_image_fst [symmetric]
        split: option.splits)
qed simp

section \<open>Many goroutines\<close>

text \<open>
  The goroutines of a component are a list, in which a step replaces one; what is counted or measured of all of them
  is a sum over the list.
\<close>

definition one_if :: "('a \<Rightarrow> bool) \<Rightarrow> 'a \<Rightarrow> nat" where
  "one_if P x = (if P x then 1 else 0)"

lemma sum_list_set: "i < length xs \<Longrightarrow> sum_list (map f (xs[i := x])) + f (xs ! i) = sum_list (map f xs) + (f x :: nat)"
proof (induction xs arbitrary: i)
  case (Cons y ys)
  show ?case
  proof (cases i)
    case (Suc j)
    with Cons.prems Cons.IH [of j] show ?thesis by simp
  qed simp
qed simp

lemma sum_list_one_if: "sum_list (map (one_if P) xs) = length (List.filter P xs)"
  by (induction xs) (simp_all add: one_if_def)

lemma list_all_set: "list_all P xs \<Longrightarrow> P x \<Longrightarrow> list_all P (xs[i := x])"
  using set_update_subset_insert [of xs i x] by (auto simp: list_all_iff)

lemma sum_list_bound: "(\<And>x. f x \<le> (b::nat)) \<Longrightarrow> sum_list (map f xs) \<le> b * length xs"
  by (induction xs) (simp_all add: add_mono)

end
