(* ===== verification/GoStrings.thy ===== *)
theory GoStrings
  imports Prelude
begin

text \<open>
  The parts of the Go library on strings that the SDK uses: \<open>strings\<close>, \<open>unicode/utf8\<close>,
  \<open>path.Clean\<close> and decimal formatting. A Go string is a list of bytes, here a list of
  \<open>char\<close>. \<open>TrimSpace\<close>, rune counting and UTF-8 validity follow the library on every
  byte string. \<open>ToLower\<close> is exact on ASCII and on the two other runes that lower to an ASCII
  letter (the Kelvin sign and the dotted capital I), which is all that a search for an ASCII
  text can see; any other rune is left as it is.
\<close>

section \<open>Prefixes and substrings\<close>

definition HasPrefix :: "string \<Rightarrow> string \<Rightarrow> bool" where
  "HasPrefix s p = (take (length p) s = p)"

definition HasSuffix :: "string \<Rightarrow> string \<Rightarrow> bool" where
  "HasSuffix s p = HasPrefix (rev s) (rev p)"

definition TrimPrefix :: "string \<Rightarrow> string \<Rightarrow> string" where
  "TrimPrefix s p = (if HasPrefix s p then drop (length p) s else s)"

fun Contains :: "string \<Rightarrow> string \<Rightarrow> bool" where
  "Contains [] sub = (sub = [])"
| "Contains (c # s) sub = (HasPrefix (c # s) sub \<or> Contains s sub)"

fun Index :: "string \<Rightarrow> string \<Rightarrow> nat option" where
  "Index [] sub = (if sub = [] then Some 0 else None)"
| "Index (c # s) sub = (if HasPrefix (c # s) sub then Some 0 else map_option Suc (Index s sub))"

lemma HasPrefix_iff: "HasPrefix s p \<longleftrightarrow> (\<exists>t. s = p @ t)"
  unfolding HasPrefix_def by (metis append_eq_conv_conj append_take_drop_id)

lemma HasPrefix_append [simp]: "HasPrefix (p @ t) p"
  by (simp add: HasPrefix_iff)

lemma HasPrefix_refl [simp]: "HasPrefix s s"
  by (simp add: HasPrefix_iff)

lemma HasPrefix_Nil [simp]: "HasPrefix s []"
  by (simp add: HasPrefix_def)

lemma HasPrefix_empty [simp]: "HasPrefix [] p \<longleftrightarrow> p = []"
  by (simp add: HasPrefix_iff)

lemma HasPrefix_Cons [simp]: "HasPrefix (c # s) (d # p) \<longleftrightarrow> c = d \<and> HasPrefix s p"
  by (auto simp: HasPrefix_def)

lemma HasPrefix_trans: "HasPrefix s t \<Longrightarrow> HasPrefix t p \<Longrightarrow> HasPrefix s p"
  by (auto simp: HasPrefix_iff)

lemma HasPrefix_length: "HasPrefix s p \<Longrightarrow> length p \<le> length s"
  by (auto simp: HasPrefix_iff)

lemma Contains_prefix: "HasPrefix s sub \<Longrightarrow> Contains s sub"
  by (cases s) auto

lemma Contains_iff: "Contains s sub \<longleftrightarrow> (\<exists>a b. s = a @ sub @ b)"
proof (induction s)
  case (Cons c s)
  show ?case
  proof
    assume "Contains (c # s) sub"
    then consider "HasPrefix (c # s) sub" | "Contains s sub" by auto
    then show "\<exists>a b. c # s = a @ sub @ b"
    proof cases
      case 1
      then show ?thesis by (metis HasPrefix_iff append_Nil)
    next
      case 2
      then show ?thesis using Cons.IH by (metis append_Cons)
    qed
  next
    assume "\<exists>a b. c # s = a @ sub @ b"
    then obtain a b where ab: "c # s = a @ sub @ b" by blast
    then show "Contains (c # s) sub"
      using Cons.IH by (cases a) (auto intro: Contains_prefix simp: HasPrefix_iff)
  qed
qed simp

lemma Index_Some: "Index s sub = Some i \<Longrightarrow> i + length sub \<le> length s \<and> HasPrefix (drop i s) sub"
proof (induction s arbitrary: i)
  case (Cons c s)
  then show ?case
    by (auto split: if_splits dest: HasPrefix_length)
qed (auto split: if_splits)

lemma Index_Contains: "Contains s sub \<longleftrightarrow> Index s sub \<noteq> None"
  by (induction s) auto

fun split_on :: "char \<Rightarrow> string \<Rightarrow> string list" where
  "split_on d [] = [[]]"
| "split_on d (c # s) =
     (if c = d then [] # split_on d s
      else (case split_on d s of [] \<Rightarrow> [[c]] | w # ws \<Rightarrow> (c # w) # ws))"

fun join_with :: "string \<Rightarrow> string list \<Rightarrow> string" where
  "join_with sep [] = []"
| "join_with sep [w] = w"
| "join_with sep (w # v # ws) = w @ sep @ join_with sep (v # ws)"

lemma split_on_neq_Nil [simp]: "split_on d s \<noteq> []"
  by (induction s) (auto split: list.splits)

lemma split_on_no_sep: "w \<in> set (split_on d s) \<Longrightarrow> d \<notin> set w"
proof (induction s arbitrary: w)
  case (Cons c s)
  then show ?case
    by (cases "split_on d s") (auto split: if_splits)
qed simp

lemma join_with_Cons: "ws \<noteq> [] \<Longrightarrow> join_with sep (w # ws) = w @ sep @ join_with sep ws"
  by (cases ws) auto

lemma join_split_on [simp]: "join_with [d] (split_on d s) = s"
proof (induction s)
  case (Cons c s)
  obtain w ws where sp: "split_on d s = w # ws"
    by (metis list.exhaust split_on_neq_Nil)
  show ?case
  proof (cases "c = d")
    case True
    with Cons.IH show ?thesis by (simp add: join_with_Cons)
  next
    case False
    with sp Cons.IH show ?thesis by (cases ws) auto
  qed
qed simp

text \<open>\<open>strings.Cut\<close>: the text before and after the first separator.\<close>

definition Cut :: "string \<Rightarrow> string \<Rightarrow> string \<times> string \<times> bool" where
  "Cut s sep = (case Index s sep of
      Some i \<Rightarrow> (take i s, drop (i + length sep) s, True)
    | None \<Rightarrow> (s, [], False))"

text \<open>\<open>strings.ReplaceAll\<close> for a non-empty text to replace.\<close>

function ReplaceAll :: "string \<Rightarrow> string \<Rightarrow> string \<Rightarrow> string" where
  "ReplaceAll s old new =
     (if old \<noteq> [] \<and> s \<noteq> [] then
        (if HasPrefix s old then new @ ReplaceAll (drop (length old) s) old new
         else hd s # ReplaceAll (tl s) old new)
      else s)"
  by pat_completeness auto
termination
  by (relation "measure (\<lambda>(s, old, new). length s)") auto

declare ReplaceAll.simps [simp del]

section \<open>Case folding\<close>

definition ascii_lower :: "char \<Rightarrow> char" where
  "ascii_lower c = (let b = (of_char c :: nat) in if 65 \<le> b \<and> b \<le> 90 then char_of (b + 32) else c)"

fun to_lower :: "string \<Rightarrow> string" where
  "to_lower [] = []"
| "to_lower (c # s) =
     (if c = CHR 0xC4 \<and> HasPrefix s [CHR 0xB0] then CHR ''i'' # to_lower (drop 1 s)
      else if c = CHR 0xE2 \<and> HasPrefix s [CHR 0x84, CHR 0xAA] then CHR ''k'' # to_lower (drop 2 s)
      else ascii_lower c # to_lower s)"

definition ascii_upper :: "char \<Rightarrow> char" where
  "ascii_upper c = (let b = (of_char c :: nat) in if 97 \<le> b \<and> b \<le> 122 then char_of (b - 32) else c)"

text \<open>
  \<open>ToUpper\<close> is only searched for ASCII texts, too; the runes beyond ASCII that upper to an
  ASCII letter are the dotless i and the long s.
\<close>

fun to_upper :: "string \<Rightarrow> string" where
  "to_upper [] = []"
| "to_upper (c # s) =
     (if c = CHR 0xC4 \<and> HasPrefix s [CHR 0xB1] then CHR ''I'' # to_upper (drop 1 s)
      else if c = CHR 0xC5 \<and> HasPrefix s [CHR 0xBF] then CHR ''S'' # to_upper (drop 1 s)
      else ascii_upper c # to_upper s)"

section \<open>Unicode\<close>

abbreviation (input) byte :: "char \<Rightarrow> nat" where "byte c \<equiv> of_char c"

definition cont_byte :: "char \<Rightarrow> bool" where
  "cont_byte c = (128 \<le> byte c \<and> byte c \<le> 191)"

definition in_range :: "nat \<Rightarrow> nat \<Rightarrow> char \<Rightarrow> bool" where
  "in_range lo hi c = (lo \<le> byte c \<and> byte c \<le> hi)"

text \<open>
  The number of bytes of the rune at the head of a string, \<open>None\<close> where the bytes are not
  valid UTF-8 (the decoder then yields the replacement rune and consumes one byte).
\<close>

fun rune_width :: "string \<Rightarrow> nat option" where
  "rune_width [] = None"
| "rune_width (a # s) =
     (if byte a < 128 then Some 1
      else if in_range 194 223 a then
        (case s of b # _ \<Rightarrow> if cont_byte b then Some 2 else None | _ \<Rightarrow> None)
      else if in_range 224 239 a then
        (case s of b # c # _ \<Rightarrow>
           if in_range (if byte a = 224 then 160 else 128) (if byte a = 237 then 159 else 191) b
              \<and> cont_byte c then Some 3 else None
         | _ \<Rightarrow> None)
      else if in_range 240 244 a then
        (case s of b # c # d # _ \<Rightarrow>
           if in_range (if byte a = 240 then 144 else 128) (if byte a = 244 then 143 else 191) b
              \<and> cont_byte c \<and> cont_byte d then Some 4 else None
         | _ \<Rightarrow> None)
      else None)"

function RuneCount :: "string \<Rightarrow> nat" where
  "RuneCount [] = 0"
| "RuneCount (c # s) =
     Suc (RuneCount (drop (case rune_width (c # s) of None \<Rightarrow> 0 | Some w \<Rightarrow> w - 1) s))"
  by pat_completeness auto
termination
  by (relation "measure length") auto

function ValidString :: "string \<Rightarrow> bool" where
  "ValidString [] = True"
| "ValidString (c # s) =
     (case rune_width (c # s) of None \<Rightarrow> False | Some w \<Rightarrow> ValidString (drop (w - 1) s))"
  by pat_completeness auto
termination
  by (relation "measure length") auto

lemma RuneCount_le: "RuneCount s \<le> length s"
proof (induction s rule: RuneCount.induct)
  case (2 c s)
  let ?k = "case rune_width (c # s) of None \<Rightarrow> 0 | Some w \<Rightarrow> w - 1"
  have "RuneCount (drop ?k s) \<le> length s" using 2 by (rule order_trans) simp
  then show ?case by simp
qed simp

lemma RuneCount_pos: "s \<noteq> [] \<Longrightarrow> 1 \<le> RuneCount s"
  by (cases s) auto

lemma RuneCount_0_iff [simp]: "RuneCount s = 0 \<longleftrightarrow> s = []"
  by (cases s) auto

lemma RuneCount_ascii: "\<forall>c \<in> set s. byte c < 128 \<Longrightarrow> RuneCount s = length s"
  by (induction s) auto

text \<open>The byte sequences of the runes for which \<open>unicode.IsSpace\<close> holds.\<close>

definition space_runes :: "string list" where
  "space_runes =
     [[CHR 0x09], [CHR 0x0A], [CHR 0x0B], [CHR 0x0C], [CHR 0x0D], [CHR 0x20],
      [CHR 0xC2, CHR 0x85], [CHR 0xC2, CHR 0xA0], [CHR 0xE1, CHR 0x9A, CHR 0x80],
      [CHR 0xE2, CHR 0x80, CHR 0x80], [CHR 0xE2, CHR 0x80, CHR 0x81],
      [CHR 0xE2, CHR 0x80, CHR 0x82], [CHR 0xE2, CHR 0x80, CHR 0x83],
      [CHR 0xE2, CHR 0x80, CHR 0x84], [CHR 0xE2, CHR 0x80, CHR 0x85],
      [CHR 0xE2, CHR 0x80, CHR 0x86], [CHR 0xE2, CHR 0x80, CHR 0x87],
      [CHR 0xE2, CHR 0x80, CHR 0x88], [CHR 0xE2, CHR 0x80, CHR 0x89],
      [CHR 0xE2, CHR 0x80, CHR 0x8A], [CHR 0xE2, CHR 0x80, CHR 0xA8],
      [CHR 0xE2, CHR 0x80, CHR 0xA9], [CHR 0xE2, CHR 0x80, CHR 0xAF],
      [CHR 0xE2, CHR 0x81, CHR 0x9F], [CHR 0xE3, CHR 0x80, CHR 0x80]]"

function strip_front :: "string list \<Rightarrow> string \<Rightarrow> string" where
  "strip_front ws s =
     (case List.find (\<lambda>w. w \<noteq> [] \<and> HasPrefix s w) ws of
        None \<Rightarrow> s
      | Some w \<Rightarrow> strip_front ws (drop (length w) s))"
  by pat_completeness auto
termination
  by (relation "measure (\<lambda>(ws, s). length s)") (auto simp: find_Some_iff HasPrefix_iff)

declare strip_front.simps [simp del]

definition TrimSpace :: "string \<Rightarrow> string" where
  "TrimSpace s = rev (strip_front (map rev space_runes) (rev (strip_front space_runes s)))"

lemma strip_front_fixed: "\<forall>w \<in> set ws. w \<noteq> [] \<longrightarrow> \<not> HasPrefix s w \<Longrightarrow> strip_front ws s = s"
  by (subst strip_front.simps) (auto simp: find_None_iff split: option.splits dest!: find_Some_iff [THEN iffD1])

lemma strip_front_no_prefix:
  "w \<in> set ws \<Longrightarrow> w \<noteq> [] \<Longrightarrow> \<not> HasPrefix (strip_front ws s) w"
proof (induction ws s rule: strip_front.induct)
  case (1 ws s)
  show ?case
  proof (cases "List.find (\<lambda>w. w \<noteq> [] \<and> HasPrefix s w) ws")
    case None
    with "1.prems" have "\<not> HasPrefix s w" by (auto simp: find_None_iff)
    with None show ?thesis by (subst strip_front.simps) simp
  next
    case (Some v)
    with 1 show ?thesis by (subst strip_front.simps) simp
  qed
qed

lemma strip_front_suffix: "\<exists>p. s = p @ strip_front ws s"
proof (induction ws s rule: strip_front.induct)
  case (1 ws s)
  show ?case
  proof (cases "List.find (\<lambda>w. w \<noteq> [] \<and> HasPrefix s w) ws")
    case None
    then show ?thesis by (subst strip_front.simps) simp
  next
    case (Some v)
    with 1 obtain p where "drop (length v) s = p @ strip_front ws (drop (length v) s)" by blast
    moreover have "strip_front ws s = strip_front ws (drop (length v) s)"
      using Some by (subst strip_front.simps) simp
    ultimately have "s = (take (length v) s @ p) @ strip_front ws s"
      by (metis append.assoc append_take_drop_id)
    then show ?thesis by blast
  qed
qed

lemma TrimSpace_Nil [simp]: "TrimSpace [] = []"
  by (simp add: TrimSpace_def strip_front_fixed)

text \<open>Trimming is idempotent: a trimmed name is what every later trim of it returns.\<close>

lemma TrimSpace_idem [simp]: "TrimSpace (TrimSpace s) = TrimSpace s"
proof -
  let ?l = "strip_front space_runes s"
  let ?t = "strip_front (map rev space_runes) (rev ?l)"
  obtain p where "rev ?l = p @ ?t" using strip_front_suffix by blast
  then have l: "?l = rev ?t @ rev p" by (metis rev_append rev_rev_ident)
  have "\<not> HasPrefix (rev ?t) w" if "w \<in> set space_runes" "w \<noteq> []" for w
  proof
    assume "HasPrefix (rev ?t) w"
    then have "HasPrefix ?l w" by (subst l) (auto simp: HasPrefix_iff)
    with strip_front_no_prefix [OF that] show False by blast
  qed
  then have a: "strip_front space_runes (rev ?t) = rev ?t"
    by (intro strip_front_fixed) blast
  have b: "strip_front (map rev space_runes) ?t = ?t"
    using strip_front_no_prefix by (intro strip_front_fixed) blast
  show ?thesis by (simp add: TrimSpace_def a b)
qed

lemma TrimSpace_infix: "\<exists>a b. s = a @ TrimSpace s @ b"
proof -
  let ?l = "strip_front space_runes s"
  obtain a where a: "s = a @ ?l" using strip_front_suffix by blast
  obtain p where "rev ?l = p @ strip_front (map rev space_runes) (rev ?l)"
    using strip_front_suffix by blast
  then have "?l = TrimSpace s @ rev p" by (metis TrimSpace_def rev_append rev_rev_ident)
  with a show ?thesis by metis
qed

text \<open>A string that begins and ends with a printable ASCII character is not trimmed.\<close>

definition printable :: "char \<Rightarrow> bool" where
  "printable c \<longleftrightarrow> (32::nat) < of_char c \<and> of_char c < (127::nat)"

lemma space_runes_not_printable:
  "list_all (\<lambda>w. w \<noteq> [] \<and> \<not> printable (hd w) \<and> \<not> printable (last w)) space_runes"
  by (simp add: space_runes_def printable_def)

lemma TrimSpace_printable:
  assumes "s \<noteq> []" and "printable (hd s)" and "printable (last s)"
  shows "TrimSpace s = s"
proof -
  have w: "w \<noteq> []" "\<not> printable (hd w)" "\<not> printable (last w)" if "w \<in> set space_runes" for w
    using that space_runes_not_printable by (auto simp: list_all_iff)
  have "\<not> HasPrefix s w" if "w \<in> set space_runes" for w
  proof
    assume "HasPrefix s w"
    then obtain t where "s = w @ t" by (auto simp: HasPrefix_iff)
    with w [OF that] assms(2) show False by simp
  qed
  then have a: "strip_front space_runes s = s" by (intro strip_front_fixed) blast
  have "\<not> HasPrefix (rev s) (rev w)" if "w \<in> set space_runes" for w
  proof
    assume "HasPrefix (rev s) (rev w)"
    then obtain t where "rev s = rev w @ t" by (auto simp: HasPrefix_iff)
    then have "hd (rev s) = hd (rev w)" using w(1) [OF that] by simp
    then have "last s = last w" by (simp add: hd_rev)
    with w [OF that] assms(3) show False by simp
  qed
  then have "strip_front (map rev space_runes) (rev s) = rev s"
    by (intro strip_front_fixed) auto
  with a show ?thesis by (simp add: TrimSpace_def)
qed

section \<open>Formatting\<close>

fun digit_char :: "nat \<Rightarrow> char" where
  "digit_char n = char_of (48 + n)"

fun show_nat :: "nat \<Rightarrow> string" where
  "show_nat n = (if n < 10 then [digit_char n] else show_nat (n div 10) @ [digit_char (n mod 10)])"

declare show_nat.simps [simp del]

definition show_int :: "int \<Rightarrow> string" where
  "show_int i = (if i < 0 then ''-'' @ show_nat (nat (- i)) else show_nat (nat i))"

text \<open>
  \<open>strconv.Quote\<close>: exact on ASCII; a valid rune beyond ASCII is kept, as the library does for
  the printable ones.
\<close>

definition hex_digit :: "nat \<Rightarrow> char" where
  "hex_digit n = (if n < 10 then char_of (48 + n) else char_of (87 + n))"

definition quote_char :: "char \<Rightarrow> string" where
  "quote_char c =
     (if c = CHR 0x22 then [CHR 0x5C, CHR 0x22]
      else if c = CHR 0x5C then [CHR 0x5C, CHR 0x5C]
      else if byte c = 7 then [CHR 0x5C, CHR ''a'']
      else if byte c = 8 then [CHR 0x5C, CHR ''b'']
      else if byte c = 9 then [CHR 0x5C, CHR ''t'']
      else if byte c = 10 then [CHR 0x5C, CHR ''n'']
      else if byte c = 11 then [CHR 0x5C, CHR ''v'']
      else if byte c = 12 then [CHR 0x5C, CHR ''f'']
      else if byte c = 13 then [CHR 0x5C, CHR ''r'']
      else if byte c < 32 \<or> byte c = 127 then
        [CHR 0x5C, CHR ''x'', hex_digit (byte c div 16), hex_digit (byte c mod 16)]
      else [c])"

definition go_quote :: "string \<Rightarrow> string" where
  "go_quote s = [CHR 0x22] @ concat (map quote_char s) @ [CHR 0x22]"

lemma show_nat_neq_Nil [simp]: "show_nat n \<noteq> []"
  by (subst show_nat.simps) simp

end
