(* ===== verification/SecretFiles.thy ===== *)
theory SecretFiles
  imports GoStrings
begin

text \<open>
  Secret files of a launch (\<open>secret_files.go\<close>): the lexical normalisation \<open>path.Clean\<close> the
  validation relies on, the discovery of \<open>secrets://NAME\<close> references in a template text
  (\<open>SecretFileNames\<close>) and the validation of the declared files (\<open>validateSecretFiles\<close>). A nil
  pointer in the slice of files is \<open>None\<close>, and reads as a file with an empty path and no format.
\<close>

section \<open>Lexical path normalisation\<close>

text \<open>
  \<open>path.Clean\<close> of the standard library, on the slash-separated elements: empty and \<open>.\<close> elements
  vanish, an inner \<open>..\<close> removes the element before it, and a leading \<open>..\<close> is dropped when the path
  is rooted and kept when it is not. The accumulator holds the elements kept so far, last first.
\<close>

fun clean_elems :: "bool \<Rightarrow> string list \<Rightarrow> string list \<Rightarrow> string list" where
  "clean_elems rooted acc [] = rev acc"
| "clean_elems rooted acc (e # es) =
     (if e = [] \<or> e = ''.'' then clean_elems rooted acc es
      else if e = ''..'' then
        (case acc of
           [] \<Rightarrow> clean_elems rooted (if rooted then [] else [e]) es
         | a # as \<Rightarrow> if a = ''..'' then clean_elems rooted (e # acc) es else clean_elems rooted as es)
      else clean_elems rooted (e # acc) es)"

definition path_Clean :: "string \<Rightarrow> string" where
  "path_Clean p =
     (let rooted = HasPrefix p ''/''; es = clean_elems rooted [] (split_on (CHR ''/'') p)
      in if rooted then CHR ''/'' # join_with ''/'' es
         else if es = [] then ''.'' else join_with ''/'' es)"

definition plain_elem :: "string \<Rightarrow> bool" where
  "plain_elem e \<longleftrightarrow> e \<noteq> [] \<and> e \<noteq> ''.'' \<and> e \<noteq> ''..''"

lemma clean_elems_rooted:
  "rooted \<Longrightarrow> list_all plain_elem acc \<Longrightarrow> list_all plain_elem (clean_elems rooted acc es)"
proof (induction rooted acc es rule: clean_elems.induct)
  case (2 rooted acc e es)
  then show ?case by (cases acc) (simp_all add: plain_elem_def)
qed (simp add: list_all_iff)

lemma clean_elems_subset: "set (clean_elems r acc es) \<subseteq> set acc \<union> set es"
proof (induction r acc es rule: clean_elems.induct)
  case (2 rooted acc e es)
  then show ?case by (fastforce split: list.splits if_splits)
qed auto

lemma split_on_join:
  "ws \<noteq> [] \<Longrightarrow> \<forall>w \<in> set ws. d \<notin> set w \<Longrightarrow> split_on d (join_with [d] ws) = ws"
proof (induction ws)
  case (Cons w ws)
  have one: "d \<notin> set v \<Longrightarrow> split_on d v = [v]" for v by (induction v) auto
  have app: "d \<notin> set v \<Longrightarrow> split_on d (v @ d # t) = v # split_on d t" for v t
    by (induction v) auto
  show ?case
  proof (cases "ws = []")
    case False
    with Cons show ?thesis by (simp add: join_with_Cons app)
  qed (use Cons.prems one in auto)
qed simp

text \<open>A rooted path that \<open>path.Clean\<close> leaves as it is has no empty, \<open>.\<close> or \<open>..\<close> element.\<close>

lemma clean_rooted_elems:
  assumes "path_Clean p = p" and "HasPrefix p ''/''" and "p \<noteq> ''/''"
  shows "\<exists>es. es \<noteq> [] \<and> split_on (CHR ''/'') p = [] # es \<and> list_all plain_elem es"
proof -
  define es where "es = clean_elems True [] (split_on (CHR ''/'') p)"
  have p: "p = CHR ''/'' # join_with ''/'' es"
    using assms(1,2) by (simp add: path_Clean_def es_def Let_def)
  have plain: "list_all plain_elem es" unfolding es_def by (rule clean_elems_rooted) simp_all
  have "\<forall>w \<in> set es. CHR ''/'' \<notin> set w"
    using clean_elems_subset [of True "[]" "split_on (CHR ''/'') p"] split_on_no_sep
    unfolding es_def by fastforce
  moreover have ne: "es \<noteq> []" using p assms(3) by auto
  ultimately have "split_on (CHR ''/'') (join_with ''/'' es) = es" by (intro split_on_join)
  with p have "split_on (CHR ''/'') p = [] # es" by (metis split_on.simps(2))
  with ne plain show ?thesis by blast
qed

section \<open>Secret references in a text\<close>

definition name_start :: "char \<Rightarrow> bool" where
  "name_start c \<longleftrightarrow> in_range 65 90 c \<or> in_range 97 122 c \<or> c = CHR ''_''"

definition name_char :: "char \<Rightarrow> bool" where
  "name_char c \<longleftrightarrow> name_start c \<or> in_range 48 57 c \<or> c = CHR ''-''"

definition templateSecretNamePattern :: "string \<Rightarrow> bool" where
  "templateSecretNamePattern s \<longleftrightarrow>
     s \<noteq> [] \<and> name_start (hd s) \<and> list_all name_char s \<and> length s \<le> 128"

definition templateSecretTargetPattern :: "string \<Rightarrow> bool" where
  "templateSecretTargetPattern s \<longleftrightarrow> templateSecretNamePattern s \<and> CHR ''-'' \<notin> set s"

definition secret_scheme :: string where "secret_scheme = ''secrets://''"

text \<open>
  The loop over the text: \<open>prev\<close> is the byte before \<open>rest\<close>, \<open>names\<close> the names found so far. A
  reference preceded by a backslash is skipped; a reference without a well-formed name, or a 65th
  distinct name, rejects the text.
\<close>

function scan_refs :: "char option \<Rightarrow> string \<Rightarrow> string list \<Rightarrow> string list option" where
  "scan_refs prev rest names =
     (case Index rest secret_scheme of
        None \<Rightarrow> Some names
      | Some pos \<Rightarrow>
          (let before = (if pos = 0 then prev else Some (rest ! (pos - 1)));
               tail = drop (pos + length secret_scheme) rest
           in if before = Some (CHR 0x5C) then scan_refs (Some (CHR ''/'')) tail names
              else
                let name = takeWhile name_char tail;
                    names' = (if name \<in> set names then names else names @ [name])
                in if \<not> templateSecretNamePattern name then None
                   else if 64 < length names' then None
                   else scan_refs (Some (last name)) (drop (length name) tail) names'))"
  by pat_completeness auto
termination
proof (relation "measure (\<lambda>(prev, rest, names). length rest)", goal_cases)
  case 1
  show ?case by simp
next
  case (2 prev rest names pos)
  then have "pos + length secret_scheme \<le> length rest" using Index_Some by blast
  then show ?case using 2 by (simp add: secret_scheme_def)
next
  case (3 prev rest names pos)
  then have "pos + length secret_scheme \<le> length rest" using Index_Some by blast
  then show ?case using 3 by (simp add: secret_scheme_def)
qed

declare scan_refs.simps [simp del]

definition SecretFileNames :: "string \<Rightarrow> string list option" where
  "SecretFileNames content =
     (if 262144 < len content \<or> \<not> ValidString content then None
      else if \<exists>c \<in> set content. byte c < 32 \<and> c \<notin> set [CHR 0x0A, CHR 0x0D, CHR 0x09] then None
      else scan_refs None content [])"

lemma scan_refs_sound:
  assumes "scan_refs prev rest names = Some ns" and "distinct names" and "length names \<le> 64"
    and "list_all templateSecretNamePattern names"
  shows "distinct ns \<and> length ns \<le> 64 \<and> list_all templateSecretNamePattern ns \<and>
    (\<exists>extra. ns = names @ extra \<and> (\<forall>n \<in> set extra. Contains rest (secret_scheme @ n)))"
  using assms
proof (induction prev rest names arbitrary: ns rule: scan_refs.induct)
  case (1 prev rest names)
  show ?case
  proof (cases "Index rest secret_scheme")
    case None
    with 1 show ?thesis by (simp add: scan_refs.simps [of prev])
  next
    case (Some pos)
    define before where "before = (if pos = 0 then prev else Some (rest ! (pos - 1)))"
    define tail where "tail = drop (pos + length secret_scheme) rest"
    define name where "name = takeWhile name_char tail"
    define names' where "names' = (if name \<in> set names then names else names @ [name])"
    have rest: "rest = take pos rest @ secret_scheme @ tail"
    proof -
      have "HasPrefix (drop pos rest) secret_scheme" using Index_Some [OF Some] by simp
      then obtain t where "drop pos rest = secret_scheme @ t" by (auto simp: HasPrefix_iff)
      then have t: "rest = take pos rest @ secret_scheme @ t" by (metis append_take_drop_id)
      have "drop (length secret_scheme) (drop pos rest) = t"
        using \<open>drop pos rest = secret_scheme @ t\<close> by simp
      then have "tail = t" by (simp add: tail_def add.commute)
      with t show ?thesis by simp
    qed
    have in_rest: "Contains tail s \<Longrightarrow> Contains rest s" for s
      by (subst rest) (auto simp: Contains_iff, metis append.assoc)
    show ?thesis
    proof (cases "before = Some (CHR 0x5C)")
      case True
      with 1(3) Some have "scan_refs (Some (CHR ''/'')) tail names = Some ns"
        by (simp add: scan_refs.simps [of prev] before_def tail_def)
      with 1(1) [OF Some before_def tail_def True] 1(4-6) in_rest show ?thesis by blast
    next
      case False
      with 1(3) Some have ok: "templateSecretNamePattern name" "\<not> 64 < length names'"
          "scan_refs (Some (last name)) (drop (length name) tail) names' = Some ns"
        by (simp_all add: scan_refs.simps [of prev] before_def [symmetric] tail_def [symmetric]
            name_def [symmetric] names'_def [symmetric] Let_def split: if_splits)
      have names': "distinct names'" "length names' \<le> 64" "list_all templateSecretNamePattern names'"
        using 1(4-6) ok(1,2) by (auto simp: names'_def)
      from 1(2) [OF Some before_def tail_def False name_def names'_def _ _ ok(3) names'] ok(1,2)
      obtain extra where ns: "distinct ns" "length ns \<le> 64" "list_all templateSecretNamePattern ns"
        and extra: "ns = names' @ extra"
          "\<forall>n \<in> set extra. Contains (drop (length name) tail) (secret_scheme @ n)" by blast
      have "tail = name @ drop (length name) tail"
        by (simp add: name_def dropWhile_eq_drop [symmetric])
      then have "Contains (drop (length name) tail) s \<Longrightarrow> Contains tail s" for s
        by (auto simp: Contains_iff, metis append.assoc)
      moreover have "Contains rest (secret_scheme @ name)"
      proof -
        have "rest = take pos rest @ (secret_scheme @ name) @ drop (length name) tail"
          using rest \<open>tail = name @ _\<close> by simp
        then show ?thesis unfolding Contains_iff by blast
      qed
      ultimately have "\<forall>n \<in> set ((if name \<in> set names then [] else [name]) @ extra).
          Contains rest (secret_scheme @ n)" using extra(2) in_rest by auto
      moreover have "ns = names @ (if name \<in> set names then [] else [name]) @ extra"
        using extra(1) by (simp add: names'_def)
      ultimately show ?thesis using ns by blast
    qed
  qed
qed

section \<open>Validation of the declared files\<close>

record secret_reference =
  ref_name :: string
  ref_placeholder :: bool

datatype secret_format =
    Raw "secret_reference option" | Source string | Content string | NoFormat

record secret_file =
  sf_path :: string
  sf_format :: secret_format

fun GetPath :: "secret_file option \<Rightarrow> string" where
  "GetPath None = []"
| "GetPath (Some f) = sf_path f"

fun GetFormat :: "secret_file option \<Rightarrow> secret_format" where
  "GetFormat None = NoFormat"
| "GetFormat (Some f) = sf_format f"

fun GetName :: "secret_reference option \<Rightarrow> string" where
  "GetName None = []"
| "GetName (Some r) = ref_name r"

definition secret_roots :: "string list" where
  "secret_roots = [''/home/tenki/'', ''/workspace/'', ''/app/'']"

definition secret_target_ok :: "string \<Rightarrow> bool" where
  "secret_target_ok target \<longleftrightarrow>
     ValidString target \<and> len target \<le> 4096 \<and> path_Clean target = target \<and>
     (\<forall>c \<in> set target. c \<notin> set [CHR 0x00, CHR 0x0D, CHR 0x0A, CHR 0x09]) \<and>
     (\<exists>root \<in> set secret_roots. HasPrefix target root \<and> length root < length target)"

definition secret_paths_clash :: "string \<Rightarrow> string \<Rightarrow> bool" where
  "secret_paths_clash target other \<longleftrightarrow> target = other \<or> HasPrefix target (other @ ''/'')"

definition names_of_format :: "secret_format \<Rightarrow> string list option" where
  "names_of_format f = (case f of
     Raw r \<Rightarrow> Some [GetName r] | Source s \<Rightarrow> Some [] | Content c \<Rightarrow> SecretFileNames c
   | NoFormat \<Rightarrow> None)"

text \<open>
  The validation itself. A source path is checked by the same routine, as the path of a file with
  one raw reference.
\<close>

function validateSecretFiles :: "secret_file option list \<Rightarrow> nat \<Rightarrow> bool" where
  "validateSecretFiles files count \<longleftrightarrow>
     length files \<le> 32 \<and>
     list_all (\<lambda>i.
       secret_target_ok (GetPath (files ! i)) \<and>
       list_all (\<lambda>j. i = j \<or> \<not> secret_paths_clash (GetPath (files ! i)) (GetPath (files ! j)))
         [0..<length files] \<and>
       (case GetFormat (files ! i) of
          Source s \<Rightarrow>
            validateSecretFiles
              [Some \<lparr>sf_path = s,
                     sf_format = Raw (Some \<lparr>ref_name = ''SOURCE'', ref_placeholder = False\<rparr>)\<rparr>] 0
        | f \<Rightarrow> names_of_format f \<noteq> None) \<and>
       list_all templateSecretNamePattern (case names_of_format (GetFormat (files ! i)) of
          None \<Rightarrow> [] | Some ns \<Rightarrow> ns)) [0..<length files] \<and>
     count + (\<Sum>i\<leftarrow>[0..<length files]. case names_of_format (GetFormat (files ! i)) of
          None \<Rightarrow> 0 | Some ns \<Rightarrow> length ns) \<le> 64"
  by pat_completeness auto
termination
proof (relation "measure (\<lambda>(files, count). length (filter (\<lambda>f. case GetFormat f of
    Source s \<Rightarrow> True | _ \<Rightarrow> False) files))", goal_cases)
  case (2 files count i s)
  then have "i < length files" by simp
  then have "files ! i \<in> set (filter (\<lambda>f. case GetFormat f of Source s \<Rightarrow> True | _ \<Rightarrow> False) files)"
    using 2 by auto
  then have "filter (\<lambda>f. case GetFormat f of Source s \<Rightarrow> True | _ \<Rightarrow> False) files \<noteq> []" by fastforce
  then show ?case by simp
qed simp

declare validateSecretFiles.simps [simp del]

lemma secret_target_elems:
  assumes "secret_target_ok t"
  shows "\<exists>es. es \<noteq> [] \<and> split_on (CHR ''/'') t = [] # es \<and> list_all plain_elem es"
proof -
  from assms obtain root where "root \<in> set secret_roots" "HasPrefix t root" "length root < length t"
    by (auto simp: secret_target_ok_def)
  then have "HasPrefix t ''/''" and "t \<noteq> ''/''" by (auto simp: secret_roots_def HasPrefix_iff)
  with assms show ?thesis by (auto simp: secret_target_ok_def intro: clean_rooted_elems)
qed

lemma validateSecretFiles_file:
  assumes "validateSecretFiles files count" and "i < length files"
  shows "secret_target_ok (GetPath (files ! i)) \<and>
    list_all (\<lambda>j. i = j \<or> \<not> secret_paths_clash (GetPath (files ! i)) (GetPath (files ! j)))
      [0..<length files] \<and>
    (case GetFormat (files ! i) of
       Source s \<Rightarrow>
         validateSecretFiles
           [Some \<lparr>sf_path = s,
                  sf_format = Raw (Some \<lparr>ref_name = ''SOURCE'', ref_placeholder = False\<rparr>)\<rparr>] 0
     | f \<Rightarrow> names_of_format f \<noteq> None)"
proof -
  note v = assms(1) [unfolded validateSecretFiles.simps [of files count]]
  have "i \<in> set [0..<length files]" using assms(2) by simp
  from bspec [OF conjunct1 [OF conjunct2 [OF v], unfolded list_all_iff] this] show ?thesis
    unfolding list_all_iff by blast
qed

lemma validateSecretFiles_paths:
  assumes "validateSecretFiles files count" and "i < length files"
  shows "secret_target_ok (GetPath (files ! i))"
    and "j < length files \<Longrightarrow> i \<noteq> j \<Longrightarrow>
      \<not> secret_paths_clash (GetPath (files ! i)) (GetPath (files ! j))"
  using conjunct1 [OF validateSecretFiles_file [OF assms]]
    conjunct1 [OF conjunct2 [OF validateSecretFiles_file [OF assms]]]
  by (auto simp only: list_all_iff set_upt atLeastLessThan_iff)

lemma validateSecretFiles_source:
  assumes "validateSecretFiles files count" and "f \<in> set files" and "GetFormat f = Source s"
  shows "secret_target_ok s"
proof -
  from assms(2) obtain i where i: "i < length files" and f: "files ! i = f"
    by (auto simp: in_set_conv_nth)
  note c = conjunct2 [OF conjunct2 [OF validateSecretFiles_file [OF assms(1) i]]]
  from c [unfolded f assms(3) secret_format.case] validateSecretFiles_paths(1) [of _ 0 0]
  show ?thesis by fastforce
qed

section \<open>Properties\<close>

text \<open>The names discovered in a secret file's content are distinct, at most 64, well-formed
  secret names, and each of them is really referenced by the content.\<close>

theorem secret_names_sound:
  assumes "SecretFileNames content = Some ns"
  shows "distinct ns \<and> length ns \<le> 64 \<and>
    (\<forall>n \<in> set ns. templateSecretNamePattern n \<and> Contains content (''secrets://'' @ n))"
proof -
  from assms have "scan_refs None content [] = Some ns" by (simp add: SecretFileNames_def split: if_splits)
  from scan_refs_sound [OF this] show ?thesis by (auto simp: list_all_iff secret_scheme_def)
qed

theorem secret_names_sound_witness:
  "templateSecretNamePattern ''DB'' \<and> Contains ''a=secrets://DB b=secrets://DB'' (''secrets://'' @ ''DB'')"
proof -
  have "SecretFileNames ''a=secrets://DB b=secrets://DB'' = Some [''DB'']" by code_simp
  from secret_names_sound [OF this] show ?thesis by (simp del: Contains.simps)
qed

text \<open>C19: when secret files are accepted there are at most 32 of them and each target, like each
  source, is a rooted path without any empty, dot or dot-dot element strictly below one of the
  allowed roots; no target is another target or lies below one.\<close>

theorem secret_files_confined:
  assumes "validateSecretFiles files count"
  shows "length files \<le> 32 \<and>
    (\<forall>t \<in> GetPath ` set files \<union> {s. \<exists>f \<in> set files. GetFormat f = Source s}.
       (\<exists>root \<in> set secret_roots. HasPrefix t root \<and> length root < length t) \<and>
       (\<exists>es. es \<noteq> [] \<and> split_on (CHR ''/'') t = [] # es \<and> list_all plain_elem es)) \<and>
    (\<forall>i < length files. \<forall>j < length files. i \<noteq> j \<longrightarrow>
       \<not> secret_paths_clash (GetPath (files ! i)) (GetPath (files ! j)))"
proof (intro conjI ballI)
  show "length files \<le> 32" using assms by (subst (asm) validateSecretFiles.simps) simp
  fix t
  assume "t \<in> GetPath ` set files \<union> {s. \<exists>f \<in> set files. GetFormat f = Source s}"
  then have t: "secret_target_ok t"
    using validateSecretFiles_paths(1) [OF assms] validateSecretFiles_source [OF assms]
    by (auto simp: in_set_conv_nth)
  show "\<exists>root \<in> set secret_roots. HasPrefix t root \<and> length root < length t"
    using t by (simp add: secret_target_ok_def)
  show "\<exists>es. es \<noteq> [] \<and> split_on (CHR ''/'') t = [] # es \<and> list_all plain_elem es"
    using t by (rule secret_target_elems)
next
  show "\<forall>i < length files. \<forall>j < length files. i \<noteq> j \<longrightarrow>
       \<not> secret_paths_clash (GetPath (files ! i)) (GetPath (files ! j))"
    using validateSecretFiles_paths(2) [OF assms] by blast
qed

theorem secret_files_confined_witness:
  "\<not> secret_paths_clash ''/app/a'' ''/workspace/b''"
proof -
  have "validateSecretFiles [Some \<lparr>sf_path = ''/app/a'', sf_format = Source ''/app/t''\<rparr>,
      Some \<lparr>sf_path = ''/workspace/b'', sf_format = Content ''k=secrets://K''\<rparr>] 0" by code_simp
  note v = conjunct2 [OF conjunct2 [OF secret_files_confined [OF this]]]
  from spec [OF v, of 0] show ?thesis by (simp add: less_Suc_eq)
qed

end
