(* ===== verification/TemplateSpec.thy ===== *)
theory TemplateSpec
  imports SecretFiles
begin

text \<open>
  The template recipe and its fluent builder (\<open>template_spec.go\<close>): the wire message
  \<open>TemplateBuildSpec\<close> as records and datatypes, the conversion of the authored enumerations and
  durations, and one function per builder method. A builder method clones the recipe and changes
  the clone, so it is a function from a recipe to a recipe; the zero value of \<open>TemplateSpec\<close>, whose
  message pointer is nil, is \<open>None\<close> and stands for the default recipe.
\<close>

section \<open>The wire message\<close>

datatype checkout_mode = CheckoutUnspecified | CheckoutContents | CheckoutDirectory | CheckoutOther int
datatype run_at = RunAtUnspecified | RunAtBoot | RunAtBuild | RunAtManual | RunAtOther int
datatype restart_policy =
  RestartUnspecified | RestartNever | RestartOnFailure | RestartAlways | RestartOther int
datatype snapshot_mode =
  SnapshotUnspecified | SnapshotFilesystem | SnapshotMemory | SnapshotOther int

datatype template_base = BaseImage string | BaseTemplateId string | BaseSnapshotId string | BaseUnset

record git_source = git_repo :: string  git_ref :: string

record template_checkout =
  co_dest :: string
  co_mode :: checkout_mode
  co_name :: "string option"

record template_context =
  ctx_git :: "git_source option"
  ctx_checkout :: "template_checkout option"
  ctx_ignore :: "string list"

record run_step =
  run_command :: string
  run_argv :: "string list"
  run_workdir :: string
  run_timeout :: int

datatype step_operation =
    OpRun run_step
  | OpCopy string string
  | OpWriteFile string string "int option"
  | OpMkdir string bool "int option"
  | OpRemove string bool
  | OpRename string string
  | OpSymlink string string
  | OpApt "string list"
  | OpPip "string list"
  | OpNpm "string list"
  | OpBun "string list"
  | OpUnset

record template_step =
  step_name :: "string option"
  step_op :: step_operation

datatype entrypoint =
    StartEntry string "string list" string
  | ComposeEntry string string "string list"
  | EntryUnset

record http_check = hc_url :: string  hc_codes :: "int list"
record exec_check = ec_command :: string  ec_argv :: "string list"  ec_timeout :: int

datatype snapshot_check = PortCheck int | HttpCheck http_check | ExecCheck exec_check | CheckUnset

record ready_when =
  rw_timeout :: int
  rw_poll :: int
  rw_checks :: "snapshot_check list"

record template_runtime =
  rt_secret_policies :: "string list"
  rt_env :: "(string, string) gomap"
  rt_run_at :: run_at
  rt_entry :: entrypoint
  rt_restart :: restart_policy
  rt_snapshot :: snapshot_mode
  rt_ready :: "ready_when option"
  rt_stop_grace :: int
  rt_secret_env :: "(string, string) gomap"
  rt_secret_files :: "secret_file option list"

record spec_resources = rs_cpu :: int  rs_memory :: int  rs_disk :: int

record build_spec =
  bs_version :: string
  bs_base :: "template_base option"
  bs_workdir :: string
  bs_context :: "template_context option"
  bs_build_env :: "(string, string) gomap option"
  bs_steps :: "template_step list"
  bs_runtime :: "template_runtime option"
  bs_resources :: "spec_resources option"

section \<open>Authored values\<close>

definition checkoutModeToProto :: "string \<Rightarrow> checkout_mode" where
  "checkoutModeToProto mode =
     (if mode = ''contents'' then CheckoutContents
      else if mode = ''directory'' then CheckoutDirectory else CheckoutUnspecified)"

definition runAtToProto :: "string \<Rightarrow> run_at" where
  "runAtToProto runAt =
     (if runAt = ''boot'' then RunAtBoot
      else if runAt = ''build'' then RunAtBuild
      else if runAt = ''manual'' then RunAtManual else RunAtUnspecified)"

definition restartPolicyToProto :: "string \<Rightarrow> restart_policy" where
  "restartPolicyToProto policy =
     (if policy = ''never'' then RestartNever
      else if policy = ''on-failure'' then RestartOnFailure
      else if policy = ''always'' then RestartAlways else RestartUnspecified)"

definition snapshotModeToProto :: "string \<Rightarrow> snapshot_mode" where
  "snapshotModeToProto mode =
     (if mode = ''filesystem'' then SnapshotFilesystem
      else if mode = ''memory'' then SnapshotMemory else SnapshotUnspecified)"

text \<open>\<open>uint32(d / time.Second)\<close>\<close>

definition whole_seconds :: "duration \<Rightarrow> int" where
  "whole_seconds d = uint32 (go_div d (1 * Second))"

lemma whole_seconds_bounds: "0 \<le> whole_seconds d \<and> whole_seconds d < 4294967296"
  by (simp add: whole_seconds_def uint32_bounds)

lemma whole_seconds_sub_second: "0 < d \<Longrightarrow> d < 1 * Second \<Longrightarrow> whole_seconds d = 0"
  by (simp add: whole_seconds_def go_div_nonneg uint32_def)

lemma whole_seconds_exact: "0 \<le> n \<Longrightarrow> n < 4294967296 \<Longrightarrow> whole_seconds (n * Second) = n"
  by (simp add: whole_seconds_def go_div_nonneg uint32_id)

record ready_check =
  rc_port :: int
  rc_http :: "http_check option"
  rc_exec :: "exec_check option"

definition ReadyPort :: "int \<Rightarrow> ready_check" where
  "ReadyPort port = \<lparr>rc_port = port, rc_http = None, rc_exec = None\<rparr>"

definition ReadyHTTP :: "string \<Rightarrow> int list \<Rightarrow> ready_check" where
  "ReadyHTTP url codes =
     \<lparr>rc_port = 0, rc_http = Some \<lparr>hc_url = url, hc_codes = map uint32 codes\<rparr>, rc_exec = None\<rparr>"

fun exec_timeout :: "duration list \<Rightarrow> int" where
  "exec_timeout [] = 0"
| "exec_timeout (t # ts) = (if 0 < t then whole_seconds t else 0)"

definition ReadyExec :: "string \<Rightarrow> duration list \<Rightarrow> ready_check" where
  "ReadyExec command opts =
     \<lparr>rc_port = 0, rc_http = None,
      rc_exec = Some \<lparr>ec_command = command, ec_argv = [], ec_timeout = exec_timeout opts\<rparr>\<rparr>"

definition ReadyExecArgs :: "string list \<Rightarrow> duration list \<Rightarrow> ready_check" where
  "ReadyExecArgs argv opts =
     \<lparr>rc_port = 0, rc_http = None,
      rc_exec = Some \<lparr>ec_command = [], ec_argv = argv, ec_timeout = exec_timeout opts\<rparr>\<rparr>"

record ready_options =
  ro_timeout :: duration
  ro_poll :: duration
  ro_checks :: "ready_check list"

definition defaultReadyWhenTimeout :: duration where "defaultReadyWhenTimeout = 60 * Second"

definition check_to_proto :: "ready_check \<Rightarrow> snapshot_check" where
  "check_to_proto c =
     (case rc_http c of
        Some h \<Rightarrow> HttpCheck h
      | None \<Rightarrow>
          (case rc_exec c of
             Some e \<Rightarrow> ExecCheck e
           | None \<Rightarrow> PortCheck (uint32 (max (rc_port c) 0))))"

definition readyWhenToProto :: "ready_options \<Rightarrow> ready_when" where
  "readyWhenToProto ready =
     (let timeout = (if ro_timeout ready \<le> 0 then defaultReadyWhenTimeout else ro_timeout ready)
      in \<lparr>rw_timeout = whole_seconds timeout,
          rw_poll = (if 0 < ro_poll ready then whole_seconds (ro_poll ready) else 0),
          rw_checks = map check_to_proto (ro_checks ready)\<rparr>)"

section \<open>The builder\<close>

type_synonym template_spec = "build_spec option"

definition TemplateSpecVersion :: string where "TemplateSpecVersion = ''tenki.template.v1''"

definition defaultTemplateSpecProto :: build_spec where
  "defaultTemplateSpecProto =
     \<lparr>bs_version = TemplateSpecVersion, bs_base = Some (BaseImage ''sandbox''), bs_workdir = [],
      bs_context = None, bs_build_env = None, bs_steps = [], bs_runtime = None,
      bs_resources = None\<rparr>"

definition NewTemplateSpec :: template_spec where
  "NewTemplateSpec = Some defaultTemplateSpecProto"

fun spec_clone :: "template_spec \<Rightarrow> build_spec" where
  "spec_clone None = defaultTemplateSpecProto"
| "spec_clone (Some s) = s"

definition spec_with :: "template_spec \<Rightarrow> (build_spec \<Rightarrow> build_spec) \<Rightarrow> template_spec" where
  "spec_with s mutate = Some (mutate (spec_clone s))"

definition FromImage :: "string \<Rightarrow> template_spec \<Rightarrow> template_spec" where
  "FromImage img s = spec_with s (bs_base_update (\<lambda>_. Some (BaseImage (TrimSpace img))))"

definition FromTemplate :: "string \<Rightarrow> template_spec \<Rightarrow> template_spec" where
  "FromTemplate i s = spec_with s (bs_base_update (\<lambda>_. Some (BaseTemplateId (TrimSpace i))))"

definition FromSnapshot :: "string \<Rightarrow> template_spec \<Rightarrow> template_spec" where
  "FromSnapshot i s = spec_with s (bs_base_update (\<lambda>_. Some (BaseSnapshotId (TrimSpace i))))"

record git_context =
  gc_repo :: string
  gc_ref :: string
  gc_dest :: string
  gc_mode :: string
  gc_name :: string
  gc_ignore :: "string list"

definition WithGitContext :: "git_context \<Rightarrow> template_spec \<Rightarrow> template_spec" where
  "WithGitContext g s = spec_with s (bs_context_update (\<lambda>_. Some
     \<lparr>ctx_git = Some \<lparr>git_repo = TrimSpace (gc_repo g), git_ref = TrimSpace (gc_ref g)\<rparr>,
      ctx_checkout =
        (if gc_dest g \<noteq> [] \<or> gc_mode g \<noteq> [] \<or> gc_name g \<noteq> [] then Some
           \<lparr>co_dest = gc_dest g, co_mode = checkoutModeToProto (gc_mode g),
            co_name = (if TrimSpace (gc_name g) \<noteq> [] then Some (TrimSpace (gc_name g)) else None)\<rparr>
         else None),
      ctx_ignore = gc_ignore g\<rparr>))"

definition Workdir :: "string \<Rightarrow> template_spec \<Rightarrow> template_spec" where
  "Workdir dir s = spec_with s (bs_workdir_update (\<lambda>_. TrimSpace dir))"

definition BuildEnv :: "(string, string) gomap \<Rightarrow> template_spec \<Rightarrow> template_spec" where
  "BuildEnv env s = spec_with s (\<lambda>spec.
     if env = [] then spec
     else spec\<lparr>bs_build_env :=
       Some (map_put_all env (case bs_build_env spec of None \<Rightarrow> [] | Some m \<Rightarrow> m))\<rparr>)"

definition empty_runtime :: template_runtime where
  "empty_runtime =
     \<lparr>rt_secret_policies = [], rt_env = [], rt_run_at = RunAtUnspecified, rt_entry = EntryUnset,
      rt_restart = RestartUnspecified, rt_snapshot = SnapshotUnspecified, rt_ready = None,
      rt_stop_grace = 0, rt_secret_env = [], rt_secret_files = []\<rparr>"

text \<open>\<open>ensureRuntime\<close> and then a change of the runtime it returns\<close>

fun ensureRuntime :: "build_spec \<Rightarrow> template_runtime" where
  "ensureRuntime spec = (case bs_runtime spec of None \<Rightarrow> empty_runtime | Some r \<Rightarrow> r)"

definition on_runtime :: "(template_runtime \<Rightarrow> template_runtime) \<Rightarrow> build_spec \<Rightarrow> build_spec" where
  "on_runtime f spec = spec\<lparr>bs_runtime := Some (f (ensureRuntime spec))\<rparr>"

definition RuntimeEnv :: "(string, string) gomap \<Rightarrow> template_spec \<Rightarrow> template_spec" where
  "RuntimeEnv env s = spec_with s (\<lambda>spec.
     if env = [] then spec else on_runtime (rt_env_update (map_put_all env)) spec)"

definition appendStep :: "string \<Rightarrow> step_operation \<Rightarrow> template_spec \<Rightarrow> template_spec" where
  "appendStep name operation s = spec_with s (bs_steps_update (\<lambda>steps. steps @
     [\<lparr>step_name = (if TrimSpace name \<noteq> [] then Some (TrimSpace name) else None),
       step_op = operation\<rparr>]))"

fun firstOption :: "'a \<Rightarrow> 'a list \<Rightarrow> 'a" where
  "firstOption zero [] = zero"
| "firstOption zero (o1 # opts) = o1"

record run_options = ro_name :: string  ro_workdir :: string  ro_run_timeout :: duration

definition zero_run_options :: run_options where
  "zero_run_options = \<lparr>ro_name = [], ro_workdir = [], ro_run_timeout = 0\<rparr>"

definition run_of :: "string \<Rightarrow> string list \<Rightarrow> run_options \<Rightarrow> run_step" where
  "run_of command argv options =
     \<lparr>run_command = command, run_argv = argv, run_workdir = ro_workdir options,
      run_timeout = (if 0 < ro_run_timeout options then whole_seconds (ro_run_timeout options) else 0)\<rparr>"

definition Run :: "string \<Rightarrow> run_options list \<Rightarrow> template_spec \<Rightarrow> template_spec" where
  "Run command opts s =
     (let options = firstOption zero_run_options opts
      in appendStep (ro_name options) (OpRun (run_of command [] options)) s)"

definition RunArgs :: "string list \<Rightarrow> run_options list \<Rightarrow> template_spec \<Rightarrow> template_spec" where
  "RunArgs argv opts s =
     (let options = firstOption zero_run_options opts
      in appendStep (ro_name options) (OpRun (run_of [] argv options)) s)"

text \<open>The options of a step with only a name are the list of the names given.\<close>

definition Copy :: "string \<Rightarrow> string \<Rightarrow> string list \<Rightarrow> template_spec \<Rightarrow> template_spec" where
  "Copy src dest opts s = appendStep (firstOption [] opts) (OpCopy src dest) s"

text \<open>\<open>FileMode.Perm\<close> keeps the nine permission bits.\<close>

definition perm_mode :: "int \<Rightarrow> int option" where
  "perm_mode mode = (if mode \<noteq> 0 then Some (mode mod 512) else None)"

definition WriteFile :: "string \<Rightarrow> string \<Rightarrow> (string \<times> int) list \<Rightarrow> template_spec \<Rightarrow> template_spec" where
  "WriteFile path content opts s =
     (let (name, mode) = firstOption ([], 0) opts
      in appendStep name (OpWriteFile path content (perm_mode mode)) s)"

definition Mkdir :: "string \<Rightarrow> (string \<times> bool \<times> int) list \<Rightarrow> template_spec \<Rightarrow> template_spec" where
  "Mkdir path opts s =
     (let (name, parents, mode) = firstOption ([], False, 0) opts
      in appendStep name (OpMkdir path parents (perm_mode mode)) s)"

definition Remove :: "string \<Rightarrow> (string \<times> bool) list \<Rightarrow> template_spec \<Rightarrow> template_spec" where
  "Remove path opts s =
     (let (name, recursive) = firstOption ([], False) opts
      in appendStep name (OpRemove path recursive) s)"

definition Rename :: "string \<Rightarrow> string \<Rightarrow> string list \<Rightarrow> template_spec \<Rightarrow> template_spec" where
  "Rename src dest opts s = appendStep (firstOption [] opts) (OpRename src dest) s"

definition Symlink :: "string \<Rightarrow> string \<Rightarrow> string list \<Rightarrow> template_spec \<Rightarrow> template_spec" where
  "Symlink target path opts s = appendStep (firstOption [] opts) (OpSymlink target path) s"

definition Apt :: "string list \<Rightarrow> template_spec \<Rightarrow> template_spec" where
  "Apt packages s = appendStep [] (OpApt packages) s"

definition Pip :: "string list \<Rightarrow> template_spec \<Rightarrow> template_spec" where
  "Pip packages s = appendStep [] (OpPip packages) s"

definition Npm :: "string list \<Rightarrow> template_spec \<Rightarrow> template_spec" where
  "Npm packages s = appendStep [] (OpNpm packages) s"

definition Bun :: "string list \<Rightarrow> template_spec \<Rightarrow> template_spec" where
  "Bun packages s = appendStep [] (OpBun packages) s"

definition applyRuntimeOptions :: "string \<Rightarrow> string \<Rightarrow> template_runtime \<Rightarrow> template_runtime" where
  "applyRuntimeOptions runAt policy r =
     (let r = (if runAt \<noteq> [] then r\<lparr>rt_run_at := runAtToProto runAt\<rparr> else r)
      in if policy \<noteq> [] then r\<lparr>rt_restart := restartPolicyToProto policy\<rparr> else r)"

text \<open>The options of \<open>Start\<close> and \<open>StartArgs\<close>; a nil slice or map is \<open>None\<close>.\<close>

record start_options =
  so_secret_policies :: "string list option"
  so_secret_env :: "(string, string) gomap option"
  so_secret_files :: "secret_file option list option"
  so_workdir :: string
  so_run_at :: string
  so_restart :: string
  so_ready :: "ready_check list"

definition zero_start_options :: start_options where
  "zero_start_options =
     \<lparr>so_secret_policies = None, so_secret_env = None, so_secret_files = None, so_workdir = [],
      so_run_at = [], so_restart = [], so_ready = []\<rparr>"

definition if_given :: "'a option \<Rightarrow> ('a \<Rightarrow> 'b \<Rightarrow> 'b) \<Rightarrow> 'b \<Rightarrow> 'b" where
  "if_given a f b = (case a of None \<Rightarrow> b | Some x \<Rightarrow> f x b)"

definition apply_start :: "entrypoint \<Rightarrow> start_options \<Rightarrow> template_runtime \<Rightarrow> template_runtime" where
  "apply_start e opts r =
     (let r = applyRuntimeOptions (so_run_at opts) (so_restart opts) (r\<lparr>rt_entry := e\<rparr>);
          r = if_given (so_secret_files opts) (\<lambda>fs. rt_secret_files_update (\<lambda>_. fs)) r;
          r = if_given (so_secret_policies opts) (\<lambda>ps. rt_secret_policies_update (\<lambda>_. ps)) r;
          r = if_given (so_secret_env opts) (\<lambda>m. rt_secret_env_update (\<lambda>_. m)) r
      in if so_ready opts \<noteq> [] then
           r\<lparr>rt_ready := Some (readyWhenToProto
             \<lparr>ro_timeout = 0, ro_poll = 0, ro_checks = so_ready opts\<rparr>)\<rparr>
         else r)"

definition Start :: "string \<Rightarrow> start_options list \<Rightarrow> template_spec \<Rightarrow> template_spec" where
  "Start command opts s =
     (let options = firstOption zero_start_options opts
      in spec_with s (on_runtime
           (apply_start (StartEntry command [] (so_workdir options)) options)))"

definition StartArgs :: "string list \<Rightarrow> start_options list \<Rightarrow> template_spec \<Rightarrow> template_spec" where
  "StartArgs argv opts s =
     (let options = firstOption zero_start_options opts
      in spec_with s (on_runtime
           (apply_start (StartEntry [] argv (so_workdir options)) options)))"

text \<open>\<open>ProcessComposeOptions\<close> has env files where \<open>StartOptions\<close> has readiness checks.\<close>

definition ProcessCompose ::
  "string \<Rightarrow> (start_options \<times> string list) list \<Rightarrow> template_spec \<Rightarrow> template_spec" where
  "ProcessCompose configPath opts s =
     (let (options, envFiles) = firstOption (zero_start_options, []) opts
      in spec_with s (on_runtime
           (apply_start (ComposeEntry configPath (so_workdir options) envFiles)
              (options\<lparr>so_ready := []\<rparr>))))"

definition RuntimeRunAt :: "string \<Rightarrow> template_spec \<Rightarrow> template_spec" where
  "RuntimeRunAt runAt s = spec_with s (on_runtime (rt_run_at_update (\<lambda>_. runAtToProto runAt)))"

definition RestartPolicy :: "string \<Rightarrow> template_spec \<Rightarrow> template_spec" where
  "RestartPolicy policy s =
     spec_with s (on_runtime (rt_restart_update (\<lambda>_. restartPolicyToProto policy)))"

definition SnapshotMode :: "string \<Rightarrow> template_spec \<Rightarrow> template_spec" where
  "SnapshotMode mode s =
     spec_with s (on_runtime (rt_snapshot_update (\<lambda>_. snapshotModeToProto mode)))"

definition ReadyWhen :: "ready_options \<Rightarrow> template_spec \<Rightarrow> template_spec" where
  "ReadyWhen ready s =
     spec_with s (on_runtime (rt_ready_update (\<lambda>_. Some (readyWhenToProto ready))))"

definition StopGrace :: "duration \<Rightarrow> template_spec \<Rightarrow> template_spec" where
  "StopGrace grace s = spec_with s (on_runtime (rt_stop_grace_update (\<lambda>_. whole_seconds grace)))"

definition Resources :: "spec_resources \<Rightarrow> template_spec \<Rightarrow> template_spec" where
  "Resources resources s = spec_with s (bs_resources_update (\<lambda>_. Some resources))"

definition protoSpec :: "template_spec \<Rightarrow> build_spec" where
  "protoSpec s = spec_clone s"

definition toProto :: "template_spec \<Rightarrow> build_spec" where
  "toProto s = spec_clone s"

lemmas builder_defs =
  FromImage_def FromTemplate_def FromSnapshot_def WithGitContext_def Workdir_def BuildEnv_def
  RuntimeEnv_def Run_def RunArgs_def Copy_def WriteFile_def Mkdir_def Remove_def Rename_def
  Symlink_def Apt_def Pip_def Npm_def Bun_def Start_def StartArgs_def ProcessCompose_def
  RuntimeRunAt_def RestartPolicy_def SnapshotMode_def ReadyWhen_def StopGrace_def Resources_def

end
