(* ===== verification/Errors.thy ===== *)
theory Errors
  imports GoStrings
begin

text \<open>
  The error values of the SDK (errors.go) and the classification of RPC errors. A Go error is a
  tree: a sentinel, a plain text, a typed error of the SDK, an RPC error of the Connect library
  seen through its accessors, or a wrapper made by \<open>fmt.Errorf\<close>. \<open>errors.Is\<close> and
  \<open>errors.As\<close> walk that tree in pre-order.
\<close>

section \<open>Error values\<close>

datatype sentinel =
    ErrSessionNotFound | ErrSessionExpired | ErrSessionTerminated | ErrFileNotFound
  | ErrInvalidState | ErrCommandTimeout | ErrUnauthorized | ErrPermissionDenied
  | ErrQuotaExceeded | ErrCapacityUnavailable | ErrPortLimitExceeded | ErrInboundDisabled
  | ErrSSHUnavailable | ErrRateLimited | ErrVolumeNotFound | ErrVolumeInUse
  | ErrVolumeSyncPending | ErrVolumeLimitExceeded | ErrGitOperationFailed | ErrStreamClosed
  | ErrInvalidResourceConfig | ErrSnapshotNotFound | ErrSnapshotFailed
  | ErrSnapshotWaitTimeout | ErrResumeFailed | ErrPauseFailed | ErrSnapshotNotDurable
  | ErrTemplateNotFound | ErrEgressPolicyNotFound | ErrRegistryImageNotFound
  | ErrTemplateExists | ErrTemplateBuildNotFound | ErrTemplateBuildFailed
  | ErrTemplateBuildInProgress | ErrTemplateRuntimeFailed | ErrWaitReadyFailed
  | ErrForkFailed | ErrPaginationStalled
  | ErrTemplateSpecInvalid | ErrDataPlaneEndpointUnavailable
  | ErrDataPlaneCredentialMisrouted | ErrWaitStreamEnded
  | ErrMissingAuthToken | ErrInvalidAuthToken
  | CtxCanceled | CtxDeadlineExceeded | OsDeadlineExceeded | IoEOF

primrec sentinel_text :: "sentinel \<Rightarrow> string" where
  "sentinel_text ErrSessionNotFound = ''sandbox: session not found''"
| "sentinel_text ErrSessionExpired = ''sandbox: session expired''"
| "sentinel_text ErrSessionTerminated = ''sandbox: session terminated''"
| "sentinel_text ErrFileNotFound = ''sandbox: file not found''"
| "sentinel_text ErrInvalidState = ''sandbox: invalid session state for operation''"
| "sentinel_text ErrCommandTimeout = ''sandbox: command execution timed out''"
| "sentinel_text ErrUnauthorized = ''sandbox: unauthorized''"
| "sentinel_text ErrPermissionDenied = ''sandbox: permission denied''"
| "sentinel_text ErrQuotaExceeded = ''sandbox: quota exceeded''"
| "sentinel_text ErrCapacityUnavailable = ''sandbox: capacity unavailable, please retry''"
| "sentinel_text ErrPortLimitExceeded = ''sandbox: maximum exposed ports reached''"
| "sentinel_text ErrInboundDisabled = ''sandbox: inbound access is disabled''"
| "sentinel_text ErrSSHUnavailable = ''sandbox: ssh unavailable''"
| "sentinel_text ErrRateLimited = ''sandbox: rate limited''"
| "sentinel_text ErrVolumeNotFound = ''sandbox: volume not found''"
| "sentinel_text ErrVolumeInUse = ''sandbox: volume is attached to a session''"
| "sentinel_text ErrVolumeSyncPending = ''sandbox: volume sync back is still pending''"
| "sentinel_text ErrVolumeLimitExceeded = ''sandbox: volume limit exceeded''"
| "sentinel_text ErrGitOperationFailed = ''sandbox: git operation failed''"
| "sentinel_text ErrStreamClosed = ''sandbox: interactive stream closed''"
| "sentinel_text ErrInvalidResourceConfig = ''sandbox: invalid resource configuration''"
| "sentinel_text ErrSnapshotNotFound = ''sandbox: snapshot not found''"
| "sentinel_text ErrSnapshotFailed = ''sandbox: snapshot failed''"
| "sentinel_text ErrSnapshotWaitTimeout =
     ''sandbox: timed out waiting for snapshot to become ready''"
| "sentinel_text ErrResumeFailed = ''sandbox: resume failed''"
| "sentinel_text ErrPauseFailed = ''sandbox: pause failed''"
| "sentinel_text ErrSnapshotNotDurable = ''sandbox: snapshot upload did not become durable''"
| "sentinel_text ErrTemplateNotFound = ''sandbox: template not found''"
| "sentinel_text ErrEgressPolicyNotFound = ''sandbox: egress policy not found''"
| "sentinel_text ErrRegistryImageNotFound = ''sandbox: registry image not found''"
| "sentinel_text ErrTemplateExists = ''sandbox: template already exists''"
| "sentinel_text ErrTemplateBuildNotFound = ''sandbox: template build not found''"
| "sentinel_text ErrTemplateBuildFailed = ''sandbox: template build failed''"
| "sentinel_text ErrTemplateBuildInProgress = ''sandbox: template build already in progress''"
| "sentinel_text ErrTemplateRuntimeFailed = ''sandbox: template runtime failed''"
| "sentinel_text ErrWaitReadyFailed =
     ''sandbox: session created but not ready within wait budget''"
| "sentinel_text ErrForkFailed = ''sandbox: fork failed''"
| "sentinel_text ErrPaginationStalled = ''sandbox: pagination token did not advance''"
| "sentinel_text ErrTemplateSpecInvalid = ''sandbox: template spec invalid''"
| "sentinel_text ErrDataPlaneEndpointUnavailable = ''sandbox: data-plane endpoint unavailable''"
| "sentinel_text ErrDataPlaneCredentialMisrouted =
     ''sandbox: refusing to send a data-plane credential to the wrong destination''"
| "sentinel_text ErrWaitStreamEnded = ''readiness stream ended before session became ready''"
| "sentinel_text ErrMissingAuthToken =
     ''sandbox: missing auth token - set TENKI_AUTH_TOKEN or TENKI_API_KEY or use WithAuthToken''"
| "sentinel_text ErrInvalidAuthToken =
     ''sandbox: invalid auth token - API keys and service tokens must start with tk_''"
| "sentinel_text CtxCanceled = ''context canceled''"
| "sentinel_text CtxDeadlineExceeded = ''context deadline exceeded''"
| "sentinel_text OsDeadlineExceeded = ''i/o timeout''"
| "sentinel_text IoEOF = ''EOF''"

datatype code =
    CodeCanceled | CodeUnknown | CodeInvalidArgument | CodeDeadlineExceeded | CodeNotFound
  | CodeAlreadyExists | CodePermissionDenied | CodeResourceExhausted | CodeFailedPrecondition
  | CodeAborted | CodeOutOfRange | CodeUnimplemented | CodeInternal | CodeUnavailable
  | CodeDataLoss | CodeUnauthenticated

record violation =
  v_field :: string
  v_rule :: string
  v_message :: string

text \<open>
  Details of an RPC error, after decoding: protovalidate violations, the sessions of a partial
  fork, the failure of a template runtime, a message of another type, or a detail that does not
  decode. Sessions are named by their IDs.
\<close>

datatype path_subscript =
    SubIndex nat | SubStringKey string | SubIntKey int | SubUintKey nat | SubBoolKey bool

type_synonym field_path = "(string \<times> path_subscript option) list"

datatype detail =
    ViolationsDetail "(field_path option \<times> string \<times> string) list"
  | ForkDetail string "string list"
  | RuntimeFailureDetail string string
  | OtherDetail
  | UndecodableDetail

text \<open>
  \<open>ConnectError code message text details cause\<close> is an RPC error seen through its methods
  \<open>Code\<close>, \<open>Message\<close>, \<open>Error\<close>, \<open>Details\<close> and \<open>Unwrap\<close>: nothing is
  assumed on how these relate. \<open>Wrap2\<close> is \<open>fmt.Errorf("%w: %w", a, b)\<close>, \<open>Wrapf\<close>
  is \<open>fmt.Errorf("%w" + suffix, a)\<close> and \<open>Prefixed\<close> is \<open>fmt.Errorf(prefix + "%w", a)\<close>.
\<close>

datatype go_error =
    Sentinel sentinel
  | Plain string
  | NetError string bool
  | ConnectError code string string "detail list" "go_error option"
  | Wrapf go_error string
  | Prefixed string go_error
  | Wrap2 go_error go_error
  | WaitReadyFailedError string "go_error option"
  | ForkFailedError string "string list" "go_error option"
  | TemplateRuntimeFailedError string string "go_error option"
  | CapabilityUnavailableError string string
  | DataPlaneNotReadyError string "go_error option" bool
  | PrimitiveTimeoutError string string
  | SessionTerminatedError string string string
  | GitOperationFailedError string string "int option" bool "go_error option"
  | TemplateSpecValidationError "violation list"

section \<open>The error methods\<close>

fun violation_text :: "violation \<Rightarrow> string" where
  "violation_text v =
     (if v_field v \<noteq> [] then v_field v @ '': '' @ v_message v else v_message v)"

definition WaitReadyFailedError_Error :: "string option \<Rightarrow> string" where
  "WaitReadyFailedError_Error e = (case e of
       None \<Rightarrow> sentinel_text ErrWaitReadyFailed
     | Some t \<Rightarrow> sentinel_text ErrWaitReadyFailed @ '': '' @ t)"

definition ForkFailedError_Error :: "string option \<Rightarrow> string" where
  "ForkFailedError_Error e = (case e of
       None \<Rightarrow> sentinel_text ErrForkFailed
     | Some t \<Rightarrow> sentinel_text ErrForkFailed @ '': '' @ t)"

definition TemplateRuntimeFailedError_Error :: "string \<Rightarrow> string" where
  "TemplateRuntimeFailedError_Error reason =
     (if reason = [] then sentinel_text ErrTemplateRuntimeFailed
      else sentinel_text ErrTemplateRuntimeFailed @ '': '' @ reason)"

definition CapabilityUnavailableError_Error :: "string \<Rightarrow> string \<Rightarrow> string" where
  "CapabilityUnavailableError_Error primitive message =
     (if message \<noteq> [] then message
      else if primitive \<noteq> [] then ''sandbox: capability unavailable: '' @ primitive
      else ''sandbox: capability unavailable'')"

definition DataPlaneNotReadyError_Error :: "string \<Rightarrow> string" where
  "DataPlaneNotReadyError_Error message =
     (if message \<noteq> [] then message else ''sandbox: data-plane edge route not ready'')"

definition PrimitiveTimeoutError_Error :: "string \<Rightarrow> string \<Rightarrow> string" where
  "PrimitiveTimeoutError_Error primitive message =
     (if message \<noteq> [] then message
      else if primitive \<noteq> [] then
        ''sandbox: '' @ primitive @ '' timed out waiting for guest-agent reply''
      else ''sandbox: primitive timed out waiting for guest-agent reply'')"

definition SessionTerminatedError_Error :: "string \<Rightarrow> string \<Rightarrow> string" where
  "SessionTerminatedError_Error cause message =
     (if message \<noteq> [] then message
      else if cause \<noteq> [] then ''sandbox: session terminated by the platform: '' @ cause
      else ''sandbox: session terminated by the platform'')"

definition GitOperationFailedError_Error :: "string \<Rightarrow> string" where
  "GitOperationFailedError_Error message =
     (if message = [] then sentinel_text ErrGitOperationFailed else message)"

definition TemplateSpecValidationError_Error :: "violation list \<Rightarrow> string" where
  "TemplateSpecValidationError_Error vs =
     (if vs = [] then sentinel_text ErrTemplateSpecInvalid
      else sentinel_text ErrTemplateSpecInvalid @ '': '' @ join_with ''; '' (map violation_text vs))"

primrec error_text :: "go_error \<Rightarrow> string" where
  "error_text (Sentinel s) = sentinel_text s"
| "error_text (Plain t) = t"
| "error_text (NetError t _) = t"
| "error_text (ConnectError _ _ t _ _) = t"
| "error_text (Wrapf e suffix) = error_text e @ suffix"
| "error_text (Prefixed pre e) = pre @ error_text e"
| "error_text (Wrap2 a b) = error_text a @ '': '' @ error_text b"
| "error_text (WaitReadyFailedError _ e) = WaitReadyFailedError_Error (map_option error_text e)"
| "error_text (ForkFailedError _ _ e) = ForkFailedError_Error (map_option error_text e)"
| "error_text (TemplateRuntimeFailedError _ reason _) = TemplateRuntimeFailedError_Error reason"
| "error_text (CapabilityUnavailableError p m) = CapabilityUnavailableError_Error p m"
| "error_text (DataPlaneNotReadyError m _ _) = DataPlaneNotReadyError_Error m"
| "error_text (PrimitiveTimeoutError p m) = PrimitiveTimeoutError_Error p m"
| "error_text (SessionTerminatedError _ c m) = SessionTerminatedError_Error c m"
| "error_text (GitOperationFailedError m _ _ _ _) = GitOperationFailedError_Error m"
| "error_text (TemplateSpecValidationError vs) = TemplateSpecValidationError_Error vs"

text \<open>
  \<open>unwrap_all\<close> lists what either form of \<open>Unwrap\<close> yields; \<open>errors_Unwrap\<close> is the
  function \<open>errors.Unwrap\<close>, which ignores the multi-error form of \<open>fmt.Errorf\<close> with two
  wrapped errors.
\<close>

definition opt_list :: "'a option \<Rightarrow> 'a list" where
  "opt_list x = (case x of None \<Rightarrow> [] | Some a \<Rightarrow> [a])"

lemma opt_list_simps [simp]: "opt_list None = []" "opt_list (Some a) = [a]"
  by (simp_all add: opt_list_def)

fun unwrap_all :: "go_error \<Rightarrow> go_error list" where
  "unwrap_all (ConnectError _ _ _ _ e) = opt_list e"
| "unwrap_all (Wrapf e _) = [e]"
| "unwrap_all (Prefixed _ e) = [e]"
| "unwrap_all (Wrap2 a b) = [a, b]"
| "unwrap_all (WaitReadyFailedError _ e) = opt_list e"
| "unwrap_all (ForkFailedError _ _ e) = opt_list e"
| "unwrap_all (TemplateRuntimeFailedError _ _ e) = opt_list e"
| "unwrap_all (DataPlaneNotReadyError _ e _) = opt_list e"
| "unwrap_all (GitOperationFailedError _ _ _ _ e) = opt_list e"
| "unwrap_all (TemplateSpecValidationError _) = [Sentinel ErrTemplateSpecInvalid]"
| "unwrap_all _ = []"

fun errors_Unwrap :: "go_error \<Rightarrow> go_error option" where
  "errors_Unwrap (Wrap2 _ _) = None"
| "errors_Unwrap e = (case unwrap_all e of [] \<Rightarrow> None | x # _ \<Rightarrow> Some x)"

lemma unwrap_all_size: "x \<in> set (unwrap_all e) \<Longrightarrow> size x < size e \<or> x = Sentinel ErrTemplateSpecInvalid"
  by (cases e) (auto simp: opt_list_def split: option.splits)

text \<open>The nodes of an error tree in the order in which \<open>errors.Is\<close> and \<open>errors.As\<close> visit them.\<close>

fun nodes :: "go_error \<Rightarrow> go_error list" where
  "nodes (ConnectError c m t ds e) =
     ConnectError c m t ds e # (case e of None \<Rightarrow> [] | Some x \<Rightarrow> nodes x)"
| "nodes (Wrapf e s) = Wrapf e s # nodes e"
| "nodes (Prefixed pre e) = Prefixed pre e # nodes e"
| "nodes (Wrap2 a b) = Wrap2 a b # nodes a @ nodes b"
| "nodes (WaitReadyFailedError i e) =
     WaitReadyFailedError i e # (case e of None \<Rightarrow> [] | Some x \<Rightarrow> nodes x)"
| "nodes (ForkFailedError i ss e) =
     ForkFailedError i ss e # (case e of None \<Rightarrow> [] | Some x \<Rightarrow> nodes x)"
| "nodes (TemplateRuntimeFailedError i r e) =
     TemplateRuntimeFailedError i r e # (case e of None \<Rightarrow> [] | Some x \<Rightarrow> nodes x)"
| "nodes (DataPlaneNotReadyError m e t) =
     DataPlaneNotReadyError m e t # (case e of None \<Rightarrow> [] | Some x \<Rightarrow> nodes x)"
| "nodes (GitOperationFailedError m s c r e) =
     GitOperationFailedError m s c r e # (case e of None \<Rightarrow> [] | Some x \<Rightarrow> nodes x)"
| "nodes (TemplateSpecValidationError vs) =
     [TemplateSpecValidationError vs, Sentinel ErrTemplateSpecInvalid]"
| "nodes e = [e]"

text \<open>A node matches a sentinel when it is that sentinel or its \<open>Is\<close> method says so.\<close>

fun node_is :: "sentinel \<Rightarrow> go_error \<Rightarrow> bool" where
  "node_is s (Sentinel t) = (t = s)"
| "node_is s (WaitReadyFailedError _ _) = (s = ErrWaitReadyFailed)"
| "node_is s (ForkFailedError _ _ _) = (s = ErrForkFailed)"
| "node_is s (TemplateRuntimeFailedError _ _ _) = (s = ErrTemplateRuntimeFailed)"
| "node_is s (SessionTerminatedError _ _ _) = (s = ErrSessionTerminated)"
| "node_is s _ = False"

definition errors_Is :: "go_error \<Rightarrow> sentinel \<Rightarrow> bool" where
  "errors_Is e s = list_ex (node_is s) (nodes e)"

fun is_connect :: "go_error \<Rightarrow> bool" where
  "is_connect (ConnectError _ _ _ _ _) = True"
| "is_connect _ = False"

definition as_connect :: "go_error \<Rightarrow> go_error option" where
  "as_connect e = List.find is_connect (nodes e)"

fun connect_code :: "go_error \<Rightarrow> code" where
  "connect_code (ConnectError c _ _ _ _) = c"
| "connect_code _ = CodeUnknown"

fun connect_message :: "go_error \<Rightarrow> string" where
  "connect_message (ConnectError _ m _ _ _) = m"
| "connect_message _ = []"

fun connect_details :: "go_error \<Rightarrow> detail list" where
  "connect_details (ConnectError _ _ _ ds _) = ds"
| "connect_details _ = []"

text \<open>\<open>connect.CodeOf\<close>: the code of the first RPC error in the tree, else Unknown.\<close>

definition CodeOf :: "go_error \<Rightarrow> code" where
  "CodeOf e = (case as_connect e of None \<Rightarrow> CodeUnknown | Some c \<Rightarrow> connect_code c)"

end
