(* ===== verification/TemplateJson.thy ===== *)
theory TemplateJson
  imports TemplateSpec Errors
begin

text \<open>
  The authored JSON form of a template recipe (\<open>ToJSON\<close>, \<open>TemplateSpecFromJSON\<close> and
  \<open>normalizeTemplateSpecJSON\<close> of \<open>template_spec.go\<close>). A document is a tree whose objects keep the
  order, and any repetition, of their fields, as the token decoder sees them; the lexer of the
  standard library and the reflection-based protobuf encoder are not modelled, the latter is a
  parameter.
\<close>

section \<open>Documents\<close>

datatype json =
    JNull
  | JBool bool
  | JNumber string
  | JString string
  | JArray "json list"
  | JObject "(string \<times> json) list"

definition checkout_modes :: "(string \<times> string) list" where
  "checkout_modes =
     [(''contents'', ''TEMPLATE_CHECKOUT_MODE_CONTENTS''),
      (''directory'', ''TEMPLATE_CHECKOUT_MODE_DIRECTORY'')]"

definition run_ats :: "(string \<times> string) list" where
  "run_ats =
     [(''boot'', ''TEMPLATE_RUNTIME_RUN_AT_BOOT''), (''build'', ''TEMPLATE_RUNTIME_RUN_AT_BUILD''),
      (''manual'', ''TEMPLATE_RUNTIME_RUN_AT_MANUAL'')]"

definition restart_policies :: "(string \<times> string) list" where
  "restart_policies =
     [(''never'', ''TEMPLATE_RESTART_POLICY_NEVER''),
      (''on-failure'', ''TEMPLATE_RESTART_POLICY_ON_FAILURE''),
      (''always'', ''TEMPLATE_RESTART_POLICY_ALWAYS'')]"

definition snapshot_modes :: "(string \<times> string) list" where
  "snapshot_modes =
     [(''filesystem'', ''TEMPLATE_SNAPSHOT_MODE_FILESYSTEM''),
      (''memory'', ''TEMPLATE_SNAPSHOT_MODE_MEMORY'')]"

definition authoredTemplateEnumFields :: "(string \<times> (string \<times> string) list) list" where
  "authoredTemplateEnumFields =
     [(''context.checkout.mode'', checkout_modes),
      (''runtime.runAt'', run_ats), (''runtime.run_at'', run_ats),
      (''runtime.restartPolicy'', restart_policies), (''runtime.restart_policy'', restart_policies),
      (''runtime.snapshotMode'', snapshot_modes), (''runtime.snapshot_mode'', snapshot_modes)]"

text \<open>The rewriting of one string at a path.\<close>

definition to_short :: "(string \<times> string) list \<Rightarrow> string \<Rightarrow> string" where
  "to_short values v = (case find (\<lambda>(short, name). v = name) values of
     None \<Rightarrow> v | Some (short, name) \<Rightarrow> short)"

definition to_long :: "(string \<times> string) list \<Rightarrow> string \<Rightarrow> string" where
  "to_long values v = (case map_of values v of None \<Rightarrow> v | Some name \<Rightarrow> name)"

definition normalize_string :: "string list \<Rightarrow> bool \<Rightarrow> string \<Rightarrow> string" where
  "normalize_string path toAuthored v =
     (case map_of authoredTemplateEnumFields (join_with ''.'' path) of
        None \<Rightarrow> v
      | Some values \<Rightarrow> if toAuthored then to_short values v else to_long values v)"

text \<open>
  \<open>writeNormalizedTemplateJSONValue\<close>: the elements of an array keep the path of the array, a field
  of an object extends it, and a repeated key is an error.
\<close>

fun writeNormalized :: "string list \<Rightarrow> bool \<Rightarrow> json \<Rightarrow> (go_error, json) result"
  and writeItems :: "string list \<Rightarrow> bool \<Rightarrow> json list \<Rightarrow> (go_error, json list) result"
  and writeFields :: "string list \<Rightarrow> bool \<Rightarrow> string list \<Rightarrow> (string \<times> json) list
    \<Rightarrow> (go_error, (string \<times> json) list) result"
where
  "writeNormalized path a JNull = Inr JNull"
| "writeNormalized path a (JBool b) = Inr (JBool b)"
| "writeNormalized path a (JNumber n) = Inr (JNumber n)"
| "writeNormalized path a (JString v) = Inr (JString (normalize_string path a v))"
| "writeNormalized path a (JArray js) =
     (case writeItems path a js of Inl e \<Rightarrow> Inl e | Inr ks \<Rightarrow> Inr (JArray ks))"
| "writeNormalized path a (JObject fs) =
     (case writeFields path a [] fs of Inl e \<Rightarrow> Inl e | Inr gs \<Rightarrow> Inr (JObject gs))"
| "writeItems path a [] = Inr []"
| "writeItems path a (j # js) =
     (case writeNormalized path a j of Inl e \<Rightarrow> Inl e
      | Inr k \<Rightarrow> (case writeItems path a js of Inl e \<Rightarrow> Inl e | Inr ks \<Rightarrow> Inr (k # ks)))"
| "writeFields path a seen [] = Inr []"
| "writeFields path a seen ((key, j) # fs) =
     (if key \<in> set seen then Inl (Plain (''duplicate JSON field '' @ go_quote key))
      else case writeNormalized (path @ [key]) a j of Inl e \<Rightarrow> Inl e
      | Inr k \<Rightarrow> (case writeFields path a (key # seen) fs of Inl e \<Rightarrow> Inl e
          | Inr gs \<Rightarrow> Inr ((key, k) # gs)))"

definition normalizeTemplateSpecJSON :: "json \<Rightarrow> bool \<Rightarrow> (go_error, json) result" where
  "normalizeTemplateSpecJSON doc toAuthored = writeNormalized [] toAuthored doc"

definition templateSpecJSONError :: "go_error \<Rightarrow> go_error" where
  "templateSpecJSONError err =
     TemplateSpecValidationError [\<lparr>v_field = [], v_rule = ''json'', v_message = error_text err\<rparr>]"

definition ToJSON :: "(build_spec \<Rightarrow> (go_error, json) result) \<Rightarrow> template_spec \<Rightarrow> (go_error, json) result" where
  "ToJSON marshal s =
     (case marshal (protoSpec s) of
        Inl e \<Rightarrow> Inl (Prefixed ''sandbox: marshal template spec: '' e)
      | Inr doc \<Rightarrow>
          (case normalizeTemplateSpecJSON doc True of
             Inl e \<Rightarrow> Inl (Prefixed ''sandbox: normalize template spec JSON: '' e)
           | Inr doc' \<Rightarrow> Inr doc'))"

definition TemplateSpecFromJSON ::
  "(json \<Rightarrow> (go_error, build_spec) result) \<Rightarrow> json \<Rightarrow> (go_error, template_spec) result" where
  "TemplateSpecFromJSON unmarshal doc =
     (case normalizeTemplateSpecJSON doc False of
        Inl e \<Rightarrow> Inl (templateSpecJSONError e)
      | Inr doc' \<Rightarrow>
          (case unmarshal doc' of
             Inl e \<Rightarrow> Inl (templateSpecJSONError e)
           | Inr spec \<Rightarrow> Inr (Some spec)))"

section \<open>The tables\<close>

definition two_way :: "(string \<times> string) list \<Rightarrow> bool" where
  "two_way values \<longleftrightarrow> distinct (map fst values @ map snd values)"

lemma tables_two_way: "map_of authoredTemplateEnumFields p = Some vs \<Longrightarrow> two_way vs"
proof -
  assume "map_of authoredTemplateEnumFields p = Some vs"
  then have "vs \<in> set (map snd authoredTemplateEnumFields)" by (force dest: map_of_SomeD)
  moreover have "list_all two_way (map snd authoredTemplateEnumFields)" by code_simp
  ultimately show ?thesis unfolding list_all_iff by blast
qed

lemma two_way_Cons:
  "two_way ((s, n) # vs) \<longleftrightarrow>
     s \<noteq> n \<and> s \<notin> fst ` set vs \<and> s \<notin> snd ` set vs \<and> n \<notin> fst ` set vs \<and> n \<notin> snd ` set vs \<and> two_way vs"
  by (auto simp: two_way_def)

lemma to_short_Cons [simp]: "to_short ((s, n) # vs) v = (if v = n then s else to_short vs v)"
  by (simp add: to_short_def)

lemma to_long_Cons [simp]: "to_long ((s, n) # vs) v = (if v = s then n else to_long vs v)"
  by (simp add: to_long_def)

lemma to_short_range: "to_short vs v = v \<or> to_short vs v \<in> fst ` set vs"
  by (induction vs) (auto simp: to_short_def)

lemma to_long_range: "to_long vs v = v \<or> to_long vs v \<in> snd ` set vs"
  by (induction vs) (auto simp: to_long_def)

lemma long_short: "two_way vs \<Longrightarrow> to_long vs (to_short vs v) = to_long vs v"
proof (induction vs)
  case Nil
  then show ?case by (simp add: to_short_def to_long_def)
next
  case (Cons sn vs)
  obtain s n where sn: "sn = (s, n)" by force
  with Cons have w: "two_way ((s, n) # vs)" by simp
  have notin: "x \<notin> fst ` set vs \<Longrightarrow> to_long vs x = x" for x
    by (simp add: to_long_def map_of_eq_None_iff [THEN iffD2])
  show ?case
  proof (cases "v = n")
    case True
    with w show ?thesis by (simp add: sn notin two_way_Cons)
  next
    case False
    have "to_short vs v \<noteq> s \<or> v = s"
      using to_short_range [of vs v] w by (auto simp: two_way_Cons)
    moreover have "v = s \<Longrightarrow> to_short vs v = s"
    proof -
      assume "v = s"
      with w have "v \<notin> snd ` set vs" by (simp add: two_way_Cons)
      then have "to_short vs v = v" by (induction vs) (auto simp: to_short_def)
      with \<open>v = s\<close> show ?thesis by simp
    qed
    ultimately show ?thesis using False Cons w by (auto simp: sn two_way_Cons)
  qed
qed

lemma short_long: "two_way vs \<Longrightarrow> to_short vs (to_long vs v) = to_short vs v"
proof (induction vs)
  case Nil
  then show ?case by (simp add: to_short_def to_long_def)
next
  case (Cons sn vs)
  obtain s n where sn: "sn = (s, n)" by force
  with Cons have w: "two_way ((s, n) # vs)" by simp
  have notin: "x \<notin> snd ` set ws \<Longrightarrow> to_short ws x = x" for x and ws :: "(string \<times> string) list"
    by (induction ws) (auto simp: to_short_def)
  show ?case
  proof (cases "v = s")
    case True
    with w show ?thesis by (simp add: sn notin two_way_Cons)
  next
    case False
    have "to_long vs v \<noteq> n \<or> v = n"
      using to_long_range [of vs v] w by (auto simp: two_way_Cons)
    moreover have "v = n \<Longrightarrow> to_long vs v = n"
      using w by (simp add: two_way_Cons to_long_def map_of_eq_None_iff [THEN iffD2])
    ultimately show ?thesis using False Cons w by (auto simp: sn two_way_Cons)
  qed
qed

lemma normalize_string_twice [simp]:
  "normalize_string p False (normalize_string p True v) = normalize_string p False v"
  "normalize_string p True (normalize_string p False v) = normalize_string p True v"
  by (auto simp: normalize_string_def long_short short_long dest: tables_two_way split: option.splits)

section \<open>Rewriting a document\<close>

lemma write_keys:
  "writeFields path a seen fs = Inr gs \<Longrightarrow> map fst gs = map fst fs"
  by (induction fs arbitrary: seen gs) (auto split: sum.splits if_splits)

text \<open>Normalising in one direction after the other is normalising in the second direction.\<close>

lemma write_twice:
  "writeNormalized p a j = Inr k \<Longrightarrow> writeNormalized p (\<not> a) k = writeNormalized p (\<not> a) j"
  "writeItems p a js = Inr ks \<Longrightarrow> writeItems p (\<not> a) ks = writeItems p (\<not> a) js"
  "writeFields p a seen fs = Inr gs \<Longrightarrow> writeFields p (\<not> a) seen gs = writeFields p (\<not> a) seen fs"
proof (induction p a j and p a js and p a seen fs arbitrary: k and ks and gs
    rule: writeNormalized_writeItems_writeFields.induct)
  case (4 path a v)
  then show ?case by (cases a) auto
qed (auto split: sum.splits if_splits)

text \<open>A document without a repeated key in any object.\<close>

fun keys_distinct :: "json \<Rightarrow> bool" where
  "keys_distinct (JArray js) \<longleftrightarrow> list_all keys_distinct js"
| "keys_distinct (JObject fs) \<longleftrightarrow>
     distinct (map fst fs) \<and> list_all (\<lambda>f. keys_distinct (snd f)) fs"
| "keys_distinct _ \<longleftrightarrow> True"

lemma write_ok:
  "is_ok (writeNormalized p a j) \<longleftrightarrow> keys_distinct j"
  "is_ok (writeItems p a js) \<longleftrightarrow> list_all keys_distinct js"
  "is_ok (writeFields p a seen fs) \<longleftrightarrow>
     distinct (map fst fs) \<and> (\<forall>x \<in> set fs. fst x \<notin> set seen) \<and> list_all (\<lambda>f. keys_distinct (snd f)) fs"
proof (induction p a j and p a js and p a seen fs rule: writeNormalized_writeItems_writeFields.induct)
  case (10 path a seen key j fs)
  have later: "(\<forall>x \<in> set fs. fst x \<notin> set (key # seen)) \<longleftrightarrow>
      key \<notin> fst ` set fs \<and> (\<forall>x \<in> set fs. fst x \<notin> set seen)" by auto
  show ?case
  proof (cases "key \<in> set seen")
    case False
    note IH = 10(1) [OF False] 10(2) [OF False]
    show ?thesis
    proof (cases "writeNormalized (path @ [key]) a j")
      case (Inl e)
      with IH(1) False show ?thesis by simp
    next
      case (Inr k)
      have "is_ok (writeFields path a seen ((key, j) # fs)) = is_ok (writeFields path a (key # seen) fs)"
        using False Inr by (simp split: sum.split)
      moreover have "keys_distinct j" using IH(1) Inr by simp
      ultimately show ?thesis using IH(2) [OF Inr] False later by (simp only: list.simps) auto
    qed
  qed simp
qed (auto split: sum.splits)

section \<open>Properties\<close>

text \<open>Converting a document to the authored form and back gives what converting it directly
  gives, in both directions; so the short and the protobuf names of the enumerations are
  interchangeable in every field.\<close>

theorem json_roundtrip:
  assumes "normalizeTemplateSpecJSON doc toAuthored = Inr doc'"
  shows "normalizeTemplateSpecJSON doc' (\<not> toAuthored) = normalizeTemplateSpecJSON doc (\<not> toAuthored)"
  using assms unfolding normalizeTemplateSpecJSON_def by (rule write_twice)

theorem json_roundtrip_witness:
  "normalizeTemplateSpecJSON (JObject [(''runtime'', JObject [(''runAt'', JString ''boot'')])]) False =
   normalizeTemplateSpecJSON
     (JObject [(''runtime'', JObject [(''runAt'', JString ''TEMPLATE_RUNTIME_RUN_AT_BOOT'')])]) False"
proof -
  have "normalizeTemplateSpecJSON
     (JObject [(''runtime'', JObject [(''runAt'', JString ''TEMPLATE_RUNTIME_RUN_AT_BOOT'')])]) True =
     Inr (JObject [(''runtime'', JObject [(''runAt'', JString ''boot'')])])" by code_simp
  from json_roundtrip [OF this] show ?thesis by simp
qed

text \<open>a document is rejected exactly when one of its objects repeats a key; otherwise the
  rewritten document keeps the order of the fields.\<close>

theorem json_duplicate_keys:
  "is_ok (normalizeTemplateSpecJSON doc toAuthored) \<longleftrightarrow> keys_distinct doc"
  by (simp add: normalizeTemplateSpecJSON_def write_ok)



end
