(* ===== verification/Transport.thy ===== *)
theory Transport
  imports Errors
begin

text \<open>
  The pool of shared data-plane HTTP clients of a \<open>Client\<close> (\<open>data_plane.go\<close>): one HTTP client per
  origin, reference counted. \<open>acquireDataPlaneHTTPClient\<close> hands out the client with a release
  function that acts once; here the release function is a handle. An HTTP client is named by the
  number \<open>p_next\<close> it gets when it is created, so a client created again for an origin is another
  one. \<open>p_issued\<close> lists the handles given out; no operation reads it.
\<close>

section \<open>The contract of a reference-counted pool\<close>

locale client_pool =
  fixes inv :: "'s \<Rightarrow> bool"
    and acquire :: "'o \<Rightarrow> 's \<Rightarrow> 's \<times> 'h"
    and release :: "'h \<Rightarrow> 's \<Rightarrow> 's"
    and refs :: "'s \<Rightarrow> 'o \<Rightarrow> int"
    and live :: "'s \<Rightarrow> 'h \<Rightarrow> bool"
    and issued :: "'s \<Rightarrow> 'h \<Rightarrow> bool"
    and origin_of :: "'h \<Rightarrow> 'o"
  assumes acquire_inv: "inv s \<Longrightarrow> inv (fst (acquire x s))"
    and release_inv: "inv s \<Longrightarrow> issued s h \<Longrightarrow> inv (release h s)"
    and acquire_refs: "inv s \<Longrightarrow> refs (fst (acquire x s)) y = refs s y + (if y = x then 1 else 0)"
    and acquire_new: "inv s \<Longrightarrow> \<not> issued s (snd (acquire x s)) \<and> origin_of (snd (acquire x s)) = x"
    and acquire_live: "inv s \<Longrightarrow> live (fst (acquire x s)) h \<longleftrightarrow> live s h \<or> h = snd (acquire x s)"
    and acquire_issued: "inv s \<Longrightarrow> issued (fst (acquire x s)) h \<longleftrightarrow> issued s h \<or> h = snd (acquire x s)"
    and release_refs: "inv s \<Longrightarrow> issued s h \<Longrightarrow>
      refs (release h s) y = refs s y - (if live s h \<and> origin_of h = y then 1 else 0)"
    and release_live: "inv s \<Longrightarrow> issued s h \<Longrightarrow> issued s h' \<Longrightarrow>
      live (release h s) h' \<longleftrightarrow> live s h' \<and> h' \<noteq> h"
    and release_issued: "inv s \<Longrightarrow> issued (release h s) h' \<longleftrightarrow> issued s h'"
    and live_issued: "inv s \<Longrightarrow> live s h \<Longrightarrow> issued s h"
    and live_refs: "inv s \<Longrightarrow> live s h \<Longrightarrow> 0 < refs s (origin_of h)"
begin

text \<open>A release function acts once.\<close>

lemma release_once:
  assumes "inv s" and "issued s h"
  shows "refs (release h (release h s)) y = refs (release h s) y"
proof -
  have "inv (release h s)" and "issued (release h s) h"
    using assms by (simp_all add: release_inv release_issued)
  then show ?thesis using assms by (simp add: release_refs release_live)
qed

lemma acquire_release:
  assumes "inv s"
  shows "refs (release (snd (acquire x s)) (fst (acquire x s))) y = refs s y"
  using assms by (simp add: release_refs acquire_inv acquire_issued acquire_live acquire_new acquire_refs)

text \<open>
  Moving to another origin, as a session does: the new client is acquired before the old one is
  released, so the new one is live afterwards, even on the same origin.
\<close>

lemma move_live:
  fixes s :: 's and x :: 'o and old :: 'h
  assumes "inv s" and "live s old"
  defines "t \<equiv> release old (fst (acquire x s))" and "new \<equiv> snd (acquire x s)"
  shows "inv t" and "live t new" and "\<not> live t old" and "0 < refs t x"
proof -
  have i: "inv (fst (acquire x s))" "issued (fst (acquire x s)) old" "issued (fst (acquire x s)) new"
    using assms by (simp_all add: acquire_inv acquire_issued live_issued)
  have "new \<noteq> old"
    using acquire_new [OF assms(1), of x] live_issued [OF assms(1,2)] unfolding new_def by auto
  then show l: "live t new" and "\<not> live t old"
    using i assms(1) by (simp_all add: t_def release_live acquire_live new_def)
  show "inv t" using i by (simp add: t_def release_inv)
  from live_refs [OF this l] show "0 < refs t x" using acquire_new [OF assms(1)] by (simp add: new_def)
qed

end

section \<open>The pool\<close>

record handle =
  h_id :: nat
  h_origin :: string
  h_client :: nat

record pool =
  p_entries :: "(string, nat \<times> int) gomap"
  p_next :: nat
  p_nextHandle :: nat
  p_done :: "nat list"
  p_issued :: "handle list"

definition empty_pool :: pool where
  "empty_pool = \<lparr>p_entries = [], p_next = 0, p_nextHandle = 0, p_done = [], p_issued = []\<rparr>"

text \<open>
  \<open>dataPlaneOrigin\<close>: \<open>url.Parse\<close> is the argument \<open>parse\<close>, which yields the scheme and the host.
\<close>

definition dataPlaneOrigin ::
  "(string \<Rightarrow> (go_error, string \<times> string) result) \<Rightarrow> string \<Rightarrow> (go_error, string) result" where
  "dataPlaneOrigin parse endpoint =
     (case parse endpoint of
        Inl e \<Rightarrow> Inl e
      | Inr (scheme, host) \<Rightarrow>
          if scheme = [] \<or> host = []
          then Inl (Plain (''sandbox: invalid data-plane endpoint '' @ go_quote endpoint))
          else Inr (scheme @ ''://'' @ host))"

definition pool_acquire :: "string \<Rightarrow> pool \<Rightarrow> pool \<times> handle" where
  "pool_acquire orig p =
     (let (c, n) = (case map_of (p_entries p) orig of Some e \<Rightarrow> e | None \<Rightarrow> (p_next p, 0));
          h = \<lparr>h_id = p_nextHandle p, h_origin = orig, h_client = c\<rparr>
      in (p\<lparr>p_entries := map_put orig (c, n + 1) (p_entries p),
            p_next := (if map_of (p_entries p) orig = None then Suc (p_next p) else p_next p),
            p_nextHandle := Suc (p_nextHandle p), p_issued := h # p_issued p\<rparr>, h))"

definition pool_release :: "handle \<Rightarrow> pool \<Rightarrow> pool" where
  "pool_release h p =
     (if h_id h \<in> set (p_done p) then p
      else
        let p = p\<lparr>p_done := h_id h # p_done p\<rparr>
        in case map_of (p_entries p) (h_origin h) of
             None \<Rightarrow> p
           | Some (c, n) \<Rightarrow>
               if c \<noteq> h_client h then p
               else if 0 < n - 1
               then p\<lparr>p_entries := map_put (h_origin h) (c, n - 1) (p_entries p)\<rparr>
               else p\<lparr>p_entries := map_del (h_origin h) (p_entries p)\<rparr>)"

definition closeDataPlaneHTTPClients :: "pool \<Rightarrow> pool" where
  "closeDataPlaneHTTPClients p = p\<lparr>p_entries := []\<rparr>"

definition acquireDataPlaneHTTPClient ::
  "(string \<Rightarrow> (go_error, string \<times> string) result) \<Rightarrow> string \<Rightarrow> pool
    \<Rightarrow> (go_error, handle) result \<times> pool" where
  "acquireDataPlaneHTTPClient parse endpoint p =
     (case dataPlaneOrigin parse endpoint of
        Inl e \<Rightarrow> (Inl e, p)
      | Inr orig \<Rightarrow> (let (p', h) = pool_acquire orig p in (Inr h, p')))"

section \<open>Its invariant\<close>

definition pool_live :: "pool \<Rightarrow> handle \<Rightarrow> bool" where
  "pool_live p h \<longleftrightarrow> h \<in> set (p_issued p) \<and> h_id h \<notin> set (p_done p) \<and>
     (\<exists>n. map_of (p_entries p) (h_origin h) = Some (h_client h, n))"

definition pool_refs :: "pool \<Rightarrow> string \<Rightarrow> int" where
  "pool_refs p orig = (case map_of (p_entries p) orig of None \<Rightarrow> 0 | Some (c, n) \<Rightarrow> n)"

definition holders :: "pool \<Rightarrow> string \<Rightarrow> nat \<Rightarrow> int" where
  "holders p orig c = int (length (filter
     (\<lambda>h. h_origin h = orig \<and> h_client h = c \<and> h_id h \<notin> set (p_done p)) (p_issued p)))"

definition pool_inv :: "pool \<Rightarrow> bool" where
  "pool_inv p \<longleftrightarrow>
     (\<forall>orig c n. map_of (p_entries p) orig = Some (c, n) \<longrightarrow>
        c < p_next p \<and> 0 < n \<and> n = holders p orig c) \<and>
     (\<forall>h \<in> set (p_issued p). h_id h < p_nextHandle p \<and> h_client h < p_next p) \<and>
     distinct (map h_id (p_issued p)) \<and> (\<forall>i \<in> set (p_done p). i < p_nextHandle p)"

lemma pool_inv_entry:
  "pool_inv p \<Longrightarrow> map_of (p_entries p) orig = Some (c, n) \<Longrightarrow>
     c < p_next p \<and> 0 < n \<and> n = holders p orig c"
  by (simp add: pool_inv_def)

lemma pool_invI:
  assumes "\<And>orig c n. map_of (p_entries p) orig = Some (c, n) \<Longrightarrow>
      c < p_next p \<and> 0 < n \<and> n = holders p orig c"
    and "\<And>h. h \<in> set (p_issued p) \<Longrightarrow> h_id h < p_nextHandle p \<and> h_client h < p_next p"
    and "distinct (map h_id (p_issued p))" and "\<And>i. i \<in> set (p_done p) \<Longrightarrow> i < p_nextHandle p"
  shows "pool_inv p"
  using assms by (simp add: pool_inv_def)

lemma pool_refs_put:
  "pool_refs (p\<lparr>p_done := d, p_entries := map_put x (c, n) (p_entries p)\<rparr>) y =
     (if x = y then n else pool_refs p y)"
  by (simp add: pool_refs_def)

lemma pool_refs_del:
  "pool_refs (p\<lparr>p_done := d, p_entries := map_del x (p_entries p)\<rparr>) y =
     (if x = y then 0 else pool_refs p y)"
  by (simp add: pool_refs_def)

lemma pool_inv_empty: "pool_inv empty_pool"
  by (simp add: pool_inv_def empty_pool_def)

lemma pool_inv_close: "pool_inv p \<Longrightarrow> pool_inv (closeDataPlaneHTTPClients p)"
  by (simp add: pool_inv_def closeDataPlaneHTTPClients_def)

text \<open>The two cases of an acquisition.\<close>

lemma pool_acquire_cases:
  "pool_acquire orig p =
     (case map_of (p_entries p) orig of
        Some (c, n) \<Rightarrow>
          (p\<lparr>p_entries := map_put orig (c, n + 1) (p_entries p), p_nextHandle := Suc (p_nextHandle p),
             p_issued := \<lparr>h_id = p_nextHandle p, h_origin = orig, h_client = c\<rparr> # p_issued p\<rparr>,
           \<lparr>h_id = p_nextHandle p, h_origin = orig, h_client = c\<rparr>)
      | None \<Rightarrow>
          (p\<lparr>p_entries := map_put orig (p_next p, 1) (p_entries p), p_next := Suc (p_next p),
             p_nextHandle := Suc (p_nextHandle p),
             p_issued := \<lparr>h_id = p_nextHandle p, h_origin = orig, h_client = p_next p\<rparr> # p_issued p\<rparr>,
           \<lparr>h_id = p_nextHandle p, h_origin = orig, h_client = p_next p\<rparr>))"
  by (auto simp: pool_acquire_def Let_def split: option.splits)

lemma holders_fresh: "pool_inv p \<Longrightarrow> holders p orig (p_next p) = 0"
  unfolding pool_inv_def holders_def by (auto simp: filter_empty_conv)

lemma holders_acquire:
  assumes "pool_inv p"
  shows "holders (p\<lparr>p_entries := es, p_next := k, p_nextHandle := m,
      p_issued := \<lparr>h_id = p_nextHandle p, h_origin = x, h_client = c\<rparr> # p_issued p\<rparr>) orig d =
    holders p orig d + (if orig = x \<and> d = c then 1 else 0)"
  using assms by (auto simp: holders_def pool_inv_def)

lemma pool_inv_acquire:
  assumes "pool_inv p"
  shows "pool_inv (fst (pool_acquire orig p))"
proof (cases "map_of (p_entries p) orig")
  case None
  show ?thesis
    using assms holders_fresh [OF assms] None
      holders_acquire [OF assms, where k = "Suc (p_next p)" and c = "p_next p" and x = orig and m = "Suc (p_nextHandle p)"]
    by (auto simp: pool_acquire_cases pool_inv_def less_Suc_eq)
next
  case (Some e)
  then obtain c n where e: "map_of (p_entries p) orig = Some (c, n)" by (cases e) auto
  have "holders (p\<lparr>p_entries := es, p_nextHandle := m,
      p_issued := \<lparr>h_id = p_nextHandle p, h_origin = orig, h_client = c\<rparr> # p_issued p\<rparr>) y d =
    holders p y d + (if y = orig \<and> d = c then 1 else 0)" for es m y d
    using assms by (auto simp: holders_def pool_inv_def)
  note h = this
  let ?h = "\<lparr>h_id = p_nextHandle p, h_origin = orig, h_client = c\<rparr>"
  have a: "fst (pool_acquire orig p) = p\<lparr>p_entries := map_put orig (c, n + 1) (p_entries p),
      p_nextHandle := Suc (p_nextHandle p), p_issued := ?h # p_issued p\<rparr>"
    by (simp add: pool_acquire_cases e)
  note pe = pool_inv_entry [OF assms e]
  show ?thesis
    unfolding a
  proof (rule pool_invI)
    fix y d m
    assume "map_of (p_entries (p\<lparr>p_entries := map_put orig (c, n + 1) (p_entries p),
      p_nextHandle := Suc (p_nextHandle p), p_issued := ?h # p_issued p\<rparr>)) y = Some (d, m)"
    then show "d < p_next (p\<lparr>p_entries := map_put orig (c, n + 1) (p_entries p),
        p_nextHandle := Suc (p_nextHandle p), p_issued := ?h # p_issued p\<rparr>) \<and> 0 < m \<and>
      m = holders (p\<lparr>p_entries := map_put orig (c, n + 1) (p_entries p),
        p_nextHandle := Suc (p_nextHandle p), p_issued := ?h # p_issued p\<rparr>) y d"
      unfolding h using pe pool_inv_entry [OF assms, of y d m] by (cases "y = orig") auto
  qed (use assms pe in \<open>auto simp: pool_inv_def less_Suc_eq\<close>)
qed

text \<open>The holders of a client after a handle is marked released.\<close>

lemma count_remove:
  "distinct (map f xs) \<Longrightarrow> x \<in> set xs \<Longrightarrow> P x \<Longrightarrow>
   length (filter (\<lambda>y. P y \<and> f y \<noteq> f x) xs) = length (filter P xs) - 1"
proof (induction xs)
  case (Cons a xs)
  show ?case
  proof (cases "a = x")
    case True
    with Cons.prems have "\<forall>y \<in> set xs. f y \<noteq> f x" by (auto simp: rev_image_eqI)
    then have "filter (\<lambda>y. P y \<and> f y \<noteq> f x) xs = filter P xs" by (intro filter_cong) auto
    with True Cons.prems show ?thesis by simp
  next
    case False
    with Cons.prems have x: "x \<in> set xs" and d: "distinct (map f xs)" by auto
    have "f a \<noteq> f x" using Cons.prems(1) x by auto
    moreover have "filter P xs \<noteq> []" using x Cons.prems(3) by (auto simp: filter_empty_conv)
    ultimately show ?thesis using Cons.IH [OF d x Cons.prems(3)] by (simp add: Suc_leI)
  qed
qed simp

lemma holders_done:
  assumes "pool_inv p" and "h \<in> set (p_issued p)" and "h_id h \<notin> set (p_done p)"
  shows "holders (p\<lparr>p_done := h_id h # p_done p, p_entries := es\<rparr>) orig c =
    holders p orig c - (if h_origin h = orig \<and> h_client h = c then 1 else 0)"
proof (cases "h_origin h = orig \<and> h_client h = c")
  case True
  let ?P = "\<lambda>h'. h_origin h' = orig \<and> h_client h' = c \<and> h_id h' \<notin> set (p_done p)"
  have d: "distinct (map h_id (p_issued p))" using assms(1) by (simp add: pool_inv_def)
  have "filter (\<lambda>h'. h_origin h' = orig \<and> h_client h' = c \<and> h_id h' \<notin> set (h_id h # p_done p)) (p_issued p) =
      filter (\<lambda>y. ?P y \<and> h_id y \<noteq> h_id h) (p_issued p)" by (intro filter_cong) auto
  moreover have "length (filter ?P (p_issued p)) \<noteq> 0"
    using assms(2,3) True by (auto simp: filter_empty_conv)
  moreover have "length (filter (\<lambda>y. ?P y \<and> h_id y \<noteq> h_id h) (p_issued p)) =
      length (filter ?P (p_issued p)) - 1"
    by (rule count_remove [OF d assms(2)]) (simp add: True assms(3))
  ultimately have "int (length (filter (\<lambda>h'. h_origin h' = orig \<and> h_client h' = c \<and>
        h_id h' \<notin> set (h_id h # p_done p)) (p_issued p))) = int (length (filter ?P (p_issued p))) - 1"
    by (simp only: of_nat_diff)
  with True show ?thesis by (simp add: holders_def)
next
  case False
  have "h_id h' = h_id h \<Longrightarrow> h' \<in> set (p_issued p) \<Longrightarrow> h' = h" for h'
    using assms(1,2) by (auto simp: pool_inv_def distinct_map inj_on_def)
  then have "filter (\<lambda>h'. h_origin h' = orig \<and> h_client h' = c \<and> h_id h' \<notin> set (h_id h # p_done p)) (p_issued p) =
      filter (\<lambda>h'. h_origin h' = orig \<and> h_client h' = c \<and> h_id h' \<notin> set (p_done p)) (p_issued p)"
    using False by (intro filter_cong) auto
  with False show ?thesis by (simp add: holders_def)
qed

text \<open>The three cases of a release.\<close>

lemma pool_release_cases:
  assumes "pool_inv p" and "h \<in> set (p_issued p)"
  shows "pool_release h p =
    (if h_id h \<in> set (p_done p) then p
     else if \<not> pool_live p h then p\<lparr>p_done := h_id h # p_done p\<rparr>
     else if 1 < pool_refs p (h_origin h) then
       p\<lparr>p_done := h_id h # p_done p,
         p_entries := map_put (h_origin h) (h_client h, pool_refs p (h_origin h) - 1) (p_entries p)\<rparr>
     else p\<lparr>p_done := h_id h # p_done p, p_entries := map_del (h_origin h) (p_entries p)\<rparr>)"
  using assms by (auto simp: pool_release_def pool_live_def pool_refs_def Let_def split: option.splits)

lemma pool_live_refs:
  assumes "pool_inv p" and "pool_live p h"
  shows "pool_refs p (h_origin h) = holders p (h_origin h) (h_client h) \<and> 0 < pool_refs p (h_origin h)"
proof -
  from assms(2) obtain n where n: "map_of (p_entries p) (h_origin h) = Some (h_client h, n)"
    by (auto simp: pool_live_def)
  from pool_inv_entry [OF assms(1) n] show ?thesis by (simp add: pool_refs_def n)
qed

lemma pool_inv_release:
  assumes "pool_inv p" and "h \<in> set (p_issued p)"
  shows "pool_inv (pool_release h p)"
proof (cases "h_id h \<in> set (p_done p)")
  case False
  note hd = holders_done [OF assms False]
  have ids: "h_id h < p_nextHandle p" using assms by (simp add: pool_inv_def)
  have no_es: "p\<lparr>p_done := d\<rparr> = p\<lparr>p_done := d, p_entries := p_entries p\<rparr>" for d by simp
  show ?thesis
  proof (cases "pool_live p h")
    case True
    note lr = pool_live_refs [OF assms(1) True]
    show ?thesis
      using assms False True ids lr
      by (auto simp: pool_release_cases [OF assms] pool_inv_def hd)
  next
    case dead: False
    have other: "holders (p\<lparr>p_done := h_id h # p_done p, p_entries := p_entries p\<rparr>) y c = holders p y c"
      if "map_of (p_entries p) y = Some (c, n)" for y c n
    proof -
      have "\<not> (h_origin h = y \<and> h_client h = c)"
        using that dead assms(2) False by (auto simp: pool_live_def)
      then show ?thesis by (simp only: hd if_False diff_0_right)
    qed
    have r: "pool_release h p = p\<lparr>p_done := h_id h # p_done p, p_entries := p_entries p\<rparr>"
      using False dead by (simp add: pool_release_cases [OF assms])
    show ?thesis
      unfolding r using assms ids other by (auto simp: pool_inv_def)
  qed
qed (simp add: pool_release_def assms)

lemma pool_release_refs:
  assumes "pool_inv p" and "h \<in> set (p_issued p)"
  shows "pool_refs (pool_release h p) y =
    pool_refs p y - (if pool_live p h \<and> h_origin h = y then 1 else 0)"
proof (cases "pool_live p h")
  case True
  note lr = pool_live_refs [OF assms(1) True]
  have "h_id h \<notin> set (p_done p)" using True by (simp add: pool_live_def)
  with True have r: "pool_release h p = (if 1 < pool_refs p (h_origin h) then
       p\<lparr>p_done := h_id h # p_done p,
         p_entries := map_put (h_origin h) (h_client h, pool_refs p (h_origin h) - 1) (p_entries p)\<rparr>
     else p\<lparr>p_done := h_id h # p_done p, p_entries := map_del (h_origin h) (p_entries p)\<rparr>)"
    by (simp add: pool_release_cases [OF assms])
  show ?thesis
    using lr True unfolding r by (auto simp: pool_refs_put pool_refs_del)
next
  case False
  then show ?thesis by (simp add: pool_release_cases [OF assms]) (simp add: pool_refs_def)
qed

lemma pool_release_live:
  assumes "pool_inv p" and "h \<in> set (p_issued p)" and "h' \<in> set (p_issued p)"
  shows "pool_live (pool_release h p) h' \<longleftrightarrow> pool_live p h' \<and> h' \<noteq> h"
proof -
  have same: "h_id h' = h_id h \<Longrightarrow> h' = h"
    using assms by (auto simp: pool_inv_def distinct_map inj_on_def)
  show ?thesis
  proof (cases "pool_live p h \<and> \<not> 1 < pool_refs p (h_origin h)")
    case True
    note lr = pool_live_refs [OF assms(1) conjunct1 [OF True]]
    have one: "holders p (h_origin h) (h_client h) = 1" using lr True by linarith
    have only: "h' = h" if l: "pool_live p h'" and o: "h_origin h' = h_origin h"
    proof (rule ccontr)
      assume "h' \<noteq> h"
      have c: "h_client h' = h_client h" using l o True by (auto simp: pool_live_def)
      have "holders (p\<lparr>p_done := h_id h # p_done p, p_entries := p_entries p\<rparr>) (h_origin h) (h_client h) = 0"
        using holders_done [OF assms(1,2), of "p_entries p" "h_origin h" "h_client h"] one True
        by (simp add: pool_live_def)
      then have "h_id h' \<in> set (h_id h # p_done p)"
        using assms(3) o c by (auto simp: holders_def filter_empty_conv)
      then show False using same \<open>h' \<noteq> h\<close> l by (auto simp: pool_live_def)
    qed
    have "pool_release h p = p\<lparr>p_done := h_id h # p_done p, p_entries := map_del (h_origin h) (p_entries p)\<rparr>"
      using True by (simp add: pool_release_cases [OF assms(1,2)]) (simp add: pool_live_def)
    then show ?thesis using only assms(3) same by (auto simp: pool_live_def)
  next
    case False
    then show ?thesis
      using assms(3) same by (auto simp: pool_release_cases [OF assms(1,2)] pool_live_def)
  qed
qed

lemma pool_release_issued [simp]: "p_issued (pool_release h p) = p_issued p"
  by (simp add: pool_release_def Let_def split: option.splits)

lemma pool_acquire_issued:
  "p_issued (fst (pool_acquire x p)) = snd (pool_acquire x p) # p_issued p"
  by (simp add: pool_acquire_cases split: option.splits)

lemma pool_acquire_fresh:
  assumes "pool_inv p"
  shows "snd (pool_acquire x p) \<notin> set (p_issued p)" and "h_origin (snd (pool_acquire x p)) = x"
  using assms by (force simp: pool_acquire_cases pool_inv_def split: option.splits)+

lemma pool_acquire_live:
  assumes "pool_inv p"
  shows "pool_live (fst (pool_acquire x p)) h \<longleftrightarrow> pool_live p h \<or> h = snd (pool_acquire x p)"
proof (cases "map_of (p_entries p) x")
  case None
  have "h_client h < p_next p \<and> h_id h < p_nextHandle p" if "h \<in> set (p_issued p)"
    using assms that by (simp add: pool_inv_def)
  moreover have "p_nextHandle p \<notin> set (p_done p)" using assms by (auto simp: pool_inv_def)
  ultimately show ?thesis
    using None
    by (cases "h = \<lparr>h_id = p_nextHandle p, h_origin = x, h_client = p_next p\<rparr>"; cases "h_origin h = x")
      (simp_all add: pool_acquire_cases pool_live_def, auto)
next
  case (Some e)
  obtain c n where e: "map_of (p_entries p) x = Some (c, n)" using Some by (cases e) auto
  have "p_nextHandle p \<notin> set (p_done p)" using assms by (auto simp: pool_inv_def)
  with e show ?thesis
    by (cases "h = \<lparr>h_id = p_nextHandle p, h_origin = x, h_client = c\<rparr>"; cases "h_origin h = x")
      (simp_all add: pool_acquire_cases pool_live_def)
qed

interpretation dp_pool: client_pool pool_inv pool_acquire pool_release pool_refs pool_live
  "\<lambda>p h. h \<in> set (p_issued p)" h_origin
proof unfold_locales
  fix p x y
  assume "pool_inv p"
  then show "pool_refs (fst (pool_acquire x p)) y = pool_refs p y + (if y = x then 1 else 0)"
    by (auto simp: pool_refs_def pool_acquire_cases split: option.splits)
next
  fix p h
  assume "pool_inv p" and "pool_live p h"
  from pool_live_refs [OF this] show "0 < pool_refs p (h_origin h)" by simp
qed (auto simp: pool_inv_acquire pool_inv_release pool_acquire_fresh pool_acquire_live
  pool_acquire_issued pool_release_refs pool_release_live, simp add: pool_live_def)

section \<open>Every history of the pool\<close>

text \<open>
  The sessions of a client acquire and release HTTP clients in any order, and the client may drop
  the whole pool (\<open>Client.Close\<close>) while sessions still hold some.
\<close>

inductive pool_reach :: "pool \<Rightarrow> bool" where
  start: "pool_reach empty_pool"
| acquire: "pool_reach p \<Longrightarrow> pool_reach (fst (pool_acquire orig p))"
| release: "pool_reach p \<Longrightarrow> h \<in> set (p_issued p) \<Longrightarrow> pool_reach (pool_release h p)"
| close: "pool_reach p \<Longrightarrow> pool_reach (closeDataPlaneHTTPClients p)"

lemma pool_reach_inv: "pool_reach p \<Longrightarrow> pool_inv p"
  by (induction rule: pool_reach.induct)
    (simp_all add: pool_inv_empty pool_inv_acquire pool_inv_release pool_inv_close)

text \<open>C14: In every history of acquisitions, releases (each release function called any number of
times) and closings, the reference count of a pooled HTTP client is the number of release functions
handed out for it that have not been called, and it is positive: a client is in the pool exactly
while someone holds it, and no count is lost or counted twice.\<close>

theorem pool_counts_holders:
  assumes "pool_reach p" and "map_of (p_entries p) orig = Some (c, n)"
  shows "n = holders p orig c \<and> 0 < n"
  using pool_inv_entry [OF pool_reach_inv [OF assms(1)] assms(2)] by simp

definition two_holders :: pool where
  "two_holders = fst (pool_acquire ''https://n1'' (fst (pool_acquire ''https://n1'' empty_pool)))"

lemma pool_counts_holders_witness:
  "map_of (p_entries two_holders) ''https://n1'' = Some (0, 2) \<and> holders two_holders ''https://n1'' 0 = 2"
proof -
  have e: "map_of (p_entries two_holders) ''https://n1'' = Some (0, 2)"
    by (simp add: two_holders_def pool_acquire_def empty_pool_def Let_def)
  have "pool_reach two_holders"
    unfolding two_holders_def by (intro pool_reach.intros)
  from pool_counts_holders [OF this e] e show ?thesis by simp
qed

text \<open>Moving from one origin to another the way a session does (acquire the new client, then
call the old release function) leaves the new client pooled with the session among its holders and
the old one given up, even when both origins are the same; and calling the old release function
again changes no reference count.\<close>

theorem pool_move_safe:
  assumes "pool_reach p" and "pool_live p old"
  shows "let (p', new) = pool_acquire orig p; q = pool_release old p'
    in pool_live q new \<and> \<not> pool_live q old \<and> 0 < pool_refs q orig \<and>
       pool_refs (pool_release old q) y = pool_refs q y"
proof -
  note i = pool_reach_inv [OF assms(1)]
  have a: "pool_inv (fst (pool_acquire orig p))" and o: "old \<in> set (p_issued (fst (pool_acquire orig p)))"
    using i assms(2) by (simp_all add: pool_inv_acquire pool_acquire_issued pool_live_def)
  show ?thesis
    using dp_pool.move_live [OF i assms(2), of orig] dp_pool.release_once [OF a o, of y]
    by (simp add: case_prod_beta)
qed

lemma pool_move_safe_witness:
  "let h = snd (pool_acquire ''https://n1'' empty_pool); p = fst (pool_acquire ''https://n1'' empty_pool)
   in pool_live p h \<and> pool_live (pool_release h (fst (pool_acquire ''https://n2'' p)))
        (snd (pool_acquire ''https://n2'' p))"
proof -
  let ?p = "fst (pool_acquire ''https://n1'' empty_pool)"
  let ?h = "snd (pool_acquire ''https://n1'' empty_pool)"
  have r: "pool_reach ?p" by (intro pool_reach.intros)
  have l: "pool_live ?p ?h" using pool_acquire_live [OF pool_inv_empty] by simp
  from pool_move_safe [OF r l, of "''https://n2''"] l show ?thesis by (simp add: Let_def case_prod_beta)
qed

end
