(* ===== verification/ErrorMap.thy ===== *)
theory ErrorMap
  imports Errors
begin

text \<open>
  Predicates on errors and the mapping of RPC errors to the sentinels of the SDK
  (\<open>mapError\<close> in errors.go), with the recognisers of failed git commands.
\<close>

section \<open>Predicates\<close>

fun is_unavailable_node :: "go_error \<Rightarrow> bool" where
  "is_unavailable_node (CapabilityUnavailableError _ _) = True"
| "is_unavailable_node _ = False"

fun is_timeout_node :: "go_error \<Rightarrow> bool" where
  "is_timeout_node (PrimitiveTimeoutError _ _) = True"
| "is_timeout_node _ = False"

fun is_notready_node :: "go_error \<Rightarrow> bool" where
  "is_notready_node (DataPlaneNotReadyError _ _ _) = True"
| "is_notready_node _ = False"

fun is_git_node :: "go_error \<Rightarrow> bool" where
  "is_git_node (GitOperationFailedError _ _ _ _ _) = True"
| "is_git_node _ = False"

definition IsPrimitiveTimeout :: "go_error \<Rightarrow> bool" where
  "IsPrimitiveTimeout e = list_ex is_timeout_node (nodes e)"

definition IsCapabilityUnavailable :: "go_error \<Rightarrow> bool" where
  "IsCapabilityUnavailable e =
     (list_ex is_unavailable_node (nodes e) \<or> list_ex is_timeout_node (nodes e))"

definition IsDataPlaneNotReady :: "go_error \<Rightarrow> bool" where
  "IsDataPlaneNotReady e = list_ex is_notready_node (nodes e)"

definition IsSessionTerminated :: "go_error \<Rightarrow> bool" where
  "IsSessionTerminated e = errors_Is e ErrSessionTerminated"

definition IsGitOperationFailed :: "go_error \<Rightarrow> bool" where
  "IsGitOperationFailed e = list_ex is_git_node (nodes e)"

definition isPausedSessionStateError :: "go_error option \<Rightarrow> bool" where
  "isPausedSessionStateError err = (case err of
       None \<Rightarrow> False
     | Some e \<Rightarrow>
         if \<not> errors_Is e ErrInvalidState then False
         else (let msg = to_upper (error_text e)
               in Contains msg ''STATE=PAUSED'' \<or> Contains msg ''STATE = PAUSED''))"

fun DataPlaneNotReady_IsRetryable :: "go_error \<Rightarrow> bool" where
  "DataPlaneNotReady_IsRetryable (DataPlaneNotReadyError _ _ terminal) = (\<not> terminal)"
| "DataPlaneNotReady_IsRetryable _ = False"

text \<open>
  The edge answers 404 before a route serves: an Unimplemented RPC error with that text.
\<close>

definition isEdgeNotReady :: "go_error option \<Rightarrow> bool" where
  "isEdgeNotReady err = (case err of
       None \<Rightarrow> False
     | Some e \<Rightarrow>
         if CodeOf e \<noteq> CodeUnimplemented then False
         else Contains (error_text e) ''HTTP status 404'')"

definition dataPlaneNotReadyError :: "go_error option \<Rightarrow> go_error" where
  "dataPlaneNotReadyError err = (case err of
       None \<Rightarrow> DataPlaneNotReadyError [] None False
     | Some e \<Rightarrow> DataPlaneNotReadyError ''sandbox: data-plane edge route not ready'' (Some e) False)"

definition terminalDataPlaneNotReadyError :: "go_error option \<Rightarrow> go_error" where
  "terminalDataPlaneNotReadyError err =
     DataPlaneNotReadyError ''sandbox: data-plane route verification failed'' err True"

section \<open>Git failure texts\<close>

text \<open>
  Case-insensitive match of a literal (given in lower case) at the head of a string; the runes
  beyond ASCII that fold to \<open>s\<close> and \<open>k\<close> are the long s and the Kelvin sign.
\<close>

fun ci_prefix :: "string \<Rightarrow> string \<Rightarrow> string option" where
  "ci_prefix [] s = Some s"
| "ci_prefix (l # ls) [] = None"
| "ci_prefix (l # ls) (c # s) =
     (if ascii_lower c = l then ci_prefix ls s
      else if l = CHR ''s'' \<and> c = CHR 0xC5 \<and> HasPrefix s [CHR 0xBF] then ci_prefix ls (drop 1 s)
      else if l = CHR ''k'' \<and> c = CHR 0xE2 \<and> HasPrefix s [CHR 0x84, CHR 0xAA]
        then ci_prefix ls (drop 2 s)
      else None)"

definition ci_starts :: "string \<Rightarrow> string \<Rightarrow> bool" where
  "ci_starts l s = (ci_prefix l s \<noteq> None)"

fun suffixes :: "string \<Rightarrow> string list" where
  "suffixes [] = [[]]"
| "suffixes (c # s) = (c # s) # suffixes s"

definition ci_contains :: "string \<Rightarrow> string \<Rightarrow> bool" where
  "ci_contains l s = list_ex (ci_starts l) (suffixes s)"

text \<open>A later occurrence of a literal on the same line: the pattern \<open>.*literal\<close>.\<close>

fun line_then :: "string \<Rightarrow> string \<Rightarrow> bool" where
  "line_then l [] = ci_starts l []"
| "line_then l (c # s) = (ci_starts l (c # s) \<or> (c \<noteq> CHR 0x0A \<and> line_then l s))"

definition ci_two_on_line :: "string \<Rightarrow> string \<Rightarrow> string \<Rightarrow> bool" where
  "ci_two_on_line l m s =
     list_ex (\<lambda>t. case ci_prefix l t of None \<Rightarrow> False | Some rest \<Rightarrow> line_then m rest) (suffixes s)"

definition is_digit :: "char \<Rightarrow> bool" where
  "is_digit c = (48 \<le> byte c \<and> byte c \<le> 57)"

definition is_word_char :: "char \<Rightarrow> bool" where
  "is_word_char c =
     (is_digit c \<or> (65 \<le> byte c \<and> byte c \<le> 90) \<or> (97 \<le> byte c \<and> byte c \<le> 122) \<or> c = CHR ''_'')"

text \<open>A number between two word boundaries; \<open>prev\<close> is the character before the string.\<close>

fun bounded_number :: "string list \<Rightarrow> char option \<Rightarrow> string \<Rightarrow> bool" where
  "bounded_number ns prev [] = False"
| "bounded_number ns prev (c # s) =
     ((case prev of None \<Rightarrow> True | Some p \<Rightarrow> \<not> is_word_char p) \<and>
      list_ex (\<lambda>n. HasPrefix (c # s) n \<and>
         (case drop (length n) (c # s) of [] \<Rightarrow> True | d # _ \<Rightarrow> \<not> is_word_char d)) ns
      \<or> bounded_number ns (Some c) s)"

definition http_5xx :: "string \<Rightarrow> bool" where
  "http_5xx s = list_ex (\<lambda>t. case ci_prefix ''http 5'' t of
       Some (a # b # _) \<Rightarrow> is_digit a \<and> is_digit b | _ \<Rightarrow> False) (suffixes s)"

definition gitFailureRe :: "string \<Rightarrow> bool" where
  "gitFailureRe s = ci_two_on_line ''git '' ''failed (exit_code='' s"

fun digits_value :: "nat \<Rightarrow> string \<Rightarrow> nat" where
  "digits_value n [] = n"
| "digits_value n (c # s) = digits_value (10 * n + (byte c - 48)) s"

text \<open>The first \<open>(exit_code=N)\<close>; a number beyond 64 bits does not convert.\<close>

fun gitExitCode :: "string \<Rightarrow> int option" where
  "gitExitCode [] = None"
| "gitExitCode (c # s) =
     (if HasPrefix (c # s) ''(exit_code='' then
        (let rest = drop 11 (c # s); ds = takeWhile is_digit rest
         in if ds \<noteq> [] \<and> HasPrefix (drop (length ds) rest) '')''
            then (if digits_value 0 ds < 9223372036854775808 then Some (int (digits_value 0 ds))
                  else None)
            else gitExitCode s)
      else gitExitCode s)"

definition gitStderr :: "string \<Rightarrow> string" where
  "gitStderr s = (let mark = ''; check the repository, ref and access token: ''
     in case Index s mark of None \<Rightarrow> [] | Some i \<Rightarrow> drop (i + length mark) s)"

definition transientGitRe :: "string \<Rightarrow> bool" where
  "transientGitRe s =
     (list_ex (\<lambda>l. ci_contains l s)
        [''recv failure'', ''connection reset by peer'', ''could not resolve host'',
         ''failed to connect'', ''connection timed out'', ''tls'', ''gnutls_handshake'',
         ''ssl_error'', ''rpc failed'', ''early eof'', ''remote end hung up unexpectedly'',
         ''unexpected disconnect'']
      \<or> http_5xx s \<or> bounded_number [''429'', ''503''] None s)"

definition terminalGitRe :: "string \<Rightarrow> bool" where
  "terminalGitRe s =
     (list_ex (\<lambda>l. ci_contains l s)
        [''authentication failed'', ''could not read username'', ''terminal prompts disabled'',
         ''repository not found'', ''permission denied'', ''invalid credentials'', ''pathspec'',
         ''did not match any'']
      \<or> ci_two_on_line ''fatal: repository '' '' not found'' s
      \<or> bounded_number [''403''] None s)"

definition gitOperationError :: "string \<Rightarrow> go_error \<Rightarrow> go_error" where
  "gitOperationError msg err =
     GitOperationFailedError msg (gitStderr msg) (gitExitCode msg)
       (transientGitRe msg \<and> \<not> terminalGitRe msg) (Some err)"

fun GitOperationFailed_IsRetryable :: "go_error \<Rightarrow> bool" where
  "GitOperationFailed_IsRetryable (GitOperationFailedError _ _ _ r _) = r"
| "GitOperationFailed_IsRetryable _ = False"

section \<open>Classification of RPC errors\<close>

abbreviation (input) wrap_sentinel :: "sentinel \<Rightarrow> go_error \<Rightarrow> go_error" where
  "wrap_sentinel s err \<equiv> Wrap2 (Sentinel s) err"

definition notFoundSentinel :: "string \<Rightarrow> sentinel" where
  "notFoundSentinel msg =
     (if HasPrefix msg ''egress polic'' then ErrEgressPolicyNotFound
      else if Contains msg ''template build'' then ErrTemplateBuildNotFound
      else if Contains msg ''template'' then ErrTemplateNotFound
      else if Contains msg ''registry image'' then ErrRegistryImageNotFound
      else if Contains msg ''no such file or directory'' then ErrFileNotFound
      else if Contains msg ''session'' then ErrSessionNotFound
      else if Contains msg ''snapshot'' then ErrSnapshotNotFound
      else if Contains msg ''volume'' then ErrVolumeNotFound
      else if Contains msg ''artifact'' then ErrSessionExpired
      else ErrSessionNotFound)"

definition resourceExhaustedSentinel :: "string \<Rightarrow> sentinel" where
  "resourceExhaustedSentinel msg =
     (if Contains msg ''maximum exposed ports'' then ErrPortLimitExceeded
      else if Contains msg ''volume'' then ErrVolumeLimitExceeded
      else if Contains msg ''rate limit'' then ErrRateLimited
      else if Contains msg ''capacity'' then ErrCapacityUnavailable
      else ErrQuotaExceeded)"

definition failedPreconditionError :: "string \<Rightarrow> string \<Rightarrow> go_error \<Rightarrow> go_error" where
  "failedPreconditionError raw msg err =
     (if Contains msg ''snapshot not yet durable'' then wrap_sentinel ErrSnapshotNotDurable err
      else if Contains msg ''template build already in progress'' \<or> Contains msg ''build in progress''
        then wrap_sentinel ErrTemplateBuildInProgress err
      else if Contains msg ''terminated'' then wrap_sentinel ErrSessionTerminated err
      else if gitFailureRe raw then gitOperationError raw err
      else if Contains msg ''sync_pending'' \<or> Contains msg ''sync pending''
        then wrap_sentinel ErrVolumeSyncPending err
      else if Contains msg ''volume is attached'' \<or> Contains msg ''volume is in use''
        then wrap_sentinel ErrVolumeInUse err
      else if Contains msg ''inbound access is disabled'' then wrap_sentinel ErrInboundDisabled err
      else if Contains msg ''ssh'' then wrap_sentinel ErrSSHUnavailable err
      else if Contains msg ''already running'' then wrap_sentinel ErrInvalidState err
      else if Contains msg ''not ready'' then wrap_sentinel ErrInvalidState err
      else wrap_sentinel ErrInvalidState err)"

definition mapConnectError :: "code \<Rightarrow> string \<Rightarrow> go_error \<Rightarrow> go_error" where
  "mapConnectError c raw err =
     (let msg = to_lower raw
      in case c of
           CodeUnauthenticated \<Rightarrow> wrap_sentinel ErrUnauthorized err
         | CodePermissionDenied \<Rightarrow> wrap_sentinel ErrPermissionDenied err
         | CodeNotFound \<Rightarrow> wrap_sentinel (notFoundSentinel msg) err
         | CodeAlreadyExists \<Rightarrow>
             if Contains msg ''template'' then wrap_sentinel ErrTemplateExists err else err
         | CodeDeadlineExceeded \<Rightarrow> wrap_sentinel ErrCommandTimeout err
         | CodeResourceExhausted \<Rightarrow> wrap_sentinel (resourceExhaustedSentinel msg) err
         | CodeFailedPrecondition \<Rightarrow> failedPreconditionError raw msg err
         | CodeUnavailable \<Rightarrow>
             if Contains msg ''ssh'' then wrap_sentinel ErrSSHUnavailable err else err
         | _ \<Rightarrow> err)"

definition mapError :: "go_error option \<Rightarrow> go_error option" where
  "mapError err = (case err of
       None \<Rightarrow> None
     | Some e \<Rightarrow> (case as_connect e of
           None \<Rightarrow> Some e
         | Some c \<Rightarrow>
             if isEdgeNotReady (Some e) then Some (dataPlaneNotReadyError (Some e))
             else Some (mapConnectError (connect_code c) (connect_message c) e)))"

abbreviation mapErr :: "go_error \<Rightarrow> go_error" where
  "mapErr e \<equiv> the (mapError (Some e))"

section \<open>Template submissions\<close>

fun show_subscript :: "path_subscript \<Rightarrow> string" where
  "show_subscript (SubIndex n) = ''['' @ show_nat n @ '']''"
| "show_subscript (SubStringKey k) = ''['' @ go_quote k @ '']''"
| "show_subscript (SubIntKey i) = ''['' @ show_int i @ '']''"
| "show_subscript (SubUintKey n) = ''['' @ show_nat n @ '']''"
| "show_subscript (SubBoolKey b) = ''['' @ (if b then ''true'' else ''false'') @ '']''"

definition path_element :: "string \<Rightarrow> string \<times> path_subscript option \<Rightarrow> string" where
  "path_element acc el =
     (let named = (if fst el \<noteq> [] then (if acc \<noteq> [] then acc @ ''.'' else acc) @ fst el else acc)
      in case snd el of None \<Rightarrow> named | Some sub \<Rightarrow> named @ show_subscript sub)"

definition validateFieldPathString :: "field_path option \<Rightarrow> string" where
  "validateFieldPathString path = (case path of None \<Rightarrow> [] | Some els \<Rightarrow> foldl path_element [] els)"

fun detail_violations :: "detail \<Rightarrow> violation list" where
  "detail_violations (ViolationsDetail vs) =
     map (\<lambda>(path, rule, msg). \<lparr>v_field = validateFieldPathString path, v_rule = rule, v_message = msg\<rparr>) vs"
| "detail_violations _ = []"

definition templateSpecViolationsFromError :: "go_error option \<Rightarrow> go_error option" where
  "templateSpecViolationsFromError err = (case err of
       None \<Rightarrow> None
     | Some e \<Rightarrow> (case as_connect e of
           None \<Rightarrow> None
         | Some c \<Rightarrow>
             if connect_code c \<noteq> CodeInvalidArgument then None
             else (let vs = concat (map detail_violations (connect_details c))
                   in if vs = [] then None else Some (TemplateSpecValidationError vs))))"

definition mapTemplateSpecError :: "go_error option \<Rightarrow> go_error option" where
  "mapTemplateSpecError err = (case templateSpecViolationsFromError err of
       Some v \<Rightarrow> Some v
     | None \<Rightarrow> mapError err)"

section \<open>Facts\<close>

lemma nodes_neq_Nil [simp]: "nodes e \<noteq> []"
  by (cases e) auto

lemma self_in_nodes [simp]: "e \<in> set (nodes e)"
  by (cases e) auto

lemma errors_Is_Sentinel [simp]: "errors_Is (Sentinel t) s \<longleftrightarrow> t = s"
  by (simp add: errors_Is_def)

lemma errors_Is_Wrap2 [simp]: "errors_Is (Wrap2 a b) s \<longleftrightarrow> errors_Is a s \<or> errors_Is b s"
  by (simp add: errors_Is_def)

lemma errors_Is_Wrapf [simp]: "errors_Is (Wrapf a t) s \<longleftrightarrow> errors_Is a s"
  by (simp add: errors_Is_def)

lemma errors_Is_Prefixed [simp]: "errors_Is (Prefixed p a) s \<longleftrightarrow> errors_Is a s"
  by (simp add: errors_Is_def)

lemma errors_Is_DataPlaneNotReady [simp]:
  "errors_Is (DataPlaneNotReadyError m (Some e) t) s \<longleftrightarrow> errors_Is e s"
  by (simp add: errors_Is_def)

lemma errors_Is_Git [simp]:
  "errors_Is (GitOperationFailedError m se c r (Some e)) s \<longleftrightarrow> errors_Is e s"
  by (simp add: errors_Is_def)

lemma errors_Is_carriers [simp]:
  "errors_Is (ForkFailedError i ss (Some e)) s \<longleftrightarrow> s = ErrForkFailed \<or> errors_Is e s"
  "errors_Is (WaitReadyFailedError i (Some e)) s \<longleftrightarrow> s = ErrWaitReadyFailed \<or> errors_Is e s"
  "errors_Is (TemplateRuntimeFailedError i r (Some e)) s \<longleftrightarrow>
     s = ErrTemplateRuntimeFailed \<or> errors_Is e s"
  by (auto simp: errors_Is_def)

lemma as_connect_carriers [simp]:
  "as_connect (ForkFailedError i ss (Some e)) = as_connect e"
  "as_connect (WaitReadyFailedError i (Some e)) = as_connect e"
  "as_connect (TemplateRuntimeFailedError i r (Some e)) = as_connect e"
  by (simp_all add: as_connect_def)

lemma as_connect_SomeD: "as_connect e = Some c \<Longrightarrow> is_connect c \<and> c \<in> set (nodes e)"
  unfolding as_connect_def by (metis find_Some_iff nth_mem)

lemma as_connect_is_connect [simp]: "is_connect e \<Longrightarrow> as_connect e = Some e"
  by (cases e) (auto simp: as_connect_def)

lemma find_append:
  "List.find p (xs @ ys) = (case List.find p xs of None \<Rightarrow> List.find p ys | Some x \<Rightarrow> Some x)"
  by (induction xs) auto

lemma as_connect_Wrap2 [simp]:
  "as_connect (Wrap2 a b) = (case as_connect a of None \<Rightarrow> as_connect b | Some c \<Rightarrow> Some c)"
  unfolding as_connect_def by (simp add: find_append)

lemma as_connect_Sentinel [simp]: "as_connect (Sentinel s) = None"
  by (simp add: as_connect_def)

lemma as_connect_wrap_sentinel: "as_connect (Wrap2 (Sentinel s) e) = as_connect e"
  by simp

lemma as_connect_Wrapf [simp]: "as_connect (Wrapf a t) = as_connect a"
  by (simp add: as_connect_def)

lemma as_connect_Prefixed [simp]: "as_connect (Prefixed p a) = as_connect a"
  by (simp add: as_connect_def)

lemma as_connect_DataPlaneNotReady [simp]:
  "as_connect (DataPlaneNotReadyError m (Some e) t) = as_connect e"
  by (simp add: as_connect_def)

lemma as_connect_Git [simp]: "as_connect (GitOperationFailedError m se c r (Some e)) = as_connect e"
  by (simp add: as_connect_def)

lemma CodeOf_cong: "as_connect a = as_connect b \<Longrightarrow> CodeOf a = CodeOf b"
  by (simp add: CodeOf_def)

text \<open>Every branch of the mapping keeps the error it maps below the result.\<close>

definition error_shape :: "string \<Rightarrow> (go_error \<Rightarrow> go_error) \<Rightarrow> bool" where
  "error_shape raw f \<longleftrightarrow> (\<exists>s. \<forall>e. f e = wrap_sentinel s e) \<or> (\<forall>e. f e = e) \<or>
     (\<forall>e. f e = gitOperationError raw e)"

lemma shape_wrap: "error_shape raw (\<lambda>e. wrap_sentinel s e)"
  and shape_id: "error_shape raw (\<lambda>e. e)"
  and shape_git: "error_shape raw (\<lambda>e. gitOperationError raw e)"
  by (auto simp: error_shape_def)

lemma shape_if: "error_shape raw f \<Longrightarrow> error_shape raw g \<Longrightarrow>
    error_shape raw (\<lambda>e. if b then f e else g e)"
  by (cases b) simp_all

lemmas shapes = shape_wrap shape_id shape_git shape_if

lemma failedPrecondition_shape: "error_shape raw (\<lambda>e. failedPreconditionError raw msg e)"
  unfolding failedPreconditionError_def by (intro shapes)

lemma mapConnectError_shape: "error_shape raw (\<lambda>e. mapConnectError c raw e)"
  unfolding mapConnectError_def Let_def
  by (cases c; simp only: code.case) (intro shapes failedPrecondition_shape)+

lemma mapConnectError_forms:
  "(\<exists>s. mapConnectError c raw e = wrap_sentinel s e) \<or> mapConnectError c raw e = e \<or>
   mapConnectError c raw e = gitOperationError raw e"
  using mapConnectError_shape [of raw c] unfolding error_shape_def by blast

lemma mapError_forms:
  obtains "mapError (Some e) = Some e"
  | s where "mapError (Some e) = Some (wrap_sentinel s e)"
  | "mapError (Some e) = Some (dataPlaneNotReadyError (Some e))"
  | raw where "mapError (Some e) = Some (gitOperationError raw e)"
  using mapConnectError_forms
  by (fastforce simp: mapError_def split: option.splits if_splits)

lemma mapError_Some [simp]: "\<exists>e'. mapError (Some e) = Some e'"
  by (rule mapError_forms [of e]) auto

lemma mapError_not_None [simp]: "mapError (Some e) \<noteq> None" "None \<noteq> mapError (Some e)"
proof -
  obtain e' where "mapError (Some e) = Some e'" using mapError_Some by blast
  then show "mapError (Some e) \<noteq> None" and "None \<noteq> mapError (Some e)" by simp_all
qed

lemma mapError_None [simp]: "mapError None = None"
  by (simp add: mapError_def)

lemma mapErr_as_connect [simp]: "as_connect (mapErr e) = as_connect e"
  by (rule mapError_forms [of e]) (auto simp: dataPlaneNotReadyError_def gitOperationError_def)

lemma mapErr_Is: "errors_Is e s \<Longrightarrow> errors_Is (mapErr e) s"
  by (rule mapError_forms [of e]) (auto simp: dataPlaneNotReadyError_def gitOperationError_def)

lemma mapErr_CodeOf [simp]: "CodeOf (mapErr e) = CodeOf e"
  by (rule CodeOf_cong) simp

lemma mapErr_connect:
  assumes "as_connect e = Some c" and "\<not> isEdgeNotReady (Some e)"
  shows "mapErr e = mapConnectError (connect_code c) (connect_message c) e"
  using assms by (simp add: mapError_def)

lemma not_edge_code: "CodeOf e \<noteq> CodeUnimplemented \<Longrightarrow> \<not> isEdgeNotReady (Some e)"
  by (simp add: isEdgeNotReady_def)

lemma mapErr_no_edge:
  assumes "CodeOf e \<noteq> CodeUnimplemented"
  shows "\<not> isEdgeNotReady (Some e)" "\<not> isEdgeNotReady (Some (mapErr e))"
proof -
  show "\<not> isEdgeNotReady (Some e)" using assms by (rule not_edge_code)
  show "\<not> isEdgeNotReady (Some (mapErr e))" using assms by (intro not_edge_code) (simp only: mapErr_CodeOf not_False_eq_True)
qed

lemma mapErr_unimplemented:
  assumes "CodeOf e = CodeUnimplemented"
  shows "mapErr e = e \<or> mapErr e = dataPlaneNotReadyError (Some e)"
  using assms
  by (cases "as_connect e") (auto simp: mapError_def CodeOf_def mapConnectError_def)

lemma mapErr_unimplemented_id:
  assumes "CodeOf e = CodeUnimplemented" and "\<not> isEdgeNotReady (Some e)"
  shows "mapErr e = e"
  using assms by (cases "as_connect e") (auto simp: mapError_def CodeOf_def mapConnectError_def)

lemma dataPlaneNotReadyError_not_edge:
  "\<not> isEdgeNotReady (Some (dataPlaneNotReadyError (Some e)))"
  by (simp add: isEdgeNotReady_def dataPlaneNotReadyError_def DataPlaneNotReadyError_Error_def)

lemma shape_Is: "error_shape raw f \<Longrightarrow> errors_Is (f (f e)) s = errors_Is (f e) s"
  unfolding error_shape_def by (elim disjE exE) (auto simp: gitOperationError_def)

section \<open>Properties\<close>



text \<open>mapping an error twice classifies it as mapping it once: layers that each call
  \<open>mapError\<close> (a wait loop over \<open>Get\<close>, for example) agree on every sentinel and on the code.\<close>

theorem mapError_twice:
  "errors_Is (the (mapError (mapError (Some e)))) s = errors_Is (the (mapError (Some e))) s \<and>
   CodeOf (the (mapError (mapError (Some e)))) = CodeOf e"
proof -
  obtain m where m: "mapError (Some e) = Some m" using mapError_Some by blast
  have me: "m = mapErr e" by (simp add: m)
  have "errors_Is (mapErr m) s = errors_Is m s"
  proof (cases "CodeOf e = CodeUnimplemented")
    case True
    then have code: "CodeOf m = CodeUnimplemented" by (simp only: me mapErr_CodeOf)
    have "mapErr m = m"
    proof (cases "isEdgeNotReady (Some m)")
      case edge: True
      then have "m \<noteq> dataPlaneNotReadyError (Some e)" using dataPlaneNotReadyError_not_edge by blast
      then have "m = e" using mapErr_unimplemented [OF True] by (simp only: me) blast
      then show ?thesis by (simp only: me [symmetric])
    next
      case False
      then show ?thesis by (rule mapErr_unimplemented_id [OF code])
    qed
    then show ?thesis by simp
  next
    case False
    show ?thesis
    proof (cases "as_connect e")
      case None
      then show ?thesis by (simp add: me mapError_def)
    next
      case (Some c)
      then have "as_connect m = Some c" by (simp only: me mapErr_as_connect)
      then have mm: "mapErr m = mapConnectError (connect_code c) (connect_message c) m"
        using mapErr_no_edge(2) [OF False] unfolding me by (rule mapErr_connect)
      have m_eq: "m = mapConnectError (connect_code c) (connect_message c) e"
        using mapErr_connect [OF Some mapErr_no_edge(1) [OF False]] unfolding me .
      show ?thesis
        unfolding mm unfolding m_eq by (rule shape_Is [OF mapConnectError_shape])
    qed
  qed
  moreover have "CodeOf (mapErr m) = CodeOf e" by (simp only: mapErr_CodeOf me)
  ultimately show ?thesis by (simp only: m option.sel simp_thms)
qed

text \<open>A missing egress policy is reported as such whatever its name is: the message ends
  with caller-chosen names, and no word in them (template, session, volume) selects another
  not-found sentinel.\<close>

theorem egress_not_found_by_prefix:
  assumes "HasPrefix (to_lower m) ''egress polic''"
  shows "errors_Is (the (mapError (Some (ConnectError CodeNotFound m t ds None)))) s
    \<longleftrightarrow> s = ErrEgressPolicyNotFound"
proof -
  let ?e = "ConnectError CodeNotFound m t ds None"
  have "mapErr ?e = wrap_sentinel ErrEgressPolicyNotFound ?e"
    using assms by (simp add: mapError_def isEdgeNotReady_def CodeOf_def mapConnectError_def notFoundSentinel_def)
  then show ?thesis by (auto simp: errors_Is_def)
qed

theorem egress_not_found_by_prefix_witness:
  "errors_Is (the (mapError (Some (ConnectError CodeNotFound ''Egress policies not found: session''
      ''not_found: Egress policies not found: session'' [] None)))) ErrEgressPolicyNotFound"
proof -
  have "HasPrefix (to_lower ''Egress policies not found: session'') ''egress polic''"
    by code_simp
  then show ?thesis by (simp only: egress_not_found_by_prefix)
qed

end
