(* ===== verification/ClientInfo.thy ===== *)
theory ClientInfo
  imports GoStrings
begin

text \<open>
  The client metadata sent with every request (\<open>internal/clientinfo\<close>). What
  \<open>debug.ReadBuildInfo\<close> and \<open>runtime.Version\<close> report is an argument. Header names are the
  lower-case literals of the source; \<open>http.Header.Set\<close> replaces the values of a name.
\<close>

type_synonym headers = "(string, string) gomap"

record module_dep =
  md_path :: string
  md_version :: string
  md_replaced :: bool

record build_info =
  bi_path :: string
  bi_version :: string
  bi_deps :: "module_dep list"

definition modulePath :: string where
  "modulePath = ''github.com/LuxorLabs/tenki-sdk-go/sandbox''"

fun scan_deps :: "string \<Rightarrow> module_dep list \<Rightarrow> string option" where
  "scan_deps version [] = Some version"
| "scan_deps version (d # ds) =
     (if md_path d = modulePath
      then if md_replaced d then None else scan_deps (md_version d) ds
      else scan_deps version ds)"

definition moduleVersion :: "build_info option \<Rightarrow> string" where
  "moduleVersion info = (case info of
     None \<Rightarrow> ''unknown''
   | Some i \<Rightarrow>
       (case scan_deps (if bi_path i = modulePath then bi_version i else []) (bi_deps i) of
          None \<Rightarrow> ''unknown''
        | Some version \<Rightarrow>
            if version = [] \<or> version = ''(devel)'' then ''unknown'' else TrimPrefix version ''v''))"

definition goRuntime :: "string \<Rightarrow> string" where
  "goRuntime version =
     ''go/'' @ fst (Cut (fst (Cut (TrimPrefix version ''go'') '' '')) ''-X:'')"

definition client_headers :: "build_info option \<Rightarrow> string \<Rightarrow> headers" where
  "client_headers info version =
     [(''x-tenki-client-family'', ''go''), (''x-tenki-client-version'', moduleVersion info),
      (''x-tenki-client-generation'', ''1''), (''x-tenki-client-runtime'', goRuntime version)]"

definition SetHeaders :: "build_info option \<Rightarrow> string \<Rightarrow> headers \<Rightarrow> headers" where
  "SetHeaders info version h = map_put_all (client_headers info version) h"

text \<open>The headers of a control-plane request (\<open>sandbox.go\<close>): the auth token goes there only.\<close>

definition setClientAuthHeaders :: "build_info option \<Rightarrow> string \<Rightarrow> headers \<Rightarrow> string \<Rightarrow> headers" where
  "setClientAuthHeaders info version header authToken =
     SetHeaders info version (map_put ''authorization'' (''Bearer '' @ authToken) header)"

lemma wf_client_headers [simp]: "wf_map (client_headers info version)"
  by (simp add: client_headers_def wf_map_def)

lemma SetHeaders_lookup:
  "map_of (SetHeaders info version h) k =
     (case map_of (client_headers info version) k of None \<Rightarrow> map_of h k | Some v \<Rightarrow> Some v)"
  by (simp add: SetHeaders_def lookup_put_all map_add_def)

lemma SetHeaders_other [simp]:
  "map_of (client_headers info version) k = None \<Longrightarrow> map_of (SetHeaders info version h) k = map_of h k"
  by (simp add: SetHeaders_lookup)

end
