(* ===== verification/Resource_Limits.thy ===== *)
theory Resource_Limits
  imports ErrorMap Complex_Main
begin

text \<open>
  The small self-contained rules of the SDK: resource limits (resources.go), disk usage (disk.go),
  the polling schedule (poll.go), command results (result.go) and page tokens (pagination.go) with
  the loop every listing call runs over them.
\<close>

section \<open>Resource limits\<close>

definition minCPUCores :: int where "minCPUCores = 1"
definition maxCPUCores :: int where "maxCPUCores = 128"
definition minCreateMemoryMB :: int where "minCreateMemoryMB = 128"
definition minProvisionMemoryMB :: int where "minProvisionMemoryMB = 512"
definition maxMemoryMB :: int where "maxMemoryMB = 524288"
definition minDiskSizeGB :: int where "minDiskSizeGB = 5"
definition maxDiskSizeGB :: int where "maxDiskSizeGB = 100"

lemmas limit_defs = minCPUCores_def maxCPUCores_def minCreateMemoryMB_def minProvisionMemoryMB_def
  maxMemoryMB_def minDiskSizeGB_def maxDiskSizeGB_def

definition invalidResource :: "string \<Rightarrow> go_error" where
  "invalidResource msg = Wrapf (Sentinel ErrInvalidResourceConfig) ('': '' @ msg)"

definition validateCPUCores :: "int \<Rightarrow> go_error option" where
  "validateCPUCores cpuCores =
     (if cpuCores \<ge> minCPUCores \<and> cpuCores \<le> maxCPUCores then None
      else Some (invalidResource (''cpu_cores must be between '' @ show_int minCPUCores
                   @ '' and '' @ show_int maxCPUCores)))"

definition validateMemoryMB :: "int \<Rightarrow> int \<Rightarrow> go_error option" where
  "validateMemoryMB memoryMB minMemoryMB =
     (if memoryMB < minMemoryMB \<or> memoryMB > maxMemoryMB then
        Some (invalidResource (''memory_mb must be between '' @ show_int minMemoryMB
                @ '' and '' @ show_int maxMemoryMB))
      else if memoryMB mod 2 \<noteq> 0 then
        Some (invalidResource ''memory_mb must be aligned to 2 MiB'')
      else None)"

definition validateDiskSizeGB :: "int \<Rightarrow> go_error option" where
  "validateDiskSizeGB diskSizeGB =
     (if diskSizeGB \<ge> minDiskSizeGB \<and> diskSizeGB \<le> maxDiskSizeGB then None
      else Some (invalidResource (''disk_size_gb must be between '' @ show_int minDiskSizeGB
                   @ '' and '' @ show_int maxDiskSizeGB)))"

definition ValidateCreateResources :: "int option \<Rightarrow> int option \<Rightarrow> int option \<Rightarrow> go_error option" where
  "ValidateCreateResources cpuCores memoryMB diskSizeGB = first_error
     [(case cpuCores of None \<Rightarrow> None | Some c \<Rightarrow> validateCPUCores c),
      (case memoryMB of None \<Rightarrow> None | Some m \<Rightarrow> validateMemoryMB m minCreateMemoryMB),
      (case diskSizeGB of None \<Rightarrow> None | Some d \<Rightarrow> validateDiskSizeGB d)]"

record template_resources =
  tr_CPUCores :: int
  tr_MemoryMB :: int
  tr_DiskSizeGB :: int

definition validateTemplateResources :: "template_resources option \<Rightarrow> go_error option" where
  "validateTemplateResources resources = (case resources of
       None \<Rightarrow> None
     | Some r \<Rightarrow> first_error
         [(if tr_CPUCores r \<noteq> 0 then validateCPUCores (tr_CPUCores r) else None),
          (if tr_MemoryMB r \<noteq> 0 then validateMemoryMB (tr_MemoryMB r) minProvisionMemoryMB else None),
          (if tr_DiskSizeGB r \<noteq> 0 then validateDiskSizeGB (tr_DiskSizeGB r) else None)])"

lemma validateCPUCores_None [simp]: "validateCPUCores c = None \<longleftrightarrow> 1 \<le> c \<and> c \<le> 128"
  by (simp add: validateCPUCores_def limit_defs)

lemma validateMemoryMB_None [simp]:
  "validateMemoryMB m lo = None \<longleftrightarrow> lo \<le> m \<and> m \<le> 524288 \<and> even m"
  by (auto simp: validateMemoryMB_def limit_defs even_iff_mod_2_eq_zero)

lemma validateDiskSizeGB_None [simp]: "validateDiskSizeGB d = None \<longleftrightarrow> 5 \<le> d \<and> d \<le> 100"
  by (simp add: validateDiskSizeGB_def limit_defs)

lemma invalidResource_Is [simp]: "errors_Is (invalidResource t) s \<longleftrightarrow> s = ErrInvalidResourceConfig"
  by (auto simp: invalidResource_def)

lemma resource_errors:
  "validateCPUCores c = Some e \<Longrightarrow> errors_Is e ErrInvalidResourceConfig"
  "validateMemoryMB m lo = Some e \<Longrightarrow> errors_Is e ErrInvalidResourceConfig"
  "validateDiskSizeGB d = Some e \<Longrightarrow> errors_Is e ErrInvalidResourceConfig"
  by (auto simp: validateCPUCores_def validateMemoryMB_def validateDiskSizeGB_def split: if_splits)

lemma ValidateCreateResources_None:
  "ValidateCreateResources c m d = None \<longleftrightarrow>
     (case c of None \<Rightarrow> True | Some n \<Rightarrow> 1 \<le> n \<and> n \<le> 128) \<and>
     (case m of None \<Rightarrow> True | Some n \<Rightarrow> 128 \<le> n \<and> n \<le> 524288 \<and> even n) \<and>
     (case d of None \<Rightarrow> True | Some n \<Rightarrow> 5 \<le> n \<and> n \<le> 100)"
  by (auto simp: ValidateCreateResources_def minCreateMemoryMB_def split: option.splits)

lemma validateTemplateResources_None:
  "validateTemplateResources (Some r) = None \<longleftrightarrow>
     (tr_CPUCores r = 0 \<or> 1 \<le> tr_CPUCores r \<and> tr_CPUCores r \<le> 128) \<and>
     (tr_MemoryMB r = 0 \<or> 512 \<le> tr_MemoryMB r \<and> tr_MemoryMB r \<le> 524288 \<and> even (tr_MemoryMB r)) \<and>
     (tr_DiskSizeGB r = 0 \<or> 5 \<le> tr_DiskSizeGB r \<and> tr_DiskSizeGB r \<le> 100)"
  by (auto simp: validateTemplateResources_def minProvisionMemoryMB_def)

lemma ValidateCreateResources_error:
  "ValidateCreateResources c m d = Some e \<Longrightarrow> errors_Is e ErrInvalidResourceConfig"
  unfolding ValidateCreateResources_def
  by (drule first_error_SomeD) (auto dest: resource_errors [OF sym] split: option.splits)

lemma validateTemplateResources_error:
  "validateTemplateResources r = Some e \<Longrightarrow> errors_Is e ErrInvalidResourceConfig"
  unfolding validateTemplateResources_def
  by (cases r) (auto dest!: first_error_SomeD dest: resource_errors [OF sym] split: if_splits)

section \<open>Command results\<close>

datatype command_status =
    CommandStatusUnspecified | CommandStatusQueued | CommandStatusRunning
  | CommandStatusSucceeded | CommandStatusFailed | CommandStatusTimedOut

fun IsSuccess :: "command_status \<Rightarrow> bool" where
  "IsSuccess s = (s = CommandStatusSucceeded)"

fun IsFailed :: "command_status \<Rightarrow> bool" where
  "IsFailed s = (s = CommandStatusFailed)"

fun IsTimedOut :: "command_status \<Rightarrow> bool" where
  "IsTimedOut s = (s = CommandStatusTimedOut)"

record output_chunk =
  out_Data :: string
  out_IsStderr :: bool
  out_IsFinal :: bool

section \<open>Disk usage\<close>

record disk_usage =
  TotalBytes :: int
  FreeBytes :: int
  AvailableBytes :: int
  MinAvailableBytes :: int

definition diskExhaustionAvailableBytes :: int where
  "diskExhaustionAvailableBytes = 16 * 2 ^ 20"

definition Known :: "disk_usage \<Rightarrow> bool" where
  "Known d = (TotalBytes d > 0)"

definition Exhausted :: "disk_usage \<Rightarrow> bool" where
  "Exhausted d = (Known d \<and> MinAvailableBytes d < diskExhaustionAvailableBytes)"

definition UsedBytes :: "disk_usage \<Rightarrow> int" where
  "UsedBytes d =
     (if \<not> Known d then 0
      else (let free = (if FreeBytes d \<le> 0 then AvailableBytes d else FreeBytes d)
            in wrap64 (TotalBytes d - free)))"

text \<open>The quotient is exact here; the rounding of the floating-point result is not modelled.\<close>

definition UsedPercent :: "disk_usage \<Rightarrow> rat" where
  "UsedPercent d =
     (let used = UsedBytes d; usable = wrap64 (used + AvailableBytes d)
      in if usable \<le> 0 then 0 else of_int used / of_int usable * 100)"

definition sane_disk :: "disk_usage \<Rightarrow> bool" where
  "sane_disk d \<longleftrightarrow> 0 \<le> AvailableBytes d \<and> AvailableBytes d \<le> FreeBytes d \<and>
     FreeBytes d \<le> TotalBytes d \<and> TotalBytes d < 9223372036854775808"

lemma UsedBytes_sane:
  assumes "sane_disk d" and "0 < FreeBytes d"
  shows "UsedBytes d = TotalBytes d - FreeBytes d"
  using assms by (auto simp: UsedBytes_def Known_def sane_disk_def Let_def wrap64_id)

lemma UsedPercent_bounds_aux:
  fixes u a :: int
  assumes "0 \<le> u" "0 \<le> a" "0 < u + a"
  shows "0 \<le> (of_int u / of_int (u + a) * 100 :: rat) \<and> (of_int u / of_int (u + a) * 100 :: rat) \<le> 100"
proof -
  have "(of_int u :: rat) \<le> of_int (u + a)" using assms by (simp only: of_int_le_iff)
  moreover have "(0 :: rat) < of_int (u + a)" using assms(3) by (simp only: of_int_0_less_iff)
  ultimately have "of_int u / (of_int (u + a) :: rat) \<le> 1" by (simp add: divide_le_eq_1)
  moreover have "0 \<le> of_int u / (of_int (u + a) :: rat)" using assms by simp
  moreover have "(0 :: rat) \<le> q \<Longrightarrow> q \<le> 1 \<Longrightarrow> 0 \<le> q * 100 \<and> q * 100 \<le> 100" for q by simp
  ultimately show ?thesis by blast
qed

section \<open>Polling schedule\<close>

definition pollBackoff :: "nat \<Rightarrow> duration" where
  "pollBackoff attempt =
     (if attempt < 3 then 500 * Millisecond
      else if attempt < 8 then 100 * Millisecond
      else 1 * Second)"

lemma pollBackoff_bounds: "100 * Millisecond \<le> pollBackoff n \<and> pollBackoff n \<le> 1 * Second"
  by (simp add: pollBackoff_def)

section \<open>Pagination\<close>

definition automaticPageSize :: int where "automaticPageSize = 100"

definition advancePageToken :: "string \<Rightarrow> string \<Rightarrow> (go_error, string) result" where
  "advancePageToken current next =
     (let next = TrimSpace next
      in if next \<noteq> [] \<and> next = current then Inl (Sentinel ErrPaginationStalled) else Inr next)"

text \<open>
  The loop of every listing call: fetch a page with the current token, append its items, advance.
  The server is any state machine that answers a token with a page or an error. The loop stops
  only when the server ends the listing, fails, or repeats a token, so it may run forever:
  \<open>None\<close>.
\<close>

partial_function (option) page_loop ::
  "('s \<Rightarrow> string \<Rightarrow> 's \<times> (go_error, 'a list \<times> string) result) \<Rightarrow> 's \<Rightarrow> string \<Rightarrow> 'a list
    \<Rightarrow> (go_error, 'a list) result option" where
  "page_loop fetch s tok acc =
     (case fetch s tok of
        (s', Inl e) \<Rightarrow> Some (Inl (mapErr e))
      | (s', Inr (items, next)) \<Rightarrow>
          (case advancePageToken tok next of
             Inl e \<Rightarrow> Some (Inl e)
           | Inr tok' \<Rightarrow>
               if tok' = [] then Some (Inr (acc @ items))
               else page_loop fetch s' tok' (acc @ items)))"

text \<open>A server that serves a given sequence of pages and then ends the listing.\<close>

fun serves :: "('s \<Rightarrow> string \<Rightarrow> 's \<times> (go_error, 'a list \<times> string) result) \<Rightarrow> 's \<Rightarrow> string
    \<Rightarrow> 'a list list \<Rightarrow> bool" where
  "serves fetch s tok [] = False"
| "serves fetch s tok (p # ps) =
     (case fetch s tok of
        (s', Inl e) \<Rightarrow> False
      | (s', Inr (items, next)) \<Rightarrow>
          items = p \<and>
          (if ps = [] then TrimSpace next = []
           else TrimSpace next \<noteq> [] \<and> TrimSpace next \<noteq> tok \<and> serves fetch s' (TrimSpace next) ps))"

lemma page_loop_serves:
  "serves fetch s tok ps \<Longrightarrow> page_loop fetch s tok acc = Some (Inr (acc @ concat ps))"
proof (induction ps arbitrary: s tok acc)
  case (Cons p ps)
  then show ?case
    by (subst page_loop.simps)
      (auto simp: advancePageToken_def Let_def split: prod.splits sum.splits if_splits)
qed simp

section \<open>Properties\<close>

text \<open>The resource check accepts exactly the documented ranges: 1 to 128 cores, an even
  128 to 524288 MiB of memory, 5 to 100 GiB of disk, each only when given; every rejection
  matches \<open>ErrInvalidResourceConfig\<close>.\<close>

theorem create_resources_exact:
  "(ValidateCreateResources c m d = None \<longleftrightarrow>
     (case c of None \<Rightarrow> True | Some n \<Rightarrow> 1 \<le> n \<and> n \<le> 128) \<and>
     (case m of None \<Rightarrow> True | Some n \<Rightarrow> 128 \<le> n \<and> n \<le> 524288 \<and> even n) \<and>
     (case d of None \<Rightarrow> True | Some n \<Rightarrow> 5 \<le> n \<and> n \<le> 100)) \<and>
   (case ValidateCreateResources c m d of None \<Rightarrow> True
      | Some e \<Rightarrow> errors_Is e ErrInvalidResourceConfig)"
  using ValidateCreateResources_None ValidateCreateResources_error
  by (auto split: option.split)

text \<open>For consistent disk statistics the usage is between 0 and 100 percent, the used and
  available bytes never exceed the total, and a guest too old to report free bytes only has its
  usage overstated, never understated.\<close>

theorem disk_usage_bounds:
  assumes "sane_disk d" and "0 < FreeBytes d"
  shows "0 \<le> UsedBytes d \<and> UsedBytes d + AvailableBytes d \<le> TotalBytes d \<and>
    0 \<le> UsedPercent d \<and> UsedPercent d \<le> 100 \<and>
    UsedBytes d \<le> UsedBytes (d\<lparr>FreeBytes := 0\<rparr>)"
proof -
  have used: "UsedBytes d = TotalBytes d - FreeBytes d" using assms by (rule UsedBytes_sane)
  have w: "wrap64 (UsedBytes d + AvailableBytes d) = UsedBytes d + AvailableBytes d"
    using assms by (simp add: used wrap64_id sane_disk_def)
  have "0 \<le> UsedPercent d \<and> UsedPercent d \<le> 100"
  proof (cases "UsedBytes d + AvailableBytes d \<le> 0")
    case True
    then show ?thesis by (simp add: UsedPercent_def w Let_def)
  next
    case False
    have "0 \<le> UsedBytes d" and "0 \<le> AvailableBytes d"
      using assms by (simp_all add: used sane_disk_def)
    with False show ?thesis
      using UsedPercent_bounds_aux [of "UsedBytes d" "AvailableBytes d"]
      by (simp only: UsedPercent_def w Let_def) simp
  qed
  moreover have "UsedBytes (d\<lparr>FreeBytes := 0\<rparr>) = TotalBytes d - AvailableBytes d"
    using assms by (auto simp: UsedBytes_def Known_def sane_disk_def Let_def wrap64_id)
  ultimately show ?thesis using assms by (simp add: used sane_disk_def)
qed

theorem disk_usage_bounds_witness:
  "UsedBytes \<lparr>TotalBytes = 1000, FreeBytes = 300, AvailableBytes = 250, MinAvailableBytes = 10\<rparr>
     + 250 \<le> 1000"
proof -
  let ?d = "\<lparr>TotalBytes = 1000, FreeBytes = 300, AvailableBytes = 250, MinAvailableBytes = 10\<rparr>"
  have "sane_disk ?d" and "0 < FreeBytes ?d" by (simp_all add: sane_disk_def)
  from disk_usage_bounds [OF this] show ?thesis by simp
qed

text \<open>A listing over a server that serves a finite sequence of pages returns, and returns
  every item of every page in order, whatever the tokens look like.\<close>

theorem listing_complete:
  assumes "serves fetch s [] ps"
  shows "page_loop fetch s [] [] = Some (Inr (concat ps))"
  using page_loop_serves [OF assms] by simp

theorem listing_complete_witness:
  "page_loop (\<lambda>n tok. (Suc n, Inr ([n], if n < 2 then '' p'' @ show_nat n else ''''))) 0 [] []
     = Some (Inr [0, 1, 2])"
proof -
  let ?f = "\<lambda>n tok. (Suc n, Inr ([n], if n < 2 then '' p'' @ show_nat n else ''''))
     :: nat \<times> (go_error, nat list \<times> string) result"
  have "serves ?f 0 [] [[0], [1], [2]]" by code_simp
  from listing_complete [OF this] show ?thesis by simp
qed

text \<open>A server that answers a page with the token it was asked for makes the listing fail
  with \<open>ErrPaginationStalled\<close> instead of looping.\<close>

theorem listing_stall_detected:
  assumes "fetch s tok = (s', Inr (items, next))" and "TrimSpace next = tok" and "tok \<noteq> []"
  shows "page_loop fetch s tok acc = Some (Inl (Sentinel ErrPaginationStalled))"
  using assms by (subst page_loop.simps) (simp add: advancePageToken_def)

theorem listing_stall_detected_witness:
  "page_loop (\<lambda>s tok. (s, Inr ([1 :: nat], ''p1''))) () ''p1'' []
     = Some (Inl (Sentinel ErrPaginationStalled))"
  by (rule listing_stall_detected) (simp_all, code_simp)

end
