(* ===== verification/Options.thy ===== *)
theory Options
  imports TemplateSpec Resource_Limits
begin

text \<open>
  The functional options (\<open>options.go\<close>, \<open>secret_policies.go\<close> and the option types of
  \<open>tailnet.go\<close>): the configuration records and one function per option on the configuration it
  changes. An option that several requests accept is one function per configuration. A pointer to
  a value is an \<open>option\<close>; a map is an association list, nil being empty. The Unicode tables behind
  \<open>strings.ToLower\<close> are not modelled: tag normalisation takes the case mapping as the parameter
  \<open>lower\<close>. The clock is an argument where an option reads it.
\<close>

section \<open>Constants\<close>

definition defaultBaseURL :: string where "defaultBaseURL = ''https://api.tenki.cloud''"
definition DefaultSessionCreateTimeout :: duration where "DefaultSessionCreateTimeout = 3 * Minute"
definition DefaultTemplateSpecCreateTimeout :: duration where
  "DefaultTemplateSpecCreateTimeout = 120 * Minute"
definition DefaultRestoreTimeout :: duration where "DefaultRestoreTimeout = 5 * Minute"
definition DefaultVolumeDetachTimeout :: duration where "DefaultVolumeDetachTimeout = 2 * Minute"
definition defaultClientTimeout :: duration where
  "defaultClientTimeout = DefaultRestoreTimeout + 30 * Second"
definition defaultDataPlaneReadyTimeout :: duration where
  "defaultDataPlaneReadyTimeout = 60 * Second"
definition defaultCPUCores :: int where "defaultCPUCores = 2"
definition defaultMemoryMB :: int where "defaultMemoryMB = 4096"
definition defaultDiskSizeGB :: int where "defaultDiskSizeGB = 5"

lemmas timeout_defs =
  DefaultSessionCreateTimeout_def DefaultTemplateSpecCreateTimeout_def DefaultRestoreTimeout_def
  DefaultVolumeDetachTimeout_def defaultClientTimeout_def defaultDataPlaneReadyTimeout_def

section \<open>Client options\<close>

text \<open>
  The HTTP client the caller supplies is known by its timeout; the connect options and the warning
  handler are opaque values of type \<open>'o\<close>.
\<close>

record 'o client_config =
  cl_baseURL :: string
  cl_gatewayAddress :: string
  cl_authToken :: string
  cl_httpClient :: "duration option"
  cl_httpTimeout :: duration
  cl_dataPlaneReadyTimeout :: duration
  cl_connectOpts :: "'o list"
  cl_warningHandler :: "'o option"

definition defaultClientConfig :: "'o option \<Rightarrow> 'o client_config" where
  "defaultClientConfig defaultWarningHandler =
     \<lparr>cl_baseURL = defaultBaseURL, cl_gatewayAddress = [], cl_authToken = [], cl_httpClient = None,
      cl_httpTimeout = defaultClientTimeout,
      cl_dataPlaneReadyTimeout = defaultDataPlaneReadyTimeout, cl_connectOpts = [],
      cl_warningHandler = defaultWarningHandler\<rparr>"

definition WithWarningHandler :: "'o option \<Rightarrow> 'o client_config \<Rightarrow> 'o client_config" where
  "WithWarningHandler handler cfg = cfg\<lparr>cl_warningHandler := handler\<rparr>"

definition WithBaseURL :: "string \<Rightarrow> 'o client_config \<Rightarrow> 'o client_config" where
  "WithBaseURL baseURL cfg = cfg\<lparr>cl_baseURL := baseURL\<rparr>"

definition WithGatewayAddress :: "string \<Rightarrow> 'o client_config \<Rightarrow> 'o client_config" where
  "WithGatewayAddress addr cfg = cfg\<lparr>cl_gatewayAddress := addr\<rparr>"

definition WithAuthToken :: "string \<Rightarrow> 'o client_config \<Rightarrow> 'o client_config" where
  "WithAuthToken token cfg = cfg\<lparr>cl_authToken := token\<rparr>"

definition WithHTTPClient :: "duration option \<Rightarrow> 'o client_config \<Rightarrow> 'o client_config" where
  "WithHTTPClient client cfg = cfg\<lparr>cl_httpClient := client\<rparr>"

definition WithHTTPTimeout :: "duration \<Rightarrow> 'o client_config \<Rightarrow> 'o client_config" where
  "WithHTTPTimeout timeout cfg = cfg\<lparr>cl_httpTimeout := timeout\<rparr>"

definition WithDataPlaneReadyTimeout :: "duration \<Rightarrow> 'o client_config \<Rightarrow> 'o client_config" where
  "WithDataPlaneReadyTimeout timeout cfg =
     (if 0 < timeout then cfg\<lparr>cl_dataPlaneReadyTimeout := timeout\<rparr> else cfg)"

definition WithConnectClientOptions :: "'o list \<Rightarrow> 'o client_config \<Rightarrow> 'o client_config" where
  "WithConnectClientOptions opts cfg = cfg\<lparr>cl_connectOpts := cl_connectOpts cfg @ opts\<rparr>"

section \<open>Create options\<close>

record volume_mount =
  vm_VolumeID :: string
  vm_MountPath :: string
  vm_ReadOnly :: bool
  vm_State :: string

record egress_rule =
  er_Domains :: "string list"
  er_Methods :: "string list"
  er_PathExact :: string
  er_PathPrefix :: string
  er_PathRegex :: string

record tailnet_attachment =
  ta_ProfileID :: string
  ta_ProfileRevision :: int
  ta_AuthKey :: string
  ta_Provider :: string
  ta_Hostname :: string
  ta_Tags :: "string list"
  ta_Ephemeral :: bool
  ta_ControlURL :: string
  ta_ExitNode :: string
  ta_AcceptRoutes :: bool
  ta_WakeOnConnect :: bool
  ta_ExposePorts :: "int list"
  ta_WaitForOnline :: bool
  ta_ExitPolicy :: string
  ta_EphemeralPausePolicy :: string

record create_config =
  cc_secretFiles :: "secret_file option list"
  cc_secretPolicies :: "string list"
  cc_directRuntime :: "template_spec option"
  cc_secretOverrides :: "(string, string) gomap"
  cc_allowInbound :: "bool"
  cc_allowOutbound :: "bool"
  cc_allowDomains :: "string list"
  cc_allowCIDRs :: "string list"
  cc_interceptHTTPS :: "bool"
  cc_allowedPorts :: "int list"
  cc_httpRules :: "egress_rule list"
  cc_egressPolicies :: "string list"
  cc_maxDuration :: "duration option"
  cc_pauseRetention :: "duration option"
  cc_cpuCores :: "int option"
  cc_cpuCoresSet :: "bool"
  cc_memoryMB :: "int option"
  cc_memoryMBSet :: "bool"
  cc_diskSizeGB :: "int option"
  cc_diskSizeGBSet :: "bool"
  cc_name :: "string"
  cc_snapshotID :: "string"
  cc_image :: "string"
  cc_templateSpecID :: "string"
  cc_setupEnv :: "(string, string) gomap"
  cc_setupSecrets :: "(string, string) gomap"
  cc_workspaceID :: "string"
  cc_metadata :: "(string, string) gomap"
  cc_tags :: "string list"
  cc_env :: "(string, string) gomap"
  cc_sshKeys :: "string list"
  cc_enableOpenCode :: "bool"
  cc_cloneRepoURL :: "string"
  cc_volumes :: "volume_mount option list"
  cc_sticky :: "bool"
  cc_waitReady :: "bool"
  cc_waitForRuntime :: "bool"
  cc_waitTimeout :: "duration"
  cc_waitTimeoutSet :: "bool"
  cc_tailnet :: "tailnet_attachment option"
  cc_disableTailnet :: "bool"

definition defaultCreateConfig :: create_config where
  "defaultCreateConfig =
     \<lparr>cc_secretFiles = [],
      cc_secretPolicies = [],
      cc_directRuntime = None,
      cc_secretOverrides = [],
      cc_allowInbound = True,
      cc_allowOutbound = True,
      cc_allowDomains = [],
      cc_allowCIDRs = [],
      cc_interceptHTTPS = False,
      cc_allowedPorts = [],
      cc_httpRules = [],
      cc_egressPolicies = [],
      cc_maxDuration = None,
      cc_pauseRetention = None,
      cc_cpuCores = Some defaultCPUCores,
      cc_cpuCoresSet = False,
      cc_memoryMB = Some defaultMemoryMB,
      cc_memoryMBSet = False,
      cc_diskSizeGB = Some defaultDiskSizeGB,
      cc_diskSizeGBSet = False,
      cc_name = [],
      cc_snapshotID = [],
      cc_image = [],
      cc_templateSpecID = [],
      cc_setupEnv = [],
      cc_setupSecrets = [],
      cc_workspaceID = [],
      cc_metadata = [],
      cc_tags = [],
      cc_env = [],
      cc_sshKeys = [],
      cc_enableOpenCode = False,
      cc_cloneRepoURL = [],
      cc_volumes = [],
      cc_sticky = False,
      cc_waitReady = True,
      cc_waitForRuntime = False,
      cc_waitTimeout = DefaultSessionCreateTimeout,
      cc_waitTimeoutSet = False,
      cc_tailnet = None,
      cc_disableTailnet = False\<rparr>"

definition cloneStringMap :: "(string, string) gomap \<Rightarrow> (string, string) gomap" where
  "cloneStringMap m = map_put_all m []"

definition nameOption_applyCreate :: "string \<Rightarrow> create_config \<Rightarrow> create_config" where
  "nameOption_applyCreate name cfg = cfg\<lparr>cc_name := TrimSpace name\<rparr>"

definition WithSnapshot :: "string \<Rightarrow> create_config \<Rightarrow> create_config" where
  "WithSnapshot i cfg = cfg\<lparr>cc_snapshotID := TrimSpace i\<rparr>"

text \<open>The launch image: a raw reference, or a registry image resource.\<close>

record image_resource =
  ri_WorkspaceSlug :: string
  ri_Name :: string
  ri_DigestRef :: string

definition RegistryImage_Ref :: "image_resource option \<Rightarrow> string" where
  "RegistryImage_Ref i = (case i of None \<Rightarrow> []
     | Some r \<Rightarrow>
         if ri_WorkspaceSlug r \<noteq> [] \<and> ri_Name r \<noteq> [] then ri_WorkspaceSlug r @ ''/'' @ ri_Name r
         else ri_Name r)"

definition launchRef :: "image_resource option \<Rightarrow> string" where
  "launchRef i = (case i of None \<Rightarrow> []
     | Some r \<Rightarrow> if ri_DigestRef r \<noteq> [] then ri_DigestRef r else RegistryImage_Ref i)"

definition WithImage :: "string + image_resource option \<Rightarrow> create_config \<Rightarrow> create_config" where
  "WithImage img cfg = cfg\<lparr>cc_image := (case img of Inl ref \<Rightarrow> TrimSpace ref | Inr r \<Rightarrow> launchRef r)\<rparr>"

text \<open>A template is given by its ID or as a resource, of which only the ID is used.\<close>

definition FromTemplateSpec :: "string + string option \<Rightarrow> create_config \<Rightarrow> create_config" where
  "FromTemplateSpec template cfg =
     cfg\<lparr>cc_templateSpecID := (case template of
       Inl i \<Rightarrow> TrimSpace i | Inr None \<Rightarrow> [] | Inr (Some i) \<Rightarrow> TrimSpace i)\<rparr>"

definition WithSetupEnvs :: "(string, string) gomap \<Rightarrow> create_config \<Rightarrow> create_config" where
  "WithSetupEnvs env cfg = cfg\<lparr>cc_setupEnv := cloneStringMap env\<rparr>"

definition WithSetupSecrets :: "(string, string) gomap \<Rightarrow> create_config \<Rightarrow> create_config" where
  "WithSetupSecrets secrets cfg = cfg\<lparr>cc_setupSecrets := cloneStringMap secrets\<rparr>"

definition WithDirectRuntime :: "template_spec \<Rightarrow> create_config \<Rightarrow> create_config" where
  "WithDirectRuntime spec cfg = cfg\<lparr>cc_directRuntime := Some (Some (toProto spec))\<rparr>"

definition WithSecretOverrides :: "(string, string) gomap \<Rightarrow> create_config \<Rightarrow> create_config" where
  "WithSecretOverrides overrides cfg = cfg\<lparr>cc_secretOverrides := cloneStringMap overrides\<rparr>"

definition WithSecretFiles :: "secret_file option list \<Rightarrow> create_config \<Rightarrow> create_config" where
  "WithSecretFiles files cfg = cfg\<lparr>cc_secretFiles := files\<rparr>"

definition WithSecretPolicies :: "string list \<Rightarrow> create_config \<Rightarrow> create_config" where
  "WithSecretPolicies names cfg = cfg\<lparr>cc_secretPolicies := names\<rparr>"

definition WithOpenCode :: "bool \<Rightarrow> create_config \<Rightarrow> create_config" where
  "WithOpenCode enabled cfg = cfg\<lparr>cc_enableOpenCode := enabled\<rparr>"

definition WithCloneRepo :: "string \<Rightarrow> create_config \<Rightarrow> create_config" where
  "WithCloneRepo repoURL cfg =
     (let cfg = cfg\<lparr>cc_cloneRepoURL := TrimSpace repoURL\<rparr>
      in if cc_cloneRepoURL cfg \<noteq> [] then cfg\<lparr>cc_enableOpenCode := True\<rparr> else cfg)"

definition workspaceIDOption_applyCreate :: "string \<Rightarrow> create_config \<Rightarrow> create_config" where
  "workspaceIDOption_applyCreate i cfg = cfg\<lparr>cc_workspaceID := TrimSpace i\<rparr>"

record volume_config = vc_readonly :: bool

definition WithReadOnly :: "volume_config \<Rightarrow> volume_config" where
  "WithReadOnly cfg = cfg\<lparr>vc_readonly := True\<rparr>"

definition WithVolume :: "string \<Rightarrow> string \<Rightarrow> volume_config opt_fn list \<Rightarrow> create_config \<Rightarrow> create_config" where
  "WithVolume volumeID mountPath opts cfg =
     (let volumeCfg = apply_opts opts \<lparr>vc_readonly = False\<rparr>
      in cfg\<lparr>cc_volumes := cc_volumes cfg @
           [Some \<lparr>vm_VolumeID = TrimSpace volumeID, vm_MountPath = TrimSpace mountPath,
                  vm_ReadOnly = vc_readonly volumeCfg, vm_State = []\<rparr>]\<rparr>)"

text \<open>\<open>if v := strings.TrimSpace(x); v != "" { cfg.env[key] = v }\<close>\<close>

definition put_trimmed :: "string \<Rightarrow> string \<Rightarrow> (string, string) gomap \<Rightarrow> (string, string) gomap" where
  "put_trimmed key x env = (if TrimSpace x \<noteq> [] then map_put key (TrimSpace x) env else env)"

definition WithOpenCodeProvider :: "string \<Rightarrow> string \<Rightarrow> string \<Rightarrow> create_config \<Rightarrow> create_config" where
  "WithOpenCodeProvider apiKey baseURL npm cfg =
     cfg\<lparr>cc_env := put_trimmed ''OPENCODE_PROVIDER_NPM'' npm
       (put_trimmed ''OPENCODE_PROVIDER_BASE_URL'' baseURL
         (put_trimmed ''OPENCODE_API_KEY'' apiKey (cc_env cfg)))\<rparr>"

definition WithGitHubToken :: "string \<Rightarrow> create_config \<Rightarrow> create_config" where
  "WithGitHubToken token cfg =
     (if TrimSpace token = [] then cfg
      else cfg\<lparr>cc_env := map_put ''GIT_TOKEN'' (TrimSpace token)
        (map_put ''GH_TOKEN'' (TrimSpace token) (cc_env cfg))\<rparr>)"

definition WithAllowInbound :: "bool \<Rightarrow> create_config \<Rightarrow> create_config" where
  "WithAllowInbound b cfg = cfg\<lparr>cc_allowInbound := b\<rparr>"

definition WithAllowOutbound :: "bool \<Rightarrow> create_config \<Rightarrow> create_config" where
  "WithAllowOutbound b cfg = cfg\<lparr>cc_allowOutbound := b\<rparr>"

definition WithAllowDomains :: "string list \<Rightarrow> create_config \<Rightarrow> create_config" where
  "WithAllowDomains domains cfg = cfg\<lparr>cc_allowDomains := domains\<rparr>"

definition WithAllowCIDRs :: "string list \<Rightarrow> create_config \<Rightarrow> create_config" where
  "WithAllowCIDRs cidrs cfg = cfg\<lparr>cc_allowCIDRs := cidrs\<rparr>"

definition WithEgressPolicies :: "string list \<Rightarrow> create_config \<Rightarrow> create_config" where
  "WithEgressPolicies names cfg = cfg\<lparr>cc_egressPolicies := names\<rparr>"

definition WithEgressInterceptHTTPS :: "create_config \<Rightarrow> create_config" where
  "WithEgressInterceptHTTPS cfg = cfg\<lparr>cc_interceptHTTPS := True\<rparr>"

definition WithAllowedPorts :: "int list \<Rightarrow> create_config \<Rightarrow> create_config" where
  "WithAllowedPorts ports cfg = cfg\<lparr>cc_allowedPorts := ports\<rparr>"

definition WithEgressHTTPRules :: "egress_rule list \<Rightarrow> create_config \<Rightarrow> create_config" where
  "WithEgressHTTPRules rules cfg = cfg\<lparr>cc_httpRules := rules\<rparr>"

definition WithMaxDuration :: "duration \<Rightarrow> create_config \<Rightarrow> create_config" where
  "WithMaxDuration d cfg = cfg\<lparr>cc_maxDuration := Some d\<rparr>"

definition WithIdleTimeout :: "duration \<Rightarrow> create_config \<Rightarrow> create_config" where
  "WithIdleTimeout d cfg = cfg"

definition WithPauseRetention :: "duration \<Rightarrow> create_config \<Rightarrow> create_config" where
  "WithPauseRetention d cfg = cfg\<lparr>cc_pauseRetention := Some d\<rparr>"

definition WithCPUCores :: "int \<Rightarrow> create_config \<Rightarrow> create_config" where
  "WithCPUCores n cfg = cfg\<lparr>cc_cpuCores := Some n, cc_cpuCoresSet := True\<rparr>"

definition WithMemoryMB :: "int \<Rightarrow> create_config \<Rightarrow> create_config" where
  "WithMemoryMB n cfg = cfg\<lparr>cc_memoryMB := Some n, cc_memoryMBSet := True\<rparr>"

text \<open>The argument is an \<open>int\<close>, which the option converts to 32 bits.\<close>

definition WithDiskSizeGB :: "int \<Rightarrow> create_config \<Rightarrow> create_config" where
  "WithDiskSizeGB gb cfg = cfg\<lparr>cc_diskSizeGB := Some (wrap32 gb), cc_diskSizeGBSet := True\<rparr>"

definition WithMetadata :: "(string, string) gomap \<Rightarrow> create_config \<Rightarrow> create_config" where
  "WithMetadata m cfg = cfg\<lparr>cc_metadata := cloneStringMap m\<rparr>"

definition normalizeTagList :: "(string \<Rightarrow> string) \<Rightarrow> string list \<Rightarrow> string list" where
  "normalizeTagList lower tags = filter (\<lambda>t. t \<noteq> []) (map (\<lambda>t. TrimSpace (lower t)) tags)"

definition WithTags_create :: "(string \<Rightarrow> string) \<Rightarrow> string list \<Rightarrow> create_config \<Rightarrow> create_config" where
  "WithTags_create lower tags cfg = cfg\<lparr>cc_tags := normalizeTagList lower tags\<rparr>"

definition WithSticky :: "create_config \<Rightarrow> create_config" where
  "WithSticky cfg = cfg\<lparr>cc_sticky := True\<rparr>"

definition WithWaitReady :: "bool \<Rightarrow> create_config \<Rightarrow> create_config" where
  "WithWaitReady wait cfg = cfg\<lparr>cc_waitReady := wait\<rparr>"

definition WithWaitForRuntime :: "bool \<Rightarrow> create_config \<Rightarrow> create_config" where
  "WithWaitForRuntime wait cfg = cfg\<lparr>cc_waitForRuntime := wait\<rparr>"

definition WithWaitTimeout :: "duration \<Rightarrow> create_config \<Rightarrow> create_config" where
  "WithWaitTimeout timeout cfg = cfg\<lparr>cc_waitTimeout := timeout, cc_waitTimeoutSet := True\<rparr>"

definition WithTailnet :: "tailnet_attachment \<Rightarrow> create_config \<Rightarrow> create_config" where
  "WithTailnet a cfg = cfg\<lparr>cc_tailnet := Some a\<rparr>"

definition WithoutTailnet :: "create_config \<Rightarrow> create_config" where
  "WithoutTailnet cfg = cfg\<lparr>cc_disableTailnet := True\<rparr>"

definition WithSSHKeys :: "string list \<Rightarrow> create_config \<Rightarrow> create_config" where
  "WithSSHKeys ks cfg = cfg\<lparr>cc_sshKeys := ks\<rparr>"

definition envOption_applyCreate :: "(string, string) gomap \<Rightarrow> create_config \<Rightarrow> create_config" where
  "envOption_applyCreate env cfg = cfg\<lparr>cc_env := map_put_all (cloneStringMap env) (cc_env cfg)\<rparr>"

section \<open>Command options\<close>

record exec_config =
  xe_args :: "string list"
  xe_timeoutOpt :: "duration option"
  xe_env :: "(string, string) gomap"
  xe_dir :: string
  xe_hasOnOutput :: bool

definition defaultExecConfig :: exec_config where
  "defaultExecConfig =
     \<lparr>xe_args = [], xe_timeoutOpt = None, xe_env = [], xe_dir = [], xe_hasOnOutput = False\<rparr>"

definition WithArgs :: "string list \<Rightarrow> exec_config \<Rightarrow> exec_config" where
  "WithArgs args cfg = cfg\<lparr>xe_args := args\<rparr>"

definition WithTimeout :: "duration \<Rightarrow> exec_config \<Rightarrow> exec_config" where
  "WithTimeout t cfg = cfg\<lparr>xe_timeoutOpt := Some t\<rparr>"

definition WithDir :: "string \<Rightarrow> exec_config \<Rightarrow> exec_config" where
  "WithDir dir cfg = cfg\<lparr>xe_dir := dir\<rparr>"

definition WithOnOutput :: "bool \<Rightarrow> exec_config \<Rightarrow> exec_config" where
  "WithOnOutput given cfg = cfg\<lparr>xe_hasOnOutput := given\<rparr>"

definition envOption_applyExec :: "(string, string) gomap \<Rightarrow> exec_config \<Rightarrow> exec_config" where
  "envOption_applyExec env cfg = cfg\<lparr>xe_env := map_put_all (cloneStringMap env) (xe_env cfg)\<rparr>"

definition WithEnv :: "string \<Rightarrow> string \<Rightarrow> exec_config \<Rightarrow> exec_config" where
  "WithEnv key v cfg = cfg\<lparr>xe_env := map_put key v (xe_env cfg)\<rparr>"

section \<open>Options of the other requests\<close>

record list_config =
  lc_workspaceID :: string
  lc_tags :: "string list"
  lc_sticky :: "bool option"
  lc_includeTerminated :: bool

definition defaultListConfig :: list_config where
  "defaultListConfig = \<lparr>lc_workspaceID = [], lc_tags = [], lc_sticky = None, lc_includeTerminated = False\<rparr>"

definition workspaceIDOption_applyList :: "string \<Rightarrow> list_config \<Rightarrow> list_config" where
  "workspaceIDOption_applyList i cfg = cfg\<lparr>lc_workspaceID := TrimSpace i\<rparr>"

definition WithTagFilter :: "(string \<Rightarrow> string) \<Rightarrow> string list \<Rightarrow> list_config \<Rightarrow> list_config" where
  "WithTagFilter lower tags cfg = cfg\<lparr>lc_tags := normalizeTagList lower tags\<rparr>"

definition WithStickyFilter :: "bool \<Rightarrow> list_config \<Rightarrow> list_config" where
  "WithStickyFilter b cfg = cfg\<lparr>lc_sticky := Some b\<rparr>"

definition WithIncludeTerminated :: "bool \<Rightarrow> list_config \<Rightarrow> list_config" where
  "WithIncludeTerminated b cfg = cfg\<lparr>lc_includeTerminated := b\<rparr>"

record detach_config = dc_force :: bool  dc_waitTimeout :: duration

definition defaultDetachVolumeConfig :: detach_config where
  "defaultDetachVolumeConfig = \<lparr>dc_force = False, dc_waitTimeout = DefaultVolumeDetachTimeout\<rparr>"

definition WithForceDetach :: "detach_config \<Rightarrow> detach_config" where
  "WithForceDetach cfg = cfg\<lparr>dc_force := True\<rparr>"

definition WithDetachWaitTimeout :: "duration \<Rightarrow> detach_config \<Rightarrow> detach_config" where
  "WithDetachWaitTimeout t cfg = cfg\<lparr>dc_waitTimeout := t\<rparr>"

record expose_config = xc_expiresAt :: "gotime option"  xc_slug :: string

definition WithExposureTTL :: "gotime \<Rightarrow> duration \<Rightarrow> expose_config \<Rightarrow> expose_config" where
  "WithExposureTTL now ttl cfg = cfg\<lparr>xc_expiresAt := (if ttl \<le> 0 then None else Some (now + ttl))\<rparr>"

definition WithSlug :: "string \<Rightarrow> expose_config \<Rightarrow> expose_config" where
  "WithSlug slug cfg = cfg\<lparr>xc_slug := TrimSpace slug\<rparr>"

record preview_config =
  pc_workspaceID :: string
  pc_sessionID :: string
  pc_expiresAt :: "gotime option"

definition WithPreviewURLExpiry :: "gotime \<Rightarrow> preview_config \<Rightarrow> preview_config" where
  "WithPreviewURLExpiry t cfg = cfg\<lparr>pc_expiresAt := Some t\<rparr>"

definition WithPreviewURLSession :: "string \<Rightarrow> preview_config \<Rightarrow> preview_config" where
  "WithPreviewURLSession i cfg = cfg\<lparr>pc_sessionID := i\<rparr>"

definition workspaceIDOption_applyPreviewURL :: "string \<Rightarrow> preview_config \<Rightarrow> preview_config" where
  "workspaceIDOption_applyPreviewURL i cfg = cfg\<lparr>pc_workspaceID := TrimSpace i\<rparr>"

record create_volume_config = cv_workspaceID :: string  cv_name :: string  cv_sizeBytes :: int

definition WithVolumeName :: "string \<Rightarrow> create_volume_config \<Rightarrow> create_volume_config" where
  "WithVolumeName name cfg = cfg\<lparr>cv_name := TrimSpace name\<rparr>"

definition WithVolumeSize :: "int \<Rightarrow> create_volume_config \<Rightarrow> create_volume_config" where
  "WithVolumeSize n cfg = cfg\<lparr>cv_sizeBytes := n\<rparr>"

definition workspaceIDOption_applyCreateVolume :: "string \<Rightarrow> create_volume_config \<Rightarrow> create_volume_config" where
  "workspaceIDOption_applyCreateVolume i cfg = cfg\<lparr>cv_workspaceID := TrimSpace i\<rparr>"

record update_session_config =
  us_name :: "string option"
  us_tags :: "string list"
  us_tagsSet :: bool
  us_sticky :: "bool option"
  us_maxDuration :: "duration option"

definition nameOption_applyUpdateSession :: "string \<Rightarrow> update_session_config \<Rightarrow> update_session_config" where
  "nameOption_applyUpdateSession name cfg = cfg\<lparr>us_name := Some (TrimSpace name)\<rparr>"

definition WithTags_session :: "(string \<Rightarrow> string) \<Rightarrow> string list \<Rightarrow> update_session_config \<Rightarrow> update_session_config" where
  "WithTags_session lower tags cfg = cfg\<lparr>us_tags := normalizeTagList lower tags, us_tagsSet := True\<rparr>"

definition WithSetSticky :: "bool \<Rightarrow> update_session_config \<Rightarrow> update_session_config" where
  "WithSetSticky b cfg = cfg\<lparr>us_sticky := Some b\<rparr>"

definition WithSetMaxDuration :: "duration \<Rightarrow> update_session_config \<Rightarrow> update_session_config" where
  "WithSetMaxDuration d cfg = cfg\<lparr>us_maxDuration := Some d\<rparr>"

record update_snapshot_config =
  un_name :: "string option"
  un_expiresAt :: "gotime option"
  un_expiresAtSet :: bool
  un_tags :: "string list"
  un_tagsSet :: bool

definition nameOption_applyUpdateSnapshot :: "string \<Rightarrow> update_snapshot_config \<Rightarrow> update_snapshot_config" where
  "nameOption_applyUpdateSnapshot name cfg = cfg\<lparr>un_name := Some (TrimSpace name)\<rparr>"

definition WithExpiresAt :: "gotime \<Rightarrow> update_snapshot_config \<Rightarrow> update_snapshot_config" where
  "WithExpiresAt t cfg = cfg\<lparr>un_expiresAt := Some t, un_expiresAtSet := True\<rparr>"

definition WithoutExpiresAt :: "update_snapshot_config \<Rightarrow> update_snapshot_config" where
  "WithoutExpiresAt cfg = cfg\<lparr>un_expiresAt := None, un_expiresAtSet := True\<rparr>"

definition WithTags_snapshot :: "(string \<Rightarrow> string) \<Rightarrow> string list \<Rightarrow> update_snapshot_config \<Rightarrow> update_snapshot_config" where
  "WithTags_snapshot lower tags cfg = cfg\<lparr>un_tags := normalizeTagList lower tags, un_tagsSet := True\<rparr>"

record update_volume_config = uv_name :: "string option"  uv_tags :: "string list"  uv_tagsSet :: bool

definition nameOption_applyUpdateVolume :: "string \<Rightarrow> update_volume_config \<Rightarrow> update_volume_config" where
  "nameOption_applyUpdateVolume name cfg = cfg\<lparr>uv_name := Some (TrimSpace name)\<rparr>"

definition WithTags_volume :: "(string \<Rightarrow> string) \<Rightarrow> string list \<Rightarrow> update_volume_config \<Rightarrow> update_volume_config" where
  "WithTags_volume lower tags cfg = cfg\<lparr>uv_tags := normalizeTagList lower tags, uv_tagsSet := True\<rparr>"

section \<open>Template options\<close>

record template_config =
  tc_workspaceID :: string
  tc_name :: string
  tc_nameSet :: bool
  tc_baseImageID :: string
  tc_baseImageIDSet :: bool
  tc_setupScript :: string
  tc_setupScriptSet :: bool
  tc_startCmd :: "string option"
  tc_startCmdSet :: bool
  tc_env :: "(string, string) gomap"
  tc_envSet :: bool
  tc_tags :: "string list"
  tc_tagsSet :: bool
  tc_resources :: "template_resources option"
  tc_resourcesSet :: bool
  tc_parentTemplateID :: string
  tc_parentImage :: string
  tc_spec :: "template_spec option"

definition defaultTemplateConfig :: template_config where
  "defaultTemplateConfig =
     \<lparr>tc_workspaceID = [], tc_name = [], tc_nameSet = False, tc_baseImageID = [],
      tc_baseImageIDSet = False, tc_setupScript = [], tc_setupScriptSet = False, tc_startCmd = None,
      tc_startCmdSet = False, tc_env = [], tc_envSet = False, tc_tags = [], tc_tagsSet = False,
      tc_resources = None, tc_resourcesSet = False, tc_parentTemplateID = [], tc_parentImage = [],
      tc_spec = None\<rparr>"

definition workspaceIDOption_applyTemplate :: "string \<Rightarrow> template_config \<Rightarrow> template_config" where
  "workspaceIDOption_applyTemplate i cfg = cfg\<lparr>tc_workspaceID := TrimSpace i\<rparr>"

definition WithTemplateName :: "string \<Rightarrow> template_config \<Rightarrow> template_config" where
  "WithTemplateName name cfg = cfg\<lparr>tc_name := TrimSpace name, tc_nameSet := True\<rparr>"

definition WithSetupScript :: "string \<Rightarrow> template_config \<Rightarrow> template_config" where
  "WithSetupScript script cfg = cfg\<lparr>tc_setupScript := TrimSpace script, tc_setupScriptSet := True\<rparr>"

definition WithStartCmd :: "string \<Rightarrow> template_config \<Rightarrow> template_config" where
  "WithStartCmd cmd cfg = cfg\<lparr>tc_startCmd := Some (TrimSpace cmd), tc_startCmdSet := True\<rparr>"

definition envOption_applyTemplate :: "(string, string) gomap \<Rightarrow> template_config \<Rightarrow> template_config" where
  "envOption_applyTemplate env cfg = cfg\<lparr>tc_env := cloneStringMap env, tc_envSet := True\<rparr>"

definition WithTags_template :: "(string \<Rightarrow> string) \<Rightarrow> string list \<Rightarrow> template_config \<Rightarrow> template_config" where
  "WithTags_template lower tags cfg = cfg\<lparr>tc_tags := normalizeTagList lower tags, tc_tagsSet := True\<rparr>"

definition WithTemplateResources :: "int \<Rightarrow> int \<Rightarrow> template_config \<Rightarrow> template_config" where
  "WithTemplateResources cpuCores memoryMB cfg =
     cfg\<lparr>tc_resources := Some \<lparr>tr_CPUCores = cpuCores, tr_MemoryMB = memoryMB, tr_DiskSizeGB = 0\<rparr>,
        tc_resourcesSet := True\<rparr>"

definition WithTemplateDiskSizeGB :: "int \<Rightarrow> template_config \<Rightarrow> template_config" where
  "WithTemplateDiskSizeGB gb cfg =
     (let r = (case tc_resources cfg of
          None \<Rightarrow> \<lparr>tr_CPUCores = 0, tr_MemoryMB = 0, tr_DiskSizeGB = 0\<rparr> | Some r \<Rightarrow> r)
      in cfg\<lparr>tc_resources := Some (r\<lparr>tr_DiskSizeGB := gb\<rparr>), tc_resourcesSet := True\<rparr>)"

definition WithBaseImageID :: "string \<Rightarrow> template_config \<Rightarrow> template_config" where
  "WithBaseImageID i cfg = cfg\<lparr>tc_baseImageID := TrimSpace i, tc_baseImageIDSet := True\<rparr>"

definition WithParentTemplateID :: "string \<Rightarrow> template_config \<Rightarrow> template_config" where
  "WithParentTemplateID i cfg = cfg\<lparr>tc_parentTemplateID := TrimSpace i\<rparr>"

definition WithParentImage :: "string \<Rightarrow> template_config \<Rightarrow> template_config" where
  "WithParentImage i cfg = cfg\<lparr>tc_parentImage := TrimSpace i\<rparr>"

definition WithTemplateSpec :: "template_spec \<Rightarrow> template_config \<Rightarrow> template_config" where
  "WithTemplateSpec s cfg = cfg\<lparr>tc_spec := Some s\<rparr>"

record 'h build_config =
  tb_publishRawImage :: "bool option"
  tb_buildEnv :: "(string, string) gomap"
  tb_buildSecrets :: "(string, string) gomap"
  tb_waitForCompletion :: bool
  tb_eventHandler :: "'h option"

definition WithWaitForCompletion :: "bool \<Rightarrow> 'h build_config \<Rightarrow> 'h build_config" where
  "WithWaitForCompletion wait cfg = cfg\<lparr>tb_waitForCompletion := wait\<rparr>"

definition WithBuildEventHandler :: "'h option \<Rightarrow> 'h build_config \<Rightarrow> 'h build_config" where
  "WithBuildEventHandler h cfg = cfg\<lparr>tb_eventHandler := h\<rparr>"

definition WithBuildPublishRawImage :: "bool \<Rightarrow> 'h build_config \<Rightarrow> 'h build_config" where
  "WithBuildPublishRawImage b cfg = cfg\<lparr>tb_publishRawImage := Some b\<rparr>"

definition WithBuildSecrets :: "(string, string) gomap \<Rightarrow> 'h build_config \<Rightarrow> 'h build_config" where
  "WithBuildSecrets m cfg = cfg\<lparr>tb_buildSecrets := cloneStringMap m\<rparr>"

definition WithBuildEnv :: "(string, string) gomap \<Rightarrow> 'h build_config \<Rightarrow> 'h build_config" where
  "WithBuildEnv m cfg = cfg\<lparr>tb_buildEnv := cloneStringMap m\<rparr>"

section \<open>The create options together\<close>

text \<open>
  \<open>CreateOption\<close> has an unexported method, so the options of this package are all there are.
\<close>

inductive is_create_option :: "(create_config \<Rightarrow> create_config) \<Rightarrow> bool" where
  nameOption_applyCreate: "is_create_option (nameOption_applyCreate n)"
| WithSnapshot: "is_create_option (WithSnapshot i)"
| WithImage: "is_create_option (WithImage i)"
| FromTemplateSpec: "is_create_option (FromTemplateSpec i)"
| WithSetupEnvs: "is_create_option (WithSetupEnvs m)"
| WithSetupSecrets: "is_create_option (WithSetupSecrets m)"
| WithDirectRuntime: "is_create_option (WithDirectRuntime s)"
| WithSecretOverrides: "is_create_option (WithSecretOverrides m)"
| WithSecretFiles: "is_create_option (WithSecretFiles fs)"
| WithSecretPolicies: "is_create_option (WithSecretPolicies ns)"
| WithOpenCode: "is_create_option (WithOpenCode b)"
| WithCloneRepo: "is_create_option (WithCloneRepo r)"
| workspaceIDOption_applyCreate: "is_create_option (workspaceIDOption_applyCreate i)"
| WithVolume: "is_create_option (WithVolume i p vs)"
| WithOpenCodeProvider: "is_create_option (WithOpenCodeProvider a u n)"
| WithGitHubToken: "is_create_option (WithGitHubToken t)"
| WithAllowInbound: "is_create_option (WithAllowInbound b)"
| WithAllowOutbound: "is_create_option (WithAllowOutbound b)"
| WithAllowDomains: "is_create_option (WithAllowDomains ds)"
| WithAllowCIDRs: "is_create_option (WithAllowCIDRs cs)"
| WithEgressPolicies: "is_create_option (WithEgressPolicies ns)"
| WithEgressInterceptHTTPS: "is_create_option WithEgressInterceptHTTPS"
| WithAllowedPorts: "is_create_option (WithAllowedPorts ps)"
| WithEgressHTTPRules: "is_create_option (WithEgressHTTPRules rs)"
| WithMaxDuration: "is_create_option (WithMaxDuration d)"
| WithIdleTimeout: "is_create_option (WithIdleTimeout d)"
| WithPauseRetention: "is_create_option (WithPauseRetention d)"
| WithCPUCores: "is_create_option (WithCPUCores n)"
| WithMemoryMB: "is_create_option (WithMemoryMB n)"
| WithDiskSizeGB: "is_create_option (WithDiskSizeGB n)"
| WithMetadata: "is_create_option (WithMetadata m)"
| WithTags_create: "is_create_option (WithTags_create lower ts)"
| WithSticky: "is_create_option WithSticky"
| WithWaitReady: "is_create_option (WithWaitReady b)"
| WithWaitForRuntime: "is_create_option (WithWaitForRuntime b)"
| WithWaitTimeout: "is_create_option (WithWaitTimeout t)"
| WithTailnet: "is_create_option (WithTailnet a)"
| WithoutTailnet: "is_create_option WithoutTailnet"
| WithSSHKeys: "is_create_option (WithSSHKeys ks)"
| envOption_applyCreate: "is_create_option (envOption_applyCreate m)"

text \<open>What any sequence of options leaves: maps with distinct keys, no nil volume, and the three
  resource pointers set, the disk size within 32 bits.\<close>

definition wf_create :: "create_config \<Rightarrow> bool" where
  "wf_create c \<longleftrightarrow>
     wf_map (cc_env c) \<and> wf_map (cc_metadata c) \<and> wf_map (cc_setupEnv c) \<and>
     wf_map (cc_setupSecrets c) \<and> wf_map (cc_secretOverrides c) \<and> None \<notin> set (cc_volumes c) \<and>
     cc_cpuCores c \<noteq> None \<and> cc_memoryMB c \<noteq> None \<and>
     (\<exists>d. cc_diskSizeGB c = Some d \<and> - 2147483648 \<le> d \<and> d < 2147483648)"

lemma wf_defaultCreateConfig: "wf_create defaultCreateConfig"
  by (simp add: wf_create_def defaultCreateConfig_def defaultDiskSizeGB_def)

lemma wf_cloneStringMap [simp]: "wf_map (cloneStringMap m)"
  by (simp add: cloneStringMap_def)

lemma wf_put_trimmed [simp]: "wf_map m \<Longrightarrow> wf_map (put_trimmed k x m)"
  by (simp add: put_trimmed_def)

lemma wrap32_bounds: "- 2147483648 \<le> wrap32 i \<and> wrap32 i < 2147483648"
  by (simp add: wrap32_def)

lemmas create_option_defs =
  nameOption_applyCreate_def WithSnapshot_def WithImage_def
  FromTemplateSpec_def WithSetupEnvs_def WithSetupSecrets_def
  WithDirectRuntime_def WithSecretOverrides_def WithSecretFiles_def
  WithSecretPolicies_def WithOpenCode_def WithCloneRepo_def
  workspaceIDOption_applyCreate_def WithVolume_def WithOpenCodeProvider_def
  WithGitHubToken_def WithAllowInbound_def WithAllowOutbound_def
  WithAllowDomains_def WithAllowCIDRs_def WithEgressPolicies_def
  WithEgressInterceptHTTPS_def WithAllowedPorts_def WithEgressHTTPRules_def
  WithMaxDuration_def WithIdleTimeout_def WithPauseRetention_def
  WithCPUCores_def WithMemoryMB_def WithDiskSizeGB_def
  WithMetadata_def WithTags_create_def WithSticky_def
  WithWaitReady_def WithWaitForRuntime_def WithWaitTimeout_def
  WithTailnet_def WithoutTailnet_def WithSSHKeys_def
  envOption_applyCreate_def

text \<open>No option removes a key from the environment.\<close>

definition env_keys :: "create_config \<Rightarrow> string set" where
  "env_keys c = dom (map_of (cc_env c))"

lemma dom_put_all: "dom (map_of (map_put_all new m)) = dom (map_of m) \<union> fst ` set new"
  unfolding map_put_all_def
proof (induction new arbitrary: m)
  case (Cons kv new)
  then show ?case by (cases kv) (auto simp: Cons.IH)
qed simp

lemma dom_put_trimmed: "dom (map_of m) \<subseteq> dom (map_of (put_trimmed k x m))"
  by (auto simp: put_trimmed_def)

lemma option_keeps_wf: "is_create_option f \<Longrightarrow> wf_create c \<Longrightarrow> wf_create (f c)"
  by (induction rule: is_create_option.induct)
    (simp_all add: wf_create_def create_option_defs Let_def wrap32_bounds)

lemma option_keeps_env: "is_create_option f \<Longrightarrow> env_keys c \<subseteq> env_keys (f c)"
proof (induction rule: is_create_option.induct)
  case (WithOpenCodeProvider a u n)
  show ?case
    unfolding env_keys_def create_option_defs
    using dom_put_trimmed by simp (meson order_trans)
qed (simp_all add: env_keys_def create_option_defs Let_def dom_put_all subset_insertI2)

section \<open>Options that set one field\<close>

interpretation name_option: field_option cc_name nameOption_applyCreate TrimSpace
  by unfold_locales (simp add: nameOption_applyCreate_def)

interpretation disk_option: field_option cc_diskSizeGB WithDiskSizeGB "\<lambda>gb. Some (wrap32 gb)"
  by unfold_locales (simp add: WithDiskSizeGB_def)

interpretation memory_option: field_option cc_memoryMB WithMemoryMB Some
  by unfold_locales (simp add: WithMemoryMB_def)

interpretation cpu_option: field_option cc_cpuCores WithCPUCores Some
  by unfold_locales (simp add: WithCPUCores_def)

interpretation wait_option: field_option cc_waitTimeout WithWaitTimeout "\<lambda>t. t"
  by unfold_locales (simp add: WithWaitTimeout_def)

interpretation exec_timeout_option: field_option xe_timeoutOpt WithTimeout Some
  by unfold_locales (simp add: WithTimeout_def)

section \<open>Properties\<close>

text \<open>C37: whatever options a caller gives, in whatever order, the configuration is well-formed (so no
  resource check of \<open>Create\<close> is skipped for a missing value) and no environment variable set by an
  earlier option is lost.\<close>

theorem create_options_wf:
  assumes "\<And>f. Some f \<in> set os \<Longrightarrow> is_create_option f"
  shows "wf_create (apply_opts os defaultCreateConfig) \<and>
    (\<forall>ps qs. os = ps @ qs \<longrightarrow>
       env_keys (apply_opts ps defaultCreateConfig) \<subseteq> env_keys (apply_opts os defaultCreateConfig))"
proof (intro conjI allI impI)
  show "wf_create (apply_opts os defaultCreateConfig)"
    by (rule apply_opts_invariant [where P = wf_create])
      (rule option_keeps_wf [OF assms], assumption+, rule wf_defaultCreateConfig)
next
  fix ps qs
  assume os: "os = ps @ qs"
  have "env_keys (apply_opts ps defaultCreateConfig) \<subseteq> env_keys (apply_opts qs (apply_opts ps defaultCreateConfig))"
  proof (rule apply_opts_invariant [where P = "\<lambda>d. env_keys (apply_opts ps defaultCreateConfig) \<subseteq> env_keys d"])
    fix f d
    assume "Some f \<in> set qs"
    then have "Some f \<in> set os" by (simp add: os)
    then have step: "env_keys d \<subseteq> env_keys (f d)" by (rule option_keeps_env [OF assms])
    show "env_keys (apply_opts ps defaultCreateConfig) \<subseteq> env_keys d \<Longrightarrow>
        env_keys (apply_opts ps defaultCreateConfig) \<subseteq> env_keys (f d)"
      by (rule order_trans [OF _ step])
  qed simp
  then show "env_keys (apply_opts ps defaultCreateConfig) \<subseteq> env_keys (apply_opts os defaultCreateConfig)"
    by (simp add: os)
qed

theorem create_options_wf_witness:
  "wf_create (apply_opts [Some (WithGitHubToken ''t''), None, Some (WithDiskSizeGB 20)] defaultCreateConfig)"
proof (rule conjunct1 [OF create_options_wf])
  fix f
  assume "Some f \<in> set [Some (WithGitHubToken ''t''), None, Some (WithDiskSizeGB 20)]"
  then have "f = WithGitHubToken ''t'' \<or> f = WithDiskSizeGB 20" by simp
  then show "is_create_option f"
    using is_create_option.WithGitHubToken is_create_option.WithDiskSizeGB by metis
qed

text \<open>The disk size sent is the last one given, cut to 32 bits before it is checked: an out-of-range
  size whose low 32 bits are in range passes the check as another size.\<close>

theorem disk_size_last_wins:
  assumes "keeps cc_diskSizeGB qs"
  shows "cc_diskSizeGB (apply_opts (ps @ Some (WithDiskSizeGB gb) # qs) cfg) = Some (wrap32 gb) \<and>
    (validateDiskSizeGB (wrap32 gb) = None \<longleftrightarrow>
      5 \<le> (gb + 2147483648) mod 4294967296 - 2147483648 \<and>
      (gb + 2147483648) mod 4294967296 - 2147483648 \<le> 100)"
  using disk_option.last_wins [OF assms] by (simp add: wrap32_def)

theorem disk_size_last_wins_witness:
  "cc_diskSizeGB (apply_opts ([] @ Some (WithDiskSizeGB 4294967301) # [Some (WithMemoryMB 8192)])
     defaultCreateConfig) = Some 5"
proof -
  have "keeps cc_diskSizeGB [Some (WithMemoryMB 8192)]"
    by (simp add: WithMemoryMB_def)
  from conjunct1 [OF disk_size_last_wins [OF this, of "[]" 4294967301 defaultCreateConfig]]
  show ?thesis by (simp only: wrap32_def) simp
qed

text \<open>after an environment option every variable it names has the value it gives and every other
  variable keeps its value, on session and on command configurations alike.\<close>

theorem env_option_overrides:
  assumes "wf_map env"
  shows "map_of (cc_env (envOption_applyCreate env cfg)) = map_of (cc_env cfg) ++ map_of env \<and>
    map_of (xe_env (envOption_applyExec env x)) = map_of (xe_env x) ++ map_of env"
  using assms
  by (simp add: envOption_applyCreate_def envOption_applyExec_def cloneStringMap_def lookup_put_all)

theorem env_option_overrides_witness:
  "map_of (cc_env (envOption_applyCreate [(''A'', ''1'')] defaultCreateConfig)) ''A'' = Some ''1''"
proof -
  have "wf_map [(''A'', ''1'')]" by (simp add: wf_map_def)
  from conjunct1 [OF env_option_overrides [OF this]] show ?thesis by simp
qed

end
