(* ===== verification/DataPlane.thy ===== *)
theory DataPlane
  imports Transport ErrorMap ClientInfo Options
begin

text \<open>
  The data plane of a session (\<open>session.go\<close>, \<open>data_plane.go\<close>): the endpoint and the credential
  of the node that serves it, the RPC client bound to that endpoint, the renewal loops, the
  verification of the route, and the interceptor that attaches the credential. The functions below
  are the critical sections of the source: each runs under \<open>dataPlaneMu\<close> (or under the mutex of the
  hints or of the verified client), so a concurrent history is a sequence of them.

  Goroutines and contexts are part of the state: a renewal loop is a number, \<open>dp_cancelled\<close> holds
  the loops whose context is cancelled and \<open>dp_exited\<close> those whose \<open>done\<close> channel is closed.
  \<open>url.Parse\<close> is the argument \<open>parse\<close>.
\<close>

section \<open>State\<close>

record rpc_client =
  rc_id :: nat
  rc_endpoint :: string
  rc_http :: nat

record session_credential =
  sc_credential :: string
  sc_expiresAt :: "gotime option"

record dp =
  dp_endpoint :: string
  dp_credential :: string
  dp_credEndpoint :: string
  dp_expiresAt :: gotime
  dp_client :: "rpc_client option"
  dp_release :: "handle option"
  dp_fromHint :: bool
  dp_cancel :: "nat option"
  dp_dones :: "nat list"
  dp_closed :: bool
  dp_verified :: "rpc_client option"
  dp_hint :: string
  dp_closeDone :: bool
  dp_released :: bool
  dp_warmed :: "rpc_client option"
  dp_pool :: pool
  dp_nextClient :: nat
  dp_nextLoop :: nat
  dp_cancelled :: "nat list"
  dp_exited :: "nat list"

type_synonym url_parser = "string \<Rightarrow> (go_error, string \<times> string) result"

definition fresh_dp :: dp where
  "fresh_dp = \<lparr>dp_endpoint = [], dp_credential = [], dp_credEndpoint = [], dp_expiresAt = 0,
     dp_client = None, dp_release = None, dp_fromHint = False, dp_cancel = None, dp_dones = [],
     dp_closed = False, dp_verified = None, dp_hint = [], dp_closeDone = False, dp_released = False,
     dp_warmed = None, dp_pool = empty_pool, dp_nextClient = 0, dp_nextLoop = 0,
     dp_cancelled = [], dp_exited = []\<rparr>"

section \<open>Endpoint hints\<close>

definition hints_remember :: "string \<Rightarrow> dp \<Rightarrow> dp" where
  "hints_remember endpoint d =
     (let endpoint = TrimSpace endpoint in if endpoint = [] then d else d\<lparr>dp_hint := endpoint\<rparr>)"

definition hints_current :: "dp \<Rightarrow> string" where
  "hints_current d = dp_hint d"

definition hints_clear :: "dp \<Rightarrow> dp" where
  "hints_clear d = d\<lparr>dp_hint := []\<rparr>"

text \<open>
  \<open>resolve\<close> for the caller that finds no resolution under way; \<open>resolve\<close> is its argument of the
  same name. A caller that finds one waits for it and starts over.
\<close>

definition hints_resolve ::
  "(dp \<Rightarrow> go_error option \<times> dp) \<Rightarrow> dp \<Rightarrow> (go_error, string) result \<times> dp" where
  "hints_resolve resolve d =
     (if dp_hint d \<noteq> [] then (Inr (dp_hint d), d)
      else case resolve d of
        (Some err, d) \<Rightarrow> (Inl err, d)
      | (None, d) \<Rightarrow>
          (if dp_hint d = [] then (Inl (Sentinel ErrDataPlaneEndpointUnavailable), d)
           else (Inr (dp_hint d), d)))"

section \<open>Renewal loops\<close>

definition cancelRenewalLocked :: "dp \<Rightarrow> dp" where
  "cancelRenewalLocked d = (case dp_cancel d of
     None \<Rightarrow> d
   | Some l \<Rightarrow> d\<lparr>dp_cancelled := l # dp_cancelled d, dp_cancel := None\<rparr>)"

definition restartCredentialRenewalLocked :: "dp \<Rightarrow> dp" where
  "restartCredentialRenewalLocked d =
     (let d = cancelRenewalLocked d;
          d = d\<lparr>dp_dones := filter (\<lambda>l. l \<notin> set (dp_exited d)) (dp_dones d)\<rparr>
      in if dp_closed d \<or> dp_credential d = [] \<or> dp_expiresAt d = 0 then d
         else d\<lparr>dp_cancel := Some (dp_nextLoop d), dp_dones := dp_dones d @ [dp_nextLoop d],
                dp_nextLoop := Suc (dp_nextLoop d)\<rparr>)"

definition drainRenewalLocked :: "dp \<Rightarrow> dp \<times> nat list" where
  "drainRenewalLocked d =
     (let d = cancelRenewalLocked d in (d\<lparr>dp_dones := []\<rparr>, dp_dones d))"

text \<open>\<open>waitRenewalStopped\<close> returns when every loop it was given has exited.\<close>

definition waitRenewalStopped :: "nat list \<Rightarrow> dp \<Rightarrow> bool" where
  "waitRenewalStopped dones d \<longleftrightarrow> list_all (\<lambda>l. l \<in> set (dp_exited d)) dones"

section \<open>Configuration\<close>

definition setDataPlaneCredentialLocked :: "session_credential option \<Rightarrow> dp \<Rightarrow> dp" where
  "setDataPlaneCredentialLocked credential d = (case credential of
     None \<Rightarrow> d
   | Some c \<Rightarrow>
       if dp_closed d then d
       else restartCredentialRenewalLocked
         (d\<lparr>dp_credential := TrimSpace (sc_credential c), dp_credEndpoint := dp_endpoint d,
            dp_expiresAt := (case sc_expiresAt c of None \<Rightarrow> 0 | Some t \<Rightarrow> t)\<rparr>))"

text \<open>The transport part of \<open>configureDataPlane\<close>: \<open>None\<close> when no HTTP client can be acquired.\<close>

definition moveDataPlaneLocked :: "url_parser \<Rightarrow> string \<Rightarrow> dp \<Rightarrow> dp option" where
  "moveDataPlaneLocked parse endpoint d =
     (if endpoint \<noteq> [] \<and> (dp_endpoint d \<noteq> endpoint \<or> dp_client d = None)
      then case acquireDataPlaneHTTPClient parse endpoint (dp_pool d) of
        (Inl err, p) \<Rightarrow> None
      | (Inr h, p) \<Rightarrow>
          (let d = cancelRenewalLocked (d\<lparr>dp_pool := p\<rparr>);
               d = (case dp_release d of
                      None \<Rightarrow> d
                    | Some old \<Rightarrow> d\<lparr>dp_pool := pool_release old (dp_pool d), dp_release := None\<rparr>);
               d = d\<lparr>dp_endpoint := endpoint,
                     dp_client := Some \<lparr>rc_id = dp_nextClient d, rc_endpoint = endpoint, rc_http = h_client h\<rparr>,
                     dp_nextClient := Suc (dp_nextClient d), dp_release := Some h\<rparr>
           in Some (if dp_credential d \<noteq> [] \<and> dp_credEndpoint d = []
                    then d\<lparr>dp_credEndpoint := endpoint\<rparr> else d))
      else Some d)"

definition configureDataPlane ::
  "url_parser \<Rightarrow> string \<Rightarrow> session_credential option \<Rightarrow> bool \<Rightarrow> dp \<Rightarrow> dp" where
  "configureDataPlane parse endpoint credential fromHint d =
     (let endpoint = TrimSpace endpoint;
          d = (if endpoint \<noteq> [] \<and> \<not> fromHint then hints_remember endpoint d else d)
      in if dp_closed d then d
         else case moveDataPlaneLocked parse endpoint d of
           None \<Rightarrow> d
         | Some d \<Rightarrow>
             (let d = (if endpoint \<noteq> [] \<and> dp_endpoint d = endpoint
                       then d\<lparr>dp_fromHint := fromHint\<rparr> else d)
              in case credential of
                   None \<Rightarrow> d
                 | Some c \<Rightarrow> setDataPlaneCredentialLocked (Some c) d))"

definition markCurrentDataPlaneVerified :: "dp \<Rightarrow> dp" where
  "markCurrentDataPlaneVerified d =
     (case dp_client d of None \<Rightarrow> d | Some c \<Rightarrow> d\<lparr>dp_verified := Some c\<rparr>)"

text \<open>The warm probe is sent once per session handle; its outcome is ignored.\<close>

definition startDataPlaneWarm :: "dp \<Rightarrow> dp" where
  "startDataPlaneWarm d = (case dp_client d of
     None \<Rightarrow> d
   | Some c \<Rightarrow> if dp_warmed d = None then d\<lparr>dp_warmed := Some c\<rparr> else d)"

text \<open>The values of the wire enumeration \<open>DataPlaneRouteStatus\<close>.\<close>

definition ROUTE_VERIFIED :: int where "ROUTE_VERIFIED = 1"
definition ROUTE_NOT_READY :: int where "ROUTE_NOT_READY = 2"
definition ROUTE_FAILED :: int where "ROUTE_FAILED = 3"

definition applyDataPlaneResponse ::
  "url_parser \<Rightarrow> string \<Rightarrow> session_credential option \<Rightarrow> int \<Rightarrow> dp \<Rightarrow> dp" where
  "applyDataPlaneResponse parse endpoint credential routeStatus d =
     (if routeStatus = ROUTE_FAILED then d
      else
        let d = configureDataPlane parse endpoint credential False d
        in if routeStatus = ROUTE_VERIFIED then markCurrentDataPlaneVerified d
           else startDataPlaneWarm d)"

section \<open>Closing\<close>

definition closeDataPlane_locked :: "dp \<Rightarrow> dp \<times> nat list" where
  "closeDataPlane_locked d = drainRenewalLocked (d\<lparr>dp_closed := True\<rparr>)"

definition resetDataPlane_locked :: "dp \<Rightarrow> dp \<times> nat list" where
  "resetDataPlane_locked d =
     (let (d, dones) = drainRenewalLocked d;
          d = d\<lparr>dp_endpoint := [], dp_credential := [], dp_credEndpoint := [], dp_expiresAt := 0,
                dp_client := None, dp_fromHint := False\<rparr>
      in (case dp_release d of
            None \<Rightarrow> d
          | Some h \<Rightarrow> d\<lparr>dp_pool := pool_release h (dp_pool d), dp_release := None\<rparr>, dones))"

definition clear_verified :: "dp \<Rightarrow> dp" where
  "clear_verified d = d\<lparr>dp_verified := None\<rparr>"

text \<open>
  A call without concurrency: the cancelled loops it waits for are gone when it returns.
\<close>

definition await_loops :: "dp \<times> nat list \<Rightarrow> dp" where
  "await_loops r = (let (d, dones) = r in d\<lparr>dp_exited := dones @ dp_exited d\<rparr>)"

definition closeDataPlane :: "dp \<Rightarrow> dp" where
  "closeDataPlane d = await_loops (closeDataPlane_locked d)"

definition resetDataPlane :: "dp \<Rightarrow> dp" where
  "resetDataPlane d =
     (let (d, dones) = resetDataPlane_locked (hints_clear d) in await_loops (clear_verified d, dones))"

definition Session_Release :: "dp \<Rightarrow> dp" where
  "Session_Release d = resetDataPlane (closeDataPlane (d\<lparr>dp_released := True\<rparr>))"

text \<open>\<open>reply\<close> is the answer of \<open>TerminateSession\<close>; the session it carries is applied elsewhere.\<close>

definition Session_Close :: "(go_error, 'r) result \<Rightarrow> dp \<Rightarrow> go_error option \<times> dp" where
  "Session_Close reply d =
     (if dp_closeDone d then (None, d)
      else
        let d = resetDataPlane (closeDataPlane d)
        in case reply of
             Inl err \<Rightarrow> (mapError (Some err), d\<lparr>dp_closed := dp_released d\<rparr>)
           | Inr resp \<Rightarrow> (None, d\<lparr>dp_closeDone := True\<rparr>))"

section \<open>Credentials and clients\<close>

definition dataPlaneClientTargets :: "string \<Rightarrow> dp \<Rightarrow> bool" where
  "dataPlaneClientTargets endpoint d \<longleftrightarrow> dp_endpoint d = endpoint"

definition dataPlaneCredentialForEndpoint :: "string \<Rightarrow> dp \<Rightarrow> string \<times> bool" where
  "dataPlaneCredentialForEndpoint endpoint d =
     (if dp_credential d = [] then ([], True)
      else if dp_credEndpoint d \<noteq> endpoint then ([], False)
      else (dp_credential d, True))"

definition currentDataPlaneCredential :: "dp \<Rightarrow> string" where
  "currentDataPlaneCredential d = dp_credential d"

definition currentDataPlaneClient :: "rpc_client \<Rightarrow> dp \<Rightarrow> rpc_client" where
  "currentDataPlaneClient probed d = (case dp_client d of Some c \<Rightarrow> c | None \<Rightarrow> probed)"

definition dataPlaneProvisioningPending :: "rpc_client \<Rightarrow> dp \<Rightarrow> bool" where
  "dataPlaneProvisioningPending client d \<longleftrightarrow>
     dp_client d = Some client \<and> dp_verified d \<noteq> Some client"

definition markDataPlaneVerified :: "rpc_client \<Rightarrow> dp \<Rightarrow> dp" where
  "markDataPlaneVerified client d =
     (if dp_client d \<noteq> Some client then d else d\<lparr>dp_verified := Some client\<rparr>)"

definition dataPlaneVerifiedClientIs :: "rpc_client \<Rightarrow> dp \<Rightarrow> bool" where
  "dataPlaneVerifiedClientIs client d \<longleftrightarrow> dp_verified d = Some client"

section \<open>Sample values\<close>

text \<open>A parser that knows one host, and a credential.\<close>

definition one_host :: url_parser where
  "one_host u = Inr (''https'', ''n1'')"

definition cred_x :: session_credential where
  "cred_x = \<lparr>sc_credential = ''x'', sc_expiresAt = Some 60\<rparr>"

lemma trims [simp]: "TrimSpace ''https://n1'' = ''https://n1''" "TrimSpace ''x'' = ''x''"
  by (simp_all add: TrimSpace_printable printable_def)

end
