(* ===== verification/DataPlaneSafety.thy ===== *)
theory DataPlaneSafety
  imports DataPlane
begin

text \<open>
  Every concurrent history of a session's data plane, and what holds throughout: the pool reference,
  the renewal loops and the binding of the credential.
\<close>

section \<open>Histories\<close>

text \<open>
  The system is the data plane with two records of its history that the code does not keep: the
  credentials received, each with the endpoint its response named (empty when it named none), and
  the loops that each unfinished drain still waits for.
\<close>

record sys =
  sy_dp :: dp
  sy_received :: "(string \<times> string) list"
  sy_waiting :: "nat list list"

definition start_sys :: sys where
  "start_sys = \<lparr>sy_dp = fresh_dp, sy_received = [], sy_waiting = []\<rparr>"

abbreviation on_dp :: "(dp \<Rightarrow> dp) \<Rightarrow> sys \<Rightarrow> sys" where
  "on_dp f s \<equiv> s\<lparr>sy_dp := f (sy_dp s)\<rparr>"

definition receive :: "session_credential option \<Rightarrow> string \<Rightarrow> sys \<Rightarrow> sys" where
  "receive credential endpoint s = (case credential of
     None \<Rightarrow> s
   | Some c \<Rightarrow> s\<lparr>sy_received := (TrimSpace (sc_credential c), TrimSpace endpoint) # sy_received s\<rparr>)"

definition drain :: "(dp \<Rightarrow> dp \<times> nat list) \<Rightarrow> sys \<Rightarrow> sys" where
  "drain f s = s\<lparr>sy_dp := fst (f (sy_dp s)), sy_waiting := snd (f (sy_dp s)) # sy_waiting s\<rparr>"

text \<open>
  One step is one critical section of some goroutine (a response applied, a hint used, a part of
  \<open>Close\<close>, \<open>Release\<close> or a reset), the exit of a loop, a drain that returns, or another session
  of the client using the pool. \<open>Close\<close> reopens the data plane of a failed call (\<open>failed_close\<close>)
  under \<open>closeMu\<close>, which it has held since it closed it, so the data plane is closed then.
\<close>

inductive dp_step :: "url_parser \<Rightarrow> sys \<Rightarrow> sys \<Rightarrow> bool" for parse where
  respond: "dp_step parse s (receive cred ep (on_dp (configureDataPlane parse ep cred False) s))"
| respond_bare: "dp_step parse s (receive (Some c) [] (on_dp (setDataPlaneCredentialLocked (Some c)) s))"
| use_hint: "dp_step parse s (on_dp (configureDataPlane parse h None True) s)"
| verified: "dp_step parse s (on_dp markCurrentDataPlaneVerified s)"
| probed: "dp_step parse s (on_dp (markDataPlaneVerified c) s)"
| warm: "dp_step parse s (on_dp startDataPlaneWarm s)"
| close_latch: "dp_step parse s (drain closeDataPlane_locked s)"
| set_released: "dp_step parse s (on_dp (dp_released_update (\<lambda>_. True)) s)"
| reset_hint: "dp_step parse s (on_dp hints_clear s)"
| reset: "dp_step parse s (drain resetDataPlane_locked s)"
| reset_verified: "dp_step parse s (on_dp clear_verified s)"
| failed_close: "dp_closed (sy_dp s) \<Longrightarrow>
    dp_step parse s (on_dp (\<lambda>d. d\<lparr>dp_closed := dp_released d\<rparr>) s)"
| closed: "dp_step parse s (on_dp (dp_closeDone_update (\<lambda>_. True)) s)"
| loop_exit: "l < dp_nextLoop (sy_dp s) \<Longrightarrow>
    dp_step parse s (on_dp (\<lambda>d. d\<lparr>dp_exited := l # dp_exited d\<rparr>) s)"
| drained: "sy_waiting s = ws @ w # ws' \<Longrightarrow> waitRenewalStopped w (sy_dp s) \<Longrightarrow>
    dp_step parse s (s\<lparr>sy_waiting := ws @ ws'\<rparr>)"
| other_acquire: "dp_step parse s (on_dp (\<lambda>d. d\<lparr>dp_pool := fst (pool_acquire orig (dp_pool d))\<rparr>) s)"
| other_release: "h \<in> set (p_issued (dp_pool (sy_dp s))) \<Longrightarrow> dp_release (sy_dp s) \<noteq> Some h \<Longrightarrow>
    dp_step parse s (on_dp (\<lambda>d. d\<lparr>dp_pool := pool_release h (dp_pool d)\<rparr>) s)"
| client_close: "dp_step parse s (on_dp (\<lambda>d. d\<lparr>dp_pool := closeDataPlaneHTTPClients (dp_pool d)\<rparr>) s)"

inductive dp_reach :: "url_parser \<Rightarrow> sys \<Rightarrow> bool" for parse where
  dp_start: "dp_reach parse start_sys"
| dp_next: "dp_reach parse s \<Longrightarrow> dp_step parse s t \<Longrightarrow> dp_reach parse t"

section \<open>The operations as updates\<close>

lemma cancel_eq:
  "cancelRenewalLocked d =
     d\<lparr>dp_cancelled := opt_list (dp_cancel d) @ dp_cancelled d, dp_cancel := None\<rparr>"
  by (simp add: cancelRenewalLocked_def split: option.splits)

lemma restart_eq:
  "restartCredentialRenewalLocked d =
     (let keep = filter (\<lambda>l. l \<notin> set (dp_exited d)) (dp_dones d);
          run = \<not> (dp_closed d \<or> dp_credential d = [] \<or> dp_expiresAt d = 0)
      in d\<lparr>dp_cancelled := opt_list (dp_cancel d) @ dp_cancelled d,
           dp_cancel := (if run then Some (dp_nextLoop d) else None),
           dp_dones := (if run then keep @ [dp_nextLoop d] else keep),
           dp_nextLoop := (if run then Suc (dp_nextLoop d) else dp_nextLoop d)\<rparr>)"
  by (simp add: restartCredentialRenewalLocked_def cancel_eq Let_def)

lemma remember_eq: "hints_remember ep d = d\<lparr>dp_hint := (if TrimSpace ep = [] then dp_hint d else TrimSpace ep)\<rparr>"
  by (simp add: hints_remember_def Let_def)

lemma drain_eq:
  "drainRenewalLocked d =
     (d\<lparr>dp_cancelled := opt_list (dp_cancel d) @ dp_cancelled d, dp_cancel := None, dp_dones := []\<rparr>, dp_dones d)"
  by (simp add: drainRenewalLocked_def cancel_eq Let_def)

lemma reset_eq:
  "resetDataPlane_locked d =
     (d\<lparr>dp_cancelled := opt_list (dp_cancel d) @ dp_cancelled d, dp_cancel := None, dp_dones := [],
        dp_endpoint := [], dp_credential := [], dp_credEndpoint := [], dp_expiresAt := 0,
        dp_client := None, dp_fromHint := False, dp_release := None,
        dp_pool := (case dp_release d of None \<Rightarrow> dp_pool d | Some h \<Rightarrow> pool_release h (dp_pool d))\<rparr>,
      dp_dones d)"
  by (simp add: resetDataPlane_locked_def drain_eq Let_def split: option.splits)

lemma acquire_cases:
  "acquireDataPlaneHTTPClient parse endpoint p =
     (case dataPlaneOrigin parse endpoint of
        Inl e \<Rightarrow> (Inl e, p)
      | Inr orig \<Rightarrow> (Inr (snd (pool_acquire orig p)), fst (pool_acquire orig p)))"
  by (simp add: acquireDataPlaneHTTPClient_def case_prod_beta split: sum.splits)

definition moved :: "string \<Rightarrow> string \<Rightarrow> dp \<Rightarrow> dp" where
  "moved endpoint orig d =
     (let (p, h) = pool_acquire orig (dp_pool d)
      in d\<lparr>dp_pool := (case dp_release d of None \<Rightarrow> p | Some old \<Rightarrow> pool_release old p),
           dp_cancelled := opt_list (dp_cancel d) @ dp_cancelled d, dp_cancel := None,
           dp_endpoint := endpoint, dp_release := Some h,
           dp_client := Some \<lparr>rc_id = dp_nextClient d, rc_endpoint = endpoint, rc_http = h_client h\<rparr>,
           dp_nextClient := Suc (dp_nextClient d),
           dp_credEndpoint := (if dp_credential d \<noteq> [] \<and> dp_credEndpoint d = [] then endpoint
                               else dp_credEndpoint d)\<rparr>)"

lemma move_eq:
  "moveDataPlaneLocked parse endpoint d =
     (if endpoint \<noteq> [] \<and> (dp_endpoint d \<noteq> endpoint \<or> dp_client d = None)
      then case dataPlaneOrigin parse endpoint of
        Inl e \<Rightarrow> None
      | Inr orig \<Rightarrow> Some (moved endpoint orig d)
      else Some d)"
  by (simp add: moveDataPlaneLocked_def acquire_cases moved_def cancel_eq Let_def case_prod_beta
      split: sum.splits option.splits)

text \<open>
  \<open>configureDataPlane\<close> in a closed data plane, with an endpoint that has no transport, and otherwise:
  a move (or none) followed by the credential.
\<close>

lemma configure_cases:
  obtains
    (closed) "dp_closed d" "configureDataPlane parse ep cred hint d =
        (if hint then d else hints_remember ep d)"
  | (stuck) e where "dataPlaneOrigin parse (TrimSpace ep) = Inl e"
      "configureDataPlane parse ep cred hint d = (if hint then d else hints_remember ep d)"
  | (moves) orig where "\<not> dp_closed d" "TrimSpace ep \<noteq> []" "dataPlaneOrigin parse (TrimSpace ep) = Inr orig"
      "dp_endpoint d \<noteq> TrimSpace ep \<or> dp_client d = None"
      "configureDataPlane parse ep cred hint d = setDataPlaneCredentialLocked cred
        (moved (TrimSpace ep) orig (if hint then d else hints_remember ep d)\<lparr>dp_fromHint := hint\<rparr>)"
  | (stays) "\<not> dp_closed d" "TrimSpace ep = [] \<or> dp_endpoint d = TrimSpace ep \<and> dp_client d \<noteq> None"
      "configureDataPlane parse ep cred hint d = setDataPlaneCredentialLocked cred
        ((if hint then d else hints_remember ep d)
           \<lparr>dp_fromHint := (if TrimSpace ep = [] then dp_fromHint d else hint)\<rparr>)"
proof -
  let ?e = "TrimSpace ep" and ?r = "if hint then d else hints_remember ep d"
  have r: "(if ?e \<noteq> [] \<and> \<not> hint then hints_remember ?e d else d) = ?r"
    by (auto simp: remember_eq)
  have f: "dp_closed ?r = dp_closed d" "dp_endpoint ?r = dp_endpoint d" "dp_client ?r = dp_client d"
    "dp_fromHint ?r = dp_fromHint d"
    by (simp_all add: remember_eq)
  have set_None: "setDataPlaneCredentialLocked cred x =
      (case cred of None \<Rightarrow> x | Some c \<Rightarrow> setDataPlaneCredentialLocked (Some c) x)" for x
    by (simp add: setDataPlaneCredentialLocked_def split: option.splits)
  have C: "configureDataPlane parse ep cred hint d =
      (if dp_closed d then ?r else case moveDataPlaneLocked parse ?e ?r of None \<Rightarrow> ?r
       | Some d \<Rightarrow> setDataPlaneCredentialLocked cred
           (if ?e \<noteq> [] \<and> dp_endpoint d = ?e then d\<lparr>dp_fromHint := hint\<rparr> else d))"
    unfolding configureDataPlane_def Let_def r f set_None by (rule refl)
  have same: "hints_remember ep d\<lparr>dp_fromHint := dp_fromHint d\<rparr> = hints_remember ep d"
    by (rule dp.equality) (simp_all add: remember_eq)
  show thesis
  proof (cases "dp_closed d")
    case True
    then show thesis using closed by (simp add: C)
  next
    case alive: False
    show thesis
    proof (cases "?e \<noteq> [] \<and> (dp_endpoint d \<noteq> ?e \<or> dp_client d = None)")
      case True
      then show thesis
      proof (cases "dataPlaneOrigin parse ?e")
        case (Inl e)
        then show thesis using True alive by (intro stuck) (simp_all add: C f move_eq)
      next
        case (Inr orig)
        have "dp_endpoint (moved ?e orig ?r) = ?e" by (simp add: moved_def case_prod_beta)
        then show thesis
          using True alive Inr
          by (intro moves) (simp_all add: C f move_eq)
      qed
    next
      case False
      then show thesis
        using alive
        by (intro stays) (auto simp: C f move_eq same)
    qed
  qed
qed

section \<open>The client and its reference\<close>

definition client_bound :: "url_parser \<Rightarrow> dp \<Rightarrow> bool" where
  "client_bound parse d \<longleftrightarrow>
     pool_inv (dp_pool d) \<and>
     (case dp_client d of
        None \<Rightarrow> dp_endpoint d = [] \<and> dp_release d = None
      | Some c \<Rightarrow> rc_endpoint c = dp_endpoint d \<and> dp_endpoint d \<noteq> [] \<and>
          (case dp_release d of
             None \<Rightarrow> False
           | Some h \<Rightarrow> h_client h = rc_http c \<and> dataPlaneOrigin parse (dp_endpoint d) = Inr (h_origin h) \<and>
               h \<in> set (p_issued (dp_pool d)) \<and> h_id h \<notin> set (p_done (dp_pool d))))"

lemma pool_release_done: "set (p_done (pool_release h p)) = insert (h_id h) (set (p_done p))"
  by (auto simp: pool_release_def Let_def split: option.splits)

lemma pool_acquire_done [simp]: "p_done (fst (pool_acquire orig p)) = p_done p"
  by (simp add: pool_acquire_cases split: option.splits)

lemma pool_acquire_handle [simp]:
  "h_origin (snd (pool_acquire orig p)) = orig" "h_id (snd (pool_acquire orig p)) = p_nextHandle p"
  by (simp_all add: pool_acquire_cases split: option.splits)

lemma pool_inv_ids:
  "pool_inv p \<Longrightarrow> h \<in> set (p_issued p) \<Longrightarrow> h_id h \<noteq> p_nextHandle p"
  "pool_inv p \<Longrightarrow> p_nextHandle p \<notin> set (p_done p)"
  by (auto simp: pool_inv_def)

lemma bound_moved:
  assumes "client_bound parse d" and "endpoint \<noteq> []" and "dataPlaneOrigin parse endpoint = Inr orig"
  shows "client_bound parse (moved endpoint orig d)"
proof -
  let ?p = "fst (pool_acquire orig (dp_pool d))"
  have i: "pool_inv (dp_pool d)" using assms(1) by (simp add: client_bound_def)
  note a = pool_inv_acquire [OF i, of orig]
  show ?thesis
  proof (cases "dp_release d")
    case None
    then show ?thesis
      using assms(2,3) a pool_inv_ids [OF i]
      by (simp add: client_bound_def moved_def case_prod_beta pool_acquire_issued)
  next
    case (Some old)
    then have o: "old \<in> set (p_issued (dp_pool d))"
      using assms(1) by (simp add: client_bound_def split: option.splits)
    have "old \<in> set (p_issued ?p)" using o by (simp add: pool_acquire_issued)
    from pool_inv_release [OF a this] have "pool_inv (pool_release old ?p)" .
    then show ?thesis
      using assms(2,3) Some o pool_inv_ids(1) [OF i o] pool_inv_ids(2) [OF i]
      by (auto simp: client_bound_def moved_def case_prod_beta pool_acquire_issued pool_release_done)
  qed
qed

lemma bound_cong:
  "dp_pool d' = dp_pool d \<Longrightarrow> dp_client d' = dp_client d \<Longrightarrow> dp_endpoint d' = dp_endpoint d \<Longrightarrow>
   dp_release d' = dp_release d \<Longrightarrow> client_bound parse d' = client_bound parse d"
  by (simp add: client_bound_def cong: option.case_cong)

lemma set_keeps [simp]:
  "dp_pool (setDataPlaneCredentialLocked cred d) = dp_pool d"
  "dp_client (setDataPlaneCredentialLocked cred d) = dp_client d"
  "dp_endpoint (setDataPlaneCredentialLocked cred d) = dp_endpoint d"
  "dp_release (setDataPlaneCredentialLocked cred d) = dp_release d"
  "dp_closed (setDataPlaneCredentialLocked cred d) = dp_closed d"
  "dp_released (setDataPlaneCredentialLocked cred d) = dp_released d"
  "dp_exited (setDataPlaneCredentialLocked cred d) = dp_exited d"
  by (simp_all add: setDataPlaneCredentialLocked_def restart_eq Let_def split: option.splits)

lemma bound_configure:
  assumes "client_bound parse d"
  shows "client_bound parse (configureDataPlane parse ep cred hint d)"
proof -
  let ?r = "if hint then d else hints_remember ep d"
  have r: "client_bound parse ?r" using assms bound_cong [of "hints_remember ep d" d] by (simp add: remember_eq)
  show ?thesis
  proof (cases rule: configure_cases [of d parse ep cred hint])
    case (moves orig)
    then show ?thesis
      using bound_moved [OF r moves(2,3)] by (subst bound_cong) auto
  next
    case stays
    then show ?thesis using r by (subst bound_cong) auto
  qed (use r in simp_all)
qed

lemma bound_reset:
  assumes "client_bound parse d"
  shows "client_bound parse (fst (resetDataPlane_locked d))"
  using assms pool_inv_release
  by (auto simp: reset_eq client_bound_def split: option.splits)

text \<open>Another session never holds this session's handle, so its use of the pool leaves it alone.\<close>

lemma bound_pool:
  assumes "client_bound parse d"
  shows "client_bound parse (d\<lparr>dp_pool := fst (pool_acquire orig (dp_pool d))\<rparr>)"
    and "h \<in> set (p_issued (dp_pool d)) \<Longrightarrow> dp_release d \<noteq> Some h \<Longrightarrow>
      client_bound parse (d\<lparr>dp_pool := pool_release h (dp_pool d)\<rparr>)"
    and "client_bound parse (d\<lparr>dp_pool := closeDataPlaneHTTPClients (dp_pool d)\<rparr>)"
proof -
  have i: "pool_inv (dp_pool d)" using assms by (simp add: client_bound_def)
  show "client_bound parse (d\<lparr>dp_pool := fst (pool_acquire orig (dp_pool d))\<rparr>)"
    using assms pool_inv_acquire [OF i, of orig]
    by (auto simp: client_bound_def pool_acquire_issued split: option.splits)
  show "client_bound parse (d\<lparr>dp_pool := closeDataPlaneHTTPClients (dp_pool d)\<rparr>)"
    using assms pool_inv_close [OF i]
    by (auto simp: client_bound_def closeDataPlaneHTTPClients_def split: option.splits)
  assume h: "h \<in> set (p_issued (dp_pool d))" "dp_release d \<noteq> Some h"
  have "h_id h' = h_id h \<Longrightarrow> h' \<in> set (p_issued (dp_pool d)) \<Longrightarrow> h' = h" for h'
    using i h(1) by (auto simp: pool_inv_def distinct_map inj_on_def)
  then show "client_bound parse (d\<lparr>dp_pool := pool_release h (dp_pool d)\<rparr>)"
    using assms h pool_inv_release [OF i h(1)]
    by (auto simp: client_bound_def pool_release_done split: option.splits)
qed

section \<open>The renewal loops\<close>

definition loops_ok :: "sys \<Rightarrow> bool" where
  "loops_ok s \<longleftrightarrow>
     (let d = sy_dp s in
       (\<forall>l<dp_nextLoop d. l \<in> set (dp_cancelled d) \<or> dp_cancel d = Some l) \<and>
       (\<forall>l \<in> set (dp_cancelled d). l < dp_nextLoop d) \<and>
       (\<forall>l. dp_cancel d = Some l \<longrightarrow> l < dp_nextLoop d \<and> l \<notin> set (dp_cancelled d) \<and> \<not> dp_closed d \<and>
          dp_credential d \<noteq> [] \<and> dp_expiresAt d \<noteq> 0) \<and>
       (\<forall>l<dp_nextLoop d. l \<in> set (dp_exited d) \<or> l \<in> set (dp_dones d) \<or>
          (\<exists>w \<in> set (sy_waiting s). l \<in> set w)))"

lemma loops_cong:
  "loops_ok s \<Longrightarrow> dp_nextLoop d = dp_nextLoop (sy_dp s) \<Longrightarrow> dp_cancelled d = dp_cancelled (sy_dp s) \<Longrightarrow>
   dp_cancel d = dp_cancel (sy_dp s) \<Longrightarrow> dp_closed d = dp_closed (sy_dp s) \<Longrightarrow>
   dp_credential d = dp_credential (sy_dp s) \<Longrightarrow> dp_expiresAt d = dp_expiresAt (sy_dp s) \<Longrightarrow>
   set (dp_exited (sy_dp s)) \<subseteq> set (dp_exited d) \<Longrightarrow> dp_dones d = dp_dones (sy_dp s) \<Longrightarrow>
   loops_ok (s\<lparr>sy_dp := d\<rparr>)"
  by (auto simp: loops_ok_def Let_def)

lemma loops_cancelled:
  "loops_ok s \<Longrightarrow> dp_nextLoop d = dp_nextLoop (sy_dp s) \<Longrightarrow> dp_dones d = dp_dones (sy_dp s) \<Longrightarrow>
   dp_cancelled d = opt_list (dp_cancel (sy_dp s)) @ dp_cancelled (sy_dp s) \<Longrightarrow> dp_cancel d = None \<Longrightarrow>
   dp_exited d = dp_exited (sy_dp s) \<Longrightarrow> loops_ok (s\<lparr>sy_dp := d\<rparr>)"
  by (auto simp: loops_ok_def Let_def opt_list_def split: option.splits)

lemma loops_drained:
  assumes "loops_ok s" and "dp_nextLoop d = dp_nextLoop (sy_dp s)" and "dp_dones d = []"
    and "dp_cancelled d = opt_list (dp_cancel (sy_dp s)) @ dp_cancelled (sy_dp s)"
    and "dp_cancel d = None" and "dp_exited d = dp_exited (sy_dp s)"
  shows "loops_ok (s\<lparr>sy_dp := d, sy_waiting := dp_dones (sy_dp s) # sy_waiting s\<rparr>)"
  using assms by (auto simp: loops_ok_def Let_def opt_list_def split: option.splits)

lemma loops_set:
  assumes "loops_ok s"
  shows "loops_ok (on_dp (setDataPlaneCredentialLocked cred) s)"
proof (cases "cred = None \<or> dp_closed (sy_dp s)")
  case True
  then have "setDataPlaneCredentialLocked cred (sy_dp s) = sy_dp s"
    by (auto simp: setDataPlaneCredentialLocked_def split: option.splits)
  with assms show ?thesis by simp
next
  case False
  then obtain c where c: "cred = Some c" and o: "\<not> dp_closed (sy_dp s)" by auto
  have new: "dp_nextLoop (sy_dp s) \<notin> set (dp_cancelled (sy_dp s))"
    "dp_cancel (sy_dp s) \<noteq> Some (dp_nextLoop (sy_dp s))"
    using assms by (auto simp: loops_ok_def Let_def)
  show ?thesis
    using assms new o unfolding c
    by (auto simp: setDataPlaneCredentialLocked_def restart_eq loops_ok_def Let_def opt_list_def
        less_Suc_eq split: option.splits)
qed

lemma loops_receive [simp]: "loops_ok (receive cred ep s) = loops_ok s"
  by (simp add: receive_def loops_ok_def Let_def split: option.splits)

lemma loops_configure:
  assumes "loops_ok s"
  shows "loops_ok (on_dp (configureDataPlane parse ep cred hint) s)"
proof -
  let ?r = "if hint then sy_dp s else hints_remember ep (sy_dp s)"
  have r: "loops_ok (s\<lparr>sy_dp := ?r\<rparr>)"
    by (rule loops_cong [OF assms]) (simp_all add: remember_eq)
  show ?thesis
  proof (cases rule: configure_cases [of "sy_dp s" parse ep cred hint])
    case (moves orig)
    have "loops_ok (s\<lparr>sy_dp := moved (TrimSpace ep) orig ?r\<lparr>dp_fromHint := hint\<rparr>\<rparr>)"
      by (rule loops_cancelled [OF r, simplified])
        (simp_all add: moved_def case_prod_beta remember_eq)
    from loops_set [OF this, of cred] show ?thesis by (simp add: moves)
  next
    case stays
    have "loops_ok (s\<lparr>sy_dp := ?r\<lparr>dp_fromHint := if TrimSpace ep = [] then dp_fromHint (sy_dp s) else hint\<rparr>\<rparr>)"
      by (rule loops_cong [OF r, simplified]) simp_all
    from loops_set [OF this, of cred] show ?thesis by (simp add: stays)
  qed (use r in simp_all)
qed

section \<open>The binding of the credential\<close>

definition cred_ok :: "sys \<Rightarrow> bool" where
  "cred_ok s \<longleftrightarrow> (dp_credential (sy_dp s) = [] \<or>
     (dp_credential (sy_dp s), dp_credEndpoint (sy_dp s)) \<in> set (sy_received s) \<or>
     (dp_credential (sy_dp s), []) \<in> set (sy_received s))"

lemma set_cred:
  "dp_closed d \<Longrightarrow> setDataPlaneCredentialLocked cred d = d"
  "\<not> dp_closed d \<Longrightarrow> dp_credential (setDataPlaneCredentialLocked (Some c) d) = TrimSpace (sc_credential c)"
  "\<not> dp_closed d \<Longrightarrow> dp_credEndpoint (setDataPlaneCredentialLocked (Some c) d) = dp_endpoint d"
  "setDataPlaneCredentialLocked None d = d"
  by (simp_all add: setDataPlaneCredentialLocked_def restart_eq Let_def split: option.splits)

lemma moved_fields [simp]:
  "dp_credential (moved ep orig d) = dp_credential d" "dp_closed (moved ep orig d) = dp_closed d"
  "dp_endpoint (moved ep orig d) = ep"
  "dp_credEndpoint (moved ep orig d) =
     (if dp_credential d \<noteq> [] \<and> dp_credEndpoint d = [] then ep else dp_credEndpoint d)"
  by (simp_all add: moved_def case_prod_beta)

lemma remember_keeps [simp]:
  "dp_credential (hints_remember ep d) = dp_credential d" "dp_closed (hints_remember ep d) = dp_closed d"
  "dp_endpoint (hints_remember ep d) = dp_endpoint d" "dp_credEndpoint (hints_remember ep d) = dp_credEndpoint d"
  by (simp_all add: remember_eq)

lemma cred_configure:
  assumes "cred_ok s"
  shows "cred_ok (receive cred ep (on_dp (configureDataPlane parse ep cred hint) s))"
proof (cases rule: configure_cases [of "sy_dp s" parse ep cred hint])
  case (moves orig)
  then show ?thesis
    using assms by (cases cred) (auto simp: cred_ok_def receive_def set_cred)
next
  case stays
  then show ?thesis
    using assms by (cases cred) (auto simp: cred_ok_def receive_def set_cred)
qed (use assms in \<open>auto simp: cred_ok_def receive_def split: option.splits\<close>)

section \<open>The invariant of every history\<close>

definition sys_inv :: "url_parser \<Rightarrow> sys \<Rightarrow> bool" where
  "sys_inv parse s \<longleftrightarrow> client_bound parse (sy_dp s) \<and> loops_ok s \<and> cred_ok s"

lemma sys_inv_start: "sys_inv parse start_sys"
  by (simp add: sys_inv_def start_sys_def fresh_dp_def client_bound_def pool_inv_empty loops_ok_def
      Let_def cred_ok_def)

text \<open>A step that changes no field the invariant reads.\<close>

lemma sys_inv_frame:
  assumes "sys_inv parse s" and "dp_pool d = dp_pool (sy_dp s)" and "dp_client d = dp_client (sy_dp s)"
    and "dp_endpoint d = dp_endpoint (sy_dp s)" and "dp_release d = dp_release (sy_dp s)"
    and "dp_nextLoop d = dp_nextLoop (sy_dp s)" and "dp_cancelled d = dp_cancelled (sy_dp s)"
    and "dp_cancel d = dp_cancel (sy_dp s)" and "dp_closed d = dp_closed (sy_dp s)"
    and "dp_credential d = dp_credential (sy_dp s)" and "dp_expiresAt d = dp_expiresAt (sy_dp s)"
    and "set (dp_exited (sy_dp s)) \<subseteq> set (dp_exited d)" and "dp_dones d = dp_dones (sy_dp s)"
    and "dp_credEndpoint d = dp_credEndpoint (sy_dp s)"
  shows "sys_inv parse (s\<lparr>sy_dp := d\<rparr>)"
  using assms loops_cong [of s d] bound_cong [of d "sy_dp s"]
  by (simp add: sys_inv_def cred_ok_def)

lemma sys_inv_pool:
  assumes "sys_inv parse s" and "client_bound parse ((sy_dp s)\<lparr>dp_pool := p\<rparr>)"
  shows "sys_inv parse (s\<lparr>sy_dp := (sy_dp s)\<lparr>dp_pool := p\<rparr>\<rparr>)"
  using assms loops_cong [of s "(sy_dp s)\<lparr>dp_pool := p\<rparr>"] by (simp add: sys_inv_def cred_ok_def)

lemma sys_inv_close:
  assumes "sys_inv parse s"
  shows "sys_inv parse (drain closeDataPlane_locked s)"
proof -
  let ?d = "fst (closeDataPlane_locked (sy_dp s))"
  have "client_bound parse ?d"
    using assms bound_cong [of ?d "sy_dp s"] by (simp add: sys_inv_def closeDataPlane_locked_def drain_eq)
  moreover have "loops_ok (drain closeDataPlane_locked s)"
    using loops_drained [of s ?d] assms
    by (simp add: sys_inv_def drain_def closeDataPlane_locked_def drain_eq)
  ultimately show ?thesis
    using assms by (simp add: sys_inv_def drain_def cred_ok_def closeDataPlane_locked_def drain_eq)
qed

lemma sys_inv_reset:
  assumes "sys_inv parse s"
  shows "sys_inv parse (drain resetDataPlane_locked s)"
proof -
  have "loops_ok (drain resetDataPlane_locked s)"
    using loops_drained [of s "fst (resetDataPlane_locked (sy_dp s))"] assms
    by (simp add: sys_inv_def drain_def reset_eq)
  then show ?thesis
    using assms bound_reset by (simp add: sys_inv_def drain_def cred_ok_def reset_eq)
qed

lemma receive_dp [simp]: "sy_dp (receive cred ep s) = sy_dp s"
  by (simp add: receive_def split: option.splits)

lemma sys_inv_step:
  assumes "dp_step parse s t" and "sys_inv parse s"
  shows "sys_inv parse t"
proof -
  have b: "client_bound parse (sy_dp s)" using assms(2) by (simp add: sys_inv_def)
  from assms(1) show ?thesis
proof cases
  case (respond cred ep)
  then show ?thesis
    using assms(2) bound_configure [of parse "sy_dp s" ep cred False]
      loops_configure [of s parse ep cred False] cred_configure [of s cred ep parse False]
    by (simp add: sys_inv_def)
next
  case (respond_bare c)
  have "cred_ok t" if "cred_ok s"
    using that by (cases "dp_closed (sy_dp s)") (auto simp: respond_bare cred_ok_def receive_def set_cred)
  then show ?thesis
    using assms(2) loops_set [of s "Some c"] bound_cong [of "setDataPlaneCredentialLocked (Some c) (sy_dp s)" "sy_dp s"]
    by (simp add: respond_bare sys_inv_def)
next
  case (use_hint h)
  have "receive None h x = x" for x by (simp add: receive_def)
  then show ?thesis
    using assms(2) bound_configure [of parse "sy_dp s" h None True]
      loops_configure [of s parse h None True] cred_configure [of s None h parse True]
    by (simp add: use_hint sys_inv_def)
next
  case failed_close
  have "loops_ok t" if "loops_ok s" using that failed_close by (auto simp: loops_ok_def Let_def)
  then show ?thesis
    using assms(2) bound_cong [of "(sy_dp s)\<lparr>dp_closed := dp_released (sy_dp s)\<rparr>" "sy_dp s"]
    by (simp add: failed_close sys_inv_def cred_ok_def)
next
  case (drained ws w ws')
  then show ?thesis
    using assms(2)
    by (auto simp: sys_inv_def loops_ok_def Let_def cred_ok_def waitRenewalStopped_def list_all_iff)
next
  case close_latch
  then show ?thesis using assms(2) by (simp add: sys_inv_close)
next
  case reset
  then show ?thesis using assms(2) by (simp add: sys_inv_reset)
next
  case (other_acquire orig)
  show ?thesis
    unfolding other_acquire by (rule sys_inv_pool [OF assms(2) bound_pool(1) [OF b]])
next
  case (other_release h)
  show ?thesis
    unfolding other_release(1) by (rule sys_inv_pool [OF assms(2) bound_pool(2) [OF b other_release(2,3)]])
next
  case client_close
  show ?thesis
    unfolding client_close by (rule sys_inv_pool [OF assms(2) bound_pool(3) [OF b]])
next
  case (loop_exit l)
  show ?thesis
    unfolding loop_exit(1) by (rule sys_inv_frame [OF assms(2)]) (simp_all add: subset_insertI)
qed (use sys_inv_frame [OF assms(2)] in \<open>auto simp: markCurrentDataPlaneVerified_def
    markDataPlaneVerified_def startDataPlaneWarm_def hints_clear_def clear_verified_def split: option.splits\<close>)
qed

lemma dp_reach_inv: "dp_reach parse s \<Longrightarrow> sys_inv parse s"
  by (induction rule: dp_reach.induct) (simp_all add: sys_inv_start sys_inv_step)

section \<open>Properties\<close>

text \<open>The history of a session that got a credential with its endpoint.\<close>

definition after_response :: sys where
  "after_response = receive (Some cred_x) ''https://n1''
     (on_dp (configureDataPlane one_host ''https://n1'' (Some cred_x) False) start_sys)"

lemma reach_after_response: "dp_reach one_host after_response"
  unfolding after_response_def by (rule dp_next [OF dp_start dp_step.respond])

lemma after_response_dp:
  "dp_credential (sy_dp after_response) = ''x''" "dp_credEndpoint (sy_dp after_response) = ''https://n1''"
  "dp_cancel (sy_dp after_response) = Some 0" "dp_dones (sy_dp after_response) = [0]"
  "dp_nextLoop (sy_dp after_response) = Suc 0" "dp_exited (sy_dp after_response) = []"
  "sy_waiting after_response = []" "dp_endpoint (sy_dp after_response) = ''https://n1''"
  "dp_client (sy_dp after_response) = Some \<lparr>rc_id = 0, rc_endpoint = ''https://n1'', rc_http = 0\<rparr>"
  "dp_closed (sy_dp after_response) = False" "dp_cancelled (sy_dp after_response) = []"
  "dp_released (sy_dp after_response) = False"
  by (simp_all add: after_response_def receive_def cred_x_def start_sys_def fresh_dp_def
      configureDataPlane_def move_eq moved_def hints_remember_def dataPlaneOrigin_def one_host_def
      pool_acquire_def empty_pool_def setDataPlaneCredentialLocked_def restart_eq Let_def)

text \<open>C1: In every concurrent history, the credential a session hands out for an endpoint was
received in a response that named that very endpoint, or in one that named none: a credential that
arrived for one node is never attached to a request to another.\<close>

theorem credential_never_misrouted:
  assumes "dp_reach parse s" and "dataPlaneCredentialForEndpoint endpoint (sy_dp s) = (cred, True)"
  shows "if cred = [] then dp_credential (sy_dp s) = []
         else (cred, endpoint) \<in> set (sy_received s) \<or> (cred, []) \<in> set (sy_received s)"
proof -
  have "cred_ok s" using dp_reach_inv [OF assms(1)] by (simp add: sys_inv_def)
  with assms(2) show ?thesis
    by (auto simp: dataPlaneCredentialForEndpoint_def cred_ok_def split: if_splits)
qed

lemma credential_never_misrouted_witness:
  "dataPlaneCredentialForEndpoint ''https://n1'' (sy_dp after_response) = (''x'', True) \<and>
   ((''x'', ''https://n1'') \<in> set (sy_received after_response) \<or> (''x'', []) \<in> set (sy_received after_response))"
proof -
  have d: "dataPlaneCredentialForEndpoint ''https://n1'' (sy_dp after_response) = (''x'', True)"
    by (simp add: dataPlaneCredentialForEndpoint_def after_response_dp)
  from credential_never_misrouted [OF reach_after_response d] d show ?thesis by simp
qed

definition running_loops :: "dp \<Rightarrow> nat list" where
  "running_loops d = filter (\<lambda>l. l \<notin> set (dp_cancelled d)) [0..<dp_nextLoop d]"

lemma running_loops_eq:
  assumes "loops_ok s"
  shows "running_loops (sy_dp s) = opt_list (dp_cancel (sy_dp s))"
proof (cases "dp_cancel (sy_dp s)")
  case None
  with assms have "\<forall>l \<in> set [0..<dp_nextLoop (sy_dp s)]. \<not> l \<notin> set (dp_cancelled (sy_dp s))"
    by (auto simp: loops_ok_def Let_def)
  then show ?thesis using None by (simp add: running_loops_def filter_empty_conv)
next
  case (Some c)
  with assms have c: "c < dp_nextLoop (sy_dp s)"
    and "\<And>l. l \<in> set [0..<dp_nextLoop (sy_dp s)] \<Longrightarrow> (l \<notin> set (dp_cancelled (sy_dp s))) = (l = c)"
    by (auto simp: loops_ok_def Let_def)
  then have "running_loops (sy_dp s) = filter (\<lambda>l. l = c) [0..<dp_nextLoop (sy_dp s)]"
    unfolding running_loops_def by (intro filter_cong) auto
  also have "\<dots> = [c]"
  proof -
    have "filter (\<lambda>l. l = c) [0..<n] = (if c < n then [c] else [])" for n
      by (induction n) auto
    then show ?thesis using c by simp
  qed
  finally show ?thesis using Some by simp
qed

text \<open>C3: In every concurrent history at most one credential renewal loop of a session has not been
told to stop; it only runs while there is a credential with an expiry, and none runs in a closed
data plane. Every loop that has not exited is still waited for by some drain or will be by the
next one: no loop is forgotten.\<close>

theorem renewal_loops_controlled:
  assumes "dp_reach parse s"
  shows "running_loops (sy_dp s) = opt_list (dp_cancel (sy_dp s)) \<and>
    (if dp_closed (sy_dp s) \<or> dp_credential (sy_dp s) = [] then running_loops (sy_dp s) = [] else True) \<and>
    set (filter (\<lambda>l. l \<notin> set (dp_exited (sy_dp s))) [0..<dp_nextLoop (sy_dp s)])
      \<subseteq> set (dp_dones (sy_dp s) @ concat (sy_waiting s))"
proof -
  have ok: "loops_ok s" using dp_reach_inv [OF assms] by (simp add: sys_inv_def)
  then show ?thesis
    unfolding running_loops_eq [OF ok]
    by (cases "dp_cancel (sy_dp s)") (auto simp: loops_ok_def Let_def)
qed

lemma renewal_loops_controlled_witness:
  "running_loops (sy_dp after_response) = [0] \<and> 0 \<in> set (dp_dones (sy_dp after_response) @ concat (sy_waiting after_response)) \<and>
   running_loops (sy_dp (drain closeDataPlane_locked after_response)) = []"
proof -
  have r: "dp_reach one_host (drain closeDataPlane_locked after_response)"
    by (rule dp_next [OF reach_after_response dp_step.close_latch])
  have c: "dp_closed (sy_dp (drain closeDataPlane_locked after_response))"
    by (simp add: drain_def closeDataPlane_locked_def drain_eq)
  show ?thesis
    using renewal_loops_controlled [OF reach_after_response]
      renewal_loops_controlled [OF r, THEN conjunct2, THEN conjunct1] c
    by (simp add: after_response_dp del: set_filter)
qed

text \<open>C8: In every concurrent history, also while other sessions of the client use the pool, a
session that has an RPC client has it for its current endpoint, over an HTTP client for the origin
of that endpoint on which it holds a reference it has not given up; a session without an RPC client
holds no reference. No transport is leaked or used after it was released.\<close>

theorem data_plane_client_bound:
  assumes "dp_reach parse s"
  shows "case dp_client (sy_dp s) of
      None \<Rightarrow> dp_release (sy_dp s) = None \<and> dp_endpoint (sy_dp s) = []
    | Some c \<Rightarrow> rc_endpoint c = dp_endpoint (sy_dp s) \<and>
        (\<exists>h. dp_release (sy_dp s) = Some h \<and> h_client h = rc_http c \<and>
          dataPlaneOrigin parse (rc_endpoint c) = Inr (h_origin h) \<and>
          h \<in> set (p_issued (dp_pool (sy_dp s))) \<and> h_id h \<notin> set (p_done (dp_pool (sy_dp s))))"
  using dp_reach_inv [OF assms]
  by (auto simp: sys_inv_def client_bound_def split: option.splits)

lemma data_plane_client_bound_witness:
  "\<exists>h. dp_release (sy_dp after_response) = Some h \<and> h_client h = 0 \<and>
     dataPlaneOrigin one_host ''https://n1'' = Inr (h_origin h)"
  using data_plane_client_bound [OF reach_after_response] by (auto simp: after_response_dp)

text \<open>Once released and closed, a data plane stays so: every step keeps both.\<close>

lemma released_step:
  assumes "dp_step parse s t" and "dp_released (sy_dp s)" and "dp_closed (sy_dp s)"
  shows "dp_released (sy_dp t) \<and> dp_closed (sy_dp t)"
proof -
  have c: "dp_released (configureDataPlane parse ep cred hint (sy_dp s))"
    "dp_closed (configureDataPlane parse ep cred hint (sy_dp s))" for ep cred hint
    using assms(2,3) by (simp_all add: configureDataPlane_def Let_def hints_remember_def)
  show ?thesis
    using assms(1)
    by cases (use assms(2,3) in \<open>simp_all add: c drain_def closeDataPlane_locked_def drain_eq reset_eq
      markCurrentDataPlaneVerified_def markDataPlaneVerified_def startDataPlaneWarm_def hints_clear_def
      clear_verified_def split: option.splits\<close>)
qed

text \<open>\<open>Release\<close> without a concurrent call.\<close>

definition released_dp :: "dp \<Rightarrow> dp" where
  "released_dp d = d\<lparr>dp_released := True, dp_closed := True, dp_hint := [], dp_verified := None,
     dp_cancelled := opt_list (dp_cancel d) @ dp_cancelled d, dp_cancel := None, dp_dones := [],
     dp_endpoint := [], dp_credential := [], dp_credEndpoint := [], dp_expiresAt := 0,
     dp_client := None, dp_fromHint := False, dp_release := None,
     dp_pool := (case dp_release d of None \<Rightarrow> dp_pool d | Some h \<Rightarrow> pool_release h (dp_pool d)),
     dp_exited := dp_dones d @ dp_exited d\<rparr>"

lemma Release_eq: "Session_Release d = released_dp d"
  by (simp add: Session_Release_def closeDataPlane_def resetDataPlane_def closeDataPlane_locked_def
      reset_eq drain_eq hints_clear_def clear_verified_def await_loops_def released_dp_def Let_def
      split: option.splits)



definition paused_and_closing :: sys where
  "paused_and_closing = drain closeDataPlane_locked (drain resetDataPlane_locked after_response)"

text \<open>The documentation of \<open>closeDataPlane\<close> says that no renewal loop is running once it
returns. That fails when another call (\<open>Pause\<close>, say) has drained the loops first and still waits
for them: there is a history in which \<open>closeDataPlane\<close> has nothing left to wait for, so its wait is
over, while a loop has not exited.\<close>

theorem close_may_return_before_loops_exit:
  "dp_reach one_host paused_and_closing \<and> dp_closed (sy_dp paused_and_closing) \<and>
   (case sy_waiting paused_and_closing of
      [] \<Rightarrow> False
    | w # others \<Rightarrow> waitRenewalStopped w (sy_dp paused_and_closing) \<and>
        list_ex (\<lambda>l. l \<notin> set (dp_exited (sy_dp paused_and_closing)))
          [0..<dp_nextLoop (sy_dp paused_and_closing)])"
proof -
  have "dp_reach one_host (drain resetDataPlane_locked after_response)"
    by (rule dp_next [OF reach_after_response dp_step.reset])
  then have "dp_reach one_host paused_and_closing"
    unfolding paused_and_closing_def by (rule dp_next [OF _ dp_step.close_latch])
  then show ?thesis
    by (simp add: paused_and_closing_def drain_def closeDataPlane_locked_def drain_eq reset_eq
        after_response_dp waitRenewalStopped_def)
qed

end
