(* ===== verification/DataPlaneSpec.thy ===== *)
theory DataPlaneSpec
  imports DataPlaneSafety
begin

text \<open>
  What a session's data plane promises, without pools, goroutines and wait lists: a link that may
  have a client for one endpoint and a credential bound to an endpoint (or to none yet), is open or
  shut, and may have its credential renewed. Every history of the detailed model is a history of
  this machine.
\<close>

record link =
  lk_client :: "string option"
  lk_cred :: "(string \<times> string) option"
  lk_open :: bool
  lk_renewing :: bool
  lk_released :: bool

definition new_link :: link where
  "new_link = \<lparr>lk_client = None, lk_cred = None, lk_open = True, lk_renewing = False, lk_released = False\<rparr>"

definition adopt :: "string \<Rightarrow> string \<times> string \<Rightarrow> string \<times> string" where
  "adopt endpoint c = (fst c, if snd c = [] then endpoint else snd c)"

text \<open>
  Binding to an endpoint keeps a credential that is bound elsewhere and stops its renewal; a
  credential, one of the \<open>sent\<close> ones that the server has sent so far, is bound to the endpoint at
  which it arrives. A released link is never opened again.
\<close>

inductive link_step :: "string set \<Rightarrow> link \<Rightarrow> link \<Rightarrow> bool" for sent where
  bind: "lk_open l \<Longrightarrow> endpoint \<noteq> [] \<Longrightarrow> lk_client l \<noteq> Some endpoint \<Longrightarrow>
    link_step sent l (l\<lparr>lk_client := Some endpoint, lk_cred := map_option (adopt endpoint) (lk_cred l), lk_renewing := False\<rparr>)"
| mint: "lk_open l \<Longrightarrow> c \<in> sent \<Longrightarrow> c \<noteq> [] \<Longrightarrow>
    link_step sent l (l\<lparr>lk_cred := Some (c, case lk_client l of None \<Rightarrow> [] | Some e \<Rightarrow> e), lk_renewing := r\<rparr>)"
| drop: "lk_open l \<Longrightarrow> link_step sent l (l\<lparr>lk_cred := None, lk_renewing := False\<rparr>)"
| forget: "link_step sent l (l\<lparr>lk_client := None, lk_cred := None, lk_renewing := False\<rparr>)"
| shut: "link_step sent l (l\<lparr>lk_open := False, lk_renewing := False\<rparr>)"
| reopen: "\<not> lk_released l \<Longrightarrow> link_step sent l (l\<lparr>lk_open := True\<rparr>)"
| release: "link_step sent l (l\<lparr>lk_released := True\<rparr>)"

inductive_cases link_stepE: "link_step sent l l'"

definition link_of :: "dp \<Rightarrow> link" where
  "link_of d = \<lparr>lk_client = map_option rc_endpoint (dp_client d),
     lk_cred = (if dp_credential d = [] then None else Some (dp_credential d, dp_credEndpoint d)),
     lk_open = (\<not> dp_closed d), lk_renewing = (dp_cancel d \<noteq> None), lk_released = dp_released d\<rparr>"

section \<open>The abstract machine\<close>

definition link_ok :: "link \<Rightarrow> bool" where
  "link_ok l \<longleftrightarrow> (if lk_renewing l then lk_open l \<and> lk_cred l \<noteq> None else True)"

lemma link_step_ok: "link_step sent l l' \<Longrightarrow> link_ok l \<Longrightarrow> link_ok l'"
  by (erule link_step.cases) (auto simp: link_ok_def split: if_splits)

section \<open>The simulation\<close>

abbreviation link_steps :: "string set \<Rightarrow> link \<Rightarrow> link \<Rightarrow> bool" where
  "link_steps sent \<equiv> (link_step sent)\<^sup>*\<^sup>*"

lemma link_step_mono: "link_step sent l l' \<Longrightarrow> sent \<subseteq> sent' \<Longrightarrow> link_step sent' l l'"
  by (erule link_step.cases) (auto intro: link_step.intros)

lemma link_steps_mono: "link_steps sent l l' \<Longrightarrow> sent \<subseteq> sent' \<Longrightarrow> link_steps sent' l l'"
  by (rule rtranclp_mono [THEN predicate2D, rotated]) (auto intro: link_step_mono)

lemma link_same: "l' = l \<Longrightarrow> link_steps sent l l'"
  by simp

lemma link_one: "link_step sent l l' \<Longrightarrow> link_steps sent l l'"
  by (rule r_into_rtranclp)

lemma link_cong:
  "dp_client d' = dp_client d \<Longrightarrow> dp_credential d' = dp_credential d \<Longrightarrow> dp_credEndpoint d' = dp_credEndpoint d \<Longrightarrow>
   dp_closed d' = dp_closed d \<Longrightarrow> dp_released d' = dp_released d \<Longrightarrow> (dp_cancel d' = None) = (dp_cancel d = None) \<Longrightarrow> link_of d' = link_of d"
  by (simp add: link_of_def)

lemma link_moved:
  assumes "\<not> dp_closed d" and "endpoint \<noteq> []" and "lk_client (link_of d) \<noteq> Some endpoint"
  shows "link_steps sent (link_of d) (link_of (moved endpoint orig d\<lparr>dp_fromHint := h\<rparr>))"
proof -
  have "link_step sent (link_of d) ((link_of d)\<lparr>lk_client := Some endpoint,
      lk_cred := map_option (adopt endpoint) (lk_cred (link_of d)), lk_renewing := False\<rparr>)"
    using assms by (intro bind) (simp_all add: link_of_def)
  also have "(link_of d)\<lparr>lk_client := Some endpoint,
      lk_cred := map_option (adopt endpoint) (lk_cred (link_of d)), lk_renewing := False\<rparr> =
      link_of (moved endpoint orig d\<lparr>dp_fromHint := h\<rparr>)"
    using assms by (simp add: link_of_def moved_def case_prod_beta adopt_def)
  finally show ?thesis by (rule link_one)
qed

lemma link_set:
  assumes "client_bound parse d" and "\<And>c. cred = Some c \<Longrightarrow> TrimSpace (sc_credential c) \<in> sent"
  shows "link_steps sent (link_of d) (link_of (setDataPlaneCredentialLocked cred d))"
proof (cases "cred = None \<or> dp_closed d")
  case True
  then have "setDataPlaneCredentialLocked cred d = d" by (cases cred) (auto simp: set_cred)
  then show ?thesis by simp
next
  case False
  then obtain c where c: "cred = Some c" and o: "\<not> dp_closed d" by auto
  let ?d = "setDataPlaneCredentialLocked (Some c) d" and ?c = "TrimSpace (sc_credential c)"
  have e: "dp_endpoint d = (case lk_client (link_of d) of None \<Rightarrow> [] | Some e \<Rightarrow> e)"
    using assms by (auto simp: client_bound_def link_of_def split: option.splits)
  have f: "dp_credential ?d = ?c" "dp_credEndpoint ?d = dp_endpoint d" "dp_client ?d = dp_client d"
    "dp_closed ?d = dp_closed d"
    using o by (simp_all add: set_cred)
  have r: "dp_cancel ?d = None" if "?c = []"
    using o that by (simp add: setDataPlaneCredentialLocked_def restart_eq Let_def)
  show ?thesis
  proof (cases "?c = []")
    case True
    have "link_of ?d = (link_of d)\<lparr>lk_cred := None, lk_renewing := False\<rparr>"
      using f r True by (simp add: link_of_def)
    moreover have "link_step sent (link_of d) ((link_of d)\<lparr>lk_cred := None, lk_renewing := False\<rparr>)"
      using o by (intro drop) (simp add: link_of_def)
    ultimately show ?thesis unfolding c by (simp add: link_one)
  next
    case nonempty: False
    have "link_of ?d = (link_of d)\<lparr>lk_cred := Some (?c, case lk_client (link_of d) of None \<Rightarrow> [] | Some e \<Rightarrow> e),
        lk_renewing := (dp_cancel ?d \<noteq> None)\<rparr>"
      using f nonempty e by (simp add: link_of_def)
    moreover have "link_step sent (link_of d) ((link_of d)\<lparr>lk_cred := Some (?c, case lk_client (link_of d) of None \<Rightarrow> [] | Some e \<Rightarrow> e),
        lk_renewing := (dp_cancel ?d \<noteq> None)\<rparr>)"
      using o nonempty assms(2) [OF c] by (intro mint) (simp_all add: link_of_def)
    ultimately show ?thesis unfolding c by (simp add: link_one)
  qed
qed

lemma link_configure:
  assumes "client_bound parse d" and "\<And>c. cred = Some c \<Longrightarrow> TrimSpace (sc_credential c) \<in> sent"
  shows "link_steps sent (link_of d) (link_of (configureDataPlane parse ep cred hint d))"
proof -
  let ?r = "if hint then d else hints_remember ep d"
  have r: "link_of ?r = link_of d" "client_bound parse ?r" "dp_closed ?r = dp_closed d"
    using assms bound_cong [of "hints_remember ep d" d] by (simp_all add: remember_eq link_of_def)
  show ?thesis
  proof (cases rule: configure_cases [of d parse ep cred hint])
    case (moves orig)
    let ?m = "moved (TrimSpace ep) orig ?r\<lparr>dp_fromHint := hint\<rparr>"
    have "lk_client (link_of ?r) \<noteq> Some (TrimSpace ep)"
      using assms moves(4) unfolding r(1) by (auto simp: link_of_def client_bound_def split: option.splits)
    then have a: "link_steps sent (link_of d) (link_of ?m)"
      using link_moved [where d = ?r and endpoint = "TrimSpace ep"] moves(1,2) unfolding r by simp
    have "client_bound parse ?m"
      using bound_moved [OF r(2) moves(2,3)] by (subst bound_cong) auto
    from link_set [OF this assms(2)] a show ?thesis unfolding moves(5) by (rule rtranclp_trans [rotated])
  next
    case stays
    let ?m = "?r\<lparr>dp_fromHint := if TrimSpace ep = [] then dp_fromHint d else hint\<rparr>"
    have "client_bound parse ?m" using r(2) by (subst bound_cong) auto
    moreover have "link_of ?m = link_of d" using r(1) link_cong [of ?m ?r] by simp
    ultimately show ?thesis unfolding stays(3) using link_set [OF _ assms(2), of parse ?m] by simp
  qed (use r(1) in simp_all)
qed

lemma link_simulates:
  assumes "dp_step parse s t" and "sys_inv parse s"
  shows "link_steps (fst ` set (sy_received t)) (link_of (sy_dp s)) (link_of (sy_dp t))"
proof -
  have b: "client_bound parse (sy_dp s)" using assms(2) by (simp add: sys_inv_def)
  from assms(1) show ?thesis
  proof cases
    case (respond cred ep)
    then show ?thesis using link_configure [OF b, of cred "fst ` set (sy_received t)"] by (auto simp: receive_def split: option.splits)
  next
    case (respond_bare c)
    then show ?thesis using link_set [OF b, of "Some c" "fst ` set (sy_received t)"] by (simp add: receive_def)
  next
    case (use_hint h)
    then show ?thesis using link_configure [OF b, of None] by simp
  next
    case close_latch
    have "link_of (sy_dp t) = (link_of (sy_dp s))\<lparr>lk_open := False, lk_renewing := False\<rparr>"
      by (simp add: close_latch drain_def closeDataPlane_locked_def drain_eq link_of_def)
    then show ?thesis by (simp add: link_one shut)
  next
    case reset
    have "link_of (sy_dp t) = (link_of (sy_dp s))\<lparr>lk_client := None, lk_cred := None, lk_renewing := False\<rparr>"
      by (simp add: reset drain_def reset_eq link_of_def)
    then show ?thesis by (simp add: link_one forget)
  next
    case failed_close
    show ?thesis
    proof (cases "dp_released (sy_dp s)")
      case True
      then show ?thesis using failed_close by (intro link_same) (simp add: link_of_def)
    next
      case False
      then have "link_of (sy_dp t) = (link_of (sy_dp s))\<lparr>lk_open := True\<rparr>"
        using failed_close by (simp add: link_of_def)
      moreover have "\<not> lk_released (link_of (sy_dp s))" using False by (simp add: link_of_def)
      ultimately show ?thesis by (simp add: link_one reopen)
    qed
  next
    case set_released
    have "link_of (sy_dp t) = (link_of (sy_dp s))\<lparr>lk_released := True\<rparr>"
      by (simp add: set_released link_of_def)
    then show ?thesis by (simp add: link_one release)
  qed (auto intro!: link_same link_cong simp: markCurrentDataPlaneVerified_def markDataPlaneVerified_def
      startDataPlaneWarm_def hints_clear_def clear_verified_def split: option.splits)
qed

lemma received_mono: "dp_step parse s t \<Longrightarrow> set (sy_received s) \<subseteq> set (sy_received t)"
  by (erule dp_step.cases) (auto simp: receive_def drain_def split: option.splits)



end
