(* ===== verification/Resolve.thy ===== *)
theory Resolve
  imports DataPlane
begin

text \<open>
  The endpoint hints of a session under concurrent callers (\<open>dataPlaneEndpointHints.resolve\<close> in \<open>data_plane.go\<close>):
  the first caller that finds no endpoint runs the resolution, the others wait for its channel and start over. An
  invariant of all histories shows that one resolution runs at a time, and a measure that every caller returns;
  \<open>answer_hints_resolve\<close> ties a caller to \<open>hints_resolve\<close>, the function that \<open>Credential\<close> uses.
\<close>

section \<open>Callers\<close>

text \<open>
  Where a caller of \<open>resolve\<close> stands: at the head of its loop, in its own resolution or waiting for another one,
  each with the channel, or returned.
\<close>

datatype resolve_caller =
    Asking
  | Resolving nat
  | Waiting nat
  | Answered "(go_error, string) result"

text \<open>\<open>hs_closed\<close> are the closed channels, \<open>hs_remembered\<close> (kept by no code) the endpoints that were ever remembered.\<close>

record hints_sys =
  hs_endpoint :: string
  hs_resolving :: "nat option"
  hs_next :: nat
  hs_closed :: "nat list"
  hs_callers :: "resolve_caller list"
  hs_remembered :: "string list"

definition hints_start :: "nat \<Rightarrow> hints_sys" where
  "hints_start n = \<lparr>hs_endpoint = [], hs_resolving = None, hs_next = 0, hs_closed = [],
     hs_callers = replicate n Asking, hs_remembered = []\<rparr>"

definition set_caller :: "nat \<Rightarrow> resolve_caller \<Rightarrow> hints_sys \<Rightarrow> hints_sys" where
  "set_caller i p s = s\<lparr>hs_callers := (hs_callers s)[i := p]\<rparr>"

text \<open>The first critical section of the loop.\<close>

definition ask :: "nat \<Rightarrow> hints_sys \<Rightarrow> hints_sys" where
  "ask i s =
     (if hs_endpoint s \<noteq> [] then set_caller i (Answered (Inr (hs_endpoint s))) s
      else case hs_resolving s of
        None \<Rightarrow> set_caller i (Resolving (hs_next s)) (s\<lparr>hs_resolving := Some (hs_next s), hs_next := Suc (hs_next s)\<rparr>)
      | Some w \<Rightarrow> set_caller i (Waiting w) s)"

text \<open>The second one, with the error of the resolution: the channel is closed for the waiting callers.\<close>

definition resolved :: "nat \<Rightarrow> nat \<Rightarrow> go_error option \<Rightarrow> hints_sys \<Rightarrow> hints_sys" where
  "resolved i w err s =
     set_caller i (Answered (case err of
         Some e \<Rightarrow> Inl e
       | None \<Rightarrow> if hs_endpoint s = [] then Inl (Sentinel ErrDataPlaneEndpointUnavailable) else Inr (hs_endpoint s)))
       (s\<lparr>hs_closed := w # hs_closed s, hs_resolving := None\<rparr>)"

text \<open>What the callers do. The resolution itself runs without the lock, so other steps come before its end.\<close>

inductive caller_step :: "hints_sys \<Rightarrow> hints_sys \<Rightarrow> bool" where
  asks: "i < length (hs_callers s) \<Longrightarrow> hs_callers s ! i = Asking \<Longrightarrow> caller_step s (ask i s)"
| resolves: "i < length (hs_callers s) \<Longrightarrow> hs_callers s ! i = Resolving w \<Longrightarrow> caller_step s (resolved i w err s)"
| wakes: "i < length (hs_callers s) \<Longrightarrow> hs_callers s ! i = Waiting w \<Longrightarrow> w \<in> set (hs_closed s) \<Longrightarrow>
    caller_step s (set_caller i Asking s)"

text \<open>The end of a waiting caller's context.\<close>

inductive cancel_step :: "hints_sys \<Rightarrow> hints_sys \<Rightarrow> bool" where
  cancels: "i < length (hs_callers s) \<Longrightarrow> hs_callers s ! i = Waiting w \<Longrightarrow>
    cancel_step s (set_caller i (Answered (Inl e)) s)"

text \<open>What anybody may do meanwhile, the resolution too: \<open>remember\<close> and \<open>clear\<close>.\<close>

inductive hint_step :: "hints_sys \<Rightarrow> hints_sys \<Rightarrow> bool" where
  remembers: "TrimSpace ep \<noteq> [] \<Longrightarrow>
    hint_step s (s\<lparr>hs_endpoint := TrimSpace ep, hs_remembered := TrimSpace ep # hs_remembered s\<rparr>)"
| clears: "hint_step s (s\<lparr>hs_endpoint := []\<rparr>)"

text \<open>The histories of \<open>n\<close> calls in which the callers have done \<open>k\<close> steps.\<close>

inductive resolve_reach :: "nat \<Rightarrow> nat \<Rightarrow> hints_sys \<Rightarrow> bool" for n where
  resolve_reach_start: "resolve_reach n 0 (hints_start n)"
| resolve_reach_caller: "resolve_reach n k s \<Longrightarrow> caller_step s t \<Longrightarrow> resolve_reach n (Suc k) t"
| resolve_reach_cancel: "resolve_reach n k s \<Longrightarrow> cancel_step s t \<Longrightarrow> resolve_reach n (Suc k) t"
| resolve_reach_hint: "resolve_reach n k s \<Longrightarrow> hint_step s t \<Longrightarrow> resolve_reach n k t"

text \<open>Alone, a caller answers what \<open>hints_resolve\<close> returns.\<close>

lemma answer_hints_resolve:
  assumes "i < length (hs_callers s)"
  shows "hs_endpoint s = dp_hint d \<Longrightarrow> dp_hint d \<noteq> [] \<Longrightarrow>
      hs_callers (ask i s) ! i = Answered (fst (hints_resolve resolve d))"
    and "dp_hint d = [] \<Longrightarrow> hs_endpoint s = dp_hint (snd (resolve d)) \<Longrightarrow>
      hs_callers (resolved i w (fst (resolve d)) s) ! i = Answered (fst (hints_resolve resolve d))"
  using assms by (simp_all add: ask_def resolved_def set_caller_def hints_resolve_def split: prod.split option.split)

section \<open>The invariant\<close>

fun is_resolving :: "resolve_caller \<Rightarrow> bool" where
  "is_resolving (Resolving w) = True"
| "is_resolving _ = False"

fun is_answered :: "resolve_caller \<Rightarrow> bool" where
  "is_answered (Answered r) = True"
| "is_answered _ = False"

text \<open>
  A caller in its own resolution has the channel that is open, one that waits has this channel or a closed one, and
  what was returned had been remembered.
\<close>

fun caller_ok :: "hints_sys \<Rightarrow> resolve_caller \<Rightarrow> bool" where
  "caller_ok s Asking = True"
| "caller_ok s (Resolving w) = (hs_resolving s = Some w)"
| "caller_ok s (Waiting w) = (hs_resolving s = Some w \<or> w \<in> set (hs_closed s))"
| "caller_ok s (Answered (Inl e)) = True"
| "caller_ok s (Answered (Inr ep)) = (ep \<noteq> [] \<and> ep \<in> set (hs_remembered s))"

definition weight :: "(resolve_caller \<Rightarrow> nat) \<Rightarrow> hints_sys \<Rightarrow> nat" where
  "weight f s = sum_list (map f (hs_callers s))"

text \<open>The channel of the resolution under way has been made and not closed.\<close>

fun fresh_wait :: "nat option \<Rightarrow> nat \<Rightarrow> nat list \<Rightarrow> bool" where
  "fresh_wait None n ws = True"
| "fresh_wait (Some w) n ws = (w < n \<and> w \<notin> set ws)"

definition hints_inv :: "hints_sys \<Rightarrow> bool" where
  "hints_inv s \<longleftrightarrow>
     list_all (caller_ok s) (hs_callers s) \<and>
     weight (one_if is_resolving) s = (if hs_resolving s = None then 0 else 1) \<and>
     (if hs_endpoint s = [] then True else hs_endpoint s \<in> set (hs_remembered s)) \<and>
     list_all (\<lambda>w. w < hs_next s) (hs_closed s) \<and> fresh_wait (hs_resolving s) (hs_next s) (hs_closed s)"

lemma weight_set_caller:
  "i < length (hs_callers s) \<Longrightarrow> weight f (set_caller i p s) + f (hs_callers s ! i) = weight f s + f p"
  by (simp add: weight_def set_caller_def sum_list_set)

lemma weight_frame [simp]:
  "weight f (s\<lparr>hs_endpoint := e, hs_remembered := rs\<rparr>) = weight f s" "weight f (s\<lparr>hs_endpoint := e\<rparr>) = weight f s"
  "weight f (s\<lparr>hs_resolving := r, hs_next := n\<rparr>) = weight f s" "weight f (s\<lparr>hs_closed := ws, hs_resolving := r\<rparr>) = weight f s"
  by (simp_all add: weight_def)

lemma set_caller_fields [simp]:
  "hs_endpoint (set_caller i p s) = hs_endpoint s" "hs_resolving (set_caller i p s) = hs_resolving s"
  "hs_closed (set_caller i p s) = hs_closed s" "hs_next (set_caller i p s) = hs_next s" "hs_remembered (set_caller i p s) = hs_remembered s"
  "hs_callers (set_caller i p s) = (hs_callers s)[i := p]"
  by (simp_all add: set_caller_def)

text \<open>A caller's condition only reads the channel that is open, the closed ones and the history.\<close>

lemma caller_ok_mono:
  assumes "caller_ok s p" and "set (hs_remembered s) \<subseteq> set (hs_remembered t)"
    and "\<And>w. hs_resolving s = Some w \<Longrightarrow> hs_resolving t = Some w \<or> (w \<in> set (hs_closed t) \<and> \<not> is_resolving p)"
    and "set (hs_closed s) \<subseteq> set (hs_closed t)"
  shows "caller_ok t p"
proof (cases p)
  case (Answered r)
  with assms(1,2) show ?thesis by (cases r) auto
qed (use assms in auto)

lemma callers_ok_set:
  assumes "list_all (caller_ok s) ps" and "\<And>p. p \<in> set ps \<Longrightarrow> caller_ok s p \<Longrightarrow> caller_ok t p" and "caller_ok t q"
  shows "list_all (caller_ok t) (ps[i := q])"
  by (rule list_all_set) (use assms in \<open>auto simp: list_all_iff\<close>)

text \<open>The only caller in a resolution is the one that ends it.\<close>

lemma other_resolving:
  assumes "weight (one_if is_resolving) s \<le> 1" and "i < length (hs_callers s)" and "is_resolving (hs_callers s ! i)"
    and "\<not> is_resolving q" and "p \<in> set ((hs_callers s)[i := q])"
  shows "\<not> is_resolving p"
proof -
  have "weight (one_if is_resolving) (set_caller i q s) = 0"
    using weight_set_caller [OF assms(2), of "one_if is_resolving" q] assms(1,3,4) by (simp add: one_if_def)
  with assms(5) show ?thesis by (auto simp: weight_def one_if_def sum_list_eq_0_iff split: if_splits)
qed

lemma hints_inv_set_caller:
  assumes "hints_inv s" and i: "i < length (hs_callers s)" and "caller_ok s p"
    and "\<not> is_resolving (hs_callers s ! i)" and "\<not> is_resolving p"
  shows "hints_inv (set_caller i p s)"
proof -
  have "list_all (caller_ok (set_caller i p s)) (hs_callers (set_caller i p s))" unfolding set_caller_fields
    by (rule callers_ok_set [of s]) (use assms in \<open>auto simp: hints_inv_def intro: caller_ok_mono\<close>)
  with assms weight_set_caller [OF i, of "one_if is_resolving" p] show ?thesis
    by (simp add: hints_inv_def one_if_def)
qed

lemma hints_inv_ask:
  assumes inv: "hints_inv s" and i: "i < length (hs_callers s)" and a: "hs_callers s ! i = Asking"
  shows "hints_inv (ask i s)"
proof (cases "hs_endpoint s = [] \<and> hs_resolving s = None")
  case True
  let ?s = "s\<lparr>hs_resolving := Some (hs_next s), hs_next := Suc (hs_next s)\<rparr>"
  from True have q: "ask i s = set_caller i (Resolving (hs_next s)) ?s" by (simp add: ask_def)
  have "list_all (caller_ok (ask i s)) (hs_callers (ask i s))" unfolding q set_caller_fields
    by (rule callers_ok_set [of s]) (use inv True in \<open>auto simp: hints_inv_def intro: caller_ok_mono\<close>)
  moreover have "list_all (\<lambda>w. w < Suc (hs_next s)) (hs_closed s)" "hs_next s \<notin> set (hs_closed s)"
    using inv by (auto simp: hints_inv_def list_all_iff)
  ultimately show ?thesis
    using inv i a True weight_set_caller [of i ?s "one_if is_resolving" "Resolving (hs_next s)"]
    by (simp add: hints_inv_def q one_if_def)
next
  case False
  obtain p where q: "ask i s = set_caller i p s" and p: "caller_ok s p" "\<not> is_resolving p"
  proof (cases "hs_endpoint s = []")
    case True
    with False obtain w where w: "hs_resolving s = Some w" by auto
    with True show thesis by (rule_tac p = "Waiting w" in that) (simp_all add: ask_def)
  next
    case endpoint: False
    with inv show thesis
      by (rule_tac p = "Answered (Inr (hs_endpoint s))" in that) (simp_all add: ask_def hints_inv_def)
  qed
  from a have "\<not> is_resolving (hs_callers s ! i)" by simp
  with inv i p show ?thesis unfolding q by (intro hints_inv_set_caller)
qed

lemma hints_inv_resolved:
  assumes "hints_inv s" and i: "i < length (hs_callers s)" and r: "hs_callers s ! i = Resolving w"
  shows "hints_inv (resolved i w err s)"
proof -
  let ?a = "Answered (case err of Some e \<Rightarrow> Inl e
     | None \<Rightarrow> if hs_endpoint s = [] then Inl (Sentinel ErrDataPlaneEndpointUnavailable) else Inr (hs_endpoint s))"
  let ?s = "s\<lparr>hs_closed := w # hs_closed s, hs_resolving := None\<rparr>"
  have q: "resolved i w err s = set_caller i ?a ?s" by (simp add: resolved_def)
  have open_w: "hs_resolving s = Some w"
    using assms nth_mem [OF i] by (auto simp: hints_inv_def list_all_iff)
  have "caller_ok (resolved i w err s) p" if p: "p \<in> set ((hs_callers s)[i := ?a])" for p
  proof (cases "p = ?a")
    case True
    with assms(1) show ?thesis by (auto simp: q hints_inv_def split: option.split)
  next
    case False
    with p have "p \<in> set (hs_callers s)" using set_update_subset_insert [of "hs_callers s" i ?a] by auto
    with assms(1) have ok: "caller_ok s p" by (simp add: hints_inv_def list_all_iff)
    have "\<not> is_resolving p"
      by (rule other_resolving [OF _ i _ _ p]) (use assms(1) r in \<open>simp_all add: hints_inv_def open_w\<close>)
    then show ?thesis by - (rule caller_ok_mono [OF ok], auto simp: q open_w)
  qed
  moreover have "weight (one_if is_resolving) (resolved i w err s) = 0"
    using weight_set_caller [of i ?s "one_if is_resolving" ?a] assms(1) i r open_w by (simp add: q one_if_def hints_inv_def)
  moreover have "w < hs_next s" using assms(1) by (simp add: hints_inv_def open_w)
  ultimately show ?thesis using assms(1) by (simp add: hints_inv_def q list_all_iff)
qed

lemma hints_inv_caller: "caller_step s t \<Longrightarrow> hints_inv s \<Longrightarrow> hints_inv t"
  by (induction rule: caller_step.induct) (auto simp: hints_inv_ask hints_inv_resolved hints_inv_set_caller)

lemma hints_inv_cancel: "cancel_step s t \<Longrightarrow> hints_inv s \<Longrightarrow> hints_inv t"
  by (induction rule: cancel_step.induct) (auto simp: hints_inv_set_caller)

lemma hints_inv_hint:
  assumes "hint_step s t" and "hints_inv s"
  shows "hints_inv t \<and> weight f t = weight f s \<and> length (hs_callers t) = length (hs_callers s)"
  using assms
proof (induction rule: hint_step.induct)
  case (remembers ep s)
  then have "list_all (caller_ok (s\<lparr>hs_endpoint := TrimSpace ep, hs_remembered := TrimSpace ep # hs_remembered s\<rparr>)) (hs_callers s)"
    by (auto simp: hints_inv_def list_all_iff intro: caller_ok_mono)
  with remembers show ?case by (simp add: hints_inv_def)
next
  case (clears s)
  then have "list_all (caller_ok (s\<lparr>hs_endpoint := []\<rparr>)) (hs_callers s)"
    by (auto simp: hints_inv_def list_all_iff intro: caller_ok_mono)
  with clears show ?case by (simp add: hints_inv_def)
qed

section \<open>Progress\<close>

text \<open>
  A caller that has not returned counts more than all that the others can still do without it: one that asks can
  start to wait or to resolve, one that waits for a closed channel can ask once more.
\<close>

definition caller_work :: "nat list \<Rightarrow> resolve_caller \<Rightarrow> nat" where
  "caller_work ws p = (case p of
       Asking \<Rightarrow> 2
     | Resolving w \<Rightarrow> 1
     | Waiting w \<Rightarrow> (if w \<in> set ws then 3 else 1)
     | Answered r \<Rightarrow> 0)"

definition resolve_work :: "hints_sys \<Rightarrow> nat" where
  "resolve_work s = (3 * length (hs_callers s) + 1) * weight (one_if (\<lambda>p. \<not> is_answered p)) s +
     weight (caller_work (hs_closed s)) s"

lemma resolve_work_frame:
  "hint_step s t \<Longrightarrow> resolve_work t = resolve_work s"
  by (induction rule: hint_step.induct) (simp_all add: resolve_work_def weight_def)

text \<open>Without a new closed channel, a caller's step to a smaller weight is a smaller work.\<close>

lemma work_set_caller:
  assumes i: "i < length (hs_callers s)" and "caller_work (hs_closed s) p < caller_work (hs_closed s) (hs_callers s ! i)"
  shows "resolve_work (set_caller i p s) < resolve_work s"
proof -
  let ?f = "one_if (\<lambda>p. \<not> is_answered p)" and ?g = "caller_work (hs_closed s)"
  have "?f p \<le> ?f (hs_callers s ! i)" using assms(2)
    by (cases p; cases "hs_callers s ! i") (simp_all add: one_if_def caller_work_def)
  with weight_set_caller [OF i, of ?f p] have "weight ?f (set_caller i p s) \<le> weight ?f s" by simp
  then have "(3 * length (hs_callers s) + 1) * weight ?f (set_caller i p s) \<le> (3 * length (hs_callers s) + 1) * weight ?f s"
    by (rule mult_le_mono2)
  moreover have "weight ?g (set_caller i p s) < weight ?g s"
    using weight_set_caller [OF i, of ?g p] assms(2) by simp
  ultimately show ?thesis by (simp add: resolve_work_def)
qed

text \<open>The end of a resolution wakes callers, which is paid by the caller that returns.\<close>

lemma work_answered:
  assumes i: "i < length (hs_callers s)" and "\<not> is_answered (hs_callers s ! i)"
  shows "resolve_work (set_caller i (Answered r) (s\<lparr>hs_closed := ws, hs_resolving := None\<rparr>)) < resolve_work s"
proof -
  let ?f = "one_if (\<lambda>p. \<not> is_answered p)" and ?s = "s\<lparr>hs_closed := ws, hs_resolving := None\<rparr>"
  let ?t = "set_caller i (Answered r) ?s"
  have "weight ?f ?t + 1 = weight ?f s"
    using weight_set_caller [of i ?s ?f "Answered r"] assms by (simp add: one_if_def)
  then have "(3 * length (hs_callers s) + 1) * weight ?f ?t + (3 * length (hs_callers s) + 1) = (3 * length (hs_callers s) + 1) * weight ?f s"
    by (metis add_mult_distrib2 mult.right_neutral)
  moreover have "weight (caller_work ws) ?t \<le> 3 * length (hs_callers s)"
    using sum_list_bound [of "caller_work ws" 3 "hs_callers ?t"]
    by (simp add: weight_def caller_work_def split: resolve_caller.split)
  ultimately show ?thesis by (simp add: resolve_work_def)
qed

lemma work_caller:
  "caller_step s t \<Longrightarrow> hints_inv s \<Longrightarrow> resolve_work t < resolve_work s"
proof (induction rule: caller_step.induct)
  case (asks i s)
  let ?s = "s\<lparr>hs_resolving := Some (hs_next s), hs_next := Suc (hs_next s)\<rparr>"
  have "resolve_work (set_caller i (Resolving (hs_next s)) ?s) < resolve_work ?s"
    by (rule work_set_caller) (simp_all add: asks.hyps caller_work_def)
  moreover have "resolve_work ?s = resolve_work s" by (simp add: resolve_work_def)
  ultimately show ?case using asks
    by (cases "hs_resolving s") (auto simp: ask_def hints_inv_def caller_work_def work_set_caller)
next
  case (resolves i s w err)
  then show ?case by (simp add: resolved_def work_answered)
next
  case (wakes i s w)
  then show ?case by (simp add: work_set_caller caller_work_def)
qed

lemma work_cancel: "cancel_step s t \<Longrightarrow> resolve_work t < resolve_work s"
  by (induction rule: cancel_step.induct) (simp add: work_set_caller caller_work_def)


section \<open>One resolution for all callers\<close>

lemma resolve_reach_inv:
  "resolve_reach n k s \<Longrightarrow>
     hints_inv s \<and> length (hs_callers s) = n \<and> k + resolve_work s \<le> n * (3 * n + 3)"
proof (induction rule: resolve_reach.induct)
  case resolve_reach_start
  show ?case
    by (simp add: hints_inv_def resolve_work_def weight_def hints_start_def list_all_iff one_if_def caller_work_def
        sum_list_replicate algebra_simps)
next
  case (resolve_reach_caller k s t)
  moreover have "length (hs_callers t) = length (hs_callers s)" using resolve_reach_caller.hyps(2)
    by (cases rule: caller_step.cases) (auto simp: ask_def resolved_def split: option.split)
  ultimately show ?case using hints_inv_caller work_caller by fastforce
next
  case (resolve_reach_cancel k s t)
  moreover have "length (hs_callers t) = length (hs_callers s)" using resolve_reach_cancel.hyps(2)
    by (cases rule: cancel_step.cases) auto
  ultimately show ?case using hints_inv_cancel work_cancel by fastforce
next
  case (resolve_reach_hint k s t)
  then show ?case using hints_inv_hint resolve_work_frame by fastforce
qed

text \<open>A caller that waits has somebody that will close its channel.\<close>

lemma resolve_progress:
  assumes "hints_inv s" and "\<not> list_all is_answered (hs_callers s)"
  shows "\<exists>t. caller_step s t"
proof -
  from assms(2) obtain i where i: "i < length (hs_callers s)" and "\<not> is_answered (hs_callers s ! i)"
    by (auto simp: list_all_length)
  then consider "hs_callers s ! i = Asking" | w where "hs_callers s ! i = Resolving w"
    | w where "hs_callers s ! i = Waiting w"
    by (cases "hs_callers s ! i") auto
  then show ?thesis
  proof cases
    case (3 w)
    show ?thesis
    proof (cases "w \<in> set (hs_closed s)")
      case False
      with 3 i assms(1) have "hs_resolving s = Some w" by (force simp: hints_inv_def list_all_length)
      with assms(1) have "weight (one_if is_resolving) s \<noteq> 0" by (simp add: hints_inv_def)
      then obtain p where "p \<in> set (hs_callers s)" "is_resolving p"
        by (auto simp: weight_def one_if_def sum_list_eq_0_iff split: if_splits)
      then obtain w' where "Resolving w' \<in> set (hs_callers s)" by - (cases p; auto)
      then obtain j where "j < length (hs_callers s)" "hs_callers s ! j = Resolving w'"
        unfolding in_set_conv_nth by blast
      then show ?thesis using resolves by blast
    qed (use 3 i wakes in blast)
  qed (use i asks resolves in blast)+
qed

fun answer_ok :: "hints_sys \<Rightarrow> resolve_caller \<Rightarrow> bool" where
  "answer_ok s (Answered (Inr ep)) = (ep \<noteq> [] \<and> ep \<in> set (hs_remembered s))"
| "answer_ok s p = True"

lemma answer_ok: "caller_ok s p \<Longrightarrow> answer_ok s p"
  by (cases "(s, p)" rule: answer_ok.cases) auto

text \<open>C24: However many callers ask for the endpoint of a session at the same time, with hints remembered and cleared and
  contexts cancelled in any order: at most one resolution runs, what a caller is given without an error is a
  remembered endpoint, as long as a caller has not returned some caller can go on without any cancellation (the
  channel it waits for is closed or its resolution runs), and \<open>n\<close> callers do at most
  \<open>n * (3 n + 3)\<close> steps, so all of them return.\<close>

theorem resolve_single_flight:
  assumes "resolve_reach n k s"
  shows "length (List.filter is_resolving (hs_callers s)) \<le> 1 \<and> list_all (answer_ok s) (hs_callers s) \<and>
    (list_all is_answered (hs_callers s) \<or> (\<exists>t. caller_step s t)) \<and> k \<le> n * (3 * n + 3)"
proof -
  from assms have inv: "hints_inv s" "k + resolve_work s \<le> n * (3 * n + 3)" using resolve_reach_inv by auto
  have "weight (one_if is_resolving) s = length (List.filter is_resolving (hs_callers s))"
    unfolding weight_def by (rule sum_list_one_if)
  with inv(1) have "length (List.filter is_resolving (hs_callers s)) \<le> 1" by (simp add: hints_inv_def split: if_splits)
  moreover from inv(1) have "list_all (answer_ok s) (hs_callers s)" by (auto simp: hints_inv_def list_all_iff answer_ok)
  moreover have "list_all is_answered (hs_callers s) \<or> (\<exists>t. caller_step s t)" using resolve_progress inv(1) by blast
  ultimately show ?thesis using inv(2) by simp
qed

text \<open>Two callers: the first resolves and has its endpoint, the second is still in front of the closed channel.\<close>

lemma resolve_single_flight_witness:
  "let s = resolved 0 0 None ((ask 1 (ask 0 (hints_start 2)))\<lparr>hs_endpoint := TrimSpace ''ep'', hs_remembered := [TrimSpace ''ep'']\<rparr>)
   in hs_callers s = [Answered (Inr ''ep''), Waiting 0] \<and>
      length (List.filter is_resolving (hs_callers s)) \<le> 1 \<and> (\<exists>t. caller_step s t)"
proof -
  let ?a = "ask 1 (ask 0 (hints_start 2))"
  let ?r = "?a\<lparr>hs_endpoint := TrimSpace ''ep'', hs_remembered := TrimSpace ''ep'' # hs_remembered ?a\<rparr>"
  have a: "hs_callers (ask 0 (hints_start 2)) = [Resolving 0, Asking]" "hs_callers ?a = [Resolving 0, Waiting 0]"
    "hs_remembered ?a = []" by code_simp+
  have trim: "TrimSpace ''ep'' = ''ep''" by code_simp
  have "resolve_reach 2 (Suc 0) (ask 0 (hints_start 2))"
    by (rule resolve_reach_caller [OF resolve_reach_start asks]) (simp_all add: hints_start_def)
  then have "resolve_reach 2 (Suc (Suc 0)) ?a"
    by (rule resolve_reach_caller [OF _ asks]) (simp_all add: a del: One_nat_def)
  then have "resolve_reach 2 (Suc (Suc 0)) ?r"
    by (rule resolve_reach_hint [OF _ remembers]) (simp add: trim)
  then have reach: "resolve_reach 2 (Suc (Suc (Suc 0))) (resolved 0 0 None ?r)"
    by (rule resolve_reach_caller [OF _ resolves]) (simp_all add: a del: One_nat_def)
  have "hs_callers (resolved 0 0 None ?r) = [Answered (Inr ''ep''), Waiting 0]" by (simp add: resolved_def a trim del: One_nat_def)
  with resolve_single_flight [OF reach] show ?thesis by (simp add: a Let_def del: One_nat_def)
qed

end
