(* ===== verification/Credential.thy ===== *)
theory Credential
  imports DataPlane
begin

text \<open>
  Minting and using the data-plane credential: the renewal with its readiness budget, the policy of
  the renewal loop, the resolution of the RPC client, and the interceptor that attaches the
  credential to requests and refuses to send it anywhere else. What the server answers and which
  timers fire is a list of observations, one per attempt.
\<close>

section \<open>Readiness budget\<close>

definition dataPlaneReadyBackoff :: "nat \<Rightarrow> duration" where
  "dataPlaneReadyBackoff attempt = min (50 * (int attempt + 1) * Millisecond) (750 * Millisecond)"

text \<open>The budget that \<open>dataPlaneReadyContext\<close> gives the ready context.\<close>

definition readyBudget :: "duration \<Rightarrow> duration" where
  "readyBudget budget = (if budget \<le> 0 then defaultDataPlaneReadyTimeout else budget)"

text \<open>
  What ends a wait: the backoff timer, or the ready context, and then \<open>parent.Err()\<close> is read.
\<close>

datatype tick = Fired | ReadyDone "go_error option"

definition waitDataPlaneReadyBackoff :: "tick \<Rightarrow> go_error option \<Rightarrow> go_error option" where
  "waitDataPlaneReadyBackoff t lastErr = (case t of
     Fired \<Rightarrow> None
   | ReadyDone (Some e) \<Rightarrow>
       if errors_Is e CtxCanceled then Some e else Some (dataPlaneNotReadyError lastErr)
   | ReadyDone None \<Rightarrow> Some (dataPlaneNotReadyError lastErr))"

text \<open>
  The timers of a run fit in what is left of the budget: a timer that fires does so before the ready
  context ends. \<open>attempt\<close> counts the waits so far.
\<close>

fun within_budget :: "duration \<Rightarrow> nat \<Rightarrow> tick list \<Rightarrow> bool" where
  "within_budget left attempt [] \<longleftrightarrow> True"
| "within_budget left attempt (Fired # ts) \<longleftrightarrow> dataPlaneReadyBackoff attempt \<le> left \<and>
     within_budget (left - dataPlaneReadyBackoff attempt) (Suc attempt) ts"
| "within_budget left attempt (ReadyDone e # ts) \<longleftrightarrow> 0 \<le> left"

lemma backoff_bounds:
  "50 * Millisecond \<le> dataPlaneReadyBackoff n" "dataPlaneReadyBackoff n \<le> 750 * Millisecond"
  by (simp_all add: dataPlaneReadyBackoff_def)

lemma all_fired_bounded:
  "within_budget left n ts \<Longrightarrow> 0 \<le> left \<Longrightarrow> list_all (\<lambda>t. t = Fired) ts \<Longrightarrow> 50 * Millisecond * len ts \<le> left"
proof (induction left n ts rule: within_budget.induct)
  case (2 left n ts)
  then show ?case using backoff_bounds(1) [of n] by simp
qed auto

section \<open>Renewal\<close>

record cred_reply =
  cr_credential :: "session_credential option"
  cr_endpoint :: string
  cr_status :: int

definition isRetryableCredentialReadinessError :: "go_error option \<Rightarrow> bool" where
  "isRetryableCredentialReadinessError err = (case err of
     None \<Rightarrow> False
   | Some e \<Rightarrow> if IsDataPlaneNotReady e then True
       else errors_Is e ErrInvalidState \<and> \<not> isPausedSessionStateError err)"

text \<open>One call of \<open>CreateSessionCredential\<close>: the renewal returns, or waits with its last error.\<close>

datatype renew_attempt = Returns "go_error option" dp | Waits go_error

definition missing_credential :: go_error where
  "missing_credential = Plain ''sandbox: missing session credential''"

definition renew_once :: "url_parser \<Rightarrow> (go_error, cred_reply option) result \<Rightarrow> dp \<Rightarrow> renew_attempt" where
  "renew_once parse reply d = (case reply of
     Inl err \<Rightarrow>
       if isRetryableCredentialReadinessError (mapError (Some err)) then Waits (mapErr err)
       else Returns (mapError (Some err)) d
   | Inr None \<Rightarrow> Returns (Some missing_credential) d
   | Inr (Some r) \<Rightarrow>
       if cr_credential r = None then Returns (Some missing_credential) d
       else if cr_status r = ROUTE_FAILED then Returns (Some (terminalDataPlaneNotReadyError None)) d
       else if cr_status r = ROUTE_NOT_READY then
         (if TrimSpace (cr_endpoint r) \<noteq> []
          then Returns None (applyDataPlaneResponse parse (TrimSpace (cr_endpoint r)) (cr_credential r) (cr_status r) d)
          else Waits (dataPlaneNotReadyError None))
       else
         (if TrimSpace (cr_endpoint r) \<noteq> []
          then Returns None (applyDataPlaneResponse parse (TrimSpace (cr_endpoint r)) (cr_credential r) (cr_status r) d)
          else Returns None (setDataPlaneCredentialLocked (cr_credential r) d)))"

text \<open>\<open>None\<close> when the observations end before the renewal returns.\<close>

fun renewDataPlaneCredential ::
  "url_parser \<Rightarrow> ((go_error, cred_reply option) result \<times> tick) list \<Rightarrow> dp \<Rightarrow> (go_error option \<times> dp) option" where
  "renewDataPlaneCredential parse [] d = None"
| "renewDataPlaneCredential parse ((reply, t) # obs) d =
     (case renew_once parse reply d of
        Returns err d' \<Rightarrow> Some (err, d')
      | Waits lastErr \<Rightarrow>
          (case waitDataPlaneReadyBackoff t (Some lastErr) of
             Some err \<Rightarrow> Some (Some err, d)
           | None \<Rightarrow> renewDataPlaneCredential parse obs d))"

section \<open>The renewal loop\<close>

definition credentialRenewalDelay :: "duration \<Rightarrow> duration" where
  "credentialRenewalDelay untilExpiry =
     (if untilExpiry \<le> 0 then 0
      else let delay = go_div untilExpiry 2
           in if delay < 10 * Millisecond then 10 * Millisecond else delay)"

definition credentialRenewalBackoff :: "duration \<Rightarrow> duration" where
  "credentialRenewalBackoff untilExpiry =
     (if 0 < untilExpiry \<and> untilExpiry < Second then 10 * Millisecond else Second)"

fun notready_terminal :: "go_error \<Rightarrow> bool" where
  "notready_terminal (DataPlaneNotReadyError _ _ terminal) = terminal"
| "notready_terminal _ = False"

definition fatalRenewalError :: "go_error \<Rightarrow> bool" where
  "fatalRenewalError err \<longleftrightarrow>
     errors_Is err ErrSessionNotFound \<or> errors_Is err ErrSessionTerminated \<or>
     errors_Is err ErrSessionExpired \<or> errors_Is err ErrUnauthorized \<or>
     errors_Is err ErrPermissionDenied \<or> isPausedSessionStateError (Some err) \<or>
     (case find is_notready_node (nodes err) of None \<Rightarrow> False | Some e \<Rightarrow> notready_terminal e)"

text \<open>
  One turn of \<open>credentialRenewalLoop\<close>: the expiry it reads with the time left until then, whether
  its context ends during the first wait, what the renewal returns, and for a failure the time left
  and whether the context ends during the backoff.
\<close>

record loop_turn =
  lt_expiresAt :: gotime
  lt_until :: duration
  lt_cancelled :: bool
  lt_renewal :: "go_error option"
  lt_untilAfter :: duration
  lt_cancelledAfter :: bool

text \<open>
  The waits and renewals of the loop in order, and whether it returned within the turns given.
\<close>

datatype loop_event = WaitFor duration | Renew "go_error option"

fun credentialRenewalLoop :: "loop_turn list \<Rightarrow> loop_event list \<times> bool" where
  "credentialRenewalLoop [] = ([], False)"
| "credentialRenewalLoop (t # ts) =
     (if lt_expiresAt t = 0 then ([], True)
      else
        let w = WaitFor (credentialRenewalDelay (lt_until t))
        in if lt_cancelled t then ([w], True)
           else case lt_renewal t of
             None \<Rightarrow> (let (es, r) = credentialRenewalLoop ts in (w # Renew None # es, r))
           | Some err \<Rightarrow>
               if fatalRenewalError err then ([w, Renew (Some err)], True)
               else
                 let b = WaitFor (credentialRenewalBackoff (lt_untilAfter t))
                 in if lt_cancelledAfter t then ([w, Renew (Some err), b], True)
                    else (let (es, r) = credentialRenewalLoop ts in (w # Renew (Some err) # b # es, r)))"

section \<open>Verification of the route\<close>

text \<open>
  A probe is a \<open>Stat\<close> through the interceptor, which may renew the credential: an observation holds
  the error of the probe, the state change that happened meanwhile, and how the wait after it ended.
\<close>

fun probe_loop ::
  "rpc_client \<Rightarrow> (go_error option \<times> (dp \<Rightarrow> dp) \<times> tick) list \<Rightarrow> dp \<Rightarrow> (go_error option \<times> dp) option" where
  "probe_loop client [] d = None"
| "probe_loop client ((err, change, t) # obs) d =
     (let d = change d
      in if \<not> isEdgeNotReady err then Some (None, markDataPlaneVerified client d)
         else case waitDataPlaneReadyBackoff t err of
           Some e \<Rightarrow> Some (Some e, d)
         | None \<Rightarrow> probe_loop client obs d)"

definition ensureDataPlaneServing ::
  "(go_error option \<times> (dp \<Rightarrow> dp) \<times> tick) list \<Rightarrow> rpc_client option \<Rightarrow> dp \<Rightarrow> (go_error option \<times> dp) option" where
  "ensureDataPlaneServing obs client d = (case client of
     None \<Rightarrow> Some (Some (Sentinel ErrDataPlaneEndpointUnavailable), d)
   | Some c \<Rightarrow> if dataPlaneVerifiedClientIs c d then Some (None, d) else probe_loop c obs d)"

section \<open>The session a request names\<close>

text \<open>
  A protobuf message is its declared fields in order, by name: a singular string with its value, a
  singular message field with its value when it is populated, or another kind of field.
\<close>

datatype pmsg = PMsg "(string \<times> pfield) list"
and pfield = FString string | FMessage "pmsg option" | FOther

definition sessionIDSearchDepth :: nat where
  "sessionIDSearchDepth = 3"

function (sequential) findSessionID :: "nat \<Rightarrow> pmsg \<Rightarrow> string option"
  and find_in_fields :: "nat \<Rightarrow> (string \<times> pfield) list \<Rightarrow> string option" where
  "findSessionID depth (PMsg fs) =
     (case map_of fs ''session_id'' of
        Some (FString v) \<Rightarrow> Some v
      | _ \<Rightarrow> (case depth of 0 \<Rightarrow> None | Suc d \<Rightarrow> find_in_fields d fs))"
| "find_in_fields d [] = None"
| "find_in_fields d ((name, FMessage (Some m)) # fs) =
     (case findSessionID d m of Some i \<Rightarrow> Some i | None \<Rightarrow> find_in_fields d fs)"
| "find_in_fields d (field # fs) = find_in_fields d fs"
  by pat_completeness auto
termination
  by (relation "measures [\<lambda>x. case x of Inl (d, m) \<Rightarrow> d | Inr (d, fs) \<Rightarrow> d,
      \<lambda>x. case x of Inl (d, m) \<Rightarrow> 0 | Inr (d, fs) \<Rightarrow> Suc (length fs)]") auto

text \<open>\<open>None\<close> is a value that is no protobuf message, or an invalid one.\<close>

definition requestSessionID :: "pmsg option \<Rightarrow> string option" where
  "requestSessionID msg = (case msg of
     None \<Rightarrow> None | Some m \<Rightarrow> findSessionID sessionIDSearchDepth m)"

text \<open>\<open>connect.NewError(connect.CodePermissionDenied, fmt.Errorf("%w: ...", errDataPlaneCredentialMisrouted, ...))\<close>\<close>

definition misrouted :: "string \<Rightarrow> go_error" where
  "misrouted suffix =
     (let e = Wrapf (Sentinel ErrDataPlaneCredentialMisrouted) suffix
      in ConnectError CodePermissionDenied (error_text e) (''permission_denied: '' @ error_text e) [] (Some e))"

definition misroutedSessionError :: "pmsg option \<Rightarrow> string \<Rightarrow> go_error option" where
  "misroutedSessionError msg sessionID = (case requestSessionID msg of
     None \<Rightarrow> None
   | Some i \<Rightarrow>
       if i = [] \<or> i = sessionID then None
       else Some (misrouted ('': request targets session '' @ go_quote i @
         '' on a client credentialed for session '' @ go_quote sessionID)))"

section \<open>The interceptor\<close>

definition dataPlaneCredentialHeader :: string where
  "dataPlaneCredentialHeader = ''x-tenki-session-cert''"

record dp_interceptor =
  ic_endpoint :: string
  ic_sessionID :: string

text \<open>\<open>info\<close> and \<open>version\<close> are the build information and the runtime version of the process.\<close>

definition dp_setHeaders ::
  "build_info option \<Rightarrow> string \<Rightarrow> dp_interceptor \<Rightarrow> headers \<Rightarrow> pmsg option \<Rightarrow> dp \<Rightarrow> (go_error, headers) result" where
  "dp_setHeaders info version i header msg d =
     (case misroutedSessionError msg (ic_sessionID i) of
        Some err \<Rightarrow> Inl err
      | None \<Rightarrow>
          (let (credential, ok) = dataPlaneCredentialForEndpoint (ic_endpoint i) d
           in if \<not> ok then Inl (misrouted ('': credential was minted for another endpoint, not '' @ ic_endpoint i))
              else
                let credential = TrimSpace credential;
                    header = (if credential \<noteq> [] then map_put dataPlaneCredentialHeader credential header else header)
                in Inr (SetHeaders info version header)))"

definition reauthOnUnauthenticated ::
  "(dp \<Rightarrow> go_error option \<times> dp) \<Rightarrow> go_error option \<Rightarrow> dp \<Rightarrow> bool \<times> dp" where
  "reauthOnUnauthenticated renew err d = (case err of
     None \<Rightarrow> (False, d)
   | Some e \<Rightarrow> if CodeOf e \<noteq> CodeUnauthenticated then (False, d)
       else (let (r, d') = renew d in (r = None, d')))"

text \<open>
  A unary call: \<open>next1\<close> and \<open>next2\<close> answer the request and its replay, \<open>renew\<close> is the renewal with
  whatever other goroutines do to the session meanwhile. The result lists the headers of the requests
  that left the process, each with the state in which they were made.
\<close>

definition WrapUnary ::
  "build_info option \<Rightarrow> string \<Rightarrow> (dp \<Rightarrow> go_error option \<times> dp) \<Rightarrow> dp_interceptor \<Rightarrow> bool \<Rightarrow> headers \<Rightarrow> pmsg option
    \<Rightarrow> (go_error, 'r) result \<Rightarrow> (go_error, 'r) result \<Rightarrow> dp \<Rightarrow> (go_error, 'r) result \<times> (headers \<times> dp) list \<times> dp" where
  "WrapUnary info version renew i isClient header msg next1 next2 d =
     (if \<not> isClient then (next1, [(header, d)], d)
      else case dp_setHeaders info version i header msg d of
        Inl err \<Rightarrow> (Inl err, [], d)
      | Inr header \<Rightarrow>
          (case next1 of
             Inr resp \<Rightarrow> (Inr resp, [(header, d)], d)
           | Inl err \<Rightarrow>
               (let (again, d') = reauthOnUnauthenticated renew (Some err) d
                in if \<not> again then (Inl err, [(header, d)], d')
                   else if \<not> dataPlaneClientTargets (ic_endpoint i) d' then (Inl err, [(header, d)], d')
                   else case dp_setHeaders info version i header msg d' of
                     Inl err2 \<Rightarrow> (Inl err2, [(header, d)], d')
                   | Inr header2 \<Rightarrow> (next2, [(header, d), (header2, d')], d'))))"

text \<open>A streaming client keeps the refusal of its opening and checks every message it sends.\<close>

record dp_stream =
  ds_sessionID :: string
  ds_openErr :: "go_error option"

definition WrapStreamingClient ::
  "build_info option \<Rightarrow> string \<Rightarrow> dp_interceptor \<Rightarrow> headers \<Rightarrow> dp \<Rightarrow> dp_stream \<times> headers" where
  "WrapStreamingClient info version i header d =
     (case dp_setHeaders info version i header None d of
        Inl err \<Rightarrow> (\<lparr>ds_sessionID = ic_sessionID i, ds_openErr = Some err\<rparr>, header)
      | Inr header \<Rightarrow> (\<lparr>ds_sessionID = ic_sessionID i, ds_openErr = None\<rparr>, header))"

text \<open>\<open>None\<close> is the call handed to the underlying connection.\<close>

definition stream_Send :: "pmsg option \<Rightarrow> dp_stream \<Rightarrow> go_error option" where
  "stream_Send msg c = (case ds_openErr c of
     Some err \<Rightarrow> Some err
   | None \<Rightarrow> misroutedSessionError msg (ds_sessionID c))"

definition stream_Receive :: "dp_stream \<Rightarrow> go_error option" where
  "stream_Receive c = ds_openErr c"

section \<open>Resolving the client\<close>

definition refreshHintedDataPlane ::
  "(dp \<Rightarrow> go_error option \<times> dp) \<Rightarrow> rpc_client \<Rightarrow> dp \<Rightarrow> go_error option \<times> dp" where
  "refreshHintedDataPlane renew client d =
     (if dp_client d \<noteq> Some client \<or> \<not> dp_fromHint d then (None, d) else renew d)"

text \<open>
  \<open>renew\<close> and \<open>ensure\<close> are the renewal and \<open>ensureDataPlaneServing\<close>, \<open>untilExpiry\<close> the time left
  when it is read. The client is nil when a reset came in between.
\<close>

definition serve ::
  "(rpc_client option \<Rightarrow> dp \<Rightarrow> go_error option \<times> dp) \<Rightarrow> bool \<Rightarrow> rpc_client option \<Rightarrow> dp
    \<Rightarrow> (go_error, rpc_client option) result \<times> dp" where
  "serve ensure verifyServing client d =
     (if \<not> verifyServing then (Inr client, d)
      else case ensure client d of
        (Some err, d) \<Rightarrow> (Inl err, d)
      | (None, d) \<Rightarrow> (Inr (case dp_client d of Some c \<Rightarrow> Some c | None \<Rightarrow> client), d))"

definition resolveDataPlane ::
  "url_parser \<Rightarrow> (dp \<Rightarrow> go_error option \<times> dp) \<Rightarrow> (rpc_client option \<Rightarrow> dp \<Rightarrow> go_error option \<times> dp)
    \<Rightarrow> duration \<Rightarrow> bool \<Rightarrow> dp \<Rightarrow> (go_error, rpc_client option) result \<times> dp" where
  "resolveDataPlane parse renew ensure untilExpiry verifyServing d =
     (if dp_closed d then (Inl (Plain ''sandbox: session handle closed or released''), d)
      else
        let credential = dp_credential d; expiresAt = dp_expiresAt d;
            d = (if (TrimSpace (dp_endpoint d) = [] \<or> dp_client d = None) \<and> credential \<noteq> [] \<and> hints_current d \<noteq> []
                 then configureDataPlane parse (hints_current d) None True d else d)
        in if TrimSpace (dp_endpoint d) = [] \<or> dp_client d = None then
             (case hints_resolve renew d of
                (Inl err, d) \<Rightarrow> (Inl err, d)
              | (Inr resolved, d) \<Rightarrow>
                  (let d = (if dp_client d = None then configureDataPlane parse resolved None True d else d)
                   in if TrimSpace (dp_endpoint d) = [] \<or> dp_client d = None
                      then (Inl (Sentinel ErrDataPlaneEndpointUnavailable), d)
                      else serve ensure verifyServing (dp_client d) d))
           else if credential = [] \<or> (expiresAt \<noteq> 0 \<and> untilExpiry \<le> 10 * Millisecond) then
             (case renew d of
                (Some err, d) \<Rightarrow> (Inl err, d)
              | (None, d) \<Rightarrow> serve ensure verifyServing (dp_client d) d)
           else serve ensure verifyServing (dp_client d) d)"

section \<open>Properties of the renewal\<close>

lemma renew_unfinished:
  "renewDataPlaneCredential parse obs d = None \<Longrightarrow> list_all (\<lambda>t. t = Fired) (map snd obs)"
proof (induction parse obs d rule: renewDataPlaneCredential.induct)
  case (2 parse reply t obs d)
  then show ?case
    by (cases t) (auto simp: waitDataPlaneReadyBackoff_def split: renew_attempt.splits option.splits if_splits)
qed simp

text \<open>C22: A renewal returns: whatever the server answers, once there were more attempts than the
budget has room for (each wait is at least 50 ms), the call has returned with a result.\<close>

theorem renewal_returns:
  assumes "within_budget (readyBudget budget) 0 (map snd obs)"
    and "readyBudget budget < 50 * Millisecond * len obs"
  shows "\<exists>err d'. renewDataPlaneCredential parse obs d = Some (err, d')"
proof (rule ccontr)
  assume "\<not> ?thesis"
  then have "renewDataPlaneCredential parse obs d = None"
    by (cases "renewDataPlaneCredential parse obs d") auto
  then have "list_all (\<lambda>t. t = Fired) (map snd obs)" by (rule renew_unfinished)
  moreover have "0 \<le> readyBudget budget" by (simp add: readyBudget_def defaultDataPlaneReadyTimeout_def)
  ultimately have "50 * Millisecond * len (map snd obs) \<le> readyBudget budget"
    using all_fired_bounded [OF assms(1)] by simp
  with assms(2) show False by simp
qed

lemma renewal_returns_witness:
  "\<exists>err d'. renewDataPlaneCredential one_host
     [(Inr (Some \<lparr>cr_credential = Some cred_x, cr_endpoint = [], cr_status = ROUTE_NOT_READY\<rparr>), Fired),
      (Inr (Some \<lparr>cr_credential = Some cred_x, cr_endpoint = [], cr_status = ROUTE_NOT_READY\<rparr>), ReadyDone None)]
     fresh_dp = Some (err, d')"
  by (rule renewal_returns [where budget = "50 * Millisecond"])
    (simp_all add: readyBudget_def dataPlaneReadyBackoff_def)

text \<open>C21: A renewal is all or nothing. When it reports an error the data plane is exactly as before;
when it reports none, some answer carried a credential on a route that had not failed, and the data
plane is that answer applied to the state before.\<close>

theorem renewal_all_or_nothing:
  assumes "renewDataPlaneCredential parse obs d = Some (err, d')"
  shows "case err of
      Some e \<Rightarrow> d' = d
    | None \<Rightarrow> \<exists>r. Inr (Some r) \<in> fst ` set obs \<and> cr_credential r \<noteq> None \<and> cr_status r \<noteq> ROUTE_FAILED \<and>
        d' = (if TrimSpace (cr_endpoint r) \<noteq> []
              then applyDataPlaneResponse parse (TrimSpace (cr_endpoint r)) (cr_credential r) (cr_status r) d
              else setDataPlaneCredentialLocked (cr_credential r) d)"
  using assms
proof (induction parse obs d rule: renewDataPlaneCredential.induct)
  case (2 parse reply t obs d)
  show ?case
  proof (cases "renew_once parse reply d")
    case (Returns e d2)
    then have r: "e = err" "d2 = d'" using "2.prems" by auto
    from Returns show ?thesis
      unfolding r renew_once_def
      by (auto split: sum.splits option.splits if_splits)
  next
    case (Waits last)
    show ?thesis
    proof (cases "waitDataPlaneReadyBackoff t (Some last)")
      case None
      then have "renewDataPlaneCredential parse obs d = Some (err, d')" using "2.prems" Waits by simp
      from "2.IH" [OF Waits None this] show ?thesis by (auto split: option.splits)
    next
      case (Some e)
      then have "err = Some e" and "d' = d" using "2.prems" Waits by auto
      then show ?thesis by simp
    qed
  qed
qed simp

definition minted :: cred_reply where
  "minted = \<lparr>cr_credential = Some cred_x, cr_endpoint = ''https://n1'', cr_status = ROUTE_VERIFIED\<rparr>"

lemma renewal_all_or_nothing_witness:
  "\<exists>d'. renewDataPlaneCredential one_host [(Inr (Some minted), Fired)] fresh_dp = Some (None, d') \<and>
     (\<exists>r. r = minted \<and> d' = applyDataPlaneResponse one_host (TrimSpace (cr_endpoint r)) (cr_credential r) (cr_status r) fresh_dp)"
proof -
  have "renewDataPlaneCredential one_host [(Inr (Some minted), Fired)] fresh_dp =
      Some (None, applyDataPlaneResponse one_host ''https://n1'' (Some cred_x) ROUTE_VERIFIED fresh_dp)"
    by (simp add: renew_once_def minted_def ROUTE_VERIFIED_def ROUTE_FAILED_def ROUTE_NOT_READY_def)
  from renewal_all_or_nothing [OF this] this show ?thesis by (auto simp: minted_def split: if_splits)
qed

text \<open>A renewal can report success and keep the credential it was given out of the session: when
the answer names an endpoint for which no client can be made (one without a host, say), the new
credential is dropped and the old one, expiring or absent, stays.\<close>

theorem renewal_may_drop_credential:
  assumes "cr_credential r = Some c" and "cr_status r = ROUTE_VERIFIED" and "TrimSpace (cr_endpoint r) \<noteq> []"
    and "dataPlaneOrigin parse (TrimSpace (cr_endpoint r)) = Inl e" and "dp_client d = None"
  shows "case renewDataPlaneCredential parse ((Inr (Some r), t) # obs) d of
      None \<Rightarrow> False
    | Some (err, d') \<Rightarrow> err = None \<and> dp_credential d' = dp_credential d \<and> dp_expiresAt d' = dp_expiresAt d"
proof -
  let ?e = "TrimSpace (cr_endpoint r)"
  have "configureDataPlane parse ?e (Some c) False d = hints_remember ?e d"
    using assms(3,4,5)
    by (auto simp: configureDataPlane_def moveDataPlaneLocked_def acquireDataPlaneHTTPClient_def
        hints_remember_def Let_def)
  then show ?thesis
    using assms
    by (auto simp: renew_once_def ROUTE_VERIFIED_def ROUTE_FAILED_def ROUTE_NOT_READY_def
        applyDataPlaneResponse_def markCurrentDataPlaneVerified_def hints_remember_def Let_def
        split: option.splits)
qed

definition no_host :: url_parser where
  "no_host u = Inr (''https'', [])"

lemma renewal_may_drop_credential_witness:
  "case renewDataPlaneCredential no_host [(Inr (Some minted), Fired)] fresh_dp of
      None \<Rightarrow> False | Some (err, d') \<Rightarrow> err = None \<and> dp_credential d' = []"
proof -
  have o: "dataPlaneOrigin no_host (TrimSpace (cr_endpoint minted)) =
      Inl (Plain (''sandbox: invalid data-plane endpoint '' @ go_quote ''https://n1''))"
    by (simp add: dataPlaneOrigin_def no_host_def minted_def)
  have "case renewDataPlaneCredential no_host [(Inr (Some minted), Fired)] fresh_dp of
      None \<Rightarrow> False
    | Some (err, d') \<Rightarrow> err = None \<and> dp_credential d' = dp_credential fresh_dp \<and> dp_expiresAt d' = dp_expiresAt fresh_dp"
    by (rule renewal_may_drop_credential [OF _ _ _ o, where c = cred_x]) (simp_all add: minted_def fresh_dp_def)
  then show ?thesis by (auto simp: fresh_dp_def split: option.splits)
qed

section \<open>Properties of the renewal loop\<close>

text \<open>
  What a trace of the loop may look like: an error that is fatal is last, any other is followed by a
  wait of at least 10 ms.
\<close>

fun paced :: "loop_event list \<Rightarrow> bool" where
  "paced [] \<longleftrightarrow> True"
| "paced (WaitFor w # es) \<longleftrightarrow> 0 \<le> w \<and> paced es"
| "paced (Renew None # es) \<longleftrightarrow> paced es"
| "paced (Renew (Some err) # es) \<longleftrightarrow>
     (if fatalRenewalError err then es = []
      else case es of WaitFor b # rest \<Rightarrow> 10 * Millisecond \<le> b \<and> paced rest | _ \<Rightarrow> False)"

lemma delay_bounds:
  "0 \<le> credentialRenewalDelay u" "0 < u \<Longrightarrow> 10 * Millisecond \<le> credentialRenewalDelay u"
  "20 * Millisecond \<le> u \<Longrightarrow> 2 * credentialRenewalDelay u \<le> u"
  "10 * Millisecond \<le> credentialRenewalBackoff u"
  by (simp_all add: credentialRenewalDelay_def credentialRenewalBackoff_def Let_def go_div_nonneg) presburger

lemma backoff_lower: "10000000 \<le> credentialRenewalBackoff u"
  using delay_bounds(4) by simp

text \<open>The renewal loop stops at the first fatal error (session gone, terminated, expired or
paused, caller not authorised, route verification failed) and returns; after any other failure it
waits at least 10 ms before it tries again; and a credential with 20 ms or more to live is renewed
no later than half-way to its expiry.\<close>

theorem renewal_loop_paced:
  "paced (fst (credentialRenewalLoop turns)) \<and>
   (if list_ex (\<lambda>e. case e of Renew (Some err) \<Rightarrow> fatalRenewalError err | _ \<Rightarrow> False) (fst (credentialRenewalLoop turns))
    then snd (credentialRenewalLoop turns) else True) \<and>
   (if 20 * Millisecond \<le> untilExpiry then 2 * credentialRenewalDelay untilExpiry \<le> untilExpiry else True)"
proof -
  have "paced (fst (credentialRenewalLoop turns)) \<and>
   (list_ex (\<lambda>e. case e of Renew (Some err) \<Rightarrow> fatalRenewalError err | _ \<Rightarrow> False) (fst (credentialRenewalLoop turns))
    \<longrightarrow> snd (credentialRenewalLoop turns))"
    by (induction turns rule: credentialRenewalLoop.induct)
      (auto simp: Let_def case_prod_beta delay_bounds(1) backoff_lower split: option.splits)
  then show ?thesis by (simp add: delay_bounds)
qed

section \<open>Properties of the interceptor\<close>

text \<open>
  The session ids that a message names at depth at most \<open>d\<close>: its own \<open>session_id\<close>, or, when it
  declares none as a string, one of a populated message field.
\<close>

inductive names_session :: "nat \<Rightarrow> pmsg \<Rightarrow> string \<Rightarrow> bool" where
  own: "map_of fs ''session_id'' = Some (FString v) \<Longrightarrow> names_session d (PMsg fs) v"
| below: "(\<And>w. map_of fs ''session_id'' \<noteq> Some (FString w)) \<Longrightarrow> (n, FMessage (Some m)) \<in> set fs \<Longrightarrow>
    names_session d m v \<Longrightarrow> names_session (Suc d) (PMsg fs) v"

inductive_cases names_sessionE: "names_session d (PMsg fs) v"

lemma find_session_sound:
  "findSessionID d m = Some v \<Longrightarrow> names_session d m v"
  "find_in_fields d fs = Some v \<Longrightarrow> \<exists>n m. (n, FMessage (Some m)) \<in> set fs \<and> names_session d m v"
proof (induction d m and d fs arbitrary: v and v rule: findSessionID_find_in_fields.induct)
  case (1 depth fs)
  show ?case
  proof (cases "\<exists>w. map_of fs ''session_id'' = Some (FString w)")
    case True
    then show ?thesis using 1 by (auto intro: own)
  next
    case False
    then obtain e where e: "depth = Suc e"
      using 1 by (auto split: option.splits pfield.splits nat.splits)
    have "\<exists>n m. (n, FMessage (Some m)) \<in> set fs \<and> names_session e m v"
      using 1 False e by (auto split: option.splits pfield.splits)
    then show ?thesis unfolding e using False by (blast intro: below)
  qed
qed (auto split: option.splits)

lemma find_session_complete:
  "findSessionID d m = None \<Longrightarrow> \<not> names_session d m v"
  "find_in_fields d fs = None \<Longrightarrow> (n, FMessage (Some m)) \<in> set fs \<Longrightarrow> \<not> names_session d m v"
proof (induction d m and d fs arbitrary: v and v n m rule: findSessionID_find_in_fields.induct)
  case (1 depth fs)
  show ?case
  proof
    assume "names_session depth (PMsg fs) v"
    then show False
      by (cases rule: names_sessionE) (use 1 in \<open>auto split: option.splits pfield.splits\<close>)
  qed
qed (auto split: option.splits)

text \<open>The search for the session a request names finds one exactly when the message names one
within the search depth, and the one it finds is named there; so a request that names only another
session is refused, and a request that names no session or only its own is let through.\<close>

theorem session_search_exact:
  "(case requestSessionID (Some m) of
      None \<Rightarrow> \<not> (\<exists>v. names_session sessionIDSearchDepth m v)
    | Some v \<Rightarrow> names_session sessionIDSearchDepth m v) \<and>
   (misroutedSessionError (Some m) sid = None \<longleftrightarrow> requestSessionID (Some m) \<in> {None, Some [], Some sid})"
  by (auto simp: requestSessionID_def misroutedSessionError_def dest: find_session_sound(1) find_session_complete(1)
      split: option.splits)

definition carries :: "dp_interceptor \<Rightarrow> headers \<Rightarrow> dp \<Rightarrow> bool" where
  "carries i h d \<longleftrightarrow> (case map_of h dataPlaneCredentialHeader of
     None \<Rightarrow> TrimSpace (dp_credential d) = []
   | Some c \<Rightarrow> c = TrimSpace (dp_credential d) \<and> dp_credEndpoint d = ic_endpoint i \<and> dp_credential d \<noteq> [])"

lemma setHeaders_cases:
  assumes "dp_setHeaders info version i h msg d = Inr h'"
  shows "misroutedSessionError msg (ic_sessionID i) = None \<and>
    (if TrimSpace (dp_credential d) = []
     then map_of h' dataPlaneCredentialHeader = map_of h dataPlaneCredentialHeader
     else dp_credEndpoint d = ic_endpoint i \<and> dp_credential d \<noteq> [] \<and>
       map_of h' dataPlaneCredentialHeader = Some (TrimSpace (dp_credential d)))"
proof -
  have "map_of (client_headers info version) dataPlaneCredentialHeader = None"
    by (simp add: client_headers_def dataPlaneCredentialHeader_def)
  then show ?thesis
    using assms
    by (auto simp: dp_setHeaders_def dataPlaneCredentialForEndpoint_def Let_def
        split: option.splits if_splits)
qed

text \<open>C4: A unary call sends at most two requests. Each carries the session's current credential, bound
to the endpoint of the client, or no credential; a replay happens only after an Unauthenticated
answer and a renewal that left the session on that endpoint, and carries the new credential (or,
should the session have lost its credential meanwhile, the one already sent there). A request for
another session never leaves the process.\<close>

theorem unary_requests_bound:
  assumes "map_of header dataPlaneCredentialHeader = None"
  shows "let (res, sent, d') = WrapUnary info version renew i True header msg next1 next2 d in
    (if misroutedSessionError msg (ic_sessionID i) \<noteq> None then sent = [] \<and> is_ok res = False else True) \<and>
    (case sent of
       [] \<Rightarrow> True
     | [(h1, s1)] \<Rightarrow> carries i h1 s1
     | [(h1, s1), (h2, s2)] \<Rightarrow> carries i h1 s1 \<and> dp_endpoint s2 = ic_endpoint i \<and>
         (case next1 of Inl err \<Rightarrow> CodeOf err = CodeUnauthenticated | Inr r \<Rightarrow> False) \<and> renew s1 = (None, s2) \<and>
         (if TrimSpace (dp_credential s2) = []
          then map_of h2 dataPlaneCredentialHeader = map_of h1 dataPlaneCredentialHeader
          else carries i h2 s2)
     | _ \<Rightarrow> False)"
proof (cases "dp_setHeaders info version i header msg d")
  case (Inl err)
  then show ?thesis by (simp add: WrapUnary_def)
next
  case (Inr h1)
  note c1 = setHeaders_cases [OF Inr]
  have k1: "carries i h1 d" using c1 assms by (auto simp: carries_def split: if_splits)
  show ?thesis
  proof (cases next1)
    case r: (Inr r)
    then show ?thesis using Inr k1 c1 by (simp add: WrapUnary_def)
  next
    case e: (Inl e)
    obtain again d' where a: "reauthOnUnauthenticated renew (Some e) d = (again, d')" by fastforce
    show ?thesis
    proof (cases "again \<and> dataPlaneClientTargets (ic_endpoint i) d'")
      case False
      then show ?thesis using Inr k1 c1 a e by (auto simp: WrapUnary_def)
    next
      case True
      have u: "CodeOf e = CodeUnauthenticated" "renew d = (None, d')"
        using a True by (auto simp: reauthOnUnauthenticated_def split: if_splits prod.splits)
      show ?thesis
      proof (cases "dp_setHeaders info version i h1 msg d'")
        case (Inl err)
        then show ?thesis using Inr k1 c1 a e True by (simp add: WrapUnary_def)
      next
        case h2: (Inr h2)
        then show ?thesis
          using Inr k1 c1 a e True u setHeaders_cases [OF h2]
          by (simp add: WrapUnary_def dataPlaneClientTargets_def carries_def)
      qed
    qed
  qed
qed

definition sample_interceptor :: dp_interceptor where
  "sample_interceptor = \<lparr>ic_endpoint = ''https://n1'', ic_sessionID = ''s''\<rparr>"

definition credentialed_dp :: dp where
  "credentialed_dp = fresh_dp\<lparr>dp_endpoint := ''https://n1'', dp_credential := ''x'', dp_credEndpoint := ''https://n1''\<rparr>"

definition unauthenticated :: go_error where
  "unauthenticated = ConnectError CodeUnauthenticated [] [] [] None"

lemma unary_requests_bound_witness:
  "case fst (snd (WrapUnary None ''go1'' (\<lambda>d. (None, d)) sample_interceptor True [] None
       (Inl unauthenticated) (Inr ()) credentialed_dp)) of
     [(h1, s1), (h2, s2)] \<Rightarrow> carries sample_interceptor h1 s1 \<and> carries sample_interceptor h2 s2
   | _ \<Rightarrow> False"
proof -
  have none: "map_of [] dataPlaneCredentialHeader = (None :: string option)" by simp
  have two: "\<exists>a b r. WrapUnary None ''go1'' (\<lambda>d. (None, d)) sample_interceptor True [] None
       (Inl unauthenticated) (Inr ()) credentialed_dp = (r, [a, (b, credentialed_dp)], credentialed_dp)"
    by (simp add: WrapUnary_def dp_setHeaders_def misroutedSessionError_def requestSessionID_def
        dataPlaneCredentialForEndpoint_def credentialed_dp_def sample_interceptor_def Let_def
        reauthOnUnauthenticated_def dataPlaneClientTargets_def CodeOf_def unauthenticated_def)
  then obtain a b r where w: "WrapUnary None ''go1'' (\<lambda>d. (None, d)) sample_interceptor True [] None
       (Inl unauthenticated) (Inr ()) credentialed_dp = (r, [a, (b, credentialed_dp)], credentialed_dp)" by blast
  have "TrimSpace (dp_credential credentialed_dp) \<noteq> []" by (simp add: credentialed_dp_def)
  then show ?thesis
    using unary_requests_bound [OF none, of None "''go1''" "\<lambda>d. (None, d)" sample_interceptor None
        "Inl unauthenticated" "Inr ()" credentialed_dp]
    unfolding w by (cases a) simp
qed

section \<open>Properties of the resolution\<close>

text \<open>Resolving the data plane of a closed handle is refused and changes nothing. Otherwise a
client it returns is the session's client at that moment, or (after a verification during which a
reset took the client away) the one it probed; an error of the renewal or of the verification is
handed to the caller unchanged.\<close>

theorem resolve_returns_current:
  "case resolveDataPlane parse renew ensure untilExpiry verifyServing d of
     (Inr client, d') \<Rightarrow> \<not> dp_closed d \<and>
       (if verifyServing then (if dp_client d' = None then True else client = dp_client d')
        else client = dp_client d')
   | (Inl err, d') \<Rightarrow> if dp_closed d then d' = d else True"
proof -
  have s: "case serve ensure verifyServing (dp_client x) x of
      (Inr client, d') \<Rightarrow> (if verifyServing then (if dp_client d' = None then True else client = dp_client d')
        else client = dp_client d') | (Inl err, d') \<Rightarrow> True" for x
    by (auto simp: serve_def split: prod.splits option.splits)
  show ?thesis
  proof (cases "dp_closed d")
    case True
    then show ?thesis by (simp add: resolveDataPlane_def)
  next
    case False
    define d1 where "d1 = (if (TrimSpace (dp_endpoint d) = [] \<or> dp_client d = None) \<and> dp_credential d \<noteq> [] \<and>
        hints_current d \<noteq> [] then configureDataPlane parse (hints_current d) None True d else d)"
    note r = resolveDataPlane_def [of parse renew ensure untilExpiry verifyServing d, unfolded Let_def,
        folded d1_def]
    show ?thesis
    proof (cases "TrimSpace (dp_endpoint d1) = [] \<or> dp_client d1 = None")
      case True
      obtain h d2 where h: "hints_resolve renew d1 = (h, d2)" by fastforce
      show ?thesis
      proof (cases h)
        case (Inl e)
        then show ?thesis using True False h by (simp add: r)
      next
        case (Inr b)
        define d3 where "d3 = (if dp_client d2 = None then configureDataPlane parse b None True d2 else d2)"
        have "resolveDataPlane parse renew ensure untilExpiry verifyServing d =
            (if TrimSpace (dp_endpoint d3) = [] \<or> dp_client d3 = None
             then (Inl (Sentinel ErrDataPlaneEndpointUnavailable), d3)
             else serve ensure verifyServing (dp_client d3) d3)"
          using True False h Inr by (simp only: r if_False if_True prod.case sum.case d3_def)
        then show ?thesis using s [of d3] False by (auto split: prod.splits sum.splits if_splits)
      qed
    next
      case have_client: False
      obtain e d2 where e: "renew d1 = (e, d2)" by fastforce
      show ?thesis
      proof (cases "dp_credential d = [] \<or> dp_expiresAt d \<noteq> 0 \<and> untilExpiry \<le> 10 * Millisecond")
        case True
        then have "resolveDataPlane parse renew ensure untilExpiry verifyServing d =
            (case e of Some err \<Rightarrow> (Inl err, d2) | None \<Rightarrow> serve ensure verifyServing (dp_client d2) d2)"
          using have_client False e by (simp only: r if_False if_True prod.case)
        then show ?thesis using s [of d2] False by (cases e) (auto split: prod.splits sum.splits if_splits)
      next
        case unexpired: False
        then have "resolveDataPlane parse renew ensure untilExpiry verifyServing d = serve ensure verifyServing (dp_client d1) d1"
          using have_client False by (simp only: r if_False simp_thms)
        then show ?thesis using s [of d1] False by (auto split: prod.splits sum.splits if_splits)
      qed
    qed
  qed
qed

end
