(* ===== verification/Lifetimes.thy ===== *)
theory Lifetimes
  imports Transport Credential
begin

text \<open>
  What surrounds the requests of the data plane (\<open>data_plane.go\<close>, \<open>sandbox.go\<close>): the context of a readiness budget
  with the goroutine that watches its parent, the two HTTP/2 transports and the request that opens a connection early.
\<close>

section \<open>The context of a readiness budget\<close>

text \<open>Why a context has ended.\<close>

datatype ctx_end = EndCanceled | EndDeadline

text \<open>
  \<open>rc_ctx\<close> is the derived context, \<open>rc_done_closes\<close> counts the closings of \<open>done\<close>, of which a second one would panic,
  \<open>rc_released\<close> is \<open>once\<close> and \<open>rc_watching\<close> the goroutine. \<open>rc_expired\<close> is kept for the statements: the budget ran out.
\<close>

record ready_ctx =
  rc_parent :: "ctx_end option"
  rc_ctx :: "ctx_end option"
  rc_done_closes :: nat
  rc_released :: bool
  rc_watching :: bool
  rc_expired :: bool

definition dataPlaneReadyContext :: "ctx_end option \<Rightarrow> ready_ctx" where
  "dataPlaneReadyContext parent = \<lparr>rc_parent = parent, rc_ctx = None, rc_done_closes = 0, rc_released = False,
     rc_watching = True, rc_expired = False\<rparr>"

definition cancel_ready :: "ready_ctx \<Rightarrow> ready_ctx" where
  "cancel_ready s = (if rc_ctx s = None then s\<lparr>rc_ctx := Some EndCanceled\<rparr> else s)"

text \<open>The returned function.\<close>

definition release_ready :: "ready_ctx \<Rightarrow> ready_ctx" where
  "release_ready s =
     (if rc_released s then s
      else cancel_ready (s\<lparr>rc_released := True, rc_done_closes := Suc (rc_done_closes s)\<rparr>))"

text \<open>The goroutine, with the end of the parent or with \<open>done\<close>.\<close>

definition watch_parent :: "ctx_end \<Rightarrow> ready_ctx \<Rightarrow> ready_ctx" where
  "watch_parent e s = (let s = s\<lparr>rc_watching := False\<rparr> in if e = EndCanceled then cancel_ready s else s)"

inductive ready_step :: "ready_ctx \<Rightarrow> ready_ctx \<Rightarrow> bool" where
  parent_ends: "rc_parent s = None \<Longrightarrow> ready_step s (s\<lparr>rc_parent := Some e\<rparr>)"
| budget_ends: "rc_ctx s = None \<Longrightarrow> ready_step s (s\<lparr>rc_ctx := Some EndDeadline, rc_expired := True\<rparr>)"
| watched_parent: "rc_watching s \<Longrightarrow> rc_parent s = Some e \<Longrightarrow> ready_step s (watch_parent e s)"
| watched_done: "rc_watching s \<Longrightarrow> 0 < rc_done_closes s \<Longrightarrow> ready_step s (s\<lparr>rc_watching := False\<rparr>)"
| releases: "ready_step s (release_ready s)"

inductive ready_reach :: "ctx_end option \<Rightarrow> ready_ctx \<Rightarrow> bool" for parent where
  ready_start: "ready_reach parent (dataPlaneReadyContext parent)"
| ready_next: "ready_reach parent s \<Longrightarrow> ready_step s t \<Longrightarrow> ready_reach parent t"

definition ready_inv :: "ready_ctx \<Rightarrow> bool" where
  "ready_inv s \<longleftrightarrow>
     rc_done_closes s = (if rc_released s then 1 else 0) \<and>
     (rc_ctx s = Some EndDeadline \<longrightarrow> rc_expired s) \<and>
     (rc_ctx s = Some EndCanceled \<longrightarrow> rc_released s \<or> rc_parent s = Some EndCanceled) \<and>
     (rc_released s \<longrightarrow> rc_ctx s \<noteq> None) \<and>
     (\<not> rc_watching s \<longrightarrow> rc_released s \<or> rc_parent s \<noteq> None) \<and>
     (\<not> rc_watching s \<longrightarrow> rc_parent s = Some EndCanceled \<longrightarrow> rc_released s \<or> rc_ctx s \<noteq> None)"

lemma ready_inv_step: "ready_step s t \<Longrightarrow> ready_inv s \<Longrightarrow> ready_inv t"
  by (induction rule: ready_step.induct)
    (auto simp: ready_inv_def release_ready_def cancel_ready_def watch_parent_def Let_def split: if_splits)

lemma ready_reach_inv: "ready_reach parent s \<Longrightarrow> ready_inv s"
proof (induction rule: ready_reach.induct)
  case ready_start
  show ?case by (simp add: ready_inv_def dataPlaneReadyContext_def)
qed (use ready_inv_step in blast)

text \<open>C29: The context of a readiness budget outlives the deadline of its caller: it ends only because the budget ran
  out, because it was released, or because the caller was cancelled. The channel of its goroutine is closed at most
  once, however often it is released, and once the context is released or the caller's has ended the goroutine is
  gone or can go.\<close>

theorem ready_context_sound:
  assumes "ready_reach parent s"
  shows "rc_done_closes s \<le> 1 \<and>
    (case rc_ctx s of
       None \<Rightarrow> \<not> rc_released s
     | Some EndDeadline \<Rightarrow> rc_expired s
     | Some EndCanceled \<Rightarrow> rc_released s \<or> rc_parent s = Some EndCanceled) \<and>
    (if rc_watching s \<and> (rc_released s \<or> rc_parent s \<noteq> None) then \<exists>t. ready_step s t \<and> \<not> rc_watching t else True) \<and>
    (if \<not> rc_watching s \<and> rc_parent s = Some EndCanceled \<and> \<not> rc_released s then rc_ctx s \<noteq> None else True)"
proof -
  have inv: "ready_inv s" using assms by (rule ready_reach_inv)
  have "\<exists>t. ready_step s t \<and> \<not> rc_watching t" if w: "rc_watching s" and e: "rc_released s \<or> rc_parent s \<noteq> None"
  proof (cases "rc_parent s")
    case None
    with e inv have "0 < rc_done_closes s" by (simp add: ready_inv_def)
    with watched_done [OF w] show ?thesis by (intro exI [of _ "s\<lparr>rc_watching := False\<rparr>"]) simp
  next
    case (Some p)
    with watched_parent [OF w] show ?thesis
      by (intro exI [of _ "watch_parent p s"]) (simp add: watch_parent_def cancel_ready_def Let_def)
  qed
  with inv show ?thesis by (auto simp: ready_inv_def split: option.split ctx_end.split if_splits)
qed

text \<open>The deadline of the caller passes, the goroutine sees it, and the context goes on.\<close>

lemma ready_context_sound_witness:
  "rc_ctx (watch_parent EndDeadline (dataPlaneReadyContext (Some EndDeadline))) = None \<and>
   \<not> rc_released (watch_parent EndDeadline (dataPlaneReadyContext (Some EndDeadline)))"
proof -
  have "ready_reach (Some EndDeadline) (watch_parent EndDeadline (dataPlaneReadyContext (Some EndDeadline)))"
    by (rule ready_next [OF ready_start watched_parent]) (simp_all add: dataPlaneReadyContext_def)
  from ready_context_sound [OF this] show ?thesis
    by (simp add: watch_parent_def dataPlaneReadyContext_def Let_def)
qed

section \<open>Transports\<close>

text \<open>A transport without \<open>AllowHTTP\<close> speaks TLS only; \<open>tr_DialPlain\<close> is the \<open>DialTLS\<close> that dials without TLS.\<close>

record http2_transport =
  tr_ReadIdleTimeout :: duration
  tr_PingTimeout :: duration
  tr_AllowHTTP :: bool
  tr_DialPlain :: bool

definition http2_for :: "string \<Rightarrow> http2_transport" where
  "http2_for url =
     (let transport = \<lparr>tr_ReadIdleTimeout = 30 * Second, tr_PingTimeout = 5 * Second, tr_AllowHTTP = False, tr_DialPlain = False\<rparr>
      in if HasPrefix url ''http://'' then transport\<lparr>tr_AllowHTTP := True, tr_DialPlain := True\<rparr> else transport)"

text \<open>A client is its timeout, where zero is none, and its transport.\<close>

definition newDataPlaneHTTPClient :: "string \<Rightarrow> duration \<times> http2_transport" where
  "newDataPlaneHTTPClient endpoint = (0, http2_for endpoint)"

definition controlPlaneHTTPClient :: "duration \<Rightarrow> string \<Rightarrow> duration \<times> http2_transport" where
  "controlPlaneHTTPClient httpTimeout baseURL = (httpTimeout, http2_for baseURL)"

text \<open>
  The early request: \<open>new_request\<close> may reject the URL, \<open>send\<close> may fail. The result is what was sent, with its bound,
  and the number of bodies that were closed.
\<close>

definition prewarmControlPlaneConnection ::
  "(string \<Rightarrow> string \<Rightarrow> 'q option) \<Rightarrow> ('q \<Rightarrow> bool) \<Rightarrow> string \<Rightarrow> ('q \<times> duration) list \<times> nat" where
  "prewarmControlPlaneConnection new_request send baseURL =
     (case new_request ''HEAD'' baseURL of
        None \<Rightarrow> ([], 0)
      | Some req \<Rightarrow> ([(req, 5 * Second)], if send req then 1 else 0))"

text \<open>
  The clients of the pool are made for an origin, so the data plane goes without TLS exactly for endpoints of the
  scheme \<open>http\<close>; a scheme has no colon.
\<close>

lemma origin_cleartext:
  assumes "dataPlaneOrigin parse endpoint = Inr o'" and "parse endpoint = Inr (scheme, host)" and "CHR '':'' \<notin> set scheme"
  shows "tr_AllowHTTP (snd (newDataPlaneHTTPClient o')) \<longleftrightarrow> scheme = ''http''"
proof -
  have o: "o' = scheme @ ''://'' @ host" using assms(1,2) by (simp add: dataPlaneOrigin_def split: if_splits)
  have "scheme = ''http''" if p: "HasPrefix o' ''http://''"
  proof -
    have "takeWhile (\<lambda>c. c \<noteq> CHR '':'') o' = scheme"
      unfolding o using assms(3) by (induction scheme) auto
    moreover from p obtain t where "o' = ''http://'' @ t" by (auto simp: HasPrefix_iff)
    ultimately show ?thesis by simp
  qed
  moreover have "HasPrefix o' ''http://''" if "scheme = ''http''" using that by (simp add: o)
  ultimately show ?thesis by (auto simp: newDataPlaneHTTPClient_def http2_for_def Let_def)
qed

end
