(* ===== verification/Run.thy ===== *)
theory Run
  imports Credential
begin

text \<open>
  Running a command (\<open>run.go\<close>): the frames of a run, the classification of its end, the opening of the
  stream with its retries and its single re-authentication, and the pumps between the stream and the
  pipes of a handle.
\<close>

section \<open>Frames and exits\<close>

record run_exit =
  ex_ExitCode :: int
  ex_Signal :: string
  ex_TimedOut :: bool
  ex_DurationMs :: int
  ex_Reason :: string
  ex_Disk :: disk_usage

datatype run_frame =
    FrameStarted int | FrameStdout string | FrameStderr string | FrameExit run_exit
  | FrameKeepalive bool | FrameFlow | FrameUnset

text \<open>The getters of a frame accept a nil frame.\<close>

fun GetKeepalive :: "run_frame option \<Rightarrow> bool" where
  "GetKeepalive (Some (FrameKeepalive b)) = b"
| "GetKeepalive _ = False"

fun GetExit :: "run_frame option \<Rightarrow> run_exit option" where
  "GetExit (Some (FrameExit x)) = Some x"
| "GetExit _ = None"

fun GetStarted :: "run_frame option \<Rightarrow> int option" where
  "GetStarted (Some (FrameStarted pid)) = Some pid"
| "GetStarted _ = None"

fun GetOutput :: "bool \<Rightarrow> run_frame option \<Rightarrow> string" where
  "GetOutput stderr (Some (FrameStdout data)) = (if stderr then [] else data)"
| "GetOutput stderr (Some (FrameStderr data)) = (if stderr then data else [])"
| "GetOutput stderr _ = []"

definition isRunFirstFrameTimeout :: "run_exit \<Rightarrow> bool" where
  "isRunFirstFrameTimeout x = HasPrefix (ex_Reason x) ''first_frame_timeout''"

definition isRunCapabilityUnavailable :: "run_exit \<Rightarrow> bool" where
  "isRunCapabilityUnavailable x = HasPrefix (ex_Reason x) ''capability_unavailable''"

definition sessionTerminatedReasonPrefix :: string where
  "sessionTerminatedReasonPrefix = ''session_terminated''"

definition isRunSessionTerminated :: "run_exit \<Rightarrow> bool" where
  "isRunSessionTerminated x = HasPrefix (ex_Reason x) sessionTerminatedReasonPrefix"

definition runSessionTerminationCause :: "string \<Rightarrow> string" where
  "runSessionTerminationCause reason =
     (let p = sessionTerminatedReasonPrefix @ '':''
      in if \<not> HasPrefix reason p then []
         else TrimSpace (takeWhile (\<lambda>c. c \<noteq> CHR '':'') (TrimPrefix reason p)))"

text \<open>The error of an exit that the platform, not the command, produced.\<close>

definition exit_error :: "run_exit \<Rightarrow> go_error option" where
  "exit_error x =
     (if isRunFirstFrameTimeout x then Some (PrimitiveTimeoutError ''run'' (ex_Reason x))
      else if isRunCapabilityUnavailable x then Some (CapabilityUnavailableError ''run'' (ex_Reason x))
      else if isRunSessionTerminated x
      then Some (SessionTerminatedError ''run'' (runSessionTerminationCause (ex_Reason x)) (ex_Reason x))
      else None)"

section \<open>The request\<close>

text \<open>Milliseconds on the wire, at most \<open>math.MaxUint32\<close>; 0 means no bound.\<close>

definition runTimeoutMs :: "duration option \<Rightarrow> int" where
  "runTimeoutMs timeout = (case timeout of
     None \<Rightarrow> 0
   | Some t \<Rightarrow>
       if t \<le> 0 then 0
       else let ms = go_div t Millisecond
            in if 4294967295 < ms then 4294967295 else uint32 ms)"

datatype run_signal = SIG_UNSPECIFIED | SIG_TERM | SIG_KILL | SIG_INT | SIG_HUP | SIG_USR1 | SIG_USR2

text \<open>The argument is \<open>signal.String()\<close>.\<close>

definition osSignalToRunSignal :: "string \<Rightarrow> run_signal" where
  "osSignalToRunSignal s =
     (if s = ''killed'' \<or> s = ''kill'' then SIG_KILL
      else if s = ''interrupt'' \<or> s = ''int'' then SIG_INT
      else if s = ''hangup'' \<or> s = ''hup'' then SIG_HUP
      else if s = ''user defined signal 1'' \<or> s = ''usr1'' then SIG_USR1
      else if s = ''user defined signal 2'' \<or> s = ''usr2'' then SIG_USR2
      else SIG_TERM)"

record command_options =
  co_Env :: "(string, string) gomap"
  co_Dir :: string
  co_Timeout :: "duration option"
  co_Privileged :: bool
  co_StreamOnly :: bool

record run_start =
  rs_SessionId :: string
  rs_Cmd :: "string list"
  rs_Cwd :: string
  rs_Env :: "(string, string) gomap"
  rs_StreamStdin :: bool
  rs_Privileged :: bool
  rs_TimeoutMs :: int

definition run_start_request :: "string \<Rightarrow> string list \<Rightarrow> command_options \<Rightarrow> run_start" where
  "run_start_request sessionID argv opts =
     \<lparr>rs_SessionId = sessionID, rs_Cmd = argv, rs_Cwd = co_Dir opts, rs_Env = co_Env opts,
      rs_StreamStdin = True, rs_Privileged = co_Privileged opts, rs_TimeoutMs = runTimeoutMs (co_Timeout opts)\<rparr>"

section \<open>The stream\<close>

text \<open>
  \<open>rst_incoming\<close> holds what \<open>Receive\<close> of the RPC stream returns, in order; when it is used up, the
  model has nothing more to say and the result is \<open>None\<close>.
\<close>

type_synonym received = "(go_error, run_frame option) result"

record run_stream =
  rst_pending :: "run_frame option"
  rst_incoming :: "received list"

definition run_stream_Receive :: "run_stream \<Rightarrow> (received \<times> run_stream) option" where
  "run_stream_Receive s = (case rst_pending s of
     Some first \<Rightarrow> Some (Inr (Some first), s\<lparr>rst_pending := None\<rparr>)
   | None \<Rightarrow> (case rst_incoming s of
       [] \<Rightarrow> None
     | r # rs \<Rightarrow> Some (r, s\<lparr>rst_incoming := rs\<rparr>)))"

definition runStreamSendError :: "run_stream \<Rightarrow> go_error \<Rightarrow> (go_error option \<times> run_stream) option" where
  "runStreamSendError s sendErr =
     (if \<not> errors_Is sendErr IoEOF then Some (Some sendErr, s)
      else case run_stream_Receive s of
        None \<Rightarrow> None
      | Some (Inl receiveErr, s) \<Rightarrow> Some (Some receiveErr, s)
      | Some (Inr None, s) \<Rightarrow> Some (Some sendErr, s)
      | Some (Inr (Some first), s) \<Rightarrow> Some (None, s\<lparr>rst_pending := Some first\<rparr>))"

section \<open>Retrying the opening\<close>

definition isProvisioningSessionNotFound :: "go_error \<Rightarrow> bool \<Rightarrow> bool" where
  "isProvisioningSessionNotFound err provisioningPending \<longleftrightarrow>
     provisioningPending \<and> CodeOf err = CodeNotFound \<and> Contains (to_lower (error_text err)) ''session not found''"

text \<open>The first \<open>depth\<close> errors of the chain of \<open>errors.Unwrap\<close>.\<close>

fun unwrap_chain :: "nat \<Rightarrow> go_error option \<Rightarrow> go_error list" where
  "unwrap_chain (Suc depth) (Some e) = e # unwrap_chain depth (errors_Unwrap e)"
| "unwrap_chain _ _ = []"

definition isRetryableRunStreamEstablishmentError :: "go_error \<Rightarrow> bool \<Rightarrow> bool" where
  "isRetryableRunStreamEstablishmentError err provisioningPending =
     (if isEdgeNotReady (Some err) then True
      else if isProvisioningSessionNotFound err provisioningPending then True
      else if provisioningPending \<and> CodeOf err = CodeUnavailable then True
      else if list_ex (\<lambda>e. let msg = to_lower (error_text e)
          in Contains msg ''refused_stream'' \<or> Contains msg ''refused stream'' \<or> Contains msg ''goaway'')
          (unwrap_chain 4 (Some err)) then True
      else if CodeOf err \<noteq> CodeAborted \<and> CodeOf err \<noteq> CodeUnavailable then False
      else list_ex (Contains (to_lower (error_text err)))
        [''econnreset'', ''connection reset'', ''socket hang up'', ''unexpected eof'',
         ''stream closed before headers''])"

definition isRunUnimplemented :: "go_error \<Rightarrow> bool" where
  "isRunUnimplemented err \<longleftrightarrow> CodeOf err = CodeUnimplemented"

text \<open>
  What a failed attempt reads before the next one: \<open>parent.Err()\<close> and \<open>readyCtx.Err()\<close> at the start, the
  end of the backoff, and \<open>parent.Err()\<close> once more after it. The second component of the result is the
  backoff, when there is one.
\<close>

record retry_view =
  rv_parent :: "go_error option"
  rv_ready :: "go_error option"
  rv_tick :: tick
  rv_parentAfter :: "go_error option"

definition waitRunStreamEstablishmentRetry :: "retry_view \<Rightarrow> nat \<Rightarrow> go_error \<Rightarrow> go_error option \<times> duration list" where
  "waitRunStreamEstablishmentRetry v attempt lastErr =
     (case rv_parent v of
        Some err \<Rightarrow> (Some err, [])
      | None \<Rightarrow> (case rv_ready v of
          Some err \<Rightarrow> (Some (if isEdgeNotReady (Some lastErr) then err else lastErr), [])
        | None \<Rightarrow>
            if attempt = 0 then (None, [])
            else case waitDataPlaneReadyBackoff (rv_tick v) (Some lastErr) of
              None \<Rightarrow> (None, [dataPlaneReadyBackoff (attempt - 1)])
            | Some err \<Rightarrow>
                (Some (if isEdgeNotReady (Some lastErr) \<or>
                     (case rv_parentAfter v of None \<Rightarrow> False | Some e \<Rightarrow> errors_Is e CtxCanceled)
                   then err else lastErr), [])))"

section \<open>Opening the stream\<close>

text \<open>
  An attempt: \<open>ot_resolve\<close> is \<open>runDataPlane\<close>, \<open>ot_renew\<close> and \<open>ot_refresh\<close> are the renewals of the
  re-authentication and of the refresh, each with what other goroutines do to the session meanwhile.
\<close>

record open_try =
  ot_resolve :: "dp \<Rightarrow> (go_error, rpc_client option) result \<times> dp"
  ot_sendErr :: "go_error option"
  ot_received :: "received list"
  ot_renew :: "dp \<Rightarrow> go_error option \<times> dp"
  ot_refresh :: "dp \<Rightarrow> go_error option \<times> dp"
  ot_view :: retry_view

text \<open>Keepalives are skipped.\<close>

fun first_real_frame :: "received list \<Rightarrow> (received \<times> run_stream) option" where
  "first_real_frame [] = None"
| "first_real_frame (Inl err # rs) = Some (Inl err, \<lparr>rst_pending = None, rst_incoming = rs\<rparr>)"
| "first_real_frame (Inr f # rs) =
     (if GetKeepalive f then first_real_frame rs else Some (Inr f, \<lparr>rst_pending = None, rst_incoming = rs\<rparr>))"

text \<open>Sending the start and reading the first frame: an error of either, or the frame.\<close>

definition send_start :: "go_error option \<Rightarrow> received list \<Rightarrow> (received \<times> run_stream) option" where
  "send_start sendErr rs =
     (let s = \<lparr>rst_pending = None, rst_incoming = rs\<rparr>
      in case (case sendErr of None \<Rightarrow> Some (None, s) | Some e \<Rightarrow> runStreamSendError s e) of
           None \<Rightarrow> None
         | Some (Some err, s) \<Rightarrow> Some (Inl err, s)
         | Some (None, s) \<Rightarrow> first_real_frame (map (Inr \<circ> Some) (opt_list (rst_pending s)) @ rst_incoming s))"

text \<open>How the loop goes on after an error of an attempt: the waits are those of the retry.\<close>

datatype after_error = OpenAgain bool "duration list" dp | OpenStops go_error "duration list" dp

definition open_error :: "open_try \<Rightarrow> nat \<Rightarrow> bool \<Rightarrow> rpc_client \<Rightarrow> go_error \<Rightarrow> dp \<Rightarrow> after_error" where
  "open_error t attempt reauthAttempted client err d =
     (let (again, d) = (if reauthAttempted then (False, d) else reauthOnUnauthenticated (ot_renew t) (Some err) d)
      in if again then OpenAgain True [] d
         else
           let provisioningPending = dataPlaneProvisioningPending client d
           in if isRetryableRunStreamEstablishmentError err provisioningPending then
                (case (if isProvisioningSessionNotFound err provisioningPending
                       then refreshHintedDataPlane (ot_refresh t) client d else (None, d)) of
                   (Some refreshErr, d) \<Rightarrow> OpenStops refreshErr [] d
                 | (None, d) \<Rightarrow>
                     (case waitRunStreamEstablishmentRetry (ot_view t) attempt err of
                        (Some waitErr, ws) \<Rightarrow> OpenStops waitErr ws d
                      | (None, ws) \<Rightarrow> OpenAgain reauthAttempted ws d))
              else if isRunUnimplemented err
              then OpenStops (CapabilityUnavailableError ''run'' (error_text err)) [] d
              else OpenStops (mapErr err) [] d)"

datatype open_outcome =
    RunOpened rpc_client run_stream int
  | RunFailed go_error
  | RunPanics

definition first_outcome :: "rpc_client \<Rightarrow> run_frame option \<Rightarrow> run_stream \<Rightarrow> open_outcome" where
  "first_outcome client first s = (case GetExit first of
     Some x \<Rightarrow> RunFailed (case exit_error x of Some e \<Rightarrow> e | None \<Rightarrow> Plain (ex_Reason x))
   | None \<Rightarrow> (case GetStarted first of
       None \<Rightarrow> RunFailed (Plain ''sandbox run did not start'')
     | Some pid \<Rightarrow> RunOpened client s pid))"

text \<open>The waits of the call, and its outcome unless the observations end first.\<close>

fun openRunStream :: "nat \<Rightarrow> bool \<Rightarrow> open_try list \<Rightarrow> dp \<Rightarrow> duration list \<times> (open_outcome \<times> dp) option" where
  "openRunStream attempt reauthAttempted [] d = ([], None)"
| "openRunStream attempt reauthAttempted (t # ts) d =
     (case ot_resolve t d of
        (Inl err, d) \<Rightarrow> ([], Some (RunFailed err, d))
      | (Inr None, d) \<Rightarrow> ([], Some (RunPanics, d))
      | (Inr (Some client), d) \<Rightarrow>
          (case send_start (ot_sendErr t) (ot_received t) of
             None \<Rightarrow> ([], None)
           | Some (Inl err, s) \<Rightarrow>
               (case open_error t attempt reauthAttempted client err d of
                  OpenStops e ws d \<Rightarrow> (ws, Some (RunFailed e, d))
                | OpenAgain reauthAttempted ws d \<Rightarrow>
                    (let (ws', r) = openRunStream (Suc attempt) reauthAttempted ts d in (ws @ ws', r)))
           | Some (Inr first, s) \<Rightarrow>
               (let out = first_outcome client first s
                in ([], Some (out, case out of RunOpened c s' pid \<Rightarrow> markDataPlaneVerified c d | _ \<Rightarrow> d)))))"

definition Command_Stream :: "string list \<Rightarrow> open_try list \<Rightarrow> dp \<Rightarrow> duration list \<times> (open_outcome \<times> dp) option" where
  "Command_Stream argv ts d =
     (if (case argv of [] \<Rightarrow> True | a # _ \<Rightarrow> a = []) then ([], Some (RunFailed (Plain ''sandbox: empty command''), d))
      else openRunStream 0 False ts d)"

section \<open>The pumps of a handle\<close>

text \<open>
  \<open>Read\<close> returns bytes with an optional error; \<open>sent\<close> holds the errors that sending the chunks
  returns. The frames sent are the chunks and, at the end of the input, the closing of stdin.
\<close>

datatype stdin_frame = StdinData string | StdinClose

fun pumpStdin :: "(string \<times> bool) list \<Rightarrow> go_error option list \<Rightarrow> stdin_frame list" where
  "pumpStdin [] sent = []"
| "pumpStdin ((data, failed) # rs) sent =
     (if data = [] then (if failed then [StdinClose] else pumpStdin rs sent)
      else case sent of
        [] \<Rightarrow> []
      | Some e # sent \<Rightarrow> [StdinData data]
      | None # sent \<Rightarrow> StdinData data # (if failed then [StdinClose] else pumpStdin rs sent))"

record run_result =
  rr_Status :: command_status
  rr_ExitCode :: int
  rr_Duration :: duration
  rr_Reason :: string
  rr_Disk :: disk_usage
  rr_Outputs :: "output_chunk list"
  rr_Stdout :: string
  rr_Stderr :: string

definition no_disk :: disk_usage where
  "no_disk = \<lparr>TotalBytes = 0, FreeBytes = 0, AvailableBytes = 0, MinAvailableBytes = 0\<rparr>"

definition running_result :: run_result where
  "running_result = \<lparr>rr_Status = CommandStatusRunning, rr_ExitCode = 0, rr_Duration = 0, rr_Reason = [],
     rr_Disk = no_disk, rr_Outputs = [], rr_Stdout = [], rr_Stderr = []\<rparr>"

definition exit_status :: "run_exit \<Rightarrow> command_status" where
  "exit_status x =
     (if ex_TimedOut x then CommandStatusTimedOut
      else if ex_ExitCode x = 0 \<and> ex_Signal x = [] then CommandStatusSucceeded
      else CommandStatusFailed)"

definition exit_result :: "run_exit \<Rightarrow> run_result \<Rightarrow> run_result" where
  "exit_result x r = r\<lparr>rr_ExitCode := ex_ExitCode x, rr_Duration := wrap64 (wrap64 (ex_DurationMs x) * Millisecond),
     rr_Reason := ex_Reason x, rr_Disk := ex_Disk x, rr_Status := exit_status x\<rparr>"

definition collect :: "bool \<Rightarrow> run_frame option \<Rightarrow> run_result \<Rightarrow> run_result" where
  "collect streamOnly f r =
     (if streamOnly then r
      else r\<lparr>rr_Stdout := rr_Stdout r @ GetOutput False f, rr_Stderr := rr_Stderr r @ GetOutput True f\<rparr>)"

text \<open>The writes of a frame to the two pipes: the flag tells stderr.\<close>

definition frame_writes :: "run_frame option \<Rightarrow> (bool \<times> string) list" where
  "frame_writes f = filter (\<lambda>w. snd w \<noteq> []) [(False, GetOutput False f), (True, GetOutput True f)]"

text \<open>What one received value makes of the result so far: the pump goes on, or it ends with an outcome.\<close>

definition pump_frame :: "bool \<Rightarrow> received \<Rightarrow> run_result \<Rightarrow> run_result \<times> (bool \<times> string) list \<times> (go_error, run_result) result option" where
  "pump_frame streamOnly r result = (case r of
     Inl err \<Rightarrow> (result, [], Some (Inl (if isEdgeNotReady (Some err) then dataPlaneNotReadyError (Some err) else err)))
   | Inr f \<Rightarrow>
       if GetKeepalive f then (result, [], None)
       else
         let result = collect streamOnly f result
         in (result, frame_writes f, map_option (\<lambda>x. case exit_error x of
               Some e \<Rightarrow> Inl e | None \<Rightarrow> Inr (exit_result x result)) (GetExit f)))"

fun pumpResponses :: "bool \<Rightarrow> received list \<Rightarrow> run_result \<Rightarrow> (bool \<times> string) list \<times> (go_error, run_result) result option" where
  "pumpResponses streamOnly [] result = ([], None)"
| "pumpResponses streamOnly (r # rs) result =
     (case pump_frame streamOnly r result of
        (result, ws, Some out) \<Rightarrow> (ws, Some out)
      | (result, ws, None) \<Rightarrow> (let (ws', out) = pumpResponses streamOnly rs result in (ws @ ws', out)))"

section \<open>The outcome of a handle\<close>

text \<open>
  \<open>h_settled\<close> is the cached outcome, \<open>h_channels\<close> what the pump has left in \<open>waitCh\<close> or \<open>errCh\<close>:
  the pump sends once. \<open>Wait\<close> blocks, and is \<open>None\<close>, as long as there is neither.
\<close>

record run_handle =
  h_settled :: "(go_error, run_result) result option"
  h_channels :: "(go_error, run_result) result option"

definition settle :: "(go_error, run_result) result \<Rightarrow> run_handle \<Rightarrow> (go_error, run_result) result \<times> run_handle" where
  "settle out h = (case h_settled h of
     Some r \<Rightarrow> (r, h)
   | None \<Rightarrow> (out, h\<lparr>h_settled := Some out\<rparr>))"

definition handle_Wait :: "run_handle \<Rightarrow> ((go_error, run_result) result \<times> run_handle) option" where
  "handle_Wait h = (case h_settled h of
     Some r \<Rightarrow> Some (r, h)
   | None \<Rightarrow> (case h_channels h of
       None \<Rightarrow> None
     | Some out \<Rightarrow> Some (settle out (h\<lparr>h_channels := None\<rparr>))))"

section \<open>Properties of the request\<close>

text \<open>The timeout on the wire is the timeout in whole milliseconds, cut to the largest 32-bit value
and never wrapped into a shorter one; only a positive timeout below a millisecond is lost: it is sent
as 0, which the guest reads as no bound at all.\<close>

theorem run_timeout_bounds:
  "0 \<le> runTimeoutMs (Some t) \<and> runTimeoutMs (Some t) < 2 ^ 32 \<and>
   runTimeoutMs (Some t) = (if t < Millisecond then 0 else min (t div Millisecond) (2 ^ 32 - 1)) \<and>
   runTimeoutMs None = 0"
proof -
  have "runTimeoutMs (Some t) = (if t < Millisecond then 0 else min (t div Millisecond) (2 ^ 32 - 1))"
  proof (cases "t \<le> 0")
    case True
    then show ?thesis by (simp add: runTimeoutMs_def)
  next
    case False
    then show ?thesis
      by (auto simp: runTimeoutMs_def go_div_nonneg Let_def uint32_id min_def)
  qed
  moreover have "0 \<le> t div Millisecond" if "\<not> t < Millisecond" using that by simp
  ultimately show ?thesis by (auto simp: runTimeoutMs_def)
qed

section \<open>Properties of the opening\<close>

lemma retry_waits:
  "waitRunStreamEstablishmentRetry v attempt err = (r, ws) \<Longrightarrow>
   list_all (\<lambda>w. 50 * Millisecond \<le> w) ws \<and> (r = None \<longrightarrow> attempt = 0 \<or> length ws = 1)"
  using backoff_bounds(1) [of "attempt - 1"]
  by (cases "waitDataPlaneReadyBackoff (rv_tick v) (Some err)")
    (auto simp: waitRunStreamEstablishmentRetry_def dest: sym split: option.splits if_splits)

lemma open_error_again:
  assumes "open_error t attempt reauth client err d = OpenAgain reauth' ws d'"
  shows "list_all (\<lambda>w. 50 * Millisecond \<le> w) ws \<and>
    (attempt = 0 \<or> length ws = 1 \<or> \<not> reauth) \<and> (reauth \<longrightarrow> reauth') \<and> (attempt = 0 \<or> length ws = 1 \<or> reauth')"
proof -
  obtain again d1 where a: "(if reauth then (False, d) else reauthOnUnauthenticated (ot_renew t) (Some err) d) = (again, d1)"
    by (rule prod.exhaust)
  show ?thesis
  proof (cases again)
    case True
    then show ?thesis using assms a by (auto simp: open_error_def split: if_splits)
  next
    case False
    then obtain d2 where "waitRunStreamEstablishmentRetry (ot_view t) attempt err = (None, ws)" "reauth' = reauth"
      using assms a by (auto simp: open_error_def Let_def split: if_splits option.splits prod.splits)
    then show ?thesis using retry_waits by blast
  qed
qed

lemma open_unfinished:
  assumes "openRunStream attempt reauth ts d = (ws, None)"
    and "list_all (\<lambda>t. send_start (ot_sendErr t) (ot_received t) \<noteq> None) ts"
  shows "list_all (\<lambda>w. 50 * Millisecond \<le> w) ws \<and>
    length ts \<le> length ws + (if reauth then 0 else 1) + (if attempt = 0 then 1 else 0)"
  using assms
proof (induction attempt reauth ts d arbitrary: ws rule: openRunStream.induct)
  case (2 attempt reauth t ts d)
  from "2.prems" obtain client d1 err s reauth' ws1 d2 ws2
    where r: "ot_resolve t d = (Inr (Some client), d1)" "send_start (ot_sendErr t) (ot_received t) = Some (Inl err, s)"
      "open_error t attempt reauth client err d1 = OpenAgain reauth' ws1 d2"
      and rec: "openRunStream (Suc attempt) reauth' ts d2 = (ws2, None)" and ws: "ws = ws1 @ ws2"
    by (auto simp: Let_def case_prod_beta prod_eq_iff split: prod.splits sum.splits option.splits after_error.splits)
  from "2.IH" [OF r(1) [symmetric] refl refl r(2) refl refl r(3) rec] "2.prems"(2)
  have "list_all (\<lambda>w. 50 * Millisecond \<le> w) ws2 \<and> length ts \<le> length ws2 + (if reauth' then 0 else 1)" by simp
  with open_error_again [OF r(3)] show ?case unfolding ws by (cases reauth; cases reauth') auto
qed simp

lemma long_waits: "list_all (\<lambda>w. c \<le> w) ws \<Longrightarrow> c * len ws \<le> sum_list (ws :: int list)"
  by (induction ws) (auto simp: algebra_simps)


text \<open>Opening a run re-authenticates once at most: after a re-authentication that succeeded, no
renewal is asked for by any later attempt, whatever it answers would be.\<close>

theorem open_reauth_once:
  "openRunStream attempt True ts d = openRunStream attempt True (map (ot_renew_update (\<lambda>_. renew)) ts) d"
proof -
  have e: "open_error (ot_renew_update (\<lambda>_. renew) t) n True c err d = open_error t n True c err d" for t n c err d
    by (simp add: open_error_def Let_def cong: if_cong option.case_cong prod.case_cong)
  have r: "reauth' = True" if "open_error t n True c err d = OpenAgain reauth' ws d'" for t n c err d reauth' ws d'
    using open_error_again [OF that] by simp
  show ?thesis
  proof (induction ts arbitrary: attempt d)
    case (Cons t ts)
    have "(case open_error t attempt True c err d1 of OpenStops e ws d2 \<Rightarrow> (ws, Some (RunFailed e, d2))
        | OpenAgain reauth' ws d2 \<Rightarrow> (let (ws', q) = openRunStream (Suc attempt) reauth' ts d2 in (ws @ ws', q))) =
      (case open_error t attempt True c err d1 of OpenStops e ws d2 \<Rightarrow> (ws, Some (RunFailed e, d2))
        | OpenAgain reauth' ws d2 \<Rightarrow> (let (ws', q) = openRunStream (Suc attempt) reauth'
            (map (ot_renew_update (\<lambda>_. renew)) ts) d2 in (ws @ ws', q)))" for c err d1
      using r [of t attempt c err d1] Cons.IH by (cases "open_error t attempt True c err d1") auto
    then show ?case
      by (simp add: e cong: prod.case_cong sum.case_cong option.case_cong)
  qed simp
qed

text \<open>A server that refuses the stream, and attempts to open it on a new session.\<close>

definition refused :: go_error where
  "refused = ConnectError CodeUnavailable ''goaway'' ''goaway'' [] None"

definition refused_try :: "go_error option \<Rightarrow> open_try" where
  "refused_try ready = \<lparr>ot_resolve = (\<lambda>d. (Inr (Some \<lparr>rc_id = 0, rc_endpoint = ''e'', rc_http = 0\<rparr>), d)),
     ot_sendErr = Some (Sentinel IoEOF), ot_received = [Inl refused], ot_renew = (\<lambda>d. (None, d)),
     ot_refresh = (\<lambda>d. (None, d)),
     ot_view = \<lparr>rv_parent = None, rv_ready = ready, rv_tick = Fired, rv_parentAfter = None\<rparr>\<rparr>"

lemma refused_retryable:
  "\<not> isEdgeNotReady (Some refused)" "\<not> isProvisioningSessionNotFound refused b"
  "isRetryableRunStreamEstablishmentError refused b" "CodeOf refused = CodeUnavailable"
proof -
  have l: "to_lower ''goaway'' = ''goaway''" by code_simp
  show c: "CodeOf refused = CodeUnavailable" by (simp add: refused_def CodeOf_def)
  show "\<not> isEdgeNotReady (Some refused)" "\<not> isProvisioningSessionNotFound refused b"
    by (simp_all add: isEdgeNotReady_def isProvisioningSessionNotFound_def c)
  have "error_text refused = ''goaway''" by (simp add: refused_def)
  then have "Contains (to_lower (error_text refused)) ''goaway''" by (simp only: l) simp
  then show "isRetryableRunStreamEstablishmentError refused b"
    by (simp add: isRetryableRunStreamEstablishmentError_def eval_nat_numeral Let_def)
qed

lemma refused_send: "send_start (ot_sendErr (refused_try r)) (ot_received (refused_try r)) =
    Some (Inl refused, \<lparr>rst_pending = None, rst_incoming = []\<rparr>)"
  by (simp add: refused_try_def send_start_def runStreamSendError_def run_stream_Receive_def errors_Is_def)

lemma refused_error:
  "open_error (refused_try r) attempt reauth c refused d =
     (case r of Some e \<Rightarrow> OpenStops refused [] d
      | None \<Rightarrow> OpenAgain reauth (if attempt = 0 then [] else [dataPlaneReadyBackoff (attempt - 1)]) d)"
  by (simp add: open_error_def Let_def refused_retryable reauthOnUnauthenticated_def refused_try_def
      waitRunStreamEstablishmentRetry_def waitDataPlaneReadyBackoff_def split: option.splits)

lemma open_refused:
  "openRunStream 0 False [refused_try None, refused_try None, refused_try (Some (Sentinel CtxDeadlineExceeded)), refused_try None] d =
     ([50 * Millisecond], Some (RunFailed refused, d))"
proof -
  have r: "ot_resolve (refused_try r) d = (Inr (Some \<lparr>rc_id = 0, rc_endpoint = ''e'', rc_http = 0\<rparr>), d)" for r d
    by (simp add: refused_try_def)
  show ?thesis
    by (simp add: r refused_send refused_error dataPlaneReadyBackoff_def)
qed


text \<open>A retry whose budget is over reports its last error as the server sent it, without the
mapping that every other error of the call goes through: a session that is not found while its route
is provisioned does not match \<open>ErrSessionNotFound\<close>, which the mapped error does.\<close>

theorem exhausted_open_unmapped:
  assumes "dataPlaneProvisioningPending c d" and "\<not> dp_fromHint d"
    and "rv_parent (ot_view t) = None" and "rv_ready (ot_view t) = Some e"
  defines "err \<equiv> ConnectError CodeNotFound ''session not found'' ''session not found'' [] None"
  shows "open_error t attempt reauth c err d = OpenStops err [] d \<and>
    \<not> errors_Is err ErrSessionNotFound \<and> errors_Is (mapErr err) ErrSessionNotFound"
proof -
  have l: "to_lower ''session not found'' = ''session not found''" by code_simp
  have p: "isProvisioningSessionNotFound err True" and n: "\<not> isEdgeNotReady (Some err)" and c: "CodeOf err = CodeNotFound"
    by (simp_all add: isProvisioningSessionNotFound_def isEdgeNotReady_def err_def CodeOf_def l del: to_lower.simps)
  have "mapErr err = wrap_sentinel ErrSessionNotFound err"
    using n by (simp add: mapError_def err_def mapConnectError_def l notFoundSentinel_def Let_def del: to_lower.simps)
  then have "errors_Is (mapErr err) ErrSessionNotFound" by (simp add: errors_Is_def)
  moreover have "\<not> errors_Is err ErrSessionNotFound" by (simp add: errors_Is_def err_def)
  ultimately show ?thesis
    using assms(1-4) p n c
    by (simp add: open_error_def Let_def reauthOnUnauthenticated_def isRetryableRunStreamEstablishmentError_def
        refreshHintedDataPlane_def waitRunStreamEstablishmentRetry_def)
qed

lemma exhausted_open_unmapped_witness:
  "open_error (refused_try (Some (Sentinel CtxDeadlineExceeded))) 7 False \<lparr>rc_id = 0, rc_endpoint = ''e'', rc_http = 0\<rparr>
     (ConnectError CodeNotFound ''session not found'' ''session not found'' [] None)
     (fresh_dp\<lparr>dp_client := Some \<lparr>rc_id = 0, rc_endpoint = ''e'', rc_http = 0\<rparr>\<rparr>) =
   OpenStops (ConnectError CodeNotFound ''session not found'' ''session not found'' [] None) []
     (fresh_dp\<lparr>dp_client := Some \<lparr>rc_id = 0, rc_endpoint = ''e'', rc_http = 0\<rparr>\<rparr>)"
  by (rule exhausted_open_unmapped [THEN conjunct1])
    (simp_all add: dataPlaneProvisioningPending_def fresh_dp_def refused_try_def)

section \<open>Properties of the outcome\<close>

definition bytes_of :: "bool \<Rightarrow> (bool \<times> string) list \<Rightarrow> string" where
  "bytes_of stderr ws = concat (map snd (filter (\<lambda>w. fst w = stderr) ws))"

lemma bytes_of_simps [simp]:
  "bytes_of b [] = []" "bytes_of b (ws @ ws') = bytes_of b ws @ bytes_of b ws'"
  "bytes_of b ((c, x) # ws) = (if c = b then x else []) @ bytes_of b ws"
  by (simp_all add: bytes_of_def)

lemma bytes_of_frame [simp]: "bytes_of b (frame_writes f) = GetOutput b f"
  by (cases b) (auto simp: frame_writes_def)

lemma collect_out [simp]:
  "rr_Stdout (collect so f r) = rr_Stdout r @ (if so then [] else GetOutput False f)"
  "rr_Stderr (collect so f r) = rr_Stderr r @ (if so then [] else GetOutput True f)"
  by (simp_all add: collect_def)

lemma keepalive_no_output: "GetKeepalive f \<Longrightarrow> GetOutput b f = [] \<and> GetExit f = None"
  by (cases f rule: GetKeepalive.cases) auto

lemma pump_outputs:
  assumes "pumpResponses so rs r0 = (ws, Some (Inr r))"
  shows "rr_Stdout r = rr_Stdout r0 @ (if so then [] else bytes_of False ws) \<and>
    rr_Stderr r = rr_Stderr r0 @ (if so then [] else bytes_of True ws) \<and>
    (\<exists>x r1. Inr (Some (FrameExit x)) \<in> set rs \<and> exit_error x = None \<and> r = exit_result x r1)"
  using assms
proof (induction so rs r0 arbitrary: ws rule: pumpResponses.induct)
  case (2 so q rs r0)
  obtain r1 ws1 out1 where p: "pump_frame so q r0 = (r1, ws1, out1)" by (rule prod_cases3)
  show ?case
  proof (cases out1)
    case None
    then obtain ws2 where rec: "pumpResponses so rs r1 = (ws2, Some (Inr r))" and ws: "ws = ws1 @ ws2"
      using "2.prems" p by (auto simp: Let_def split: prod.splits)
    from p None have "rr_Stdout r1 = rr_Stdout r0 @ (if so then [] else bytes_of False ws1)"
      "rr_Stderr r1 = rr_Stderr r0 @ (if so then [] else bytes_of True ws1)"
      by (auto simp: pump_frame_def Let_def split: sum.splits if_splits)
    with "2.IH" [OF p [symmetric] refl None rec] show ?thesis unfolding ws by auto
  next
    case (Some o1)
    then have o: "o1 = Inr r" "ws = ws1" using "2.prems" p by simp_all
    from p [unfolded pump_frame_def] Some o obtain f x where f: "q = Inr f" "GetExit f = Some x" "exit_error x = None"
      "r = exit_result x (collect so f r0)" "ws1 = frame_writes f"
      by (auto simp: Let_def split: sum.splits if_splits option.splits)
    then have "Inr (Some (FrameExit x)) \<in> set (q # rs)" by (cases f rule: GetExit.cases) auto
    with f o show ?thesis by (auto simp: exit_result_def)
  qed
qed simp

lemma pump_errors:
  assumes "pumpResponses so rs r0 = (ws, Some (Inl err))"
  shows "(\<exists>e. Inl e \<in> set rs \<and> (err = e \<or> err = dataPlaneNotReadyError (Some e))) \<or>
    (\<exists>x. Inr (Some (FrameExit x)) \<in> set rs \<and> exit_error x = Some err)"
  using assms
proof (induction so rs r0 arbitrary: ws rule: pumpResponses.induct)
  case (2 so q rs r0)
  obtain r1 ws1 out1 where p: "pump_frame so q r0 = (r1, ws1, out1)" by (rule prod_cases3)
  show ?case
  proof (cases out1)
    case None
    then obtain ws2 where "pumpResponses so rs r1 = (ws2, Some (Inl err))"
      using "2.prems" p by (auto simp: Let_def split: prod.splits)
    with "2.IH" [OF p [symmetric] refl None] show ?thesis by auto
  next
    case (Some o1)
    then have o: "o1 = Inl err" using "2.prems" p by simp
    show ?thesis
    proof (cases q)
      case (Inl e)
      then show ?thesis using p Some o by (auto simp: pump_frame_def split: if_splits)
    next
      case (Inr f)
      with p Some o obtain x where "GetExit f = Some x" "exit_error x = Some err"
        by (auto simp: pump_frame_def Let_def split: if_splits option.splits)
      with Inr have "Inr (Some (FrameExit x)) \<in> set (q # rs)" by (cases f rule: GetExit.cases) auto
      with \<open>exit_error x = Some err\<close> show ?thesis by blast
    qed
  qed
qed simp


end
