(* ===== verification/RunStream.thy ===== *)
theory RunStream
  imports Run
begin

text \<open>
  The stream of a running command (\<open>stream.go\<close>, the end of \<open>run.go\<close>, \<open>Session.Exec\<close>): the pump that
  receives frames, the two pipes, the goroutine that copies each pipe into the buffered channel of
  chunks, and the caller of \<open>Next\<close> and \<open>Wait\<close>. A step is one synchronisation of two of them.
\<close>

section \<open>State\<close>

definition streamBufferSize :: nat where "streamBufferSize = 16"

definition copyBufferSize :: nat where "copyBufferSize = 32 * 1024"

text \<open>
  A copier reads its pipe, holds a chunk it is about to emit (the flag tells that it has seen the
  drain channel open), or has returned.
\<close>

datatype copier = Reading | Emitting string bool | Gone

text \<open>
  \<open>ss_writing\<close> is what the pump still has to write of its frame, \<open>ss_next\<close> the outcome that it sends
  after it, \<open>ss_outcome\<close> the outcome once it is sent and the pipes are closed. \<open>ss_ready\<close> is the closing
  of \<open>resultReady\<close> and \<open>chunks\<close>. \<open>ss_taken\<close> (the chunks \<open>Next\<close> has returned) and \<open>ss_written\<close> (all that
  was ever written to the pipes) are not kept by the code.
\<close>

record stream_sys =
  ss_incoming :: "received list"
  ss_result :: run_result
  ss_writing :: "(bool \<times> string) list"
  ss_next :: "(go_error, run_result) result option"
  ss_outcome :: "(go_error, run_result) result option"
  ss_copier :: "bool \<Rightarrow> copier"
  ss_chunks :: "output_chunk list"
  ss_drain :: bool
  ss_ready :: bool
  ss_taken :: "output_chunk list"
  ss_written :: "(bool \<times> string) list"

definition streamFromRunHandle :: "received list \<Rightarrow> stream_sys" where
  "streamFromRunHandle rs = \<lparr>ss_incoming = rs, ss_result = running_result, ss_writing = [], ss_next = None,
     ss_outcome = None, ss_copier = (\<lambda>_. Reading), ss_chunks = [], ss_drain = False, ss_ready = False,
     ss_taken = [], ss_written = []\<rparr>"

section \<open>Steps\<close>

text \<open>The pump receives a value when the frame before is written.\<close>

definition pump_receive :: "received \<Rightarrow> received list \<Rightarrow> stream_sys \<Rightarrow> stream_sys" where
  "pump_receive r rs s =
     (let (result, ws, out) = pump_frame False r (ss_result s)
      in s\<lparr>ss_incoming := rs, ss_result := result, ss_writing := ws, ss_next := out, ss_written := ss_written s @ ws\<rparr>)"

text \<open>A read of a pipe takes at most a buffer of the pending write.\<close>

definition copy_read :: "bool \<Rightarrow> string \<Rightarrow> (bool \<times> string) list \<Rightarrow> stream_sys \<Rightarrow> stream_sys" where
  "copy_read b data ws s =
     s\<lparr>ss_copier := (ss_copier s)(b := Emitting (take copyBufferSize data) False),
       ss_writing := (let rest = drop copyBufferSize data in if rest = [] then ws else (b, rest) # ws)\<rparr>"

definition set_copier :: "bool \<Rightarrow> copier \<Rightarrow> stream_sys \<Rightarrow> stream_sys" where
  "set_copier b c s = s\<lparr>ss_copier := (ss_copier s)(b := c)\<rparr>"

definition emit_chunk :: "bool \<Rightarrow> string \<Rightarrow> stream_sys \<Rightarrow> stream_sys" where
  "emit_chunk b data s = set_copier b Reading
     (s\<lparr>ss_chunks := ss_chunks s @ [\<lparr>out_Data = data, out_IsStderr = b, out_IsFinal = False\<rparr>]\<rparr>)"

inductive stream_step :: "stream_sys \<Rightarrow> stream_sys \<Rightarrow> bool" where
  pump: "ss_writing s = [] \<Longrightarrow> ss_next s = None \<Longrightarrow> ss_outcome s = None \<Longrightarrow> ss_incoming s = r # rs \<Longrightarrow>
    stream_step s (pump_receive r rs s)"
| deliver: "ss_writing s = [] \<Longrightarrow> ss_next s = Some out \<Longrightarrow> ss_outcome s = None \<Longrightarrow>
    stream_step s (s\<lparr>ss_outcome := Some out\<rparr>)"
| read_pipe: "ss_writing s = (b, data) # ws \<Longrightarrow> ss_copier s b = Reading \<Longrightarrow> stream_step s (copy_read b data ws s)"
| see_open: "ss_copier s b = Emitting data False \<Longrightarrow> \<not> ss_drain s \<Longrightarrow> stream_step s (set_copier b (Emitting data True) s)"
| see_drain: "ss_copier s b = Emitting data seen \<Longrightarrow> ss_drain s \<Longrightarrow> stream_step s (set_copier b Gone s)"
| emit: "ss_copier s b = Emitting data True \<Longrightarrow> length (ss_chunks s) < streamBufferSize \<Longrightarrow>
    stream_step s (emit_chunk b data s)"
| pipe_closed: "ss_copier s b = Reading \<Longrightarrow> ss_outcome s \<noteq> None \<Longrightarrow> stream_step s (set_copier b Gone s)"
| finish: "ss_outcome s \<noteq> None \<Longrightarrow> ss_copier s False = Gone \<Longrightarrow> ss_copier s True = Gone \<Longrightarrow> \<not> ss_ready s \<Longrightarrow>
    stream_step s (s\<lparr>ss_ready := True\<rparr>)"
| next_chunk: "ss_chunks s = c # cs \<Longrightarrow> stream_step s (s\<lparr>ss_chunks := cs, ss_taken := ss_taken s @ [c]\<rparr>)"
| request_drain: "\<not> ss_drain s \<Longrightarrow> stream_step s (s\<lparr>ss_drain := True\<rparr>)"
| discard: "ss_drain s \<Longrightarrow> ss_ready s \<Longrightarrow> ss_chunks s = c # cs \<Longrightarrow> stream_step s (s\<lparr>ss_chunks := cs\<rparr>)"

inductive stream_reach :: "received list \<Rightarrow> stream_sys \<Rightarrow> bool" for rs where
  stream_start: "stream_reach rs (streamFromRunHandle rs)"
| stream_next: "stream_reach rs s \<Longrightarrow> stream_step s t \<Longrightarrow> stream_reach rs t"

text \<open>\<open>Next\<close> and \<open>Wait\<close> once the stream is ready; before that they block (\<open>None\<close>) unless there is a chunk.\<close>

definition stream_Next :: "stream_sys \<Rightarrow> ((go_error, output_chunk) result \<times> stream_sys) option" where
  "stream_Next s = (case ss_chunks s of
     c # cs \<Rightarrow> Some (Inr c, s\<lparr>ss_chunks := cs, ss_taken := ss_taken s @ [c]\<rparr>)
   | [] \<Rightarrow> if \<not> ss_ready s then None
       else (case ss_outcome s of Some (Inl err) \<Rightarrow> Some (Inl err, s) | _ \<Rightarrow> Some (Inl (Sentinel IoEOF), s)))"

definition stream_Wait :: "stream_sys \<Rightarrow> ((go_error, run_result) result \<times> stream_sys) option" where
  "stream_Wait s =
     (let s = s\<lparr>ss_drain := True\<rparr>
      in if \<not> ss_ready s then None
         else case ss_outcome s of
           None \<Rightarrow> None
         | Some out \<Rightarrow> Some (out, s\<lparr>ss_chunks := []\<rparr>))"

text \<open>\<open>Session.Exec\<close> puts the chunks together again.\<close>

definition out_bytes :: "bool \<Rightarrow> output_chunk list \<Rightarrow> string" where
  "out_bytes stderr outputs = concat (map out_Data (filter (\<lambda>c. out_IsStderr c = stderr) outputs))"

definition exec_result :: "output_chunk list \<Rightarrow> run_result \<Rightarrow> run_result" where
  "exec_result outputs r = r\<lparr>rr_Outputs := outputs, rr_Stdout := out_bytes False outputs, rr_Stderr := out_bytes True outputs\<rparr>"

text \<open>
  The end of \<open>Exec\<close>, when its loop over \<open>Next\<close> has met an error or the end: \<open>None\<close> as long as a call
  blocks or there is another chunk to take.
\<close>

definition exec_end :: "stream_sys \<Rightarrow> (go_error, run_result) result option" where
  "exec_end s = (case stream_Next s of
     Some (Inl err, s) \<Rightarrow>
       if \<not> errors_Is err IoEOF then Some (Inl err)
       else (case stream_Wait s of
         Some (Inr r, s') \<Rightarrow> Some (Inr (exec_result (ss_taken s) r))
       | Some (Inl err, s') \<Rightarrow> Some (Inl err)
       | None \<Rightarrow> None)
   | _ \<Rightarrow> None)"

section \<open>The invariant\<close>

lemma out_bytes_simps [simp]:
  "out_bytes b [] = []" "out_bytes b (xs @ ys) = out_bytes b xs @ out_bytes b ys"
  "out_bytes b (c # cs) = (if out_IsStderr c = b then out_Data c else []) @ out_bytes b cs"
  by (simp_all add: out_bytes_def)

fun held :: "copier \<Rightarrow> string" where
  "held (Emitting data _) = data"
| "held _ = []"

fun output_of :: "bool \<Rightarrow> run_result \<Rightarrow> string" where
  "output_of False r = rr_Stdout r"
| "output_of True r = rr_Stderr r"

definition outcome_ok :: "(bool \<times> string) list \<Rightarrow> (go_error, run_result) result option \<Rightarrow> bool" where
  "outcome_ok ws out \<longleftrightarrow> (case out of Some (Inr r) \<Rightarrow> \<forall>b. output_of b r = bytes_of b ws | _ \<Rightarrow> True)"

definition ends :: "received \<Rightarrow> bool" where
  "ends r \<longleftrightarrow> (case r of Inl _ \<Rightarrow> True | Inr f \<Rightarrow> GetExit f \<noteq> None)"

definition pump_inv :: "stream_sys \<Rightarrow> bool" where
  "pump_inv s \<longleftrightarrow> (\<forall>b. output_of b (ss_result s) = bytes_of b (ss_written s)) \<and>
     outcome_ok (ss_written s) (ss_next s) \<and> outcome_ok (ss_written s) (ss_outcome s) \<and>
     list_all (\<lambda>w. snd w \<noteq> []) (ss_writing s) \<and> (ss_outcome s \<noteq> None \<longrightarrow> ss_writing s = []) \<and>
     (ss_ready s \<longrightarrow> ss_outcome s \<noteq> None \<and> (\<forall>b. ss_copier s b = Gone))"

lemma frame_result:
  "pump_frame False r r0 = (r1, ws, out) \<Longrightarrow>
   output_of b r1 = output_of b r0 @ bytes_of b ws \<and>
   (case out of Some (Inr x) \<Rightarrow> output_of b x = output_of b r1 | _ \<Rightarrow> True) \<and> list_all (\<lambda>w. snd w \<noteq> []) ws"
proof -
  have e: "output_of b (exit_result x y) = output_of b y" for x y by (cases b) (simp_all add: exit_result_def)
  have w: "list_all (\<lambda>w. snd w \<noteq> []) (frame_writes f)" for f by (auto simp: frame_writes_def)
  have c: "output_of b (collect False f y) = output_of b y @ GetOutput b f" for f y by (cases b) simp_all
  show "pump_frame False r r0 = (r1, ws, out) \<Longrightarrow> ?thesis"
    by (auto simp: pump_frame_def Let_def e c w keepalive_no_output split: sum.splits if_splits option.splits)
qed

lemma pump_inv_step: "stream_step s t \<Longrightarrow> pump_inv s \<Longrightarrow> pump_inv t"
proof (induction rule: stream_step.induct)
  case (pump s r rs)
  obtain r1 ws out where p: "pump_frame False r (ss_result s) = (r1, ws, out)" by (rule prod_cases3)
  from frame_result [OF p] pump show ?case
    by (auto simp: pump_inv_def outcome_ok_def pump_receive_def p split: option.splits sum.splits)
next
  case (read_pipe s b data ws)
  then show ?case by (auto simp: pump_inv_def outcome_ok_def copy_read_def Let_def)
next
  case (finish s)
  then show ?case by (simp add: pump_inv_def outcome_ok_def all_bool_eq)
qed (auto simp: pump_inv_def outcome_ok_def set_copier_def emit_chunk_def)

text \<open>While nobody has asked for a drain, every byte written is somewhere on its way, in order.\<close>

definition flow_inv :: "stream_sys \<Rightarrow> bool" where
  "flow_inv s \<longleftrightarrow> (\<forall>b. bytes_of b (ss_written s) =
       out_bytes b (ss_taken s @ ss_chunks s) @ held (ss_copier s b) @ bytes_of b (ss_writing s)) \<and>
     (\<forall>b. ss_copier s b = Gone \<longrightarrow> ss_outcome s \<noteq> None)"

lemma flow_inv_step:
  assumes "stream_step s t" and "pump_inv s" and "flow_inv s" and "\<not> ss_drain t"
  shows "flow_inv t"
  using assms
proof (induction rule: stream_step.induct)
  case (pump s r rs)
  then show ?case
    by (auto simp: flow_inv_def pump_receive_def split: prod.splits)
next
  case (read_pipe s b data ws)
  have "bytes_of c (let rest = drop copyBufferSize data in if rest = [] then ws else (b, rest) # ws) =
      (if b = c then drop copyBufferSize data else []) @ bytes_of c ws" for c
    by (auto simp: Let_def)
  then show ?case using read_pipe
    by (auto simp: flow_inv_def copy_read_def)
qed (auto simp: flow_inv_def set_copier_def emit_chunk_def)

lemma drain_mono: "stream_step s t \<Longrightarrow> ss_drain s \<Longrightarrow> ss_drain t"
  by (induction rule: stream_step.induct)
    (auto simp: pump_receive_def copy_read_def set_copier_def emit_chunk_def split: prod.splits)

lemma stream_reach_inv: "stream_reach rs s \<Longrightarrow> pump_inv s"
proof (induction rule: stream_reach.induct)
  case stream_start
  show ?case by (simp add: pump_inv_def outcome_ok_def streamFromRunHandle_def running_result_def all_bool_eq)
qed (rule pump_inv_step)

lemma stream_reach_flow: "stream_reach rs s \<Longrightarrow> \<not> ss_drain s \<Longrightarrow> flow_inv s"
proof (induction rule: stream_reach.induct)
  case stream_start
  show ?case by (simp add: flow_inv_def streamFromRunHandle_def)
next
  case (stream_next s t)
  then have "\<not> ss_drain s" using drain_mono by blast
  with stream_next show ?case using flow_inv_step stream_reach_inv by blast
qed

section \<open>Exec\<close>

lemma exec_end_eq:
  "exec_end s = (if ss_chunks s = [] \<and> ss_ready s
     then (case ss_outcome s of None \<Rightarrow> None
       | Some (Inl err) \<Rightarrow> Some (Inl err)
       | Some (Inr r) \<Rightarrow> Some (Inr (exec_result (ss_taken s) r)))
     else None)"
  by (auto simp: exec_end_def stream_Next_def stream_Wait_def errors_Is_def split: list.splits option.splits sum.splits)

text \<open>C5: \<open>Exec\<close> loses no output: the chunks it took from the stream, in any interleaving of the two
pipes with their copiers and in any reads, put together again give stream by stream exactly the bytes
the pump received, and the result of \<open>Exec\<close> is the result of the pump with these chunks added.\<close>

theorem exec_output_complete:
  assumes "stream_reach rs s" and "\<not> ss_drain s" and "exec_end s = Some (Inr r)"
  shows "\<exists>r'. ss_outcome s = Some (Inr r') \<and> r = r'\<lparr>rr_Outputs := ss_taken s\<rparr> \<and>
    rr_Stdout r = out_bytes False (ss_taken s) \<and> rr_Stderr r = out_bytes True (ss_taken s)"
proof -
  from assms(3) obtain r' where o: "ss_outcome s = Some (Inr r')" "ss_chunks s = []" "ss_ready s"
    and r: "r = exec_result (ss_taken s) r'"
    by (auto simp: exec_end_eq split: if_splits option.splits sum.splits)
  from stream_reach_inv [OF assms(1)] o have g: "\<forall>b. ss_copier s b = Gone" "ss_writing s = []"
    and w: "output_of b r' = bytes_of b (ss_written s)" for b
    by (auto simp: pump_inv_def outcome_ok_def)
  have "output_of b r' = out_bytes b (ss_taken s)" for b
    using stream_reach_flow [OF assms(1,2)] g o(2) w [of b] by (simp add: flow_inv_def)
  from this [of False] this [of True] show ?thesis
    by (simp add: o(1) r exec_result_def)
qed

section \<open>Exec returns\<close>

text \<open>The work left: every byte still to be read, chunk to be taken and goroutine to return.\<close>

definition frame_work :: "received \<Rightarrow> nat" where
  "frame_work r = (case r of Inl _ \<Rightarrow> 2
     | Inr f \<Rightarrow> 2 + 5 * length (GetOutput False f) + 5 * length (GetOutput True f))"

fun copier_work :: "copier \<Rightarrow> nat" where
  "copier_work Gone = 0"
| "copier_work Reading = 1"
| "copier_work (Emitting _ seen) = (if seen then 4 else 5)"

definition stream_work :: "stream_sys \<Rightarrow> nat" where
  "stream_work s = sum_list (map frame_work (ss_incoming s)) + 5 * sum_list (map (length \<circ> snd) (ss_writing s)) +
     (if ss_outcome s = None \<and> ss_next s \<noteq> None then 1 else 0) + copier_work (ss_copier s False) +
     copier_work (ss_copier s True) + length (ss_chunks s) + (if ss_ready s then 0 else 1)"

lemma frame_work_writes:
  assumes "pump_frame False r r0 = (r1, ws, out)"
  shows "5 * sum_list (map (length \<circ> snd) ws) + 2 \<le> frame_work r"
proof -
  have "5 * sum_list (map (length \<circ> snd) (frame_writes f)) = 5 * length (GetOutput False f) + 5 * length (GetOutput True f)" for f
    by (simp add: frame_writes_def)
  then show ?thesis using assms
    by (auto simp: pump_frame_def frame_work_def Let_def split: sum.splits if_splits)
qed

lemma set_copier_work:
  "copier_work (((ss_copier s)(b := c)) False) + copier_work (((ss_copier s)(b := c)) True) + copier_work (ss_copier s b) =
   copier_work (ss_copier s False) + copier_work (ss_copier s True) + copier_work c"
  by (cases b) auto

lemma stream_work_step:
  assumes "stream_step s t" and "\<not> ss_drain t" and "pump_inv s"
  shows "stream_work t < stream_work s"
  using assms
proof (induction rule: stream_step.induct)
  case (pump s r rs)
  obtain r1 ws out where p: "pump_frame False r (ss_result s) = (r1, ws, out)" by (rule prod_cases3)
  from frame_work_writes [OF p] pump show ?case
    by (auto simp: stream_work_def pump_receive_def p)
next
  case (read_pipe s b data ws)
  then have d: "0 < length data" "ss_outcome s = None" by (auto simp: pump_inv_def)
  have "length (drop copyBufferSize data) + 1 \<le> length data" using d by (cases data) (simp_all add: copyBufferSize_def)
  then show ?case
    using read_pipe(1,2) set_copier_work [of s b "Emitting (take copyBufferSize data) False"]
    by (auto simp: stream_work_def copy_read_def Let_def)
next
  case (see_open s b data)
  then show ?case using set_copier_work [of s b "Emitting data True"] by (simp add: stream_work_def set_copier_def)
next
  case (see_drain s b data seen)
  then show ?case by (simp add: set_copier_def)
next
  case (emit s b data)
  then show ?case using set_copier_work [of s b Reading] by (simp add: stream_work_def set_copier_def emit_chunk_def)
next
  case (pipe_closed s b)
  then show ?case using set_copier_work [of s b Gone] by (simp add: stream_work_def set_copier_def)
qed (auto simp: stream_work_def)

definition stream_ends :: "stream_sys \<Rightarrow> bool" where
  "stream_ends s \<longleftrightarrow> ss_outcome s \<noteq> None \<or> ss_next s \<noteq> None \<or> list_ex ends (ss_incoming s)"

lemma stream_ends_step: "stream_step s t \<Longrightarrow> stream_ends s \<Longrightarrow> stream_ends t"
proof (induction rule: stream_step.induct)
  case (pump s r rs)
  have "snd (snd (pump_frame False r r0)) \<noteq> None" if "ends r" for r0
    using that keepalive_no_output
    by (auto simp: ends_def pump_frame_def Let_def split: sum.splits)
  from this [of "ss_result s"] pump show ?case
    by (auto simp: stream_ends_def pump_receive_def split: prod.splits)
qed (auto simp: stream_ends_def copy_read_def set_copier_def emit_chunk_def)

lemma stream_reach_ends: "stream_reach rs s \<Longrightarrow> list_ex ends rs \<Longrightarrow> stream_ends s"
proof (induction rule: stream_reach.induct)
  case stream_start
  then show ?case by (simp add: stream_ends_def streamFromRunHandle_def)
qed (rule stream_ends_step)

lemma moves: "stream_step s t \<Longrightarrow> \<not> ss_drain t \<Longrightarrow> \<exists>t. stream_step s t \<and> \<not> ss_drain t"
  by blast

lemma copier_moves:
  assumes "ss_copier s b = Emitting data seen" and "\<not> ss_drain s" and "length (ss_chunks s) < streamBufferSize"
  shows "\<exists>t. stream_step s t \<and> \<not> ss_drain t"
proof (cases seen)
  case True
  then have "stream_step s (emit_chunk b data s)" using assms by (intro emit) simp_all
  then show ?thesis by (rule moves) (use assms(2) in \<open>auto simp: emit_chunk_def set_copier_def\<close>)
next
  case False
  then have "stream_step s (set_copier b (Emitting data True) s)" using assms by (intro see_open) simp_all
  then show ?thesis by (rule moves) (use assms(2) in \<open>auto simp: set_copier_def\<close>)
qed

lemma pump_moves:
  assumes "ss_writing s = []" and "ss_outcome s = None" and "stream_ends s" and "\<not> ss_drain s"
  shows "\<exists>t. stream_step s t \<and> \<not> ss_drain t"
proof (cases "ss_next s")
  case None
  then obtain r rs where "ss_incoming s = r # rs" using assms by (cases "ss_incoming s") (auto simp: stream_ends_def)
  then have "stream_step s (pump_receive r rs s)" using None assms by (intro stream_step.pump) simp_all
  moreover have "\<not> ss_drain (pump_receive r rs s)" using assms(4) by (simp add: pump_receive_def split: prod.splits)
  ultimately show ?thesis by blast
next
  case (Some out)
  then have "stream_step s (s\<lparr>ss_outcome := Some out\<rparr>)" using assms by (intro deliver) simp_all
  then show ?thesis by (rule moves) (use assms(4) in auto)
qed

lemma stream_moves:
  assumes "pump_inv s" and "flow_inv s" and "stream_ends s" and "\<not> ss_drain s" and "\<not> (ss_ready s \<and> ss_chunks s = [])"
  shows "\<exists>t. stream_step s t \<and> \<not> ss_drain t"
proof (cases "ss_chunks s")
  case (Cons c cs)
  then have "stream_step s (s\<lparr>ss_chunks := cs, ss_taken := ss_taken s @ [c]\<rparr>)" by (rule next_chunk)
  then show ?thesis by (rule moves) (use assms(4) in auto)
next
  case Nil
  then have r: "\<not> ss_ready s" and room: "length (ss_chunks s) < streamBufferSize"
    using assms(5) by (auto simp: streamBufferSize_def)
  show ?thesis
  proof (cases "\<exists>b data seen. ss_copier s b = Emitting data seen")
    case True
    then show ?thesis using copier_moves assms(4) room by blast
  next
    case False
    then have c: "ss_copier s b = Reading \<or> ss_copier s b = Gone" for b by (cases "ss_copier s b") auto
    show ?thesis
    proof (cases "ss_outcome s")
      case None
      with c assms(2) have reading: "ss_copier s b = Reading" for b by (auto simp: flow_inv_def)
      show ?thesis
      proof (cases "ss_writing s")
        case Nil
        then show ?thesis using pump_moves None assms by blast
      next
        case (Cons w ws)
        obtain b data where "w = (b, data)" by (rule prod.exhaust)
        with Cons have "stream_step s (copy_read b data ws s)" using reading by (intro read_pipe) simp_all
        then show ?thesis by (rule moves) (use assms(4) in \<open>auto simp: copy_read_def\<close>)
      qed
    next
      case (Some out)
      show ?thesis
      proof (cases "\<exists>b. ss_copier s b = Reading")
        case True
        then obtain b where "stream_step s (set_copier b Gone s)" using Some pipe_closed by force
        then show ?thesis by (rule moves) (use assms(4) in \<open>auto simp: set_copier_def\<close>)
      next
        case False
        with c have "stream_step s (s\<lparr>ss_ready := True\<rparr>)" using Some r by (intro finish) auto
        then show ?thesis by (rule moves) (use assms(4) in auto)
      qed
    qed
  qed
qed

text \<open>C6: \<open>Exec\<close> returns when the server ends the run or the stream fails: until its loop over \<open>Next\<close> is
over some goroutine can move, and every move takes from a measure of the work left, so no interleaving
of the pump, the copiers and the caller blocks or runs forever.\<close>

theorem exec_always_returns:
  assumes "stream_reach rs s" and "list_ex ends rs" and "\<not> ss_drain s"
  shows "(if exec_end s = None then \<exists>t. stream_step s t \<and> \<not> ss_drain t else True) \<and>
    (if stream_step s t \<and> \<not> ss_drain t then stream_work t < stream_work s else True)"
proof -
  note inv = stream_reach_inv [OF assms(1)]
  have "\<exists>t. stream_step s t \<and> \<not> ss_drain t" if "exec_end s = None"
  proof -
    have "\<not> (ss_ready s \<and> ss_chunks s = [])"
      using that inv by (auto simp: exec_end_eq pump_inv_def split: option.splits sum.splits if_splits)
    then show ?thesis
      using stream_moves inv stream_reach_flow [OF assms(1,3)] stream_reach_ends [OF assms(1,2)] assms(3) by blast
  qed
  with stream_work_step [OF _ _ inv] show ?thesis by auto
qed

section \<open>A run\<close>

definition exit_ok :: run_exit where
  "exit_ok = \<lparr>ex_ExitCode = 0, ex_Signal = [], ex_TimedOut = False, ex_DurationMs = 5, ex_Reason = ''exit'', ex_Disk = no_disk\<rparr>"

lemma exit_ok_error [simp]: "exit_error exit_ok = None"
  by (simp add: exit_error_def exit_ok_def isRunFirstFrameTimeout_def isRunCapabilityUnavailable_def
      isRunSessionTerminated_def sessionTerminatedReasonPrefix_def)

abbreviation out_frame :: "string \<Rightarrow> received" where
  "out_frame data \<equiv> Inr (Some (FrameStdout data))"

abbreviation exit_frame :: received where
  "exit_frame \<equiv> Inr (Some (FrameExit exit_ok))"

lemmas run_steps = pump_receive_def copy_read_def set_copier_def emit_chunk_def pump_frame_def frame_writes_def
  collect_def copyBufferSize_def streamFromRunHandle_def streamBufferSize_def Let_def

text \<open>One chunk of output and the exit, taken by \<open>Exec\<close>.\<close>

definition echo_end :: stream_sys where
  "echo_end = \<lparr>ss_incoming = [], ss_result = running_result\<lparr>rr_Stdout := ''a''\<rparr>, ss_writing = [],
     ss_next = Some (Inr (exit_result exit_ok (running_result\<lparr>rr_Stdout := ''a''\<rparr>))),
     ss_outcome = Some (Inr (exit_result exit_ok (running_result\<lparr>rr_Stdout := ''a''\<rparr>))),
     ss_copier = (\<lambda>_. Reading)(False := Gone, True := Gone), ss_chunks = [], ss_drain = False, ss_ready = True,
     ss_taken = [\<lparr>out_Data = ''a'', out_IsStderr = False, out_IsFinal = False\<rparr>], ss_written = [(False, ''a'')]\<rparr>"

lemma echo_reach: "stream_reach [out_frame ''a'', exit_frame] echo_end"
proof -
  let ?rs = "[out_frame ''a'', exit_frame]"
  let ?s0 = "streamFromRunHandle ?rs"
  let ?s1 = "pump_receive (out_frame ''a'') [exit_frame] ?s0"
  let ?s2 = "copy_read False ''a'' [] ?s1"
  let ?s3 = "set_copier False (Emitting ''a'' True) ?s2"
  let ?s4 = "emit_chunk False ''a'' ?s3"
  let ?s5 = "pump_receive exit_frame [] ?s4"
  let ?s6 = "?s5\<lparr>ss_outcome := Some (Inr (exit_result exit_ok (running_result\<lparr>rr_Stdout := ''a''\<rparr>)))\<rparr>"
  let ?s7 = "set_copier False Gone ?s6"
  let ?s8 = "set_copier True Gone ?s7"
  let ?s9 = "?s8\<lparr>ss_ready := True\<rparr>"
  have "stream_reach ?rs ?s0" by (rule stream_start)
  then have "stream_reach ?rs ?s1" by (rule stream_next [OF _ pump]) (simp_all add: run_steps)
  then have "stream_reach ?rs ?s2" by (rule stream_next [OF _ read_pipe]) (simp_all add: run_steps)
  then have "stream_reach ?rs ?s3" by (rule stream_next [OF _ see_open]) (simp_all add: run_steps)
  then have "stream_reach ?rs ?s4" by (rule stream_next [OF _ emit]) (simp_all add: run_steps)
  then have "stream_reach ?rs ?s5" by (rule stream_next [OF _ pump]) (simp_all add: run_steps)
  then have "stream_reach ?rs ?s6"
    by (rule stream_next [OF _ deliver]) (simp_all add: run_steps running_result_def)
  then have "stream_reach ?rs ?s7" by (rule stream_next [OF _ pipe_closed]) (simp_all add: run_steps)
  then have "stream_reach ?rs ?s8" by (rule stream_next [OF _ pipe_closed]) (simp_all add: run_steps)
  then have "stream_reach ?rs ?s9" by (rule stream_next [OF _ finish]) (simp_all add: run_steps)
  then have "stream_reach ?rs (?s9\<lparr>ss_chunks := [], ss_taken := ss_taken ?s9 @
      [\<lparr>out_Data = ''a'', out_IsStderr = False, out_IsFinal = False\<rparr>]\<rparr>)"
    by (rule stream_next [OF _ next_chunk]) (simp_all add: run_steps)
  then show ?thesis by (simp add: echo_end_def run_steps running_result_def fun_upd_twist)
qed

lemma echo_exec: "exec_end echo_end = Some (Inr (exec_result (ss_taken echo_end)
    (exit_result exit_ok (running_result\<lparr>rr_Stdout := ''a''\<rparr>))))"
  by (simp add: exec_end_eq echo_end_def)

lemma exec_output_complete_witness:
  "rr_Stdout (exec_result (ss_taken echo_end) (exit_result exit_ok (running_result\<lparr>rr_Stdout := ''a''\<rparr>))) =
     out_bytes False (ss_taken echo_end)"
proof -
  have "\<not> ss_drain echo_end" by (simp add: echo_end_def)
  from exec_output_complete [OF echo_reach this echo_exec] show ?thesis by blast
qed

lemma exec_always_returns_witness:
  "if exec_end (streamFromRunHandle [out_frame ''a'', exit_frame]) = None
   then \<exists>t. stream_step (streamFromRunHandle [out_frame ''a'', exit_frame]) t \<and> \<not> ss_drain t else True"
  by (rule exec_always_returns [THEN conjunct1, OF stream_start]) (simp_all add: ends_def streamFromRunHandle_def)

section \<open>Waiting without reading\<close>

text \<open>A stream that nobody reads: after a drain was asked for, the copier of stdout returns.\<close>

definition blocked :: stream_sys where
  "blocked = \<lparr>ss_incoming = [exit_frame], ss_result = running_result\<lparr>rr_Stdout := ''ab''\<rparr>, ss_writing = [(False, ''b'')],
     ss_next = None, ss_outcome = None, ss_copier = (\<lambda>_. Reading)(False := Gone), ss_chunks = [], ss_drain = True,
     ss_ready = False, ss_taken = [], ss_written = [(False, ''a''), (False, ''b'')]\<rparr>"

lemma blocked_reach: "stream_reach [out_frame ''a'', out_frame ''b'', exit_frame] blocked"
proof -
  let ?rs = "[out_frame ''a'', out_frame ''b'', exit_frame]"
  let ?s0 = "streamFromRunHandle ?rs"
  let ?s1 = "?s0\<lparr>ss_drain := True\<rparr>"
  let ?s2 = "pump_receive (out_frame ''a'') [out_frame ''b'', exit_frame] ?s1"
  let ?s3 = "copy_read False ''a'' [] ?s2"
  let ?s4 = "set_copier False Gone ?s3"
  have "stream_reach ?rs ?s0" by (rule stream_start)
  then have "stream_reach ?rs ?s1" by (rule stream_next [OF _ request_drain]) (simp_all add: run_steps)
  then have "stream_reach ?rs ?s2" by (rule stream_next [OF _ pump]) (simp_all add: run_steps)
  then have "stream_reach ?rs ?s3" by (rule stream_next [OF _ read_pipe]) (simp_all add: run_steps)
  then have "stream_reach ?rs ?s4" by (rule stream_next [OF _ see_drain [where data = "''a''" and seen = False]]) (simp_all add: run_steps)
  then have "stream_reach ?rs (pump_receive (out_frame ''b'') [exit_frame] ?s4)"
    by (rule stream_next [OF _ pump]) (simp_all add: run_steps)
  then show ?thesis by (simp add: blocked_def run_steps running_result_def)
qed

text \<open>\<open>Stream.Wait\<close> may block forever, though its comment promises that chunks need not be consumed:
the drain it asks for makes the copier of a pipe return without closing the pipe, and the next write of
the pump to that pipe has no reader any more, so the exit frame that follows is never received. Here the
command prints twice and exits with 0.\<close>

theorem stream_wait_may_block:
  "\<exists>s. stream_reach [out_frame ''a'', out_frame ''b'', exit_frame] s \<and> ss_drain s \<and> stream_Wait s = None \<and>
     (\<forall>t. \<not> stream_step s t)"
proof -
  have "\<not> stream_step blocked t" for t
    by (auto elim: stream_step.cases simp: blocked_def split: if_splits)
  moreover have "stream_Wait blocked = None" "ss_drain blocked" by (simp_all add: stream_Wait_def blocked_def)
  ultimately show ?thesis using blocked_reach by blast
qed

end
