(* ===== verification/Commands.thy ===== *)
theory Commands
  imports RunStream
begin

text \<open>
  Starting commands (\<open>Session.Command\<close>, \<open>Session.Stream\<close> and the head of \<open>Session.Exec\<close>) and \<open>Command.Exec\<close>
  (\<open>run.go\<close>): the pump of the handle, the two goroutines that drain the pipes, and the caller of \<open>Wait\<close>,
  as a step relation.
\<close>

section \<open>Starting a command\<close>

definition zero_command_options :: command_options where
  "zero_command_options = \<lparr>co_Env = [], co_Dir = [], co_Timeout = None, co_Privileged = False, co_StreamOnly = False\<rparr>"

definition Session_Command :: "string list \<Rightarrow> command_options list \<Rightarrow> string list \<times> command_options" where
  "Session_Command argv opts = (argv, case opts of [] \<Rightarrow> zero_command_options | opt # _ \<Rightarrow> opt)"

definition exec_command :: "string \<Rightarrow> exec_config \<Rightarrow> string list \<times> command_options" where
  "exec_command command cfg =
     Session_Command (command # xe_args cfg)
       [\<lparr>co_Env = xe_env cfg, co_Dir = xe_dir cfg, co_Timeout = xe_timeoutOpt cfg, co_Privileged = False,
         co_StreamOnly = False\<rparr>]"

text \<open>What a handle still receives: the pending frame first.\<close>

definition run_stream_rest :: "run_stream \<Rightarrow> received list" where
  "run_stream_rest s = map (Inr \<circ> Some) (opt_list (rst_pending s)) @ rst_incoming s"

datatype stream_start = StreamOpened stream_sys | StreamFailed go_error | StreamPanics

definition Session_start ::
  "string \<Rightarrow> exec_config \<Rightarrow> open_try list \<Rightarrow> dp \<Rightarrow> (stream_start \<times> dp) option" where
  "Session_start command cfg ts d =
     map_option (\<lambda>(out, d). (case out of
          RunOpened client s pid \<Rightarrow> StreamOpened (streamFromRunHandle (run_stream_rest s))
        | RunFailed err \<Rightarrow> StreamFailed err
        | RunPanics \<Rightarrow> StreamPanics, d))
       (snd (Command_Stream (fst (exec_command command cfg)) ts d))"

definition Session_Stream ::
  "string \<Rightarrow> exec_config opt_fn list \<Rightarrow> open_try list \<Rightarrow> dp \<Rightarrow> (stream_start \<times> dp) option" where
  "Session_Stream command opts ts d =
     (let cfg = apply_opts opts defaultExecConfig
      in if xe_hasOnOutput cfg
         then Some (StreamFailed (Plain ''sandbox: Stream does not support WithOnOutput; use Exec with WithOnOutput instead''), d)
         else Session_start command cfg ts d)"

text \<open>The head of \<open>Session.Exec\<close>; its loop over \<open>Next\<close> and its end are \<open>exec_end\<close> on the stream.\<close>

definition Session_Exec_start ::
  "string \<Rightarrow> exec_config opt_fn list \<Rightarrow> open_try list \<Rightarrow> dp \<Rightarrow> (stream_start \<times> dp) option" where
  "Session_Exec_start command opts ts d = Session_start command (apply_opts opts defaultExecConfig) ts d"

text \<open>Signalling a handle: \<open>send\<close> is \<open>Send\<close> of its stream. \<close>

definition RunHandle_Signal :: "(run_signal \<Rightarrow> go_error option) \<Rightarrow> string \<Rightarrow> go_error option" where
  "RunHandle_Signal send signal = send (osSignalToRunSignal signal)"

definition RunHandle_Kill :: "(run_signal \<Rightarrow> go_error option) \<Rightarrow> go_error option" where
  "RunHandle_Kill send = RunHandle_Signal send ''killed''"

section \<open>Command.Exec\<close>

text \<open>
  \<open>cx_writing\<close> is what the pump still has to write of its frame, \<open>cx_next\<close> the outcome that it sends after it,
  \<open>cx_sent\<close> the outcome once it is in its channel, \<open>cx_piped\<close> tells that the pipes are open; \<open>cx_draining\<close> are the
  two goroutines (the flag is stderr), \<open>cx_waited\<close> what \<open>Wait\<close> has returned.
\<close>

record exec_sys =
  cx_incoming :: "received list"
  cx_result :: run_result
  cx_writing :: "(bool \<times> string) list"
  cx_next :: "(go_error, run_result) result option"
  cx_sent :: "(go_error, run_result) result option"
  cx_piped :: bool
  cx_draining :: "bool \<Rightarrow> bool"
  cx_waited :: "(go_error, run_result) result option"

definition Command_Exec_start :: "received list \<Rightarrow> exec_sys" where
  "Command_Exec_start rs = \<lparr>cx_incoming = rs, cx_result = running_result, cx_writing = [], cx_next = None,
     cx_sent = None, cx_piped = True, cx_draining = (\<lambda>_. True), cx_waited = None\<rparr>"

definition exec_receive :: "bool \<Rightarrow> received \<Rightarrow> received list \<Rightarrow> exec_sys \<Rightarrow> exec_sys" where
  "exec_receive streamOnly r rs s =
     (let (result, ws, out) = pump_frame streamOnly r (cx_result s)
      in s\<lparr>cx_incoming := rs, cx_result := result, cx_writing := ws, cx_next := out\<rparr>)"

text \<open>A read of \<open>io.Copy\<close> takes some of the pending write.\<close>

definition exec_drain :: "nat \<Rightarrow> bool \<Rightarrow> string \<Rightarrow> (bool \<times> string) list \<Rightarrow> exec_sys \<Rightarrow> exec_sys" where
  "exec_drain n b data ws s = s\<lparr>cx_writing := (if drop n data = [] then ws else (b, drop n data) # ws)\<rparr>"

inductive exec_step :: "bool \<Rightarrow> exec_sys \<Rightarrow> exec_sys \<Rightarrow> bool" for streamOnly where
  exec_receives: "cx_writing s = [] \<Longrightarrow> cx_next s = None \<Longrightarrow> cx_incoming s = r # rs \<Longrightarrow>
    exec_step streamOnly s (exec_receive streamOnly r rs s)"
| exec_drains: "cx_writing s = (b, data) # ws \<Longrightarrow> cx_draining s b \<Longrightarrow> 0 < n \<Longrightarrow> n \<le> length data \<Longrightarrow>
    exec_step streamOnly s (exec_drain n b data ws s)"
| exec_sends: "cx_writing s = [] \<Longrightarrow> cx_next s = Some out \<Longrightarrow> cx_sent s = None \<Longrightarrow>
    exec_step streamOnly s (s\<lparr>cx_sent := Some out\<rparr>)"
| exec_closes: "cx_sent s \<noteq> None \<Longrightarrow> cx_piped s \<Longrightarrow> exec_step streamOnly s (s\<lparr>cx_piped := False\<rparr>)"
| exec_waits: "cx_sent s = Some out \<Longrightarrow> cx_waited s = None \<Longrightarrow> exec_step streamOnly s (s\<lparr>cx_waited := Some out\<rparr>)"
| exec_drained: "\<not> cx_piped s \<Longrightarrow> cx_draining s b \<Longrightarrow>
    exec_step streamOnly s (s\<lparr>cx_draining := (cx_draining s)(b := False)\<rparr>)"

inductive exec_reach :: "bool \<Rightarrow> received list \<Rightarrow> exec_sys \<Rightarrow> bool" for streamOnly rs where
  exec_reach_start: "exec_reach streamOnly rs (Command_Exec_start rs)"
| exec_reach_next: "exec_reach streamOnly rs s \<Longrightarrow> exec_step streamOnly s t \<Longrightarrow> exec_reach streamOnly rs t"

text \<open>\<open>Exec\<close> returns when \<open>Wait\<close> has and both pipes are drained.\<close>

definition Command_Exec_end :: "exec_sys \<Rightarrow> (go_error, run_result) result option" where
  "Command_Exec_end s = (if cx_draining s False \<or> cx_draining s True then None else cx_waited s)"

section \<open>Properties\<close>

text \<open>What is still to come of the pump is what was to come of it at the start.\<close>

definition exec_inv :: "bool \<Rightarrow> received list \<Rightarrow> exec_sys \<Rightarrow> bool" where
  "exec_inv streamOnly rs s \<longleftrightarrow>
     snd (pumpResponses streamOnly rs running_result) = (case cx_next s of
        Some out \<Rightarrow> Some out | None \<Rightarrow> snd (pumpResponses streamOnly (cx_incoming s) (cx_result s))) \<and>
     (case cx_sent s of None \<Rightarrow> cx_piped s \<and> cx_waited s = None | Some out \<Rightarrow> cx_next s = Some out \<and> cx_writing s = []) \<and>
     (case cx_waited s of None \<Rightarrow> True | Some out \<Rightarrow> cx_sent s = Some out) \<and>
     (if cx_piped s then cx_draining s False \<and> cx_draining s True else True) \<and>
     list_all (\<lambda>w. snd w \<noteq> []) (cx_writing s)"

lemma frame_writes_filled: "list_all (\<lambda>w. snd w \<noteq> []) (frame_writes f)"
  by (simp add: frame_writes_def list_all_iff)

lemma pump_frame_filled:
  "pump_frame streamOnly r r0 = (r1, ws, out) \<Longrightarrow> list_all (\<lambda>w. snd w \<noteq> []) ws"
  by (auto simp: pump_frame_def Let_def frame_writes_filled split: sum.splits if_splits)

lemma exec_inv_step:
  assumes "exec_step streamOnly s t" and "exec_inv streamOnly rs s"
  shows "exec_inv streamOnly rs t"
  using assms
proof (induction rule: exec_step.induct)
  case (exec_receives s r rs')
  obtain r1 ws out where p: "pump_frame streamOnly r (cx_result s) = (r1, ws, out)" by (rule prod_cases3)
  have "snd (pumpResponses streamOnly (r # rs') (cx_result s)) =
      (case out of Some x \<Rightarrow> Some x | None \<Rightarrow> snd (pumpResponses streamOnly rs' r1))"
    by (simp add: p split: option.splits prod.splits)
  with exec_receives pump_frame_filled [OF p] show ?case
    by (auto simp: exec_inv_def exec_receive_def p split: option.splits)
next
  case (exec_drains s b data ws n)
  then show ?case by (auto simp: exec_inv_def exec_drain_def split: option.splits)
qed (auto simp: exec_inv_def split: option.splits if_splits)

lemma exec_reach_inv: "exec_reach streamOnly rs s \<Longrightarrow> exec_inv streamOnly rs s"
proof (induction rule: exec_reach.induct)
  case exec_reach_start
  show ?case by (simp add: exec_inv_def Command_Exec_start_def)
next
  case (exec_reach_next s t)
  from exec_inv_step [OF exec_reach_next(2,3)] show ?case .
qed

text \<open>The work left.\<close>

definition frame_cost :: "received \<Rightarrow> nat" where
  "frame_cost r = (case r of Inl _ \<Rightarrow> 2 | Inr f \<Rightarrow> 2 + length (GetOutput False f) + length (GetOutput True f))"

definition exec_work :: "exec_sys \<Rightarrow> nat" where
  "exec_work s = sum_list (map frame_cost (cx_incoming s)) + sum_list (map (length \<circ> snd) (cx_writing s)) +
     (if cx_sent s = None \<and> cx_next s \<noteq> None then 1 else 0) + (if cx_piped s then 1 else 0) +
     (if cx_waited s = None then 1 else 0) + (if cx_draining s False then 1 else 0) + (if cx_draining s True then 1 else 0)"

lemma frame_cost_writes:
  assumes "pump_frame streamOnly r r0 = (r1, ws, out)"
  shows "sum_list (map (length \<circ> snd) ws) + 2 \<le> frame_cost r"
proof -
  have "sum_list (map (length \<circ> snd) (frame_writes f)) = length (GetOutput False f) + length (GetOutput True f)" for f
    by (simp add: frame_writes_def)
  then show ?thesis using assms
    by (auto simp: pump_frame_def frame_cost_def Let_def split: sum.splits if_splits)
qed

lemma exec_work_step: "exec_step streamOnly s t \<Longrightarrow> exec_work t < exec_work s"
proof (induction rule: exec_step.induct)
  case (exec_receives s r rs)
  obtain r1 ws out where p: "pump_frame streamOnly r (cx_result s) = (r1, ws, out)" by (rule prod_cases3)
  from frame_cost_writes [OF p] exec_receives show ?case
    by (auto simp: exec_work_def exec_receive_def p)
next
  case (exec_drained s b)
  then show ?case by (cases b) (auto simp: exec_work_def)
qed (auto simp: exec_work_def exec_drain_def)

lemma exec_moves:
  assumes "exec_inv streamOnly rs s" and "snd (pumpResponses streamOnly rs running_result) \<noteq> None"
    and "Command_Exec_end s = None"
  shows "\<exists>t. exec_step streamOnly s t"
proof (cases "cx_writing s")
  case (Cons w ws)
  obtain b data where w: "w = (b, data)" by (cases w)
  from assms(1) Cons w have "data \<noteq> []" and "cx_piped s" by (auto simp: exec_inv_def split: option.splits)
  moreover from this(2) assms(1) have "cx_draining s b" by (cases b) (auto simp: exec_inv_def)
  ultimately show ?thesis using exec_drains [of s b data ws "length data"] Cons w by auto
next
  case Nil
  show ?thesis
  proof (cases "cx_sent s")
    case None
    show ?thesis
    proof (cases "cx_next s")
      case None
      with assms(1,2) obtain r rs' where "cx_incoming s = r # rs'"
        by (cases "cx_incoming s") (auto simp: exec_inv_def)
      with exec_receives Nil None show ?thesis by blast
    qed (use exec_sends Nil None in blast)
  next
    case (Some out)
    consider "cx_piped s" | "cx_waited s = None" | b where "\<not> cx_piped s" "cx_draining s b"
      using assms(3) by (auto simp: Command_Exec_end_def split: if_splits)
    then show ?thesis using Some exec_closes exec_waits exec_drained by cases blast+
  qed
qed

text \<open>C10: \<open>Command.Exec\<close> gives what the pump makes of the frames, in every interleaving of the pump, the two draining
  goroutines and \<open>Wait\<close>; and when the frames end the run it returns: until then something can move, and every move
  takes from the work left, so undrained pipes never block it.\<close>

theorem command_exec_outcome:
  assumes "exec_reach streamOnly rs s"
  shows "(case Command_Exec_end s of None \<Rightarrow> True | Some r \<Rightarrow> snd (pumpResponses streamOnly rs running_result) = Some r) \<and>
    (if snd (pumpResponses streamOnly rs running_result) \<noteq> None \<and> Command_Exec_end s = None
     then \<exists>t. exec_step streamOnly s t else True) \<and>
    (if exec_step streamOnly s t then exec_work t < exec_work s else True)"
proof -
  note inv = exec_reach_inv [OF assms]
  have "snd (pumpResponses streamOnly rs running_result) = Some r" if "Command_Exec_end s = Some r" for r
    using that inv by (auto simp: Command_Exec_end_def exec_inv_def split: if_splits option.splits)
  then show ?thesis using exec_moves [OF inv] exec_work_step by (auto split: option.splits)
qed

theorem command_exec_outcome_witness:
  "\<exists>t. exec_step False (Command_Exec_start [Inr (Some (FrameStdout ''hi'')), Inr (Some (FrameExit exit_ok))]) t"
proof -
  let ?rs = "[Inr (Some (FrameStdout ''hi'')), Inr (Some (FrameExit exit_ok))]"
  have "snd (pumpResponses False ?rs running_result) \<noteq> None"
    by (simp add: pump_frame_def Let_def split: prod.split)
  moreover have "Command_Exec_end (Command_Exec_start ?rs) = None"
    by (simp add: Command_Exec_end_def Command_Exec_start_def)
  ultimately show ?thesis
    using command_exec_outcome [OF exec_reach_start [of False ?rs], THEN conjunct2, THEN conjunct1] by simp
qed

end
