(* ===== verification/Tunnel.thy ===== *)
theory Tunnel
  imports Run Complex_Main
begin

text \<open>
  Host port tunnels (\<open>tunnel.go\<close>) and connections into the sandbox (\<open>dial.go\<close>): the opening of a
  data-plane stream with one re-authentication, the termination of a tunnel and its subscribers, the
  multiplexing of local connections, and the tunnel that reconnects.
\<close>

section \<open>Opening a stream\<close>

text \<open>
  An attempt: \<open>st_resolve\<close> is \<open>dataPlane\<close>, \<open>st_sendErr\<close> the error of sending the first request,
  \<open>st_first\<close> the first answer, \<open>st_renew\<close> the renewal of a re-authentication.
\<close>

record 'f stream_try =
  st_resolve :: "dp \<Rightarrow> (go_error, rpc_client option) result \<times> dp"
  st_sendErr :: "go_error option"
  st_first :: "(go_error, 'f) result"
  st_renew :: "dp \<Rightarrow> go_error option \<times> dp"

datatype 'a opened = StreamOpened rpc_client 'a | StreamFailed go_error | StreamPanics

text \<open>
  Both callers retry once: only the first attempt may re-authenticate. \<open>report\<close> is what they do to an
  error, \<open>accept\<close> what they make of the first answer.
\<close>

fun open_stream ::
  "(go_error \<Rightarrow> go_error) \<Rightarrow> ('f \<Rightarrow> (go_error, 'a) result) \<Rightarrow> nat \<Rightarrow> 'f stream_try list \<Rightarrow> dp \<Rightarrow> ('a opened \<times> dp) option" where
  "open_stream report accept attempt [] d = None"
| "open_stream report accept attempt (t # ts) d =
     (case st_resolve t d of
        (Inl err, d) \<Rightarrow> Some (StreamFailed err, d)
      | (Inr None, d) \<Rightarrow> Some (StreamPanics, d)
      | (Inr (Some client), d) \<Rightarrow>
          (case (case st_sendErr t of Some e \<Rightarrow> Inl e | None \<Rightarrow> st_first t) of
             Inl err \<Rightarrow>
               (let (again, d) = (if attempt = 0 then reauthOnUnauthenticated (st_renew t) (Some err) d else (False, d))
                in if again then open_stream report accept (Suc attempt) ts d
                   else Some (StreamFailed (report err), d))
           | Inr f \<Rightarrow> Some (case accept f of Inl err \<Rightarrow> StreamFailed err | Inr v \<Rightarrow> StreamOpened client v, d)))"

section \<open>Termination of a tunnel\<close>

datatype tunnel_reason =
    TunnelTerminationSDKClosed | TunnelTerminationHostClosed | TunnelTerminationHostError
  | TunnelTerminationEngineTerminated | TunnelTerminationEngineDraining
  | TunnelTerminationTransportError | TunnelTerminationTimeout

record tunnel_termination =
  tt_Reason :: tunnel_reason
  tt_Detail :: string
  tt_Err :: "go_error option"

definition terminated_by :: "tunnel_reason \<Rightarrow> tunnel_termination" where
  "terminated_by r = \<lparr>tt_Reason = r, tt_Detail = [], tt_Err = None\<rparr>"

text \<open>The reasons of the wire, other numbers included.\<close>

datatype wire_reason =
    REASON_KEEPALIVE_TIMEOUT | REASON_SESSION_LOST | REASON_ENGINE_DRAINING | REASON_BIND_FAILED
  | REASON_PLATFORM_ERROR | REASON_CAPABILITY_UNAVAILABLE | REASON_OTHER int

fun mapHostPortTunnelTermination :: "(wire_reason \<times> string) option \<Rightarrow> tunnel_termination" where
  "mapHostPortTunnelTermination None = terminated_by TunnelTerminationEngineTerminated"
| "mapHostPortTunnelTermination (Some (reason, detail)) =
     (terminated_by (case reason of
        REASON_KEEPALIVE_TIMEOUT \<Rightarrow> TunnelTerminationTimeout
      | REASON_SESSION_LOST \<Rightarrow> TunnelTerminationEngineTerminated
      | REASON_ENGINE_DRAINING \<Rightarrow> TunnelTerminationEngineDraining
      | REASON_BIND_FAILED \<Rightarrow> TunnelTerminationHostError
      | REASON_PLATFORM_ERROR \<Rightarrow> TunnelTerminationHostError
      | REASON_CAPABILITY_UNAVAILABLE \<Rightarrow> TunnelTerminationHostError
      | REASON_OTHER _ \<Rightarrow> TunnelTerminationEngineTerminated))\<lparr>tt_Detail := detail\<rparr>"

definition shouldReconnectTunnel :: "tunnel_reason \<Rightarrow> bool" where
  "shouldReconnectTunnel r \<longleftrightarrow> r = TunnelTerminationTransportError \<or> r = TunnelTerminationEngineTerminated \<or>
     r = TunnelTerminationEngineDraining \<or> r = TunnelTerminationTimeout"

section \<open>Subscribers\<close>

text \<open>
  The termination fields that both kinds of tunnel have: \<open>hb_term\<close> once it is done, the listeners that
  wait for it, and what was sent on \<open>termCh\<close> before it was closed. \<open>hb_calls\<close> lists the calls of
  listeners; the code does not keep it.
\<close>

record hub =
  hb_term :: "tunnel_termination option"
  hb_listeners :: "nat list"
  hb_channel :: "tunnel_termination list"
  hb_calls :: "(nat \<times> tunnel_termination) list"

definition new_hub :: hub where
  "new_hub = \<lparr>hb_term = None, hb_listeners = [], hb_channel = [], hb_calls = []\<rparr>"

definition OnTerminated :: "nat \<Rightarrow> hub \<Rightarrow> hub" where
  "OnTerminated cb h = (case hb_term h of
     Some t \<Rightarrow> h\<lparr>hb_calls := hb_calls h @ [(cb, t)]\<rparr>
   | None \<Rightarrow> h\<lparr>hb_listeners := hb_listeners h @ [cb]\<rparr>)"

text \<open>\<open>termOnce\<close> lets the first call through.\<close>

definition finish_hub :: "tunnel_termination \<Rightarrow> hub \<Rightarrow> hub" where
  "finish_hub t h = (if hb_term h \<noteq> None then h
     else h\<lparr>hb_term := Some t, hb_listeners := [], hb_channel := hb_channel h @ [t],
            hb_calls := hb_calls h @ map (\<lambda>cb. (cb, t)) (hb_listeners h)\<rparr>)"

section \<open>ExposeHostPort and Dial\<close>

datatype tunnel_frame =
    TunnelOpened string int
  | TunnelAccept nat
  | TunnelData nat string
  | TunnelHalfClose nat
  | TunnelClose nat
  | TunnelPing int
  | TunnelTerminated wire_reason string
  | TunnelOther

record tunnel_options =
  hp_SandboxBindAddress :: string
  hp_SandboxPort :: int
  hp_HostDialTargetLabel :: string

record tunnel_open =
  to_SessionId :: string
  to_SandboxBindAddress :: string
  to_SandboxPort :: int
  to_HostDialTargetLabel :: string

definition tunnel_open_request :: "string \<Rightarrow> string \<Rightarrow> tunnel_options list \<Rightarrow> tunnel_open" where
  "tunnel_open_request sessionID hostAddr opts =
     (let opt = (case opts of [] \<Rightarrow> \<lparr>hp_SandboxBindAddress = [], hp_SandboxPort = 0, hp_HostDialTargetLabel = []\<rparr> | opt # _ \<Rightarrow> opt)
      in \<lparr>to_SessionId = sessionID, to_SandboxBindAddress = hp_SandboxBindAddress opt, to_SandboxPort = hp_SandboxPort opt,
          to_HostDialTargetLabel =
            (if hp_HostDialTargetLabel opt = [] then hostAddr else hp_HostDialTargetLabel opt)\<rparr>)"

definition accept_tunnel :: "tunnel_frame \<Rightarrow> (go_error, string \<times> int) result" where
  "accept_tunnel f = (case f of
     TunnelTerminated reason detail \<Rightarrow>
       Inl (if reason = REASON_CAPABILITY_UNAVAILABLE
            then (if HasPrefix detail ''first_frame_timeout'' then PrimitiveTimeoutError ''host_port_tunnel'' detail
                  else CapabilityUnavailableError ''host_port_tunnel'' detail)
            else Plain (''sandbox host port tunnel failed: '' @ detail))
   | TunnelOpened address port \<Rightarrow> Inr (address, port)
   | _ \<Rightarrow> Inl (Plain ''sandbox host port tunnel did not open''))"

definition ExposeHostPort :: "tunnel_frame stream_try list \<Rightarrow> dp \<Rightarrow> ((string \<times> int) opened \<times> dp) option" where
  "ExposeHostPort ts d = open_stream mapErr accept_tunnel 0 ts d"

definition dialTimeoutMs :: "duration \<Rightarrow> int" where
  "dialTimeoutMs connectTimeout = (if 0 < connectTimeout then uint32 (go_div connectTimeout Millisecond) else 0)"

datatype dial_frame = DialClosed bool string | DialOpened | DialData string | DialOther

text \<open>The flag of \<open>DialClosed\<close>: the reason is the missing capability.\<close>

definition accept_dial :: "dial_frame \<Rightarrow> (go_error, unit) result" where
  "accept_dial f = (case f of
     DialClosed unavailable detail \<Rightarrow>
       Inl (if unavailable
            then (if HasPrefix detail ''first_frame_timeout'' then PrimitiveTimeoutError ''dial'' detail
                  else CapabilityUnavailableError ''dial'' detail)
            else Plain detail)
   | DialOpened \<Rightarrow> Inr ()
   | _ \<Rightarrow> Inl (Plain ''sandbox dial did not open''))"

definition Dial :: "dial_frame stream_try list \<Rightarrow> dp \<Rightarrow> (unit opened \<times> dp) option" where
  "Dial ts d = open_stream (\<lambda>err. err) accept_dial 0 ts d"

text \<open>
  The two pumps of a connection: reads of the application with the kind of error (\<open>Some True\<close> is the end
  of the input) and whether sending a chunk fails, and frames received with whether writing fails.
\<close>

datatype dial_request = DialRequestData string | DialRequestHalfClose

fun dial_send_pump :: "(string \<times> bool option \<times> bool) list \<Rightarrow> dial_request list" where
  "dial_send_pump [] = []"
| "dial_send_pump ((data, failed, broken) # rs) =
     (let sent = (if data = [] then [] else [DialRequestData data])
      in if data \<noteq> [] \<and> broken then sent
         else case failed of
           None \<Rightarrow> sent @ dial_send_pump rs
         | Some eof \<Rightarrow> sent @ (if eof then [DialRequestHalfClose] else []))"

fun dial_receive_pump :: "((go_error, dial_frame) result \<times> bool) list \<Rightarrow> string list" where
  "dial_receive_pump [] = []"
| "dial_receive_pump ((Inl err, broken) # rs) = []"
| "dial_receive_pump ((Inr f, broken) # rs) = (case f of
     DialData data \<Rightarrow> if data = [] then dial_receive_pump rs else data # (if broken then [] else dial_receive_pump rs)
   | DialClosed _ _ \<Rightarrow> []
   | _ \<Rightarrow> dial_receive_pump rs)"

section \<open>Forwarding\<close>

datatype tunnel_request =
    RequestData nat string | RequestHalfClose nat | RequestClose nat string | RequestPong int

text \<open>
  The connections of \<open>forward\<close> by sub-stream, the local connections that are open, and the goroutines
  that pump a connection. \<open>fw_written\<close> and \<open>fw_dropped\<close> are the data from the sandbox that reached a
  connection and that found none; \<open>fw_end\<close> is set when the loop has returned and its deferred function
  has run.
\<close>

record forward =
  fw_conns :: "nat \<rightharpoonup> nat"
  fw_open :: "nat list"
  fw_pumps :: "(nat \<times> nat) list"
  fw_next :: nat
  fw_sent :: "tunnel_request list"
  fw_written :: "(nat \<times> string) list"
  fw_dropped :: "(nat \<times> string) list"
  fw_accepted :: "(nat \<times> nat) list"
  fw_end :: "tunnel_termination option"

definition new_forward :: forward where
  "new_forward = \<lparr>fw_conns = Map.empty, fw_open = [], fw_pumps = [], fw_next = 0, fw_sent = [], fw_written = [],
     fw_dropped = [], fw_accepted = [], fw_end = None\<rparr>"

definition send_request :: "tunnel_request \<Rightarrow> forward \<Rightarrow> forward" where
  "send_request r w = w\<lparr>fw_sent := fw_sent w @ [r]\<rparr>"

definition close_conn :: "nat \<Rightarrow> forward \<Rightarrow> forward" where
  "close_conn n w = w\<lparr>fw_open := filter (\<lambda>m. m \<noteq> n) (fw_open w)\<rparr>"

text \<open>The end of the loop closes the connections that are still in the map.\<close>

definition end_forward :: "tunnel_termination \<Rightarrow> forward \<Rightarrow> forward" where
  "end_forward t w = w\<lparr>fw_open := filter (\<lambda>n. n \<notin> ran (fw_conns w)) (fw_open w), fw_conns := Map.empty, fw_end := Some t\<rparr>"

text \<open>\<open>dial_err\<close> is the error of dialling the host.\<close>

definition forward_frame :: "string option \<Rightarrow> tunnel_frame \<Rightarrow> forward \<Rightarrow> forward" where
  "forward_frame dial_err f w = (case f of
     TunnelAccept i \<Rightarrow> (case dial_err of
         Some e \<Rightarrow> send_request (RequestClose i e) w
       | None \<Rightarrow> w\<lparr>fw_conns := (fw_conns w)(i \<mapsto> fw_next w), fw_open := fw_next w # fw_open w,
           fw_pumps := (i, fw_next w) # fw_pumps w, fw_accepted := (i, fw_next w) # fw_accepted w, fw_next := Suc (fw_next w)\<rparr>)
   | TunnelData i data \<Rightarrow> (case fw_conns w i of
         Some n \<Rightarrow> w\<lparr>fw_written := fw_written w @ [(n, data)]\<rparr>
       | None \<Rightarrow> w\<lparr>fw_dropped := fw_dropped w @ [(i, data)]\<rparr>)
   | TunnelClose i \<Rightarrow> (let w' = w\<lparr>fw_conns := (fw_conns w)(i := None)\<rparr> in case fw_conns w i of
         Some n \<Rightarrow> close_conn n w'
       | None \<Rightarrow> w')
   | TunnelPing i \<Rightarrow> send_request (RequestPong i) w
   | TunnelTerminated reason detail \<Rightarrow> end_forward (mapHostPortTunnelTermination (Some (reason, detail))) w
   | _ \<Rightarrow> w)"

text \<open>The end of a pump: the map loses the sub-stream, and the connection is left as it is.\<close>

definition end_pump :: "tunnel_request \<Rightarrow> nat \<Rightarrow> nat \<Rightarrow> forward \<Rightarrow> forward" where
  "end_pump r i n w = (send_request r w)\<lparr>fw_conns := (fw_conns w)(i := None), fw_pumps := removeAll (i, n) (fw_pumps w)\<rparr>"

inductive forward_step :: "forward \<Rightarrow> forward \<Rightarrow> bool" where
  frame: "fw_end w = None \<Longrightarrow> forward_step w (forward_frame dial_err f w)"
| transport: "fw_end w = None \<Longrightarrow>
    forward_step w (end_forward (\<lparr>tt_Reason = TunnelTerminationTransportError, tt_Detail = [], tt_Err = Some err\<rparr>) w)"
| pump_read: "(i, n) \<in> set (fw_pumps w) \<Longrightarrow> data \<noteq> [] \<Longrightarrow> forward_step w (send_request (RequestData i data) w)"
| pump_eof: "(i, n) \<in> set (fw_pumps w) \<Longrightarrow> forward_step w (end_pump (RequestHalfClose i) i n w)"
| pump_err: "(i, n) \<in> set (fw_pumps w) \<Longrightarrow> forward_step w (end_pump (RequestClose i e) i n w)"

inductive forward_reach :: "forward \<Rightarrow> bool" where
  forward_start: "forward_reach new_forward"
| forward_next: "forward_reach w \<Longrightarrow> forward_step w w' \<Longrightarrow> forward_reach w'"

section \<open>Backoff\<close>

definition go_trunc :: "rat \<Rightarrow> int" where
  "go_trunc q = (if q < 0 then - \<lfloor>- q\<rfloor> else \<lfloor>q\<rfloor>)"

text \<open>
  \<open>jitter\<close> is the factor drawn for the call, between 0.75 and 1.25; the product is exact here, its
  rounding to a float is not modelled. A shift by 64 or more gives 0.
\<close>

definition backoff_base :: "duration \<Rightarrow> duration \<Rightarrow> nat \<Rightarrow> duration" where
  "backoff_base initialBackoff maxBackoff attempt =
     (let shift = attempt - 1;
          base = wrap64 (initialBackoff * (if 64 \<le> shift then 0 else wrap64 (2 ^ shift)))
      in if maxBackoff < base then maxBackoff else base)"

definition jitteredBackoff :: "rat \<Rightarrow> duration \<Rightarrow> duration \<Rightarrow> nat \<Rightarrow> duration" where
  "jitteredBackoff jitter initialBackoff maxBackoff attempt =
     go_trunc (of_int (backoff_base initialBackoff maxBackoff attempt) * jitter)"

record resilient_options =
  rp_InitialBackoff :: duration
  rp_MaxBackoff :: duration

definition resilient_defaults :: "resilient_options \<Rightarrow> resilient_options" where
  "resilient_defaults opt =
     \<lparr>rp_InitialBackoff = (if rp_InitialBackoff opt \<le> 0 then 250 * Millisecond else rp_InitialBackoff opt),
      rp_MaxBackoff = (if rp_MaxBackoff opt \<le> 0 then 10 * Second else rp_MaxBackoff opt)\<rparr>"

section \<open>The tunnel that reconnects\<close>

datatype resilient_state = TunnelStateOpen | TunnelStateReconnecting | TunnelStateClosed

datatype state_event =
    EventReconnecting tunnel_termination nat duration
  | EventOpen int
  | EventPortChanged int int
  | EventClosed tunnel_termination

text \<open>Where \<open>reconnectLoop\<close> is: it waits for the current tunnel, is about to announce a reconnection,
  sleeps, calls \<open>ExposeHostPort\<close>, has a new tunnel, or has returned.\<close>

datatype loop_phase =
    Watching | Failing tunnel_termination | Sleeping tunnel_termination | Exposing tunnel_termination
  | Reopened "string \<times> int" | LoopReturned

text \<open>\<open>rz_done\<close> is the end of \<open>ctx\<close>, \<open>rz_closing\<close> a call of \<open>Close\<close> under way.\<close>

record resilient =
  rz_state :: resilient_state
  rz_current :: "string \<times> int"
  rz_hub :: hub
  rz_events :: "state_event list"
  rz_attempt :: nat
  rz_loop :: loop_phase
  rz_done :: bool
  rz_closing :: bool

definition ExposeHostPortResilient :: "string \<times> int \<Rightarrow> resilient" where
  "ExposeHostPortResilient current = \<lparr>rz_state = TunnelStateOpen, rz_current = current, rz_hub = new_hub, rz_events = [],
     rz_attempt = 0, rz_loop = Watching, rz_done = False, rz_closing = False\<rparr>"

definition emit_event :: "state_event \<Rightarrow> resilient \<Rightarrow> resilient" where
  "emit_event e s = s\<lparr>rz_events := rz_events s @ [e]\<rparr>"

definition resilient_finish :: "tunnel_termination \<Rightarrow> resilient \<Rightarrow> resilient" where
  "resilient_finish t s = (if hb_term (rz_hub s) \<noteq> None then s
     else emit_event (EventClosed t) (s\<lparr>rz_state := TunnelStateClosed, rz_hub := finish_hub t (rz_hub s)\<rparr>))"

definition resilient_OnTerminated :: "nat \<Rightarrow> resilient \<Rightarrow> resilient" where
  "resilient_OnTerminated cb s = s\<lparr>rz_hub := OnTerminated cb (rz_hub s)\<rparr>"

text \<open>The announcement of a reconnection, with the delay.\<close>

definition announce :: "resilient_options \<Rightarrow> rat \<Rightarrow> tunnel_termination \<Rightarrow> resilient \<Rightarrow> resilient" where
  "announce opt jitter t s =
     (let attempt = (if tt_Reason t = TunnelTerminationEngineDraining then 0 else Suc (rz_attempt s));
          delay = (if tt_Reason t = TunnelTerminationEngineDraining then 0
            else jitteredBackoff jitter (rp_InitialBackoff opt) (rp_MaxBackoff opt) attempt)
      in emit_event (EventReconnecting t attempt delay)
           (s\<lparr>rz_attempt := attempt, rz_state := TunnelStateReconnecting, rz_loop := Sleeping t\<rparr>))"

definition adopt_tunnel :: "string \<times> int \<Rightarrow> resilient \<Rightarrow> resilient" where
  "adopt_tunnel next s =
     (let s' = emit_event (EventOpen (snd next))
        (s\<lparr>rz_attempt := 0, rz_current := next, rz_state := TunnelStateOpen, rz_loop := Watching\<rparr>)
      in if snd (rz_current s) \<noteq> snd next then emit_event (EventPortChanged (snd (rz_current s)) (snd next)) s' else s')"

text \<open>The current tunnel has terminated with \<open>t\<close>.\<close>

definition watch :: "tunnel_termination \<Rightarrow> resilient \<Rightarrow> resilient" where
  "watch t s =
     (if rz_done s then s\<lparr>rz_loop := LoopReturned\<rparr>
      else if \<not> shouldReconnectTunnel (tt_Reason t) then (resilient_finish t s)\<lparr>rz_loop := LoopReturned\<rparr>
      else s\<lparr>rz_loop := Failing t\<rparr>)"

inductive resilient_step :: "resilient_options \<Rightarrow> resilient \<Rightarrow> resilient \<Rightarrow> bool" for opt where
  watched: "rz_loop s = Watching \<Longrightarrow> resilient_step opt s (watch t s)"
| announced: "rz_loop s = Failing t \<Longrightarrow> 3/4 \<le> jitter \<Longrightarrow> jitter < 5/4 \<Longrightarrow> resilient_step opt s (announce opt jitter t s)"
| interrupted: "rz_loop s = Sleeping t \<Longrightarrow> rz_done s \<Longrightarrow> resilient_step opt s (s\<lparr>rz_loop := LoopReturned\<rparr>)"
| slept: "rz_loop s = Sleeping t \<Longrightarrow> resilient_step opt s (s\<lparr>rz_loop := Exposing t\<rparr>)"
| exposed: "rz_loop s = Exposing t \<Longrightarrow> \<not> rz_done s \<Longrightarrow> resilient_step opt s (s\<lparr>rz_loop := Reopened next\<rparr>)"
| not_exposed: "rz_loop s = Exposing t \<Longrightarrow> resilient_step opt s (s\<lparr>rz_loop :=
    Failing \<lparr>tt_Reason = TunnelTerminationTransportError, tt_Detail = [], tt_Err = Some err\<rparr>\<rparr>)"
| adopted: "rz_loop s = Reopened next \<Longrightarrow> resilient_step opt s (adopt_tunnel next s)"
| cancelled: "resilient_step opt s (s\<lparr>rz_done := True\<rparr>)"
| closes: "resilient_step opt s (s\<lparr>rz_done := True, rz_closing := True\<rparr>)"
| closed: "rz_closing s \<Longrightarrow> resilient_step opt s
    ((resilient_finish (terminated_by TunnelTerminationSDKClosed) s)\<lparr>rz_closing := False\<rparr>)"
| subscribed: "resilient_step opt s (resilient_OnTerminated cb s)"

inductive resilient_reach :: "resilient_options \<Rightarrow> resilient \<Rightarrow> bool" for opt where
  resilient_start: "resilient_reach opt (ExposeHostPortResilient current)"
| resilient_next: "resilient_reach opt s \<Longrightarrow> resilient_step opt s t \<Longrightarrow> resilient_reach opt t"

text \<open>
  \<open>Endpoint\<close> and \<open>State\<close> read under the lock, and \<open>setState\<close> writes under it: a new endpoint appears only together with
  the state that is open.
\<close>

definition resilient_Endpoint :: "resilient \<Rightarrow> string \<times> int" where
  "resilient_Endpoint s = rz_current s"

definition resilient_State :: "resilient \<Rightarrow> resilient_state" where
  "resilient_State s = rz_state s"

lemma endpoint_with_state:
  "resilient_step opt s t \<Longrightarrow>
     resilient_Endpoint t = resilient_Endpoint s \<or>
     (rz_loop s = Reopened (resilient_Endpoint t) \<and> resilient_State t = TunnelStateOpen)"
  by (induction rule: resilient_step.induct)
    (auto simp: resilient_Endpoint_def resilient_State_def watch_def announce_def adopt_tunnel_def resilient_finish_def
      emit_event_def resilient_OnTerminated_def Let_def)

section \<open>A plain tunnel\<close>

record host_tunnel =
  ht_hub :: hub
  ht_closed :: bool
  ht_requests :: "tunnel_request list"

definition tunnel_finish :: "tunnel_termination \<Rightarrow> host_tunnel \<Rightarrow> host_tunnel" where
  "tunnel_finish t s = s\<lparr>ht_hub := finish_hub t (ht_hub s)\<rparr>"

definition tunnel_OnTerminated :: "nat \<Rightarrow> host_tunnel \<Rightarrow> host_tunnel" where
  "tunnel_OnTerminated cb s = s\<lparr>ht_hub := OnTerminated cb (ht_hub s)\<rparr>"

definition tunnel_Close :: "host_tunnel \<Rightarrow> host_tunnel" where
  "tunnel_Close s = (if ht_closed s then s
     else tunnel_finish (terminated_by TunnelTerminationSDKClosed)
       (s\<lparr>ht_closed := True, ht_requests := ht_requests s @ [RequestClose 0 ''sdk_closed'']\<rparr>))"

section \<open>The contract of a termination\<close>

datatype hub_op = Subscribe nat | Finish tunnel_termination

fun run_hub :: "hub_op list \<Rightarrow> hub \<Rightarrow> hub" where
  "run_hub [] h = h"
| "run_hub (Subscribe cb # ops) h = run_hub ops (OnTerminated cb h)"
| "run_hub (Finish t # ops) h = run_hub ops (finish_hub t h)"

fun subscribers :: "hub_op list \<Rightarrow> nat list" where
  "subscribers [] = []"
| "subscribers (Subscribe cb # ops) = cb # subscribers ops"
| "subscribers (Finish t # ops) = subscribers ops"

fun first_finish :: "hub_op list \<Rightarrow> tunnel_termination option" where
  "first_finish [] = None"
| "first_finish (Subscribe cb # ops) = first_finish ops"
| "first_finish (Finish t # ops) = Some t"

lemma run_hub_done:
  "hb_term h = Some t \<Longrightarrow> run_hub ops h = h\<lparr>hb_calls := hb_calls h @ map (\<lambda>cb. (cb, t)) (subscribers ops)\<rparr>"
  by (induction ops h rule: run_hub.induct) (auto simp: OnTerminated_def finish_hub_def)

definition hub_told :: "hub_op list \<Rightarrow> hub \<Rightarrow> bool" where
  "hub_told ops h \<longleftrightarrow> (case first_finish ops of
     None \<Rightarrow> hb_term h = None \<and> hb_calls h = [] \<and> hb_channel h = [] \<and> hb_listeners h = subscribers ops
   | Some t \<Rightarrow> hb_term h = Some t \<and> hb_calls h = map (\<lambda>cb. (cb, t)) (subscribers ops) \<and> hb_channel h = [t] \<and> hb_listeners h = [])"

lemma run_hub_waiting:
  "hb_term h = None \<Longrightarrow> (case first_finish ops of
     None \<Rightarrow> run_hub ops h = h\<lparr>hb_listeners := hb_listeners h @ subscribers ops\<rparr>
   | Some t \<Rightarrow> run_hub ops h = h\<lparr>hb_term := Some t, hb_listeners := [], hb_channel := hb_channel h @ [t],
       hb_calls := hb_calls h @ map (\<lambda>cb. (cb, t)) (hb_listeners h @ subscribers ops)\<rparr>)"
proof (induction ops h rule: run_hub.induct)
  case (2 cb ops h)
  then show ?case by (auto simp: OnTerminated_def split: option.splits)
next
  case (3 t ops h)
  then show ?case using run_hub_done [of "finish_hub t h" t ops] by (simp add: finish_hub_def)
qed simp

lemma run_hub_told: "hub_told ops (run_hub ops new_hub)"
  using run_hub_waiting [of new_hub ops] by (auto simp: hub_told_def new_hub_def split: option.splits)

text \<open>
  What a tunnel offers its callers: subscribing and finishing act on its hub as the hub's own
  operations do, whatever else they change.
\<close>

locale terminating =
  fixes hub_of :: "'s \<Rightarrow> hub" and subscribe :: "nat \<Rightarrow> 's \<Rightarrow> 's" and finish :: "tunnel_termination \<Rightarrow> 's \<Rightarrow> 's"
  assumes hub_subscribe: "hub_of (subscribe cb s) = OnTerminated cb (hub_of s)"
    and hub_finish: "hub_of (finish t s) = finish_hub t (hub_of s)"
begin

definition apply_op :: "hub_op \<Rightarrow> 's \<Rightarrow> 's" where
  "apply_op op s = (case op of Subscribe cb \<Rightarrow> subscribe cb s | Finish t \<Rightarrow> finish t s)"

lemma hub_ops: "hub_of (fold apply_op ops s) = run_hub ops (hub_of s)"
  by (induction ops arbitrary: s)
    (auto simp: apply_op_def hub_subscribe hub_finish split: hub_op.splits)

lemma told: "hub_of s = new_hub \<Longrightarrow> hub_told ops (hub_of (fold apply_op ops s))"
  by (simp add: hub_ops run_hub_told)

end

interpretation plain: terminating ht_hub tunnel_OnTerminated tunnel_finish
  by unfold_locales (simp_all add: tunnel_OnTerminated_def tunnel_finish_def)

interpretation resilient: terminating rz_hub resilient_OnTerminated resilient_finish
  by unfold_locales (simp_all add: resilient_OnTerminated_def resilient_finish_def emit_event_def finish_hub_def)

section \<open>Properties of the termination\<close>

text \<open>C38: A tunnel of either kind tells its end once: whatever subscribers and causes of termination come
in whatever order, the first cause is the one that is kept and sent on the channel, and every listener,
early or late, is called exactly once and with that cause.\<close>

theorem termination_told_once:
  "hub_told ops (ht_hub (fold plain.apply_op ops \<lparr>ht_hub = new_hub, ht_closed = False, ht_requests = []\<rparr>)) \<and>
   hub_told ops (rz_hub (fold resilient.apply_op ops (ExposeHostPortResilient current)))"
  by (simp add: plain.told resilient.told ExposeHostPortResilient_def)

section \<open>Properties of the opening\<close>

lemma open_stream_two:
  "open_stream report accept 0 (t1 # t2 # ts) d = open_stream report accept 0 [t1, t2] d"
  by (auto simp: Let_def split: prod.splits sum.splits option.splits)

lemma open_stream_returns: "open_stream report accept 0 [t1, t2] d \<noteq> None"
  by (auto simp: Let_def split: prod.splits sum.splits option.splits)

text \<open>Opening a tunnel or a connection makes two attempts at most: with two the call has returned,
whatever would come after.\<close>

theorem stream_opening_bounded:
  "ExposeHostPort (t1 # t2 # ts) d = ExposeHostPort [t1, t2] d \<and> ExposeHostPort [t1, t2] d \<noteq> None \<and>
   Dial (u1 # u2 # us) d = Dial [u1, u2] d \<and> Dial [u1, u2] d \<noteq> None"
  unfolding ExposeHostPort_def Dial_def by (intro conjI open_stream_two open_stream_returns)

text \<open>
  Unlike the timeout of a run, the connect timeout of \<open>Dial\<close> is not clamped: a budget of 2^32
  milliseconds and one more is sent as a single millisecond, and one below a millisecond as none.
\<close>

lemma dial_timeout_wraps:
  "dialTimeoutMs (4294967297 * Millisecond) = 1" "dialTimeoutMs (Millisecond - 1) = 0"
  by (simp_all add: dialTimeoutMs_def uint32_def go_div_def)

section \<open>Properties of the forwarding\<close>

definition forward_inv :: "forward \<Rightarrow> bool" where
  "forward_inv w \<longleftrightarrow>
     (\<forall>i n. fw_conns w i = Some n \<longrightarrow> (i, n) \<in> set (fw_accepted w) \<and> n \<in> set (fw_open w)) \<and>
     (\<forall>i n. (i, n) \<in> set (fw_accepted w) \<longrightarrow> n < fw_next w) \<and>
     distinct (map snd (fw_accepted w)) \<and>
     set (fw_pumps w) \<subseteq> set (fw_accepted w) \<and> set (fw_open w) \<subseteq> snd ` set (fw_accepted w) \<and>
     fst ` set (fw_written w) \<subseteq> snd ` set (fw_accepted w) \<and>
     (fw_end w \<noteq> None \<longrightarrow> fw_conns w = Map.empty)"

text \<open>With sub-streams that the sandbox does not use twice, a connection whose pump runs is in the map.\<close>

definition pumps_inv :: "forward \<Rightarrow> bool" where
  "pumps_inv w \<longleftrightarrow> (\<forall>i n. (i, n) \<in> set (fw_pumps w) \<longrightarrow> n \<in> set (fw_open w) \<longrightarrow> fw_conns w i = Some n)"

lemma conn_once:
  "forward_inv w \<Longrightarrow> (i, n) \<in> set (fw_accepted w) \<Longrightarrow> (j, n) \<in> set (fw_accepted w) \<Longrightarrow> i = j"
  unfolding forward_inv_def distinct_map inj_on_def by (metis fst_conv snd_conv)

lemma forward_conn: "forward_inv w \<Longrightarrow> fw_conns w i = Some n \<Longrightarrow> (i, n) \<in> set (fw_accepted w) \<and> n \<in> set (fw_open w)"
  by (simp add: forward_inv_def)

lemma forward_pump: "forward_inv w \<Longrightarrow> (i, n) \<in> set (fw_pumps w) \<Longrightarrow> (i, n) \<in> set (fw_accepted w) \<and> n < fw_next w"
  unfolding forward_inv_def by blast

lemma forward_inv_step: "forward_step w w' \<Longrightarrow> forward_inv w \<Longrightarrow> forward_inv w'"
proof (induction rule: forward_step.induct)
  case (frame w dial_err f)
  then show ?case
  proof (cases f)
    case (TunnelAccept i)
    have new: "n < fw_next w" if "(j, n) \<in> set (fw_accepted w)" for j n
      using that frame by (auto simp: forward_inv_def)
    then have fresh: "fw_next w \<notin> snd ` set (fw_accepted w)" by fastforce
    show ?thesis
    proof (cases dial_err)
      case None
      have e: "forward_frame dial_err f w = w\<lparr>fw_conns := (fw_conns w)(i \<mapsto> fw_next w), fw_open := fw_next w # fw_open w,
          fw_pumps := (i, fw_next w) # fw_pumps w, fw_accepted := (i, fw_next w) # fw_accepted w, fw_next := Suc (fw_next w)\<rparr>"
        by (simp add: forward_frame_def TunnelAccept None)
      show ?thesis unfolding e
        using frame fresh new by (auto simp: forward_inv_def less_SucI)
    next
      case (Some e)
      then show ?thesis using frame TunnelAccept by (simp add: forward_frame_def send_request_def forward_inv_def)
    qed
  next
    case (TunnelData i data)
    then show ?thesis using frame
      by (cases "fw_conns w i") (force simp: forward_frame_def forward_inv_def)+
  next
    case (TunnelClose i)
    show ?thesis
    proof (cases "fw_conns w i")
      case None
      then have "forward_frame dial_err f w = w" by (auto simp: forward_frame_def TunnelClose fun_upd_idem)
      then show ?thesis using frame by simp
    next
      case (Some n)
      have c: "(j, m) \<in> set (fw_accepted w)" "m \<in> set (fw_open w)" "m \<noteq> n" if "j \<noteq> i" "fw_conns w j = Some m" for j m
        using that Some frame forward_conn conn_once by blast+
      let ?w = "w\<lparr>fw_conns := (fw_conns w)(i := None), fw_open := filter (\<lambda>m. m \<noteq> n) (fw_open w)\<rparr>"
      have e: "forward_frame dial_err f w = ?w" by (simp add: forward_frame_def TunnelClose Some close_conn_def)
      have "(j, m) \<in> set (fw_accepted ?w) \<and> m \<in> set (fw_open ?w)" if "fw_conns ?w j = Some m" for j m
        using that c [of j m] by (cases "j = i") simp_all
      then have "\<forall>j m. fw_conns ?w j = Some m \<longrightarrow> (j, m) \<in> set (fw_accepted ?w) \<and> m \<in> set (fw_open ?w)" by blast
      moreover have "set (fw_open ?w) \<subseteq> snd ` set (fw_accepted ?w)"
        using frame(2) by (auto simp: forward_inv_def)
      ultimately show ?thesis
        unfolding e forward_inv_def using frame(1) frame(2) [unfolded forward_inv_def] by simp
    qed
  next
    case (TunnelTerminated reason detail)
    then show ?thesis using frame by (auto simp: forward_frame_def forward_inv_def end_forward_def)
  qed (auto simp: forward_frame_def forward_inv_def send_request_def)
next
  case (transport w err)
  then show ?case by (auto simp: forward_inv_def end_forward_def)
qed (auto simp: forward_inv_def send_request_def end_pump_def split: if_splits)

lemma forward_reach_inv: "forward_reach w \<Longrightarrow> forward_inv w"
proof (induction rule: forward_reach.induct)
  case forward_start
  show ?case by (simp add: forward_inv_def new_forward_def)
qed (rule forward_inv_step)

lemma accepted_mono: "forward_step w w' \<Longrightarrow> \<exists>as. fw_accepted w' = as @ fw_accepted w"
  by (induction rule: forward_step.induct)
    (auto simp: forward_frame_def end_forward_def send_request_def close_conn_def end_pump_def Let_def
      split: tunnel_frame.splits option.splits)

lemma distinct_accepted_step:
  "forward_step w w' \<Longrightarrow> distinct (map fst (fw_accepted w')) \<Longrightarrow> distinct (map fst (fw_accepted w))"
  using accepted_mono by force

lemma pumps_inv_end:
  assumes "(i, n) \<in> set (fw_pumps w)" and "forward_inv w" and "distinct (map fst (fw_accepted w))" and "pumps_inv w"
  shows "pumps_inv (end_pump r i n w)"
proof -
  have "m = n" if "(i, m) \<in> set (fw_pumps w)" for m
    using assms(1-3) that by (auto simp: forward_inv_def intro: eq_key_imp_eq_value)
  then show ?thesis using assms(4) by (auto simp: pumps_inv_def end_pump_def send_request_def)
qed

lemma pumps_inv_step:
  "forward_step w w' \<Longrightarrow> forward_inv w \<Longrightarrow> distinct (map fst (fw_accepted w')) \<Longrightarrow> pumps_inv w \<Longrightarrow> pumps_inv w'"
proof (induction rule: forward_step.induct)
  case (frame w dial_err f)
  show ?case
  proof (cases f)
    case (TunnelAccept i)
    show ?thesis
    proof (cases dial_err)
      case None
      have e: "forward_frame dial_err f w = w\<lparr>fw_conns := (fw_conns w)(i \<mapsto> fw_next w), fw_open := fw_next w # fw_open w,
          fw_pumps := (i, fw_next w) # fw_pumps w, fw_accepted := (i, fw_next w) # fw_accepted w, fw_next := Suc (fw_next w)\<rparr>"
        by (simp add: forward_frame_def TunnelAccept None)
      have "i \<notin> fst ` set (fw_accepted w)" using frame(3) by (simp add: e)
      then have fresh: "j \<noteq> i \<and> n < fw_next w" if "(j, n) \<in> set (fw_pumps w)" for j n
        using forward_pump [OF frame(2) that] by force
      show ?thesis unfolding e
        using frame(4) fresh by (auto simp: pumps_inv_def)
    next
      case (Some e)
      then show ?thesis using frame TunnelAccept by (simp add: forward_frame_def send_request_def pumps_inv_def)
    qed
  next
    case (TunnelClose i)
    show ?thesis
    proof (cases "fw_conns w i")
      case None
      then show ?thesis using frame(4) by (auto simp: forward_frame_def TunnelClose fun_upd_idem)
    next
      case (Some n)
      show ?thesis
        unfolding forward_frame_def TunnelClose Some close_conn_def pumps_inv_def
        using frame(4) Some by (auto simp: pumps_inv_def Let_def)
    qed
  next
    case (TunnelTerminated reason detail)
    then show ?thesis using frame
      by (auto simp: forward_frame_def pumps_inv_def end_forward_def ran_def)
  qed (use frame in \<open>auto simp: forward_frame_def pumps_inv_def send_request_def split: option.splits\<close>)
next
  case (transport w err)
  then show ?case by (auto simp: pumps_inv_def end_forward_def ran_def)
next
  case (pump_eof i n w)
  then show ?case by (intro pumps_inv_end) (simp_all add: end_pump_def send_request_def)
next
  case (pump_err i n w e)
  then show ?case by (intro pumps_inv_end) (simp_all add: end_pump_def send_request_def)
qed (auto simp: pumps_inv_def send_request_def)

lemma reach_pumps: "forward_reach w \<Longrightarrow> distinct (map fst (fw_accepted w)) \<Longrightarrow> pumps_inv w"
proof (induction rule: forward_reach.induct)
  case forward_start
  show ?case by (simp add: pumps_inv_def new_forward_def)
next
  case (forward_next w w')
  then show ?case using pumps_inv_step forward_reach_inv distinct_accepted_step by blast
qed


text \<open>A connection that the host half-closes while the sandbox still sends.\<close>

definition half_closed :: forward where
  "half_closed = \<lparr>fw_conns = Map.empty, fw_open = [0], fw_pumps = [], fw_next = 1, fw_sent = [RequestHalfClose 7],
     fw_written = [], fw_dropped = [(7, ''x'')], fw_accepted = [(7, 0)],
     fw_end = Some (mapHostPortTunnelTermination (Some (REASON_SESSION_LOST, [])))\<rparr>"

lemma half_closed_reach: "forward_reach half_closed"
proof -
  let ?w1 = "forward_frame None (TunnelAccept 7) new_forward"
  let ?w2 = "end_pump (RequestHalfClose 7) 7 0 ?w1"
  let ?w3 = "forward_frame None (TunnelData 7 ''x'') ?w2"
  have "forward_reach ?w1" by (rule forward_next [OF forward_start frame]) (simp add: new_forward_def)
  then have "forward_reach ?w2"
    by (rule forward_next [OF _ pump_eof]) (simp add: forward_frame_def new_forward_def)
  then have "forward_reach ?w3"
    by (rule forward_next [OF _ frame]) (simp add: forward_frame_def new_forward_def end_pump_def send_request_def)
  then have "forward_reach (forward_frame None (TunnelTerminated REASON_SESSION_LOST []) ?w3)"
    by (rule forward_next [OF _ frame]) (simp add: forward_frame_def new_forward_def end_pump_def send_request_def)
  then show ?thesis
    by (simp add: forward_frame_def new_forward_def end_pump_def send_request_def end_forward_def half_closed_def)
qed


text \<open>A half-close by the host loses the connection: the end of its input removes the sub-stream from the
map without closing the connection, so what the sandbox still sends to it is dropped, and the
connection stays open when the tunnel has ended and nothing is left that could close it.\<close>

theorem half_close_leaks:
  "\<exists>w. forward_reach w \<and> fw_end w \<noteq> None \<and> fw_pumps w = [] \<and> fw_conns w = Map.empty \<and> fw_open w = [0] \<and>
     fw_sent w = [RequestHalfClose 7] \<and> fw_dropped w = [(7, ''x'')] \<and> fw_written w = []"
  using half_closed_reach by (intro exI [of _ half_closed]) (simp add: half_closed_def)

section \<open>Properties of the backoff\<close>

lemma backoff_base_exact:
  assumes "0 < initial" and "initial * 2 ^ (attempt - 1) < 2 ^ 63"
  shows "backoff_base initial maxb attempt = min (initial * 2 ^ (attempt - 1)) maxb"
proof -
  let ?p = "2 ^ (attempt - 1) :: int"
  have "?p \<le> initial * ?p" using assms(1) by (simp add: mult_le_cancel_right1)
  then have lt: "?p < 2 ^ 63" using assms(2) by linarith
  then have sh: "attempt - 1 < 63" by (rule power_less_imp_less_exp [of "2 :: int", rotated]) simp
  have "wrap64 ?p = ?p" using lt by (intro wrap64_id) (auto intro: order_trans [of _ 0])
  moreover have "wrap64 (initial * ?p) = initial * ?p"
    using assms by (intro wrap64_id) (auto intro: order_trans [of _ 0])
  ultimately show ?thesis using sh by (simp add: backoff_base_def Let_def)
qed

lemma wrap64_mult: "wrap64 (k * 2 ^ 64) = 0"
  by (simp add: wrap64_def mod_mult_self3 add.commute)

lemma go_trunc_nonneg: "0 \<le> q \<Longrightarrow> go_trunc q = \<lfloor>q\<rfloor>"
  by (simp add: go_trunc_def)

text \<open>As long as the doubled backoff fits in 63 bits, the delay before attempt n is \<open>initial * 2^(n-1)\<close>,
at most the maximum, spread by a quarter to either side.\<close>

theorem reconnect_delay_bounds:
  assumes "0 < initial" and "0 \<le> maxb" and "initial * 2 ^ (attempt - 1) < 2 ^ 63"
    and "3/4 \<le> jitter" and "jitter < 5/4"
  defines "b \<equiv> min (initial * 2 ^ (attempt - 1)) maxb"
  shows "3 * b div 4 \<le> jitteredBackoff jitter initial maxb attempt \<and>
    jitteredBackoff jitter initial maxb attempt \<le> 5 * b div 4"
proof -
  have b: "0 \<le> b" using assms(1,2) by (simp add: b_def)
  have e: "jitteredBackoff jitter initial maxb attempt = \<lfloor>of_int b * jitter\<rfloor>"
    using b assms(4) unfolding jitteredBackoff_def backoff_base_exact [OF assms(1,3), of maxb] b_def [symmetric]
    by (simp add: go_trunc_nonneg)
  have m: "of_int b * (3/4) \<le> of_int b * jitter" "of_int b * jitter \<le> of_int b * (5/4)"
    using b assms(4,5) by (intro mult_left_mono; simp)+
  have q: "\<lfloor>of_int b * (3/4 :: rat)\<rfloor> = 3 * b div 4" "\<lfloor>of_int b * (5/4 :: rat)\<rfloor> = 5 * b div 4"
    using floor_divide_of_int_eq [of "3 * b" 4, where 'a = rat] floor_divide_of_int_eq [of "5 * b" 4, where 'a = rat]
    by (simp_all add: field_simps)
  show ?thesis
    unfolding e q [symmetric] using floor_mono [OF m(1)] floor_mono [OF m(2)] by simp
qed

lemma reconnect_delay_bounds_witness:
  "375 * Millisecond \<le> jitteredBackoff 1 (250 * Millisecond) (10 * Second) 2 \<and>
   jitteredBackoff 1 (250 * Millisecond) (10 * Second) 2 \<le> 625 * Millisecond"
  using reconnect_delay_bounds [of "250 * Millisecond" "10 * Second" 2 1] by simp

text \<open>C40: The doubling overflows: with the default 250 ms, attempt 37 gets a negative delay, and from attempt 58
on, an outage of some minutes, every delay is 0, so the tunnel reconnects in a loop without any pause.\<close>

theorem reconnect_delay_overflows:
  "jitteredBackoff 1 (rp_InitialBackoff (resilient_defaults \<lparr>rp_InitialBackoff = 0, rp_MaxBackoff = 0\<rparr>))
      (rp_MaxBackoff (resilient_defaults \<lparr>rp_InitialBackoff = 0, rp_MaxBackoff = 0\<rparr>)) 37 < 0 \<and>
   jitteredBackoff jitter (rp_InitialBackoff (resilient_defaults \<lparr>rp_InitialBackoff = 0, rp_MaxBackoff = 0\<rparr>))
      (rp_MaxBackoff (resilient_defaults \<lparr>rp_InitialBackoff = 0, rp_MaxBackoff = 0\<rparr>)) (58 + n) = 0"
proof -
  have w: "wrap64 (250000000 * wrap64 (2 ^ (57 + n))) = 0"
  proof -
    define p :: int where "p = 2 ^ n"
    define q :: int where "q = (2 ^ 57 * p + 2 ^ 63) div 2 ^ 64"
    have "wrap64 (2 ^ (57 + n)) = 2 ^ 57 * p - 2 ^ 64 * q"
      by (simp add: wrap64_def p_def q_def power_add minus_mult_div_eq_mod [symmetric])
    then have "250000000 * wrap64 (2 ^ (57 + n)) = (1953125 * p - 250000000 * q) * 2 ^ 64"
      by (simp add: algebra_simps)
    then show ?thesis by (simp only: wrap64_mult)
  qed
  have "backoff_base (250 * Millisecond) (10 * Second) (58 + n) = 0"
    using w by (simp add: backoff_base_def Let_def wrap64_def)
  moreover have "backoff_base (250 * Millisecond) (10 * Second) 37 < 0"
    by (simp add: backoff_base_def wrap64_def Let_def)
  ultimately show ?thesis
    by (simp add: jitteredBackoff_def resilient_defaults_def go_trunc_def)
qed

section \<open>Properties of the tunnel that reconnects\<close>

text \<open>\<open>Close\<close> is not final: a reconnection that succeeds while \<open>Close\<close> runs sets the state back to open
and announces it after the tunnel was announced as closed; and when the context of the caller ends
instead, the loop returns without any termination, so \<open>Terminated\<close> and its listeners wait forever.\<close>

theorem resilient_close_not_final:
  "(\<exists>s. resilient_reach opt s \<and> hb_term (rz_hub s) = Some (terminated_by TunnelTerminationSDKClosed) \<and> \<not> rz_closing s \<and>
      rz_state s = TunnelStateOpen \<and> last (rz_events s) = EventOpen 9) \<and>
   (\<exists>s. resilient_reach opt s \<and> rz_loop s = LoopReturned \<and> rz_done s \<and> hb_listeners (rz_hub s) = [1] \<and>
      hb_term (rz_hub s) = None \<and> rz_state s = TunnelStateOpen)"
proof -
  let ?lost = "terminated_by TunnelTerminationTransportError"
  have "\<exists>s. resilient_reach opt s \<and> hb_term (rz_hub s) = Some (terminated_by TunnelTerminationSDKClosed) \<and> \<not> rz_closing s \<and>
      rz_state s = TunnelStateOpen \<and> last (rz_events s) = EventOpen 9"
  proof -
    let ?s0 = "ExposeHostPortResilient (''a'', 9)"
    let ?s1 = "watch ?lost ?s0"
    let ?s2 = "announce opt 1 ?lost ?s1"
    let ?s3 = "?s2\<lparr>rz_loop := Exposing ?lost\<rparr>"
    let ?s4 = "?s3\<lparr>rz_loop := Reopened (''a'', 9)\<rparr>"
    let ?s5 = "?s4\<lparr>rz_done := True, rz_closing := True\<rparr>"
    let ?s6 = "(resilient_finish (terminated_by TunnelTerminationSDKClosed) ?s5)\<lparr>rz_closing := False\<rparr>"
    let ?s7 = "adopt_tunnel (''a'', 9) ?s6"
    note defs = ExposeHostPortResilient_def watch_def shouldReconnectTunnel_def terminated_by_def announce_def Let_def
      emit_event_def resilient_finish_def adopt_tunnel_def new_hub_def finish_hub_def
    have "resilient_reach opt ?s0" by (rule resilient_start)
    then have "resilient_reach opt ?s1" by (rule resilient_next [OF _ watched]) (simp add: defs)
    then have "resilient_reach opt ?s2" by (rule resilient_next [OF _ announced]) (simp_all add: defs)
    then have "resilient_reach opt ?s3" by (rule resilient_next [OF _ slept]) (simp add: defs)
    then have "resilient_reach opt ?s4" by (rule resilient_next [OF _ exposed]) (simp_all add: defs)
    then have "resilient_reach opt ?s5" by (rule resilient_next [OF _ closes])
    then have "resilient_reach opt ?s6" by (rule resilient_next [OF _ closed]) simp
    then have "resilient_reach opt ?s7" by (rule resilient_next [OF _ adopted]) (simp add: defs)
    then show ?thesis by (intro exI [of _ ?s7]) (simp add: defs)
  qed
  moreover have "\<exists>s. resilient_reach opt s \<and> rz_loop s = LoopReturned \<and> rz_done s \<and> hb_listeners (rz_hub s) = [1] \<and>
      hb_term (rz_hub s) = None \<and> rz_state s = TunnelStateOpen"
  proof -
    let ?s0 = "ExposeHostPortResilient (''a'', 9)"
    let ?s1 = "resilient_OnTerminated 1 ?s0"
    let ?s2 = "?s1\<lparr>rz_done := True\<rparr>"
    let ?s3 = "watch ?lost ?s2"
    have "resilient_reach opt ?s1" by (rule resilient_next [OF resilient_start subscribed])
    then have "resilient_reach opt ?s2" by (rule resilient_next [OF _ cancelled])
    then have "resilient_reach opt ?s3"
      by (rule resilient_next [OF _ watched]) (simp add: resilient_OnTerminated_def ExposeHostPortResilient_def)
    then show ?thesis
      by (intro exI [of _ ?s3]) (simp add: watch_def resilient_OnTerminated_def ExposeHostPortResilient_def OnTerminated_def new_hub_def)
  qed
  ultimately show ?thesis by blast
qed

end
