(* ===== verification/Registry.thy ===== *)
theory Registry
  imports Options
begin

text \<open>
  The image registry (\<open>registry.go\<close>): the views built from server messages, the options of a listing,
  a publication and a share, and the requests. A call is its request and the conversion of the answer;
  what the server answers is an argument. A reference is either a raw image reference or an image ID,
  and which of the two is guessed from its shape.
\<close>

section \<open>Enumerations\<close>

text \<open>The SDK's kinds, visibilities and orders are strings; the wire has numbers.\<close>

datatype wire_kind = WIRE_KIND_UNSPECIFIED | WIRE_KIND_TEMPLATE | WIRE_KIND_SNAPSHOT | WIRE_KIND_OTHER int

datatype wire_visibility =
    WIRE_VISIBILITY_UNSPECIFIED | WIRE_VISIBILITY_PRIVATE | WIRE_VISIBILITY_PUBLIC | WIRE_VISIBILITY_SHARED
  | WIRE_VISIBILITY_OTHER int

datatype wire_sort = WIRE_SORT_UNSPECIFIED | WIRE_SORT_UPDATED_AT | WIRE_SORT_NAME

definition RegistryImageKindTemplate :: string where "RegistryImageKindTemplate = ''template''"

definition RegistryImageKindSnapshot :: string where "RegistryImageKindSnapshot = ''snapshot''"

definition RegistryVisibilityPrivate :: string where "RegistryVisibilityPrivate = ''private''"

definition RegistryVisibilityPublic :: string where "RegistryVisibilityPublic = ''public''"

definition RegistryVisibilityShared :: string where "RegistryVisibilityShared = ''shared''"

definition RegistrySortName :: string where "RegistrySortName = ''name''"

definition registryKindToProto :: "string \<Rightarrow> wire_kind option" where
  "registryKindToProto kind =
     (if kind = RegistryImageKindTemplate then Some WIRE_KIND_TEMPLATE
      else if kind = RegistryImageKindSnapshot then Some WIRE_KIND_SNAPSHOT
      else None)"

definition registryKindFromProto :: "wire_kind \<Rightarrow> string" where
  "registryKindFromProto kind = (case kind of
     WIRE_KIND_TEMPLATE \<Rightarrow> RegistryImageKindTemplate
   | WIRE_KIND_SNAPSHOT \<Rightarrow> RegistryImageKindSnapshot
   | _ \<Rightarrow> [])"

definition registryVisibilityToProto :: "string \<Rightarrow> wire_visibility" where
  "registryVisibilityToProto v =
     (if v = RegistryVisibilityPrivate then WIRE_VISIBILITY_PRIVATE
      else if v = RegistryVisibilityPublic then WIRE_VISIBILITY_PUBLIC
      else if v = RegistryVisibilityShared then WIRE_VISIBILITY_SHARED
      else WIRE_VISIBILITY_UNSPECIFIED)"

definition registryVisibilityFromProto :: "wire_visibility \<Rightarrow> string" where
  "registryVisibilityFromProto v = (case v of
     WIRE_VISIBILITY_PRIVATE \<Rightarrow> RegistryVisibilityPrivate
   | WIRE_VISIBILITY_PUBLIC \<Rightarrow> RegistryVisibilityPublic
   | WIRE_VISIBILITY_SHARED \<Rightarrow> RegistryVisibilityShared
   | _ \<Rightarrow> [])"

definition registrySortToProto :: "string \<Rightarrow> wire_sort" where
  "registrySortToProto s = (if s = RegistrySortName then WIRE_SORT_NAME else WIRE_SORT_UPDATED_AT)"

section \<open>Strings, maps and times\<close>

fun cleanStrings :: "string list \<Rightarrow> string list" where
  "cleanStrings [] = []"
| "cleanStrings (s # ss) = (if TrimSpace s = [] then cleanStrings ss else TrimSpace s # cleanStrings ss)"

definition cloneMap :: "(string, string) gomap \<Rightarrow> (string, string) gomap" where
  "cloneMap m = map_put_all m []"

definition looksLikeUUID :: "string \<Rightarrow> bool" where
  "looksLikeUUID s \<longleftrightarrow> length s = 36 \<and> length (filter (\<lambda>c. c = CHR ''-'') s) = 4"

definition timestampToTime :: "gotime option \<Rightarrow> gotime" where
  "timestampToTime t = (case t of None \<Rightarrow> 0 | Some t \<Rightarrow> t)"

text \<open>The getter of an optional string gives the empty string when it is not set.\<close>

definition get_string :: "string option \<Rightarrow> string" where
  "get_string s = (case s of None \<Rightarrow> [] | Some s \<Rightarrow> s)"

text \<open>A text that an option sets when it is not blank.\<close>

definition when_text :: "string \<Rightarrow> (string \<Rightarrow> 'r \<Rightarrow> 'r) \<Rightarrow> 'r \<Rightarrow> 'r" where
  "when_text s f req = (if TrimSpace s = [] then req else f (TrimSpace s) req)"

section \<open>Views\<close>

record tag_proto =
  tp_id :: string
  tp_image_id :: string
  tp_tag :: string
  tp_snapshot_id :: string
  tp_ref :: string
  tp_updated_at :: "gotime option"

record registry_tag =
  rg_ID :: string
  rg_ImageID :: string
  rg_Tag :: string
  rg_SnapshotID :: string
  rg_Ref :: string
  rg_UpdatedAt :: gotime

definition registryTagFromProto :: "tag_proto option \<Rightarrow> registry_tag option" where
  "registryTagFromProto t = map_option (\<lambda>t. \<lparr>rg_ID = tp_id t, rg_ImageID = tp_image_id t, rg_Tag = tp_tag t,
     rg_SnapshotID = tp_snapshot_id t, rg_Ref = tp_ref t, rg_UpdatedAt = timestampToTime (tp_updated_at t)\<rparr>) t"

definition registryTagsFromProto :: "tag_proto option list \<Rightarrow> registry_tag option list" where
  "registryTagsFromProto ts = map registryTagFromProto ts"

record image_proto =
  ip_id :: string
  ip_workspace_id :: "string option"
  ip_workspace_slug :: string
  ip_name :: string
  ip_kind :: wire_kind
  ip_visibility :: wire_visibility
  ip_title :: "string option"
  ip_description :: "string option"
  ip_labels :: "string list"
  ip_source_template_id :: "string option"
  ip_source_snapshot_id :: "string option"
  ip_tags :: "tag_proto option list"
  ip_created_at :: "gotime option"
  ip_updated_at :: "gotime option"
  ip_changes :: bool
  ip_digest :: "string option"
  ip_digest_ref :: "string option"

record registry_image = image_resource +
  ri_ID :: string
  ri_WorkspaceID :: string
  ri_Kind :: string
  ri_Visibility :: string
  ri_Title :: string
  ri_Description :: string
  ri_Labels :: "string list"
  ri_SourceTemplateID :: string
  ri_SourceSnapshotID :: string
  ri_Tags :: "registry_tag option list"
  ri_CreatedAt :: gotime
  ri_UpdatedAt :: gotime
  ri_Changes :: bool
  ri_Digest :: string

definition registryImageFromProto :: "image_proto option \<Rightarrow> registry_image option" where
  "registryImageFromProto i = map_option (\<lambda>i.
     \<lparr>ri_WorkspaceSlug = ip_workspace_slug i, ri_Name = ip_name i, ri_DigestRef = get_string (ip_digest_ref i),
      ri_ID = ip_id i, ri_WorkspaceID = get_string (ip_workspace_id i), ri_Kind = registryKindFromProto (ip_kind i),
      ri_Visibility = registryVisibilityFromProto (ip_visibility i), ri_Title = get_string (ip_title i),
      ri_Description = get_string (ip_description i), ri_Labels = ip_labels i,
      ri_SourceTemplateID = get_string (ip_source_template_id i),
      ri_SourceSnapshotID = get_string (ip_source_snapshot_id i), ri_Tags = registryTagsFromProto (ip_tags i),
      ri_CreatedAt = timestampToTime (ip_created_at i), ri_UpdatedAt = timestampToTime (ip_updated_at i),
      ri_Changes = ip_changes i, ri_Digest = get_string (ip_digest i)\<rparr>) i"

record image_summary_proto =
  isp_id :: string
  isp_workspace_id :: "string option"
  isp_workspace_slug :: string
  isp_name :: string
  isp_kind :: wire_kind
  isp_visibility :: wire_visibility
  isp_labels :: "string list"
  isp_tags :: "tag_proto option list"
  isp_latest_snapshot_id :: "string option"
  isp_latest_ref :: string
  isp_updated_at :: "gotime option"
  isp_changes :: bool

record image_summary =
  rm_ID :: string
  rm_WorkspaceID :: string
  rm_WorkspaceSlug :: string
  rm_Name :: string
  rm_Kind :: string
  rm_Visibility :: string
  rm_Labels :: "string list"
  rm_Tags :: "registry_tag option list"
  rm_LatestSnapshotID :: string
  rm_LatestRef :: string
  rm_UpdatedAt :: gotime
  rm_Changes :: bool

definition registrySummaryFromProto :: "image_summary_proto option \<Rightarrow> image_summary option" where
  "registrySummaryFromProto i = map_option (\<lambda>i.
     \<lparr>rm_ID = isp_id i, rm_WorkspaceID = get_string (isp_workspace_id i), rm_WorkspaceSlug = isp_workspace_slug i,
      rm_Name = isp_name i, rm_Kind = registryKindFromProto (isp_kind i),
      rm_Visibility = registryVisibilityFromProto (isp_visibility i), rm_Labels = isp_labels i,
      rm_Tags = registryTagsFromProto (isp_tags i), rm_LatestSnapshotID = get_string (isp_latest_snapshot_id i),
      rm_LatestRef = isp_latest_ref i, rm_UpdatedAt = timestampToTime (isp_updated_at i), rm_Changes = isp_changes i\<rparr>) i"

record image_detail_proto =
  dt_secret_policies :: "string list"
  dt_secret_env :: "(string, string) gomap"
  dt_secret_files :: "secret_file option list"
  dt_image :: "image_proto option"
  dt_snapshot_id :: "string option"
  dt_resolved_ref :: "string option"
  dt_workspace_active :: bool
  dt_tombstoned :: bool
  dt_masked_keys :: "string list"
  dt_metadata :: "(string, string) gomap"
  dt_env_vars :: "(string, string) gomap"

record image_detail =
  rd_RuntimeSecretPolicies :: "string list"
  rd_RuntimeSecretEnv :: "(string, string) gomap"
  rd_RuntimeSecretFiles :: "secret_file option list"
  rd_Image :: "registry_image option"
  rd_ResolvedSnapshotID :: string
  rd_ResolvedRef :: string
  rd_WorkspaceActive :: bool
  rd_Tombstoned :: bool
  rd_MaskedEnvVarKeys :: "string list"
  rd_Metadata :: "(string, string) gomap"
  rd_EnvVars :: "(string, string) gomap"

definition registryDetailFromProto :: "image_detail_proto option \<Rightarrow> image_detail option" where
  "registryDetailFromProto i = map_option (\<lambda>i.
     \<lparr>rd_RuntimeSecretPolicies = dt_secret_policies i, rd_RuntimeSecretEnv = cloneMap (dt_secret_env i),
      rd_RuntimeSecretFiles = dt_secret_files i, rd_Image = registryImageFromProto (dt_image i),
      rd_ResolvedSnapshotID = get_string (dt_snapshot_id i), rd_ResolvedRef = get_string (dt_resolved_ref i),
      rd_WorkspaceActive = dt_workspace_active i, rd_Tombstoned = dt_tombstoned i,
      rd_MaskedEnvVarKeys = dt_masked_keys i, rd_Metadata = cloneMap (dt_metadata i), rd_EnvVars = cloneMap (dt_env_vars i)\<rparr>) i"

record share_grant_proto =
  gp_id :: string
  gp_image_id :: string
  gp_owner_workspace_id :: string
  gp_target_workspace_id :: string
  gp_current_snapshot_id :: string
  gp_granted_via_token_id :: "string option"
  gp_accepted_by :: "string option"
  gp_accepted_at :: "gotime option"
  gp_revoked_at :: "gotime option"
  gp_follow_mode :: string
  gp_follow_tag :: "string option"

record share_grant =
  sg_ID :: string
  sg_ImageID :: string
  sg_OwnerWorkspaceID :: string
  sg_TargetWorkspaceID :: string
  sg_CurrentSnapshotID :: string
  sg_GrantedViaTokenID :: string
  sg_AcceptedBy :: string
  sg_AcceptedAt :: gotime
  sg_RevokedAt :: gotime
  sg_FollowMode :: string
  sg_FollowTag :: string

definition registryShareGrantFromProto :: "share_grant_proto option \<Rightarrow> share_grant option" where
  "registryShareGrantFromProto g = map_option (\<lambda>g.
     \<lparr>sg_ID = gp_id g, sg_ImageID = gp_image_id g, sg_OwnerWorkspaceID = gp_owner_workspace_id g,
      sg_TargetWorkspaceID = gp_target_workspace_id g, sg_CurrentSnapshotID = gp_current_snapshot_id g,
      sg_GrantedViaTokenID = get_string (gp_granted_via_token_id g), sg_AcceptedBy = get_string (gp_accepted_by g),
      sg_AcceptedAt = timestampToTime (gp_accepted_at g), sg_RevokedAt = timestampToTime (gp_revoked_at g),
      sg_FollowMode = gp_follow_mode g, sg_FollowTag = get_string (gp_follow_tag g)\<rparr>) g"

record resolved_proto =
  rp_image_id :: string
  rp_workspace_id :: "string option"
  rp_workspace_slug :: string
  rp_image_name :: string
  rp_tag :: "string option"
  rp_snapshot_id :: "string option"
  rp_kind :: wire_kind
  rp_visibility :: wire_visibility

record resolved_ref =
  rr_ImageID :: string
  rr_OwningWorkspaceID :: string
  rr_OwningWorkspaceSlug :: string
  rr_ImageName :: string
  rr_SnapshotID :: string
  rr_ResolvedRef :: string
  rr_Kind :: string
  rr_Visibility :: string

definition registryResolvedImage :: "resolved_proto \<Rightarrow> string" where
  "registryResolvedImage i =
     (let base = rp_workspace_slug i @ ''/'' @ rp_image_name i
      in if get_string (rp_tag i) \<noteq> [] then base @ '':'' @ get_string (rp_tag i)
         else if get_string (rp_snapshot_id i) \<noteq> [] then base @ ''@'' @ get_string (rp_snapshot_id i)
         else base)"

definition resolvedRegistryRefFromProto :: "resolved_proto option \<Rightarrow> resolved_ref option" where
  "resolvedRegistryRefFromProto i = map_option (\<lambda>i.
     \<lparr>rr_ImageID = rp_image_id i, rr_OwningWorkspaceID = get_string (rp_workspace_id i),
      rr_OwningWorkspaceSlug = rp_workspace_slug i, rr_ImageName = rp_image_name i,
      rr_SnapshotID = get_string (rp_snapshot_id i), rr_ResolvedRef = registryResolvedImage i,
      rr_Kind = registryKindFromProto (rp_kind i), rr_Visibility = registryVisibilityFromProto (rp_visibility i)\<rparr>) i"

section \<open>Options\<close>

record list_images =
  li_workspace_slug :: "string option"
  li_workspace_id :: "string option"
  li_labels :: "string list"
  li_kind :: "wire_kind option"
  li_name_substring :: "string option"
  li_sort_by :: wire_sort
  li_page_size :: "int option"
  li_cursor :: "string option"

definition no_list_images :: list_images where
  "no_list_images = \<lparr>li_workspace_slug = None, li_workspace_id = None, li_labels = [], li_kind = None,
     li_name_substring = None, li_sort_by = WIRE_SORT_UNSPECIFIED, li_page_size = None, li_cursor = None\<rparr>"

definition WithRegistryWorkspace :: "string \<Rightarrow> list_images \<Rightarrow> list_images" where
  "WithRegistryWorkspace s = when_text s (\<lambda>s. li_workspace_slug_update (\<lambda>_. Some s))"

definition WithRegistryWorkspaceID :: "string \<Rightarrow> list_images \<Rightarrow> list_images" where
  "WithRegistryWorkspaceID s = when_text s (\<lambda>s. li_workspace_id_update (\<lambda>_. Some s))"

definition WithRegistryLabels :: "string list \<Rightarrow> list_images \<Rightarrow> list_images" where
  "WithRegistryLabels labels req = req\<lparr>li_labels := li_labels req @ cleanStrings labels\<rparr>"

definition WithRegistryKind :: "string \<Rightarrow> list_images \<Rightarrow> list_images" where
  "WithRegistryKind kind req = req\<lparr>li_kind := registryKindToProto kind\<rparr>"

definition WithRegistryNameSubstring :: "string \<Rightarrow> list_images \<Rightarrow> list_images" where
  "WithRegistryNameSubstring s = when_text s (\<lambda>s. li_name_substring_update (\<lambda>_. Some s))"

definition WithRegistrySort :: "string \<Rightarrow> list_images \<Rightarrow> list_images" where
  "WithRegistrySort s req = req\<lparr>li_sort_by := registrySortToProto s\<rparr>"

definition WithRegistryPageSize :: "int \<Rightarrow> list_images \<Rightarrow> list_images" where
  "WithRegistryPageSize n req = (if 0 < n then req\<lparr>li_page_size := Some n\<rparr> else req)"

definition WithRegistryCursor :: "string \<Rightarrow> list_images \<Rightarrow> list_images" where
  "WithRegistryCursor s = when_text s (\<lambda>s. li_cursor_update (\<lambda>_. Some s))"

definition WithRegistryLookupWorkspaceID :: "string \<Rightarrow> string \<Rightarrow> string" where
  "WithRegistryLookupWorkspaceID workspaceID current = TrimSpace workspaceID"

record publish_image =
  pu_ref :: "string option"
  pu_workspace_id :: "string option"
  pu_name :: "string option"
  pu_kind :: wire_kind
  pu_source_template_id :: "string option"
  pu_snapshot_id :: "string option"
  pu_tag :: "string option"
  pu_visibility :: "wire_visibility option"
  pu_labels :: "string list"
  pu_title :: "string option"
  pu_description :: "string option"

definition no_publish_image :: publish_image where
  "no_publish_image = \<lparr>pu_ref = None, pu_workspace_id = None, pu_name = None, pu_kind = WIRE_KIND_UNSPECIFIED,
     pu_source_template_id = None, pu_snapshot_id = None, pu_tag = None, pu_visibility = None, pu_labels = [],
     pu_title = None, pu_description = None\<rparr>"

definition WithRegistryImage :: "string \<Rightarrow> publish_image \<Rightarrow> publish_image" where
  "WithRegistryImage s = when_text s (\<lambda>s. pu_ref_update (\<lambda>_. Some s))"

definition WithRegistryWorkspaceName :: "string \<Rightarrow> string \<Rightarrow> publish_image \<Rightarrow> publish_image" where
  "WithRegistryWorkspaceName workspaceID name req =
     when_text name (\<lambda>s. pu_name_update (\<lambda>_. Some s)) (when_text workspaceID (\<lambda>s. pu_workspace_id_update (\<lambda>_. Some s)) req)"

definition WithRegistryTemplate :: "string \<Rightarrow> publish_image \<Rightarrow> publish_image" where
  "WithRegistryTemplate s = when_text s (\<lambda>s req. req\<lparr>pu_kind := WIRE_KIND_TEMPLATE, pu_source_template_id := Some s\<rparr>)"

definition WithRegistrySnapshot :: "string \<Rightarrow> publish_image \<Rightarrow> publish_image" where
  "WithRegistrySnapshot s = when_text s (\<lambda>s req. req\<lparr>pu_kind := WIRE_KIND_SNAPSHOT, pu_snapshot_id := Some s\<rparr>)"

definition WithRegistryTag :: "string \<Rightarrow> publish_image \<Rightarrow> publish_image" where
  "WithRegistryTag s = when_text s (\<lambda>s. pu_tag_update (\<lambda>_. Some s))"

definition WithRegistryVisibility :: "string \<Rightarrow> publish_image \<Rightarrow> publish_image" where
  "WithRegistryVisibility v req =
     (if registryVisibilityToProto v \<noteq> WIRE_VISIBILITY_UNSPECIFIED
      then req\<lparr>pu_visibility := Some (registryVisibilityToProto v)\<rparr> else req)"

definition WithRegistryPublishLabels :: "string list \<Rightarrow> publish_image \<Rightarrow> publish_image" where
  "WithRegistryPublishLabels labels req = req\<lparr>pu_labels := pu_labels req @ cleanStrings labels\<rparr>"

definition WithRegistryTitle :: "string \<Rightarrow> publish_image \<Rightarrow> publish_image" where
  "WithRegistryTitle s = when_text s (\<lambda>s. pu_title_update (\<lambda>_. Some s))"

definition WithRegistryDescription :: "string \<Rightarrow> publish_image \<Rightarrow> publish_image" where
  "WithRegistryDescription s = when_text s (\<lambda>s. pu_description_update (\<lambda>_. Some s))"

record share_image =
  sh_target_workspace_id :: string
  sh_image_id :: "string option"
  sh_image_ref :: "string option"
  sh_tag :: "string option"
  sh_snapshot_id :: "string option"

definition WithRegistryShareTag :: "string \<Rightarrow> share_image \<Rightarrow> share_image" where
  "WithRegistryShareTag s = when_text s (\<lambda>s. sh_tag_update (\<lambda>_. Some s))"

definition WithRegistryShareSnapshotID :: "string \<Rightarrow> share_image \<Rightarrow> share_image" where
  "WithRegistryShareSnapshotID s = when_text s (\<lambda>s. sh_snapshot_id_update (\<lambda>_. Some s))"

section \<open>Requests\<close>

text \<open>A reference or an ID, and the reason that some calls take.\<close>

record image_target =
  it_ref :: "string option"
  it_image_id :: "string option"

definition image_or_id :: "string \<Rightarrow> image_target" where
  "image_or_id v = (if looksLikeUUID v then \<lparr>it_ref = None, it_image_id = Some v\<rparr> else \<lparr>it_ref = Some v, it_image_id = None\<rparr>)"

definition opt_text :: "string \<Rightarrow> string option" where
  "opt_text s = (if TrimSpace s = [] then None else Some (TrimSpace s))"

text \<open>The outcome of a call: its answer converted, or its error mapped.\<close>

definition answered :: "('p \<Rightarrow> 'a) \<Rightarrow> (go_error, 'p) result \<Rightarrow> (go_error, 'a) result" where
  "answered f reply = (case reply of Inl err \<Rightarrow> Inl (mapErr err) | Inr p \<Rightarrow> Inr (f p))"

text \<open>The listings: \<open>serve\<close> answers a request with a page and the next token, \<open>req\<close> makes the request of a token.\<close>

definition paged ::
  "('s \<Rightarrow> 'q \<Rightarrow> 's \<times> (go_error, 'p list \<times> string) result) \<Rightarrow> (string \<Rightarrow> 'q) \<Rightarrow> ('p list \<Rightarrow> 'a list) \<Rightarrow> 's
    \<Rightarrow> (go_error, 'a list) result option" where
  "paged serve req view s =
     page_loop (\<lambda>s tok. case serve s (req tok) of
         (s', Inl e) \<Rightarrow> (s', Inl e)
       | (s', Inr (ps, next)) \<Rightarrow> (s', Inr (view ps, next))) s [] []"

definition list_images_request :: "list_images opt_fn list \<Rightarrow> list_images" where
  "list_images_request opts = apply_opts opts no_list_images"

definition ListRegistryImages ::
  "(list_images \<Rightarrow> (go_error, image_summary_proto option list \<times> string) result) \<Rightarrow> list_images opt_fn list
    \<Rightarrow> (go_error, image_summary option list \<times> string) result" where
  "ListRegistryImages call opts =
     answered (\<lambda>(images, next). (map registrySummaryFromProto images, next)) (call (list_images_request opts))"

definition lookup_workspace :: "string opt_fn list \<Rightarrow> string option" where
  "lookup_workspace opts = (let w = apply_opts opts [] in if w \<noteq> [] then Some w else None)"

definition GetRegistryImage ::
  "(image_target \<times> string option \<Rightarrow> (go_error, image_detail_proto option) result) \<Rightarrow> string \<Rightarrow> string opt_fn list
    \<Rightarrow> (go_error, image_detail option) result" where
  "GetRegistryImage call imageOrID opts =
     answered registryDetailFromProto (call (image_or_id (TrimSpace imageOrID), lookup_workspace opts))"

definition ResolveRegistryRef ::
  "(string \<times> string option \<Rightarrow> (go_error, resolved_proto option) result) \<Rightarrow> string \<Rightarrow> string opt_fn list
    \<Rightarrow> (go_error, resolved_ref option) result" where
  "ResolveRegistryRef call imageRef opts =
     answered resolvedRegistryRefFromProto (call (TrimSpace imageRef, lookup_workspace opts))"

definition publish_request :: "publish_image opt_fn list \<Rightarrow> publish_image" where
  "publish_request opts = apply_opts opts no_publish_image"

definition PublishRegistryImage ::
  "(publish_image \<Rightarrow> (go_error, image_proto option \<times> tag_proto option \<times> string \<times> string) result) \<Rightarrow> publish_image opt_fn list
    \<Rightarrow> (go_error, registry_image option \<times> registry_tag option \<times> string \<times> string) result" where
  "PublishRegistryImage call opts =
     answered (\<lambda>(i, t, s, d). (registryImageFromProto i, registryTagFromProto t, s, d)) (call (publish_request opts))"

text \<open>\<open>strings.LastIndex\<close> of a byte, -1 when there is none.\<close>

definition LastIndex :: "string \<Rightarrow> char \<Rightarrow> int" where
  "LastIndex s c = (case find_index (\<lambda>d. d = c) (rev s) of None \<Rightarrow> - 1 | Some n \<Rightarrow> len s - 1 - int n)"

text \<open>A tag is cut off: what follows the last colon behind the last slash.\<close>

definition untagged :: "string \<Rightarrow> string" where
  "untagged v =
     (if Contains v ''/'' then
        (let slash = LastIndex v (CHR ''/''); colon = LastIndex v (CHR '':'')
         in if slash < colon then take (nat colon) v else v)
      else v)"

definition UnpublishRegistryImage ::
  "(image_target \<times> wire_visibility \<Rightarrow> (go_error, image_proto option) result) \<Rightarrow> string \<Rightarrow> (go_error, registry_image option) result" where
  "UnpublishRegistryImage call imageOrID =
     answered registryImageFromProto (call (image_or_id (untagged (TrimSpace imageOrID)), WIRE_VISIBILITY_PRIVATE))"

definition share_request :: "string \<Rightarrow> string \<Rightarrow> share_image opt_fn list \<Rightarrow> share_image" where
  "share_request imageOrID targetWorkspaceID opts =
     (let v = TrimSpace imageOrID
      in apply_opts opts
        \<lparr>sh_target_workspace_id = TrimSpace targetWorkspaceID, sh_image_id = (if looksLikeUUID v then Some v else None),
         sh_image_ref = (if \<not> looksLikeUUID v \<and> v \<noteq> [] then Some v else None), sh_tag = None, sh_snapshot_id = None\<rparr>)"

definition ShareImage ::
  "(share_image \<Rightarrow> (go_error, image_proto option \<times> string \<times> string \<times> share_grant_proto option) result) \<Rightarrow> string \<Rightarrow> string
    \<Rightarrow> share_image opt_fn list \<Rightarrow> (go_error, registry_image option \<times> string \<times> string \<times> share_grant option) result" where
  "ShareImage call imageOrID targetWorkspaceID opts =
     answered (\<lambda>(i, s, d, g). (registryImageFromProto i, s, d, registryShareGrantFromProto g))
       (call (share_request imageOrID targetWorkspaceID opts))"

definition RevokeRegistryShareGrant ::
  "(string \<times> string option \<Rightarrow> (go_error, share_grant_proto option) result) \<Rightarrow> string \<Rightarrow> string \<Rightarrow> (go_error, share_grant option) result" where
  "RevokeRegistryShareGrant call grantID reason =
     answered registryShareGrantFromProto (call (TrimSpace grantID, opt_text reason))"

definition ListRegistryShareGrants ::
  "(image_target \<Rightarrow> (go_error, share_grant_proto option list) result) \<Rightarrow> string \<Rightarrow> (go_error, share_grant option list) result" where
  "ListRegistryShareGrants call imageOrID =
     answered (map registryShareGrantFromProto) (call (image_or_id (TrimSpace imageOrID)))"

definition DeleteRegistryImage ::
  "(image_target \<times> string option \<Rightarrow> (go_error, image_proto option \<times> int \<times> int) result) \<Rightarrow> string \<Rightarrow> string
    \<Rightarrow> (go_error, registry_image option \<times> int \<times> int) result" where
  "DeleteRegistryImage call imageOrID reason =
     answered (\<lambda>(i, t, g). (registryImageFromProto i, t, g)) (call (image_or_id (TrimSpace imageOrID), opt_text reason))"

definition DeleteRegistryImageVersion ::
  "(string \<times> string \<Rightarrow> (go_error, string \<times> string) result) \<Rightarrow> string \<Rightarrow> string \<Rightarrow> (go_error, string \<times> string) result" where
  "DeleteRegistryImageVersion call imageID snapshotID =
     answered (\<lambda>r. r) (call (TrimSpace imageID, TrimSpace snapshotID))"

definition UnshareRegistryImage ::
  "(image_target \<times> string option \<Rightarrow> (go_error, image_proto option \<times> int \<times> int) result) \<Rightarrow> string \<Rightarrow> string
    \<Rightarrow> (go_error, registry_image option \<times> int \<times> int) result" where
  "UnshareRegistryImage call imageOrID reason =
     answered (\<lambda>(i, t, g). (registryImageFromProto i, t, g)) (call (image_or_id (TrimSpace imageOrID), opt_text reason))"

section \<open>Properties\<close>

lemma find_index_skip:
  "\<not> list_ex p xs \<Longrightarrow> find_index p (xs @ ys) = map_option (\<lambda>n. length xs + n) (find_index p ys)"
  by (induction xs; cases "find_index p ys") auto

lemma find_index_None: "find_index p xs = None \<longleftrightarrow> \<not> list_ex p xs"
  by (induction xs) auto

lemma LastIndex_bound: "LastIndex s c < len s"
  using find_index_Some [of "\<lambda>d. d = c" "rev s"] by (auto simp: LastIndex_def split: option.splits)

lemma LastIndex_append:
  assumes "c \<notin> set t"
  shows "LastIndex (s @ t) c = LastIndex s c" and "LastIndex (s @ c # t) c = len s"
proof -
  have "\<not> list_ex (\<lambda>d. d = c) (rev t)" using assms by (auto simp: list_ex_iff)
  note skip = find_index_skip [OF this]
  show "LastIndex (s @ t) c = LastIndex s c"
    by (simp add: LastIndex_def skip split: option.splits)
  show "LastIndex (s @ c # t) c = len s"
    by (simp add: LastIndex_def skip)
qed

text \<open>Unpublishing an image by its tagged reference addresses the image itself: exactly the part from
the last colon on is cut when the reference names a workspace, so the reference that the SDK resolved
to a tag comes back as workspace and name. The same cut is made in a digest reference, of which the
algorithm is left as part of the name.\<close>

theorem unpublish_untags:
  assumes "CHR '':'' \<notin> set tag" and "CHR ''/'' \<notin> set tag" and "rp_tag i = Some tag" and "tag \<noteq> []"
  shows "untagged (registryResolvedImage i) = rp_workspace_slug i @ ''/'' @ rp_image_name i \<and>
    untagged (rp_workspace_slug i @ ''/'' @ rp_image_name i @ ''@sha256:'' @ tag) =
      rp_workspace_slug i @ ''/'' @ rp_image_name i @ ''@sha256''"
proof -
  have cut: "untagged (base @ '':'' @ tag) = base" if "Contains base ''/''" for base
  proof -
    from that have "Contains (base @ '':'' @ tag) ''/''" by (auto simp: Contains_iff) (metis append.assoc append_Cons)
    moreover have "LastIndex (base @ '':'' @ tag) (CHR ''/'') = LastIndex base (CHR ''/'')"
      using LastIndex_append(1) [of "CHR ''/''" "'':'' @ tag" base] assms(2) by simp
    moreover have "LastIndex (base @ '':'' @ tag) (CHR '':'') = len base"
      using LastIndex_append(2) [OF assms(1), of base] by simp
    ultimately show ?thesis using LastIndex_bound [of base "CHR ''/''"] by (simp add: untagged_def Let_def)
  qed
  have slash: "Contains (rp_workspace_slug i @ ''/'' @ x) ''/''" for x by (auto simp: Contains_iff)
  show ?thesis
    using cut [OF slash, of "rp_image_name i"] cut [OF slash, of "rp_image_name i @ ''@sha256''"] assms(3,4)
    by (simp add: registryResolvedImage_def get_string_def Let_def)
qed

lemma unpublish_untags_witness:
  "untagged (registryResolvedImage \<lparr>rp_image_id = ''i'', rp_workspace_id = None, rp_workspace_slug = ''acme'',
     rp_image_name = ''api'', rp_tag = Some ''v1'', rp_snapshot_id = None, rp_kind = WIRE_KIND_TEMPLATE,
     rp_visibility = WIRE_VISIBILITY_PRIVATE\<rparr>) = ''acme/api''"
  using unpublish_untags [of "''v1''" "\<lparr>rp_image_id = ''i'', rp_workspace_id = None, rp_workspace_slug = ''acme'',
     rp_image_name = ''api'', rp_tag = Some ''v1'', rp_snapshot_id = None, rp_kind = WIRE_KIND_TEMPLATE,
     rp_visibility = WIRE_VISIBILITY_PRIVATE\<rparr>"] by simp

text \<open>An image reference may be taken for an image ID: a workspace and a name of 36 characters with four
dashes are sent as the ID, so the reference that the SDK itself renders cannot be used to look it up.\<close>

theorem image_ref_taken_for_id:
  "\<exists>i. ri_WorkspaceSlug i = ''acme'' \<and> ri_Name i = ''frontends-image-for-one-deploys'' \<and>
     image_or_id (RegistryImage_Ref (Some i)) = \<lparr>it_ref = None, it_image_id = Some (RegistryImage_Ref (Some i))\<rparr>"
  by (intro exI [of _ "\<lparr>ri_WorkspaceSlug = ''acme'', ri_Name = ''frontends-image-for-one-deploys'', ri_DigestRef = []\<rparr>"])
    (simp add: image_or_id_def looksLikeUUID_def RegistryImage_Ref_def)

text \<open>The enumerations of the SDK survive the wire.\<close>

lemma registry_enums_roundtrip:
  "registryKindToProto (registryKindFromProto k) = (if k = WIRE_KIND_TEMPLATE \<or> k = WIRE_KIND_SNAPSHOT then Some k else None)"
  "registryVisibilityToProto (registryVisibilityFromProto v) =
     (if v = WIRE_VISIBILITY_PRIVATE \<or> v = WIRE_VISIBILITY_PUBLIC \<or> v = WIRE_VISIBILITY_SHARED then v else WIRE_VISIBILITY_UNSPECIFIED)"
  by (cases k; simp add: registryKindFromProto_def registryKindToProto_def RegistryImageKindTemplate_def RegistryImageKindSnapshot_def)
    (cases v; simp add: registryVisibilityFromProto_def registryVisibilityToProto_def RegistryVisibilityPrivate_def
      RegistryVisibilityPublic_def RegistryVisibilityShared_def)

text \<open>
  What a publication is of: \<open>Some (Inl t)\<close> a template, \<open>Some (Inr s)\<close> a snapshot, by its kind. The last
  source option decides; the source of an earlier one stays in the request.
\<close>

definition publish_source :: "publish_image \<Rightarrow> (string + string) option" where
  "publish_source req = (case pu_kind req of
     WIRE_KIND_TEMPLATE \<Rightarrow> map_option Inl (pu_source_template_id req)
   | WIRE_KIND_SNAPSHOT \<Rightarrow> map_option Inr (pu_snapshot_id req)
   | _ \<Rightarrow> None)"

lemma publish_source_last:
  assumes "TrimSpace s \<noteq> []"
  shows "publish_source (WithRegistrySnapshot s req) = Some (Inr (TrimSpace s))"
    "publish_source (WithRegistryTemplate s req) = Some (Inl (TrimSpace s))"
    "pu_source_template_id (WithRegistrySnapshot s (WithRegistryTemplate s req)) = Some (TrimSpace s)"
  using assms by (simp_all add: publish_source_def WithRegistrySnapshot_def WithRegistryTemplate_def when_text_def)

text \<open>A finite listing is returned whole, whatever the view of a page is.\<close>

lemma serves_view:
  "serves (\<lambda>s tok. serve s (req tok)) s tok ps \<Longrightarrow>
   serves (\<lambda>s tok. case serve s (req tok) of (s', Inl e) \<Rightarrow> (s', Inl e) | (s', Inr (ps, next)) \<Rightarrow> (s', Inr (view ps, next)))
     s tok (map view ps)"
  by (induction ps arbitrary: s tok) (auto split: prod.splits sum.splits if_splits)

text \<open>The converse: a listing that succeeds was served to its end.\<close>

lemma page_loop_served:
  assumes "page_loop fetch s tok acc = Some r"
  shows "\<forall>xs. r = Inr xs \<longrightarrow> (\<exists>ps. serves fetch s tok ps \<and> xs = acc @ concat ps)"
proof (rule page_loop.raw_induct [where P = "\<lambda>fetch s tok acc r.
    \<forall>xs. r = Inr xs \<longrightarrow> (\<exists>ps. serves fetch s tok ps \<and> xs = acc @ concat ps)", OF _ assms])
  fix loop fetch s tok acc r
  assume hyps: "(case fetch s tok of
        (s', Inl e) \<Rightarrow> Some (Inl (mapErr e))
      | (s', Inr (items, next)) \<Rightarrow>
          (case advancePageToken tok next of
             Inl e \<Rightarrow> Some (Inl e)
           | Inr tok' \<Rightarrow> if tok' = [] then Some (Inr (acc @ items)) else loop fetch s' tok' (acc @ items))) = Some r"
    and IH: "\<And>fetch s tok acc r. loop fetch s tok acc = Some r \<Longrightarrow>
      \<forall>xs. r = Inr xs \<longrightarrow> (\<exists>ps. serves fetch s tok ps \<and> xs = acc @ concat ps)"
  obtain s' reply where f: "fetch s tok = (s', reply)" by (cases "fetch s tok")
  show "\<forall>xs. r = Inr xs \<longrightarrow> (\<exists>ps. serves fetch s tok ps \<and> xs = acc @ concat ps)"
  proof (intro allI impI)
    fix xs
    assume xs: "r = Inr xs"
    with f hyps obtain items "next" where reply: "reply = Inr (items, next)" by (cases reply) auto
    show "\<exists>ps. serves fetch s tok ps \<and> xs = acc @ concat ps"
    proof (cases "TrimSpace next = []")
      case True
      with hyps f reply xs have "serves fetch s tok [items] \<and> xs = acc @ concat [items]"
        by (simp add: advancePageToken_def Let_def split: if_splits)
      then show ?thesis by blast
    next
      case False
      with hyps f reply xs have again: "TrimSpace next \<noteq> tok" "loop fetch s' (TrimSpace next) (acc @ items) = Some (Inr xs)"
        by (auto simp: advancePageToken_def Let_def split: if_splits)
      from IH [OF again(2)] obtain ps where ps: "serves fetch s' (TrimSpace next) ps" "xs = (acc @ items) @ concat ps" by blast
      then have "ps \<noteq> []" by auto
      with f reply False again ps have "serves fetch s tok (items # ps) \<and> xs = acc @ concat (items # ps)" by simp
      then show ?thesis by blast
    qed
  qed
qed

lemma page_loop_exact:
  "page_loop fetch s tok acc = Some (Inr xs) \<longleftrightarrow> (\<exists>ps. serves fetch s tok ps \<and> xs = acc @ concat ps)"
  using page_loop_served [of fetch s tok acc "Inr xs"] page_loop_serves [of fetch s tok _ acc] by auto

lemma serves_view_inv:
  "serves (\<lambda>s tok. case fetch s tok of (s', Inl e) \<Rightarrow> (s', Inl e) | (s', Inr (ps, next)) \<Rightarrow> (s', Inr (view ps, next))) s tok qs
   \<Longrightarrow> \<exists>ps. serves fetch s tok ps \<and> qs = map view ps"
proof (induction qs arbitrary: s tok)
  case (Cons q qs)
  obtain s' reply where f: "fetch s tok = (s', reply)" by (cases "fetch s tok")
  with Cons.prems obtain items "next" where reply: "reply = Inr (items, next)" by (cases reply) auto
  show ?case
  proof (cases "qs = []")
    case True
    with Cons.prems f reply show ?thesis by (intro exI [of _ "[items]"]) simp
  next
    case False
    with Cons.prems f reply have again: "TrimSpace next \<noteq> []" "TrimSpace next \<noteq> tok" "view items = q" and
      rest: "serves (\<lambda>s tok. case fetch s tok of (s', Inl e) \<Rightarrow> (s', Inl e) | (s', Inr (ps, next)) \<Rightarrow> (s', Inr (view ps, next)))
        s' (TrimSpace next) qs" by simp_all
    from Cons.IH [OF rest] obtain ps where ps: "serves fetch s' (TrimSpace next) ps" "qs = map view ps" by (elim exE conjE)
    with False f reply again show ?thesis by (intro exI [of _ "items # ps"]) simp
  qed
qed simp

lemma paged_exact:
  "paged serve req view s = Some (Inr xs) \<longleftrightarrow>
     (\<exists>ps. serves (\<lambda>s tok. serve s (req tok)) s [] ps \<and> xs = concat (map view ps))"
proof -
  let ?fetch = "\<lambda>s tok. case serve s (req tok) of (s', Inl e) \<Rightarrow> (s', Inl e) | (s', Inr (ps, next)) \<Rightarrow> (s', Inr (view ps, next))"
  have "(\<exists>qs. serves ?fetch s [] qs \<and> xs = [] @ concat qs) \<longleftrightarrow>
      (\<exists>ps. serves (\<lambda>s tok. serve s (req tok)) s [] ps \<and> xs = concat (map view ps))"
  proof (rule iffI; elim exE conjE)
    fix qs
    assume qs: "serves ?fetch s [] qs" "xs = [] @ concat qs"
    from serves_view_inv [where fetch = "\<lambda>s tok. serve s (req tok)", OF qs(1)] obtain ps where "serves (\<lambda>s tok. serve s (req tok)) s [] ps" "qs = map view ps" by (elim exE conjE)
    with qs(2) show "\<exists>ps. serves (\<lambda>s tok. serve s (req tok)) s [] ps \<and> xs = concat (map view ps)" by (intro exI [of _ ps]) simp
  next
    fix ps
    assume ps: "serves (\<lambda>s tok. serve s (req tok)) s [] ps" "xs = concat (map view ps)"
    from serves_view [of serve req s "[]" ps view, OF ps(1)] have "serves ?fetch s [] (map view ps)" .
    with ps(2) show "\<exists>qs. serves ?fetch s [] qs \<and> xs = [] @ concat qs" by (intro exI [of _ "map view ps"]) simp
  qed
  then show ?thesis unfolding paged_def page_loop_exact .
qed

text \<open>
  The interface of a listing call: it pages through the server with its request, and shows each page through its
  view. What a caller may rely on follows once for all of them.
\<close>

locale listing =
  fixes listed :: "('s \<Rightarrow> 'q \<Rightarrow> 's \<times> (go_error, 'p list \<times> string) result) \<Rightarrow> 's \<Rightarrow> (go_error, 'a list) result option"
    and request :: "string \<Rightarrow> 'q"
    and view :: "'p list \<Rightarrow> 'a list"
  assumes pages: "listed serve s = paged serve request view s"
begin

lemma exact:
  "listed serve s = Some (Inr xs) \<longleftrightarrow>
     (\<exists>ps. serves (\<lambda>s tok. serve s (request tok)) s [] ps \<and> xs = concat (map view ps))"
  by (simp only: pages paged_exact)

lemma refused: "serve s (request []) = (s', Inl e) \<Longrightarrow> listed serve s = Some (Inl (mapErr e))"
  unfolding pages paged_def by (subst page_loop.simps) simp

end

end
