(* ===== verification/TemplateValidate.thy ===== *)
theory TemplateValidate
  imports TemplateSpec Resource_Limits
begin

text \<open>
  The client-side validation of a template recipe (the second half of \<open>template_spec.go\<close>). Each
  validator of the code reports through a callback \<open>add\<close>; here it returns the list of the
  violations it reports, in order. The contract the server documents is stated beside them, as a
  predicate on the recipe, and \<open>Validate\<close> is proved to accept exactly the recipes that meet it.
\<close>

section \<open>Reporting\<close>

definition viol :: "string \<Rightarrow> string \<Rightarrow> string \<Rightarrow> violation" where
  "viol field rule message = \<lparr>v_field = field, v_rule = rule, v_message = message\<rparr>"

text \<open>\<open>if cond { add(...) }\<close>\<close>

definition add_if :: "bool \<Rightarrow> string \<Rightarrow> string \<Rightarrow> string \<Rightarrow> violation list" where
  "add_if cond field rule message = (if cond then [viol field rule message] else [])"

lemma add_if_Nil [simp]: "add_if c f r m = [] \<longleftrightarrow> \<not> c"
  by (simp add: add_if_def)

lemma set_add_if [simp]: "set (add_if c f r m) = (if c then {viol f r m} else {})"
  by (simp add: add_if_def)

text \<open>The loop \<open>for index, x := range xs\<close> of a validator.\<close>

fun indexed :: "(nat \<Rightarrow> 'a \<Rightarrow> violation list) \<Rightarrow> nat \<Rightarrow> 'a list \<Rightarrow> violation list" where
  "indexed f i [] = []"
| "indexed f i (x # xs) = f i x @ indexed f (Suc i) xs"

lemma indexed_Nil_iff: "indexed f i xs = [] \<longleftrightarrow> (\<forall>j < length xs. f (i + j) (xs ! j) = [])"
proof (induction xs arbitrary: i)
  case (Cons x xs)
  show ?case by (auto simp: Cons.IH less_Suc_eq_0_disj nth_Cons split: nat.splits)
qed simp

lemma indexed_Nil_list_all:
  "(\<And>i x. f i x = [] \<longleftrightarrow> P x) \<Longrightarrow> indexed f i xs = [] \<longleftrightarrow> list_all P xs"
  by (induction xs arbitrary: i) auto

definition indexed_field :: "string \<Rightarrow> nat \<Rightarrow> string" where
  "indexed_field field i = field @ ''['' @ show_nat i @ '']''"

text \<open>
  The loop that reports a repeated element once: an element seen before is not recorded again
  only where it is the first repetition.
\<close>

fun unique_loop :: "(nat \<Rightarrow> 'a \<Rightarrow> violation list) \<Rightarrow> violation \<Rightarrow> 'a list \<Rightarrow> bool \<Rightarrow> nat \<Rightarrow> 'a list
    \<Rightarrow> violation list" where
  "unique_loop f dup seen reported i [] = []"
| "unique_loop f dup seen reported i (x # xs) =
     (if x \<in> set seen \<and> \<not> reported
      then dup # f i x @ unique_loop f dup seen True (Suc i) xs
      else f i x @ unique_loop f dup (x # seen) reported (Suc i) xs)"

lemma unique_loop_Nil:
  assumes "\<And>i x. f i x = [] \<longleftrightarrow> P x"
  shows "unique_loop f dup seen False i xs = [] \<longleftrightarrow>
    distinct xs \<and> set seen \<inter> set xs = {} \<and> list_all P xs"
  by (induction xs arbitrary: seen i) (auto simp: assms)

section \<open>Validators\<close>

definition maxTemplatePathLength :: int where "maxTemplatePathLength = 4096"

definition validateStringLength :: "string \<Rightarrow> string \<Rightarrow> int \<Rightarrow> int \<Rightarrow> violation list" where
  "validateStringLength field val minLength maxLength =
     add_if (int (RuneCount val) < minLength \<or> maxLength < int (RuneCount val)) field ''length''
       (''must be between '' @ show_int minLength @ '' and '' @ show_int maxLength @ '' characters'')"

definition path_too_long :: "string \<Rightarrow> string \<Rightarrow> string \<Rightarrow> violation list" where
  "path_too_long what field p =
     add_if (maxTemplatePathLength < int (RuneCount p)) field ''max_len''
       (what @ '' cannot exceed '' @ show_int maxTemplatePathLength @ '' characters'')"

definition validateOptionalAbsolutePath :: "string \<Rightarrow> string \<Rightarrow> violation list" where
  "validateOptionalAbsolutePath field p =
     path_too_long ''path'' field p @
     add_if (p \<noteq> [] \<and> \<not> HasPrefix p ''/'') field ''absolute_path'' ''path must be absolute''"

definition validateAbsolutePath :: "string \<Rightarrow> string \<Rightarrow> violation list" where
  "validateAbsolutePath field p =
     (if p = [] then [viol field ''required'' ''path is required'']
      else validateOptionalAbsolutePath field p)"

definition contextRelativePathViolation :: "string \<Rightarrow> string" where
  "contextRelativePathViolation p =
     (if p = [] then ''path is required''
      else if HasPrefix p ''/'' then ''path must be relative to the Git context''
      else if ''..'' \<in> set (split_on (CHR ''/'') p)
        then ''path cannot traverse above the Git context''
      else [])"

definition validateCommandOrArgv :: "string \<Rightarrow> string \<Rightarrow> string list \<Rightarrow> violation list" where
  "validateCommandOrArgv field command argv =
     add_if ((command \<noteq> []) = (argv \<noteq> [])) field ''command_or_argv''
       ''exactly one of command or argv is required'' @
     add_if (65536 < int (RuneCount command)) (field @ ''.command'') ''max_len''
       ''command cannot exceed 65536 characters'' @
     add_if (1024 < len argv) (field @ ''.argv'') ''max_items''
       ''argv supports at most 1024 items'' @
     indexed (\<lambda>i arg. add_if (arg = []) (indexed_field (field @ ''.argv'') i) ''min_len''
       ''argv entries cannot be empty'') 0 argv"

definition is_hex :: "char \<Rightarrow> bool" where
  "is_hex c \<longleftrightarrow> in_range 48 57 c \<or> in_range 97 102 c \<or> in_range 65 70 c"

definition templateUUIDPattern :: "string \<Rightarrow> bool" where
  "templateUUIDPattern s \<longleftrightarrow>
     map length (split_on (CHR ''-'') s) = [8, 4, 4, 4, 12] \<and>
     (\<forall>w \<in> set (split_on (CHR ''-'') s). list_all is_hex w)"

definition validateTemplateSpecBase :: "template_base option \<Rightarrow> violation list" where
  "validateTemplateSpecBase base =
     (case base of
        None \<Rightarrow> [viol ''base'' ''required'' ''exactly one base source is required'']
      | Some (BaseImage img) \<Rightarrow>
          add_if (img = []) ''base.image'' ''required'' ''base image cannot be empty''
      | Some (BaseTemplateId i) \<Rightarrow>
          add_if (\<not> templateUUIDPattern i) ''base.templateId'' ''uuid''
            ''base template ID must be a UUID''
      | Some (BaseSnapshotId i) \<Rightarrow>
          add_if (\<not> templateUUIDPattern i) ''base.snapshotId'' ''uuid''
            ''base snapshot ID must be a UUID''
      | Some BaseUnset \<Rightarrow> [viol ''base'' ''required'' ''exactly one base source is required''])"

definition validateCheckout :: "template_checkout \<Rightarrow> violation list" where
  "validateCheckout checkout =
     validateOptionalAbsolutePath ''context.checkout.dest'' (co_dest checkout) @
     (case co_name checkout of
        None \<Rightarrow> []
      | Some name \<Rightarrow>
          add_if (int (RuneCount name) < 1 \<or> 255 < int (RuneCount name) \<or> name = ''.'' \<or>
              name = ''..'' \<or> Contains name ''/'')
            ''context.checkout.name'' ''safe_name''
            ''checkout name must be a safe 1-255 character name'' @
          add_if (co_mode checkout \<noteq> CheckoutDirectory)
            ''context.checkout.name'' ''directory_mode_only''
            ''checkout name is only valid in directory mode'')"

definition validateTemplateSpecContext :: "template_context option \<Rightarrow> violation list" where
  "validateTemplateSpecContext context =
     (case context of None \<Rightarrow> []
      | Some c \<Rightarrow>
          (case ctx_git c of
             None \<Rightarrow> [viol ''context.source.git'' ''required'' ''a Git context source is required'']
           | Some git \<Rightarrow>
               validateStringLength ''context.source.git.repo'' (git_repo git) 1 4096 @
               validateStringLength ''context.source.git.ref'' (git_ref git) 1 1024) @
          (case ctx_checkout c of None \<Rightarrow> [] | Some checkout \<Rightarrow> validateCheckout checkout) @
          add_if (256 < len (ctx_ignore c)) ''context.ignore'' ''max_items''
            ''at most 256 ignore rules are supported'' @
          indexed (\<lambda>i rule. validateStringLength (indexed_field ''context.ignore'' i) rule 0
            maxTemplatePathLength) 0 (ctx_ignore c))"

definition validatePackageStep :: "string \<Rightarrow> string list \<Rightarrow> violation list" where
  "validatePackageStep field packages =
     (if packages = [] then
        [viol (field @ ''.packages'') ''min_items'' ''at least one package is required'']
      else
        add_if (1024 < len packages) (field @ ''.packages'') ''max_items''
          ''at most 1024 packages are supported'' @
        unique_loop (\<lambda>i name.
            if name = [] then
              [viol (indexed_field (field @ ''.packages'') i) ''min_len''
                 ''package names cannot be empty'']
            else
              add_if (HasPrefix name ''-'' \<or> CHR 0x00 \<in> set name)
                (indexed_field (field @ ''.packages'') i) ''safe_name''
                ''package names cannot start with - or contain NUL'')
          (viol (field @ ''.packages'') ''unique'' ''package names must be unique'')
          [] False 0 packages)"

definition mode_too_big :: "int option \<Rightarrow> bool" where
  "mode_too_big mode \<longleftrightarrow> (case mode of None \<Rightarrow> False | Some m \<Rightarrow> 4095 < m)"

definition validateStepOperation :: "bool \<Rightarrow> string \<Rightarrow> step_operation \<Rightarrow> violation list" where
  "validateStepOperation hasContext prefix operation =
     (case operation of
        OpRun run \<Rightarrow>
          validateCommandOrArgv (prefix @ ''.run'') (run_command run) (run_argv run) @
          validateOptionalAbsolutePath (prefix @ ''.run.workdir'') (run_workdir run) @
          add_if (86400 < run_timeout run) (prefix @ ''.run.timeoutSeconds'') ''lte''
            ''run timeout cannot exceed 86400 seconds''
      | OpCopy src dest \<Rightarrow>
          add_if (\<not> hasContext) (prefix @ ''.copy'') ''requires_context''
            ''copy steps require a Git context'' @
          add_if (contextRelativePathViolation src \<noteq> []) (prefix @ ''.copy.src'')
            ''context_relative'' (contextRelativePathViolation src) @
          path_too_long ''path'' (prefix @ ''.copy.src'') src @
          validateAbsolutePath (prefix @ ''.copy.dest'') dest
      | OpWriteFile p content mode \<Rightarrow>
          validateAbsolutePath (prefix @ ''.writeFile.path'') p @
          add_if (1048576 < len content) (prefix @ ''.writeFile.content'') ''max_len''
            ''inline file content cannot exceed 1 MiB'' @
          add_if (mode_too_big mode) (prefix @ ''.writeFile.mode'') ''lte''
            ''file mode cannot exceed 0o7777''
      | OpMkdir p parents mode \<Rightarrow>
          validateAbsolutePath (prefix @ ''.mkdir.path'') p @
          add_if (mode_too_big mode) (prefix @ ''.mkdir.mode'') ''lte''
            ''directory mode cannot exceed 0o7777''
      | OpRemove p recursive \<Rightarrow> validateAbsolutePath (prefix @ ''.remove.path'') p
      | OpRename src dest \<Rightarrow>
          validateAbsolutePath (prefix @ ''.rename.src'') src @
          validateAbsolutePath (prefix @ ''.rename.dest'') dest
      | OpSymlink target p \<Rightarrow>
          validateStringLength (prefix @ ''.symlink.target'') target 1 maxTemplatePathLength @
          validateAbsolutePath (prefix @ ''.symlink.path'') p
      | OpApt ps \<Rightarrow> validatePackageStep (prefix @ ''.apt'') ps
      | OpPip ps \<Rightarrow> validatePackageStep (prefix @ ''.pip'') ps
      | OpNpm ps \<Rightarrow> validatePackageStep (prefix @ ''.npm'') ps
      | OpBun ps \<Rightarrow> validatePackageStep (prefix @ ''.bun'') ps
      | OpUnset \<Rightarrow> [viol prefix ''operation_required'' ''exactly one step operation is required''])"

definition validateStep :: "bool \<Rightarrow> nat \<Rightarrow> template_step \<Rightarrow> violation list" where
  "validateStep hasContext index st =
     (let prefix = indexed_field ''steps'' index
      in (case step_name st of None \<Rightarrow> []
          | Some n \<Rightarrow> validateStringLength (prefix @ ''.name'') n 1 128) @
         validateStepOperation hasContext prefix (step_op st))"

definition validateTemplateSpecSteps :: "build_spec \<Rightarrow> violation list" where
  "validateTemplateSpecSteps spec =
     add_if (256 < len (bs_steps spec)) ''steps'' ''max_items'' ''at most 256 steps are supported'' @
     indexed (validateStep (bs_context spec \<noteq> None)) 0 (bs_steps spec)"

text \<open>
  \<open>^https?://(localhost|127.0.0.1|[::1])(:[0-9]+)?(/.*)?$\<close>, where the dot stands for any
  character but a line feed.
\<close>

definition url_tail :: "string \<Rightarrow> bool" where
  "url_tail s \<longleftrightarrow> s = [] \<or> (HasPrefix s ''/'' \<and> CHR 0x0A \<notin> set s)"

definition url_port_tail :: "string \<Rightarrow> bool" where
  "url_port_tail s \<longleftrightarrow>
     url_tail s \<or>
     (HasPrefix s '':'' \<and>
      (let ds = takeWhile (in_range 48 57) (tl s)
       in ds \<noteq> [] \<and> url_tail (drop (length ds) (tl s))))"

definition readyHTTPURLPattern :: "string \<Rightarrow> bool" where
  "readyHTTPURLPattern s \<longleftrightarrow>
     (\<exists>p \<in> set [scheme @ host. scheme \<leftarrow> [''http://'', ''https://''],
                  host \<leftarrow> [''localhost'', ''127.0.0.1'', ''[::1]'']].
        HasPrefix s p \<and> url_port_tail (drop (length p) s))"

definition validateReadyCheck :: "nat \<Rightarrow> snapshot_check \<Rightarrow> violation list" where
  "validateReadyCheck index check =
     (let prefix = indexed_field ''runtime.readyWhen.checks'' index
      in case check of
        PortCheck port \<Rightarrow>
          add_if (port < 1 \<or> 65535 < port) (prefix @ ''.port'') ''range''
            ''port must be between 1 and 65535''
      | HttpCheck h \<Rightarrow>
          path_too_long ''URL'' (prefix @ ''.http.url'') (hc_url h) @
          add_if (\<not> readyHTTPURLPattern (hc_url h)) (prefix @ ''.http.url'') ''localhost_only''
            ''http checks must target localhost, 127.0.0.1, or [::1]'' @
          add_if (100 < len (hc_codes h)) (prefix @ ''.http.successStatusCodes'') ''max_items''
            ''at most 100 status codes are supported'' @
          unique_loop (\<lambda>i c. add_if (c < 100 \<or> 599 < c)
              (indexed_field (prefix @ ''.http.successStatusCodes'') i) ''range''
              ''status codes must be between 100 and 599'')
            (viol (prefix @ ''.http.successStatusCodes'') ''unique'' ''status codes must be unique'')
            [] False 0 (hc_codes h)
      | ExecCheck e \<Rightarrow>
          validateCommandOrArgv (prefix @ ''.exec'') (ec_command e) (ec_argv e) @
          add_if (300 < ec_timeout e) (prefix @ ''.exec.timeoutSeconds'') ''lte''
            ''exec check timeout cannot exceed 300 seconds''
      | CheckUnset \<Rightarrow> [viol prefix ''check_required'' ''exactly one readiness check is required''])"

definition validateTemplateSpecReadyWhen :: "ready_when option \<Rightarrow> violation list" where
  "validateTemplateSpecReadyWhen readyWhen =
     (case readyWhen of None \<Rightarrow> []
      | Some w \<Rightarrow>
          add_if (rw_timeout w < 1 \<or> 86400 < rw_timeout w) ''runtime.readyWhen.timeoutSeconds''
            ''range'' ''readiness timeout must be between 1 and 86400 seconds'' @
          add_if (60 < rw_poll w) ''runtime.readyWhen.pollIntervalSeconds'' ''lte''
            ''poll interval cannot exceed 60 seconds'' @
          add_if (64 < len (rw_checks w)) ''runtime.readyWhen.checks'' ''max_items''
            ''at most 64 readiness checks are supported'' @
          indexed validateReadyCheck 0 (rw_checks w))"

definition workdir_message :: "string \<Rightarrow> string" where
  "workdir_message p = ReplaceAll (contextRelativePathViolation p) ''Git context'' ''workdir''"

definition validateComposeFile :: "string \<Rightarrow> string \<Rightarrow> violation list" where
  "validateComposeFile field p =
     add_if (contextRelativePathViolation p \<noteq> []) field ''workdir_relative'' (workdir_message p) @
     path_too_long ''path'' field p"

definition validateEntrypoint :: "entrypoint \<Rightarrow> violation list" where
  "validateEntrypoint e =
     (case e of
        StartEntry command argv dir \<Rightarrow>
          validateCommandOrArgv ''runtime.start'' command argv @
          validateOptionalAbsolutePath ''runtime.start.workdir'' dir
      | ComposeEntry configPath dir envFiles \<Rightarrow>
          validateComposeFile ''runtime.processCompose.configPath'' configPath @
          validateOptionalAbsolutePath ''runtime.processCompose.workdir'' dir @
          add_if (32 < len envFiles) ''runtime.processCompose.envFiles'' ''max_items''
            ''at most 32 env files are supported'' @
          unique_loop (\<lambda>i. validateComposeFile (indexed_field ''runtime.processCompose.envFiles'' i))
            (viol ''runtime.processCompose.envFiles'' ''unique'' ''env files must be unique'')
            [] False 0 envFiles
      | EntryUnset \<Rightarrow>
          [viol ''runtime'' ''entrypoint_required''
             ''a runtime requires a start command or process-compose config''])"

definition validateSecretEnv :: "template_runtime \<Rightarrow> violation list" where
  "validateSecretEnv r =
     concat (map (\<lambda>(target, name).
       add_if (\<not> templateSecretTargetPattern target) ''runtime.secretEnv'' ''target''
         ''invalid environment target'' @
       add_if (\<not> templateSecretNamePattern name) ''runtime.secretEnv'' ''name''
         ''invalid workspace secret name'' @
       add_if (map_of (rt_env r) target \<noteq> None) ''runtime.secretEnv'' ''env_conflict''
         ''secret target conflicts with runtime environment'') (rt_secret_env r))"

definition validateTemplateSpecRuntime :: "template_runtime option \<Rightarrow> violation list" where
  "validateTemplateSpecRuntime runtime =
     (case runtime of None \<Rightarrow> []
      | Some r \<Rightarrow>
          add_if (\<not> validateSecretFiles (rt_secret_files r) (length (rt_secret_env r)))
            ''runtime.secretFiles'' ''invalid'' ''invalid secret file declaration'' @
          add_if (64 < len (rt_secret_env r)) ''runtime.secretEnv'' ''max_pairs''
            ''at most 64 secret references are supported'' @
          validateSecretEnv r @
          add_if (256 < len (rt_env r)) ''runtime.env'' ''max_pairs''
            ''runtime env supports at most 256 variables'' @
          validateEntrypoint (rt_entry r) @
          add_if (rt_run_at r = RunAtBuild \<and> rt_ready r = None) ''runtime.readyWhen''
            ''build_requires_ready_when'' ''build runtime requires readyWhen'' @
          add_if (rt_snapshot r \<noteq> SnapshotUnspecified \<and> rt_run_at r \<noteq> RunAtBuild)
            ''runtime.snapshotMode'' ''build_runtime_only''
            ''snapshotMode is only valid when runAt is build'' @
          add_if (300 < rt_stop_grace r) ''runtime.stopGraceSeconds'' ''lte''
            ''stop grace cannot exceed 300 seconds'' @
          validateTemplateSpecReadyWhen (rt_ready r))"

definition validateTemplateSpecResources :: "spec_resources option \<Rightarrow> violation list" where
  "validateTemplateSpecResources resources =
     (case resources of None \<Rightarrow> []
      | Some r \<Rightarrow>
          add_if (rs_cpu r < 0 \<or> 128 < rs_cpu r) ''resources.cpuCores'' ''range''
            ''cpuCores must be between 0 and 128'' @
          add_if (rs_memory r \<noteq> 0 \<and>
              (rs_memory r < 512 \<or> 524288 < rs_memory r \<or> rs_memory r mod 2 \<noteq> 0))
            ''resources.memoryMb'' ''range''
            ''memoryMb must be 0 or an even value between 512 and 524288'' @
          add_if (rs_disk r \<noteq> 0 \<and> (rs_disk r < 5 \<or> 100 < rs_disk r))
            ''resources.diskSizeGb'' ''range'' ''diskSizeGb must be 0 or between 5 and 100'')"

definition spec_violations :: "build_spec \<Rightarrow> violation list" where
  "spec_violations spec =
     add_if (bs_version spec \<noteq> TemplateSpecVersion) ''specVersion'' ''const''
       (''specVersion must be '' @ go_quote TemplateSpecVersion) @
     validateTemplateSpecBase (bs_base spec) @
     validateOptionalAbsolutePath ''workdir'' (bs_workdir spec) @
     validateTemplateSpecContext (bs_context spec) @
     (case bs_build_env spec of None \<Rightarrow> []
      | Some env \<Rightarrow> add_if (256 < len env) ''build.env'' ''max_pairs''
          ''build env supports at most 256 variables'') @
     validateTemplateSpecSteps spec @
     validateTemplateSpecRuntime (bs_runtime spec) @
     validateTemplateSpecResources (bs_resources spec)"

definition Validate :: "template_spec \<Rightarrow> go_error option" where
  "Validate s =
     (let violations = spec_violations (protoSpec s)
      in if violations = [] then None else Some (TemplateSpecValidationError violations))"

definition directRuntimeProto :: "template_spec \<Rightarrow> (go_error, template_runtime) result" where
  "directRuntimeProto s =
     (let p = toProto s
      in if bs_base p \<noteq> Some (BaseImage ''sandbox'') \<or> bs_context p \<noteq> None \<or> bs_build_env p \<noteq> None \<or>
            bs_steps p \<noteq> [] \<or> bs_resources p \<noteq> None
         then Inl (Plain ''sandbox: direct runtime accepts runtime settings only; configure the launch image and resources on Create'')
         else case Validate s of Some e \<Rightarrow> Inl e
         | None \<Rightarrow>
           (case bs_runtime p of
              None \<Rightarrow> Inl (Plain ''sandbox: direct runtime requires a boot runtime entrypoint'')
            | Some r \<Rightarrow>
                if rt_run_at r \<noteq> RunAtUnspecified \<and> rt_run_at r \<noteq> RunAtBoot
                then Inl (Plain ''sandbox: direct runtime requires a boot runtime entrypoint'')
                else Inr (r\<lparr>rt_entry := (case rt_entry r of
                    StartEntry c a w \<Rightarrow> StartEntry c a (if w = [] then bs_workdir p else w)
                  | ComposeEntry f w es \<Rightarrow> ComposeEntry f (if w = [] then bs_workdir p else w) es
                  | EntryUnset \<Rightarrow> EntryUnset)\<rparr>)))"

section \<open>The documented contract\<close>

definition chars_between :: "int \<Rightarrow> int \<Rightarrow> string \<Rightarrow> bool" where
  "chars_between lo hi s \<longleftrightarrow> lo \<le> int (RuneCount s) \<and> int (RuneCount s) \<le> hi"

definition absolute_path :: "string \<Rightarrow> bool" where
  "absolute_path p \<longleftrightarrow> HasPrefix p ''/'' \<and> int (RuneCount p) \<le> 4096"

definition relative_path :: "string \<Rightarrow> bool" where
  "relative_path p \<longleftrightarrow>
     p \<noteq> [] \<and> \<not> HasPrefix p ''/'' \<and> ''..'' \<notin> set (split_on (CHR ''/'') p) \<and>
     int (RuneCount p) \<le> 4096"

definition command_contract :: "string \<Rightarrow> string list \<Rightarrow> bool" where
  "command_contract command argv \<longleftrightarrow>
     (command \<noteq> []) \<noteq> (argv \<noteq> []) \<and> int (RuneCount command) \<le> 65536 \<and>
     len argv \<le> 1024 \<and> list_all (\<lambda>arg. arg \<noteq> []) argv"

definition package_contract :: "string list \<Rightarrow> bool" where
  "package_contract ps \<longleftrightarrow>
     ps \<noteq> [] \<and> len ps \<le> 1024 \<and> distinct ps \<and>
     list_all (\<lambda>p. p \<noteq> [] \<and> \<not> HasPrefix p ''-'' \<and> CHR 0x00 \<notin> set p) ps"

fun base_contract :: "template_base option \<Rightarrow> bool" where
  "base_contract (Some (BaseImage img)) = (img \<noteq> [])"
| "base_contract (Some (BaseTemplateId i)) = templateUUIDPattern i"
| "base_contract (Some (BaseSnapshotId i)) = templateUUIDPattern i"
| "base_contract _ = False"

definition checkout_contract :: "template_checkout \<Rightarrow> bool" where
  "checkout_contract c \<longleftrightarrow>
     (co_dest c = [] \<or> absolute_path (co_dest c)) \<and>
     (case co_name c of None \<Rightarrow> True
      | Some n \<Rightarrow> chars_between 1 255 n \<and> n \<noteq> ''.'' \<and> n \<noteq> ''..'' \<and> \<not> Contains n ''/'' \<and>
          co_mode c = CheckoutDirectory)"

definition context_contract :: "template_context \<Rightarrow> bool" where
  "context_contract c \<longleftrightarrow>
     (case ctx_git c of None \<Rightarrow> False
      | Some g \<Rightarrow> chars_between 1 4096 (git_repo g) \<and> chars_between 1 1024 (git_ref g)) \<and>
     (case ctx_checkout c of None \<Rightarrow> True | Some co \<Rightarrow> checkout_contract co) \<and>
     len (ctx_ignore c) \<le> 256 \<and> list_all (chars_between 0 4096) (ctx_ignore c)"

fun mode_contract :: "int option \<Rightarrow> bool" where
  "mode_contract None = True"
| "mode_contract (Some m) = (m \<le> 4095)"

fun operation_contract :: "bool \<Rightarrow> step_operation \<Rightarrow> bool" where
  "operation_contract ctx (OpRun r) \<longleftrightarrow>
     command_contract (run_command r) (run_argv r) \<and>
     (run_workdir r = [] \<or> absolute_path (run_workdir r)) \<and> run_timeout r \<le> 86400"
| "operation_contract ctx (OpCopy src dest) \<longleftrightarrow> ctx \<and> relative_path src \<and> absolute_path dest"
| "operation_contract ctx (OpWriteFile p content mode) \<longleftrightarrow>
     absolute_path p \<and> len content \<le> 1048576 \<and> mode_contract mode"
| "operation_contract ctx (OpMkdir p parents mode) \<longleftrightarrow> absolute_path p \<and> mode_contract mode"
| "operation_contract ctx (OpRemove p r) \<longleftrightarrow> absolute_path p"
| "operation_contract ctx (OpRename src dest) \<longleftrightarrow> absolute_path src \<and> absolute_path dest"
| "operation_contract ctx (OpSymlink target p) \<longleftrightarrow> chars_between 1 4096 target \<and> absolute_path p"
| "operation_contract ctx (OpApt ps) \<longleftrightarrow> package_contract ps"
| "operation_contract ctx (OpPip ps) \<longleftrightarrow> package_contract ps"
| "operation_contract ctx (OpNpm ps) \<longleftrightarrow> package_contract ps"
| "operation_contract ctx (OpBun ps) \<longleftrightarrow> package_contract ps"
| "operation_contract ctx OpUnset \<longleftrightarrow> False"

definition step_contract :: "bool \<Rightarrow> template_step \<Rightarrow> bool" where
  "step_contract ctx st \<longleftrightarrow>
     (case step_name st of None \<Rightarrow> True | Some n \<Rightarrow> chars_between 1 128 n) \<and>
     operation_contract ctx (step_op st)"

fun check_contract :: "snapshot_check \<Rightarrow> bool" where
  "check_contract (PortCheck p) \<longleftrightarrow> 1 \<le> p \<and> p \<le> 65535"
| "check_contract (HttpCheck h) \<longleftrightarrow>
     int (RuneCount (hc_url h)) \<le> 4096 \<and> readyHTTPURLPattern (hc_url h) \<and>
     len (hc_codes h) \<le> 100 \<and> distinct (hc_codes h) \<and>
     list_all (\<lambda>c. 100 \<le> c \<and> c \<le> 599) (hc_codes h)"
| "check_contract (ExecCheck e) \<longleftrightarrow>
     command_contract (ec_command e) (ec_argv e) \<and> ec_timeout e \<le> 300"
| "check_contract CheckUnset \<longleftrightarrow> False"

definition ready_contract :: "ready_when \<Rightarrow> bool" where
  "ready_contract w \<longleftrightarrow>
     1 \<le> rw_timeout w \<and> rw_timeout w \<le> 86400 \<and> rw_poll w \<le> 60 \<and>
     len (rw_checks w) \<le> 64 \<and> list_all check_contract (rw_checks w)"

fun entry_contract :: "entrypoint \<Rightarrow> bool" where
  "entry_contract (StartEntry c a w) \<longleftrightarrow> command_contract c a \<and> (w = [] \<or> absolute_path w)"
| "entry_contract (ComposeEntry f w es) \<longleftrightarrow>
     relative_path f \<and> (w = [] \<or> absolute_path w) \<and> len es \<le> 32 \<and> distinct es \<and>
     list_all relative_path es"
| "entry_contract EntryUnset \<longleftrightarrow> False"

definition runtime_contract :: "template_runtime \<Rightarrow> bool" where
  "runtime_contract r \<longleftrightarrow>
     validateSecretFiles (rt_secret_files r) (length (rt_secret_env r)) \<and>
     len (rt_secret_env r) \<le> 64 \<and>
     list_all (\<lambda>(target, name). templateSecretTargetPattern target \<and>
       templateSecretNamePattern name \<and> map_of (rt_env r) target = None) (rt_secret_env r) \<and>
     len (rt_env r) \<le> 256 \<and> entry_contract (rt_entry r) \<and>
     (rt_run_at r = RunAtBuild \<longrightarrow> rt_ready r \<noteq> None) \<and>
     (rt_snapshot r \<noteq> SnapshotUnspecified \<longrightarrow> rt_run_at r = RunAtBuild) \<and>
     rt_stop_grace r \<le> 300 \<and>
     (case rt_ready r of None \<Rightarrow> True | Some w \<Rightarrow> ready_contract w)"

definition resources_contract :: "spec_resources \<Rightarrow> bool" where
  "resources_contract r \<longleftrightarrow>
     0 \<le> rs_cpu r \<and> rs_cpu r \<le> 128 \<and>
     (rs_memory r = 0 \<or> 512 \<le> rs_memory r \<and> rs_memory r \<le> 524288 \<and> even (rs_memory r)) \<and>
     (rs_disk r = 0 \<or> 5 \<le> rs_disk r \<and> rs_disk r \<le> 100)"

definition template_contract :: "build_spec \<Rightarrow> bool" where
  "template_contract s \<longleftrightarrow>
     bs_version s = TemplateSpecVersion \<and> base_contract (bs_base s) \<and>
     (bs_workdir s = [] \<or> absolute_path (bs_workdir s)) \<and>
     (case bs_context s of None \<Rightarrow> True | Some c \<Rightarrow> context_contract c) \<and>
     (case bs_build_env s of None \<Rightarrow> True | Some env \<Rightarrow> len env \<le> 256) \<and>
     len (bs_steps s) \<le> 256 \<and> list_all (step_contract (bs_context s \<noteq> None)) (bs_steps s) \<and>
     (case bs_runtime s of None \<Rightarrow> True | Some r \<Rightarrow> runtime_contract r) \<and>
     (case bs_resources s of None \<Rightarrow> True | Some r \<Rightarrow> resources_contract r)"

section \<open>Each validator decides its part of the contract\<close>

named_theorems accepts \<open>a validator reports nothing exactly when its part of the contract holds\<close>

lemma validateStringLength_ok [accepts]:
  "validateStringLength f v lo hi = [] \<longleftrightarrow> chars_between lo hi v"
  by (auto simp: validateStringLength_def chars_between_def)

lemma path_too_long_ok [accepts]: "path_too_long w f p = [] \<longleftrightarrow> int (RuneCount p) \<le> 4096"
  by (auto simp: path_too_long_def maxTemplatePathLength_def)

lemma validateOptionalAbsolutePath_ok [accepts]:
  "validateOptionalAbsolutePath f p = [] \<longleftrightarrow> p = [] \<or> absolute_path p"
  by (auto simp: validateOptionalAbsolutePath_def absolute_path_def accepts)

lemma validateAbsolutePath_ok [accepts]: "validateAbsolutePath f p = [] \<longleftrightarrow> absolute_path p"
  by (auto simp: validateAbsolutePath_def absolute_path_def accepts)

lemma contextRelativePathViolation_ok:
  "contextRelativePathViolation p = [] \<longleftrightarrow>
     p \<noteq> [] \<and> \<not> HasPrefix p ''/'' \<and> ''..'' \<notin> set (split_on (CHR ''/'') p)"
  by (auto simp: contextRelativePathViolation_def)

lemma validateComposeFile_ok [accepts]: "validateComposeFile f p = [] \<longleftrightarrow> relative_path p"
  by (auto simp: validateComposeFile_def relative_path_def contextRelativePathViolation_ok accepts)

lemma validateCommandOrArgv_ok [accepts]:
  "validateCommandOrArgv f c a = [] \<longleftrightarrow> command_contract c a"
  by (auto simp: validateCommandOrArgv_def command_contract_def indexed_Nil_list_all)

lemma validateTemplateSpecBase_ok [accepts]:
  "validateTemplateSpecBase b = [] \<longleftrightarrow> base_contract b"
  by (cases b rule: base_contract.cases) (simp_all add: validateTemplateSpecBase_def)

lemma validateCheckout_ok [accepts]: "validateCheckout c = [] \<longleftrightarrow> checkout_contract c"
  by (auto simp: validateCheckout_def checkout_contract_def chars_between_def accepts
      RuneCount_pos [simplified] split: option.splits)

lemma validateTemplateSpecContext_ok [accepts]:
  "validateTemplateSpecContext c = [] \<longleftrightarrow> (case c of None \<Rightarrow> True | Some x \<Rightarrow> context_contract x)"
  by (auto simp: validateTemplateSpecContext_def context_contract_def maxTemplatePathLength_def
      accepts indexed_Nil_list_all [where P = "chars_between 0 4096"] split: option.splits)

lemma validatePackageStep_ok [accepts]: "validatePackageStep f ps = [] \<longleftrightarrow> package_contract ps"
  by (auto simp: validatePackageStep_def package_contract_def
      unique_loop_Nil [where P = "\<lambda>p. p \<noteq> [] \<and> \<not> HasPrefix p ''-'' \<and> CHR 0x00 \<notin> set p"])

lemma mode_too_big_ok [accepts]: "mode_too_big m \<longleftrightarrow> \<not> mode_contract m"
  by (cases m) (auto simp: mode_too_big_def)

lemma validateStepOperation_ok [accepts]:
  "validateStepOperation ctx f x = [] \<longleftrightarrow> operation_contract ctx x"
  by (cases x)
    (auto simp: validateStepOperation_def accepts relative_path_def contextRelativePathViolation_ok
       maxTemplatePathLength_def)

lemma validateStep_ok [accepts]: "validateStep ctx i st = [] \<longleftrightarrow> step_contract ctx st"
  by (auto simp: validateStep_def step_contract_def Let_def accepts split: option.splits)

lemma validateTemplateSpecSteps_ok [accepts]:
  "validateTemplateSpecSteps s = [] \<longleftrightarrow>
     len (bs_steps s) \<le> 256 \<and> list_all (step_contract (bs_context s \<noteq> None)) (bs_steps s)"
  by (auto simp: validateTemplateSpecSteps_def validateStep_ok
      indexed_Nil_list_all [where P = "step_contract (bs_context s \<noteq> None)"])

lemma validateReadyCheck_ok [accepts]: "validateReadyCheck i c = [] \<longleftrightarrow> check_contract c"
  by (cases c)
    (auto simp: validateReadyCheck_def Let_def accepts
       unique_loop_Nil [where P = "\<lambda>c. 100 \<le> c \<and> c \<le> 599"] not_less)

lemma validateTemplateSpecReadyWhen_ok [accepts]:
  "validateTemplateSpecReadyWhen w = [] \<longleftrightarrow> (case w of None \<Rightarrow> True | Some x \<Rightarrow> ready_contract x)"
  by (auto simp: validateTemplateSpecReadyWhen_def ready_contract_def
      indexed_Nil_list_all [OF validateReadyCheck_ok] split: option.splits)

lemma validateEntrypoint_ok [accepts]: "validateEntrypoint e = [] \<longleftrightarrow> entry_contract e"
  by (cases e) (auto simp: validateEntrypoint_def accepts unique_loop_Nil [OF validateComposeFile_ok])

lemma validateSecretEnv_ok [accepts]:
  "validateSecretEnv r = [] \<longleftrightarrow> list_all (\<lambda>(target, name). templateSecretTargetPattern target \<and>
     templateSecretNamePattern name \<and> map_of (rt_env r) target = None) (rt_secret_env r)"
  by (auto simp: validateSecretEnv_def list_all_iff)

lemma validateTemplateSpecRuntime_ok [accepts]:
  "validateTemplateSpecRuntime r = [] \<longleftrightarrow> (case r of None \<Rightarrow> True | Some x \<Rightarrow> runtime_contract x)"
  by (cases r) (auto simp: validateTemplateSpecRuntime_def runtime_contract_def accepts)

lemma validateTemplateSpecResources_ok [accepts]:
  "validateTemplateSpecResources r = [] \<longleftrightarrow> (case r of None \<Rightarrow> True | Some x \<Rightarrow> resources_contract x)"
  by (cases r) (auto simp: validateTemplateSpecResources_def resources_contract_def)

lemma spec_violations_ok: "spec_violations s = [] \<longleftrightarrow> template_contract s"
  by (auto simp: spec_violations_def template_contract_def accepts split: option.splits)

lemma Validate_None: "Validate s = None \<longleftrightarrow> template_contract (spec_clone s)"
  by (simp add: Validate_def Let_def protoSpec_def spec_violations_ok)

lemma viol_field [simp]: "v_field (viol f r m) = f"
  by (simp add: viol_def)

text \<open>Every violation reported under a field name has a field that starts with that name.\<close>

definition reported_under :: "string \<Rightarrow> violation list \<Rightarrow> bool" where
  "reported_under prefix vs \<longleftrightarrow> list_all (\<lambda>v. HasPrefix (v_field v) prefix) vs"

lemma under_simps [simp]:
  "reported_under p []"
  "reported_under p (vs @ ws) \<longleftrightarrow> reported_under p vs \<and> reported_under p ws"
  "reported_under p (v # vs) \<longleftrightarrow> HasPrefix (v_field v) p \<and> reported_under p vs"
  "reported_under p (add_if c f r m) \<longleftrightarrow> c \<longrightarrow> HasPrefix f p"
  by (auto simp: reported_under_def add_if_def)

lemma under_indexed: "(\<And>i x. reported_under p (f i x)) \<Longrightarrow> reported_under p (indexed f i xs)"
  by (induction xs arbitrary: i) auto

lemma under_unique:
  "(\<And>i x. reported_under p (f i x)) \<Longrightarrow> HasPrefix (v_field d) p \<Longrightarrow>
   reported_under p (unique_loop f d seen r i xs)"
  by (induction xs arbitrary: i seen r) auto

lemma under_paths:
  "HasPrefix f p \<Longrightarrow> reported_under p (path_too_long w f q)"
  "HasPrefix f p \<Longrightarrow> reported_under p (validateOptionalAbsolutePath f q)"
  "HasPrefix f p \<Longrightarrow> reported_under p (validateAbsolutePath f q)"
  "HasPrefix f p \<Longrightarrow> reported_under p (validateStringLength f q lo hi)"
  by (simp_all add: path_too_long_def validateOptionalAbsolutePath_def validateAbsolutePath_def
      validateStringLength_def)

lemma HasPrefix_append_left: "HasPrefix f p \<Longrightarrow> HasPrefix (f @ t) p"
  by (auto simp: HasPrefix_iff)

lemma under_command: "HasPrefix f p \<Longrightarrow> reported_under p (validateCommandOrArgv f c a)"
  by (auto simp: validateCommandOrArgv_def indexed_field_def HasPrefix_append_left
      intro!: under_indexed)

lemma under_packages: "HasPrefix f p \<Longrightarrow> reported_under p (validatePackageStep f ps)"
  by (auto simp: validatePackageStep_def indexed_field_def HasPrefix_append_left
      intro!: under_unique)

section \<open>Properties\<close>



text \<open>the typed recipe and the legacy template options agree on resources: \<open>Validate\<close> reports
  nothing about a resource request exactly when \<open>validateTemplateResources\<close> accepts it.\<close>

theorem resource_checks_agree:
  "validateTemplateSpecResources (Some r) = [] \<longleftrightarrow>
   validateTemplateResources
     (Some \<lparr>tr_CPUCores = rs_cpu r, tr_MemoryMB = rs_memory r, tr_DiskSizeGB = rs_disk r\<rparr>) = None"
  by (auto simp: validateTemplateSpecResources_ok resources_contract_def validateTemplateResources_None)

text \<open>every violation of a step names that step: its field starts with \<open>steps[i]\<close>.\<close>

theorem step_violations_located:
  "list_all (\<lambda>v. HasPrefix (v_field v) (''steps['' @ show_nat i @ '']'')) (validateStep ctx i st)"
proof -
  have "reported_under (indexed_field ''steps'' i) (validateStep ctx i st)"
    by (cases "step_op st"; cases "step_name st")
      (auto simp: validateStep_def validateStepOperation_def Let_def
         intro!: under_paths under_command under_packages HasPrefix_append)
  then show ?thesis by (simp add: reported_under_def indexed_field_def)
qed

text \<open>Adding a step to a valid recipe that still has room gives a valid recipe exactly when the
  step meets its own contract and its trimmed name has at most 128 characters; every other part of
  the recipe is what it was.\<close>

theorem append_step_valid:
  assumes "Validate s = None" and "len (bs_steps (spec_clone s)) < 256"
  shows "(Validate (appendStep name x s) = None \<longleftrightarrow>
      int (RuneCount (TrimSpace name)) \<le> 128 \<and>
      operation_contract (bs_context (spec_clone s) \<noteq> None) x) \<and>
    (spec_clone (appendStep name x s))\<lparr>bs_steps := bs_steps (spec_clone s)\<rparr> = spec_clone s"
proof -
  have "template_contract (spec_clone s)" using assms(1) by (simp add: Validate_None)
  then have "template_contract (spec_clone (appendStep name x s)) \<longleftrightarrow>
      step_contract (bs_context (spec_clone s) \<noteq> None)
        \<lparr>step_name = (if TrimSpace name \<noteq> [] then Some (TrimSpace name) else None), step_op = x\<rparr>"
    using assms(2) by (auto simp: template_contract_def appendStep_def spec_with_def)
  moreover have "RuneCount (TrimSpace name) \<noteq> 0 \<longrightarrow> 1 \<le> int (RuneCount (TrimSpace name))" by linarith
  ultimately show ?thesis
    by (auto simp: Validate_None step_contract_def chars_between_def appendStep_def spec_with_def)
qed

theorem append_step_valid_witness:
  "Validate (Run ''make'' [\<lparr>ro_name = ''build'', ro_workdir = [], ro_run_timeout = 90 * Second\<rparr>]
     NewTemplateSpec) = None"
proof -
  have "Validate NewTemplateSpec = None" unfolding Validate_None by code_simp
  moreover have "len (bs_steps (spec_clone NewTemplateSpec)) < 256" by code_simp
  ultimately have "Validate (appendStep ''build'' (OpRun (run_of ''make'' []
      \<lparr>ro_name = ''build'', ro_workdir = [], ro_run_timeout = 90 * Second\<rparr>)) NewTemplateSpec) = None
    \<longleftrightarrow> int (RuneCount (TrimSpace ''build'')) \<le> 128 \<and>
      operation_contract (bs_context (spec_clone NewTemplateSpec) \<noteq> None) (OpRun (run_of ''make'' []
        \<lparr>ro_name = ''build'', ro_workdir = [], ro_run_timeout = 90 * Second\<rparr>))"
    by (rule conjunct1 [OF append_step_valid])
  moreover have "int (RuneCount (TrimSpace ''build'')) \<le> 128" by code_simp
  moreover have "operation_contract (bs_context (spec_clone NewTemplateSpec) \<noteq> None)
      (OpRun (run_of ''make'' []
        \<lparr>ro_name = ''build'', ro_workdir = [], ro_run_timeout = 90 * Second\<rparr>))" by code_simp
  ultimately show ?thesis by (simp add: Run_def)
qed

text \<open>Durations are cut to whole seconds on the wire, so a positive timeout below one second is
  sent as zero: on a run step that means no timeout at all and passes validation, on a readiness
  contract it is rejected.\<close>

theorem sub_second_timeouts_lost:
  assumes "0 < t" and "t < 1 * Second"
  shows "run_timeout (run_of command argv \<lparr>ro_name = n, ro_workdir = w, ro_run_timeout = t\<rparr>) = 0 \<and>
    ec_timeout (the (rc_exec (ReadyExec command [t]))) = 0 \<and>
    \<not> ready_contract (readyWhenToProto \<lparr>ro_timeout = t, ro_poll = p, ro_checks = cs\<rparr>)"
  using assms
  by (simp add: run_of_def ReadyExec_def readyWhenToProto_def ready_contract_def
      whole_seconds_sub_second)

theorem sub_second_timeouts_lost_witness:
  "run_timeout (run_of ''make'' [] \<lparr>ro_name = [], ro_workdir = [], ro_run_timeout = 500 * Millisecond\<rparr>) = 0"
proof -
  have "0 < 500 * Millisecond" and "500 * Millisecond < 1 * Second" by simp_all
  from conjunct1 [OF sub_second_timeouts_lost [OF this]] show ?thesis .
qed

text \<open>A recipe accepted as a direct runtime declares nothing but a runtime on the default image;
  the runtime that is sent meets the runtime contract, starts at boot, and runs in the working
  directory of the recipe where it names none of its own.\<close>

theorem direct_runtime_sound:
  assumes "directRuntimeProto s = Inr r"
  shows "bs_base (spec_clone s) = Some (BaseImage ''sandbox'') \<and> bs_steps (spec_clone s) = [] \<and>
    bs_resources (spec_clone s) = None \<and> runtime_contract r \<and>
    (rt_run_at r = RunAtUnspecified \<or> rt_run_at r = RunAtBoot) \<and>
    (case rt_entry r of StartEntry c a w \<Rightarrow> bs_workdir (spec_clone s) \<noteq> [] \<longrightarrow> w \<noteq> []
     | ComposeEntry f w es \<Rightarrow> bs_workdir (spec_clone s) \<noteq> [] \<longrightarrow> w \<noteq> []
     | EntryUnset \<Rightarrow> False)"
proof -
  from assms obtain r0 where r0: "bs_runtime (spec_clone s) = Some r0"
    and v: "template_contract (spec_clone s)"
    and base: "bs_base (spec_clone s) = Some (BaseImage ''sandbox'')"
      "bs_steps (spec_clone s) = []" "bs_resources (spec_clone s) = None"
    and at: "rt_run_at r0 = RunAtUnspecified \<or> rt_run_at r0 = RunAtBoot"
    and r: "r = r0\<lparr>rt_entry := (case rt_entry r0 of
        StartEntry c a w \<Rightarrow> StartEntry c a (if w = [] then bs_workdir (spec_clone s) else w)
      | ComposeEntry f w es \<Rightarrow> ComposeEntry f (if w = [] then bs_workdir (spec_clone s) else w) es
      | EntryUnset \<Rightarrow> EntryUnset)\<rparr>"
    by (auto simp: directRuntimeProto_def Let_def toProto_def Validate_None
        split: if_splits option.splits)
  have rc: "runtime_contract r0" and wd: "bs_workdir (spec_clone s) = [] \<or> absolute_path (bs_workdir (spec_clone s))"
    using v r0 by (auto simp: template_contract_def)
  have "runtime_contract r"
    using rc wd unfolding r by (cases "rt_entry r0") (auto simp: runtime_contract_def)
  with base at rc show ?thesis
    unfolding r by (cases "rt_entry r0") (auto simp: runtime_contract_def)
qed

theorem direct_runtime_sound_witness:
  "\<exists>r. directRuntimeProto (Start ''./serve'' [] (Workdir ''/app'' NewTemplateSpec)) = Inr r \<and>
     runtime_contract r"
proof -
  have "Validate (Start ''./serve'' [] (Workdir ''/app'' NewTemplateSpec)) = None"
    unfolding Validate_None by code_simp
  then have "is_ok (directRuntimeProto (Start ''./serve'' [] (Workdir ''/app'' NewTemplateSpec)))"
    by (simp add: directRuntimeProto_def Start_def Workdir_def NewTemplateSpec_def spec_with_def
        on_runtime_def apply_start_def applyRuntimeOptions_def if_given_def zero_start_options_def
        empty_runtime_def defaultTemplateSpecProto_def toProto_def Let_def)
  then obtain r where r: "directRuntimeProto (Start ''./serve'' [] (Workdir ''/app'' NewTemplateSpec)) = Inr r"
    by (auto simp: is_ok_iff)
  from direct_runtime_sound [OF r] r show ?thesis by blast
qed

end
