(* ===== verification/Templates.thy ===== *)
theory Templates
  imports Registry TemplateValidate "HOL-Library.Sublist"
begin

text \<open>
  Templates and their builds (\<open>template.go\<close>): the views built from server messages, the requests of a
  creation and an update with their checks, and the wait for a build with the delivery of its events.
\<close>

section \<open>Enumerations\<close>

datatype build_state = BuildUnspecified | BuildPending | BuildBuilding | BuildReady | BuildFailed

text \<open>An enumeration of the wire is its number.\<close>

definition templateBuildStateFromProto :: "int \<Rightarrow> build_state" where
  "templateBuildStateFromProto n =
     (if n = 1 then BuildPending else if n = 2 then BuildBuilding else if n = 3 then BuildReady
      else if n = 4 then BuildFailed else BuildUnspecified)"

definition BuildState_IsReady :: "build_state \<Rightarrow> bool" where
  "BuildState_IsReady s \<longleftrightarrow> s = BuildReady"

definition BuildState_IsTerminal :: "build_state \<Rightarrow> bool" where
  "BuildState_IsTerminal s \<longleftrightarrow> s = BuildReady \<or> s = BuildFailed"

datatype template_visibility = VisibilityUnspecified | VisibilityPrivate | VisibilityPublic

definition templateVisibilityFromProto :: "int \<Rightarrow> template_visibility" where
  "templateVisibilityFromProto n =
     (if n = 1 then VisibilityPrivate else if n = 2 then VisibilityPublic else VisibilityUnspecified)"

datatype definition_mode = ModeUnspecified | ModeLegacy | ModeTyped

definition templateDefinitionModeFromProto :: "int \<Rightarrow> definition_mode" where
  "templateDefinitionModeFromProto n =
     (if n = 1 then ModeLegacy else if n = 2 then ModeTyped else ModeUnspecified)"

definition templateBuildLogStreamFromProto :: "int \<Rightarrow> string" where
  "templateBuildLogStreamFromProto n =
     (if n = 1 then ''stdout'' else if n = 2 then ''stderr'' else ''system'')"

definition templateBuildProgressStateFromProto :: "int \<Rightarrow> string" where
  "templateBuildProgressStateFromProto n =
     (if n = 1 then ''started'' else if n = 2 then ''completed'' else if n = 3 then ''failed'' else ''unspecified'')"

section \<open>Builds\<close>

record build_step =
  st_Index :: int
  st_Kind :: string
  st_Name :: string
  st_Label :: string

text \<open>A step of the wire is the same with an optional name.\<close>

type_synonym step_proto = "(int \<times> string \<times> string option \<times> string) option"

definition templateBuildStepFromProto :: "step_proto \<Rightarrow> build_step option" where
  "templateBuildStepFromProto s =
     map_option (\<lambda>(i, k, n, l). \<lparr>st_Index = i, st_Kind = k, st_Name = get_string n, st_Label = l\<rparr>) s"

datatype event_proto =
    LogProto "gotime option" string step_proto int string
  | ProgressProto "gotime option" string step_proto int "string option"
  | EventUnset

datatype build_event =
    LogEvent gotime string "build_step option" string string
  | ProgressEvent gotime string "build_step option" string string

text \<open>Events of neither kind are skipped.\<close>

fun build_events :: "event_proto list \<Rightarrow> build_event list" where
  "build_events [] = []"
| "build_events (LogProto t phase step stream data # es) =
     LogEvent (timestampToTime t) phase (templateBuildStepFromProto step) (templateBuildLogStreamFromProto stream) data # build_events es"
| "build_events (ProgressProto t phase step state message # es) =
     ProgressEvent (timestampToTime t) phase (templateBuildStepFromProto step)
       (templateBuildProgressStateFromProto state) (get_string message) # build_events es"
| "build_events (EventUnset # es) = build_events es"

record build_proto =
  bp_id :: string
  bp_template_id :: string
  bp_state :: int
  bp_version :: int
  bp_error :: "string option"
  bp_log_tail :: "string option"
  bp_log_truncated :: bool
  bp_log_artifact_id :: "string option"
  bp_started_at :: "gotime option"
  bp_completed_at :: "gotime option"
  bp_snapshot_id :: "string option"
  bp_session_id :: "string option"
  bp_builder_spec :: "build_spec option"
  bp_spec_hash :: "string option"
  bp_image :: "image_proto option"
  bp_image_digest :: "string option"
  bp_image_digest_ref :: "string option"
  bp_events :: "event_proto list"
  bp_provenance :: "(string option \<times> string option \<times> string list) option"
  bp_failure :: "(string \<times> string \<times> step_proto) option"

record template_build =
  bd_ID :: string
  bd_TemplateID :: string
  bd_State :: build_state
  bd_Version :: int
  bd_Error :: string
  bd_BuildLogTail :: string
  bd_BuildLogTruncated :: bool
  bd_BuildLogArtifactID :: string
  bd_StartedAt :: gotime
  bd_CompletedAt :: gotime
  bd_SnapshotID :: string
  bd_SessionID :: string
  bd_Spec :: "template_spec option"
  bd_SpecHash :: string
  bd_Image :: "registry_image option"
  bd_ImageDigest :: string
  bd_ImageDigestRef :: string
  bd_Events :: "build_event list"
  bd_Provenance :: "(string \<times> string \<times> string list) option"
  bd_Failure :: "(string \<times> string \<times> build_step option) option"

definition templateSpecFromProto :: "build_spec option \<Rightarrow> template_spec option" where
  "templateSpecFromProto s = map_option Some s"

definition templateBuildFromProto :: "build_proto option \<Rightarrow> template_build option" where
  "templateBuildFromProto b = map_option (\<lambda>b.
     \<lparr>bd_ID = bp_id b, bd_TemplateID = bp_template_id b, bd_State = templateBuildStateFromProto (bp_state b),
      bd_Version = bp_version b, bd_Error = get_string (bp_error b), bd_BuildLogTail = get_string (bp_log_tail b),
      bd_BuildLogTruncated = bp_log_truncated b, bd_BuildLogArtifactID = get_string (bp_log_artifact_id b),
      bd_StartedAt = timestampToTime (bp_started_at b), bd_CompletedAt = timestampToTime (bp_completed_at b),
      bd_SnapshotID = get_string (bp_snapshot_id b), bd_SessionID = get_string (bp_session_id b),
      bd_Spec = templateSpecFromProto (bp_builder_spec b), bd_SpecHash = get_string (bp_spec_hash b),
      bd_Image = registryImageFromProto (bp_image b), bd_ImageDigest = get_string (bp_image_digest b),
      bd_ImageDigestRef = get_string (bp_image_digest_ref b), bd_Events = build_events (bp_events b),
      bd_Provenance = map_option (\<lambda>(r, c, ks). (get_string r, get_string c, ks)) (bp_provenance b),
      bd_Failure = map_option (\<lambda>(c, m, s). (c, m, templateBuildStepFromProto s)) (bp_failure b)\<rparr>) b"

text \<open>
  \<open>TemplateBuildFailedError\<close>, seen through its text and \<open>Unwrap\<close>: the text is that of the sentinel it
  unwraps to, with the message when there is one.
\<close>

definition template_build_failed :: "template_build \<Rightarrow> go_error" where
  "template_build_failed b =
     (let message = (case bd_Failure b of Some (c, m, s) \<Rightarrow> m | None \<Rightarrow> [])
      in if message \<noteq> [] then Wrapf (Sentinel ErrTemplateBuildFailed) ('': '' @ message)
         else if bd_Error b \<noteq> [] then Wrapf (Sentinel ErrTemplateBuildFailed) ('': '' @ bd_Error b)
         else Wrapf (Sentinel ErrTemplateBuildFailed) [])"

section \<open>Templates\<close>

record template_proto =
  tp_Id :: string
  tp_WorkspaceId :: string
  tp_OwnerType :: string
  tp_OwnerId :: string
  tp_Name :: string
  tp_BaseImageId :: string
  tp_SetupScript :: string
  tp_StartCmd :: "string option"
  tp_EnvVars :: "(string, string) gomap"
  tp_Tags :: "string list"
  tp_Resources :: "template_resources option"
  tp_LatestBuild :: "build_proto option"
  tp_Visibility :: int
  tp_DefinitionMode :: int
  tp_ParentWorkspaceId :: "string option"
  tp_BuilderSpec :: "build_spec option"
  tp_SpecHash :: "string option"
  tp_CreatedAt :: "gotime option"
  tp_UpdatedAt :: "gotime option"

record template =
  tm_ID :: string
  tm_WorkspaceID :: string
  tm_OwnerType :: string
  tm_OwnerID :: string
  tm_Name :: string
  tm_BaseImageID :: string
  tm_SetupScript :: string
  tm_StartCmd :: string
  tm_EnvVars :: "(string, string) gomap"
  tm_Tags :: "string list"
  tm_Resources :: "template_resources option"
  tm_LatestBuild :: "template_build option"
  tm_Visibility :: template_visibility
  tm_DefinitionMode :: definition_mode
  tm_ParentWorkspaceID :: string
  tm_Spec :: "template_spec option"
  tm_SpecHash :: string
  tm_CreatedAt :: gotime
  tm_UpdatedAt :: gotime

definition templateFromProto :: "template_proto option \<Rightarrow> template option" where
  "templateFromProto t = map_option (\<lambda>t.
     \<lparr>tm_ID = tp_Id t, tm_WorkspaceID = tp_WorkspaceId t, tm_OwnerType = tp_OwnerType t, tm_OwnerID = tp_OwnerId t,
      tm_Name = tp_Name t, tm_BaseImageID = tp_BaseImageId t, tm_SetupScript = tp_SetupScript t,
      tm_StartCmd = get_string (tp_StartCmd t), tm_EnvVars = cloneStringMap (tp_EnvVars t), tm_Tags = tp_Tags t,
      tm_Resources = tp_Resources t, tm_LatestBuild = templateBuildFromProto (tp_LatestBuild t),
      tm_Visibility = templateVisibilityFromProto (tp_Visibility t),
      tm_DefinitionMode = templateDefinitionModeFromProto (tp_DefinitionMode t),
      tm_ParentWorkspaceID = get_string (tp_ParentWorkspaceId t), tm_Spec = templateSpecFromProto (tp_BuilderSpec t),
      tm_SpecHash = get_string (tp_SpecHash t), tm_CreatedAt = timestampToTime (tp_CreatedAt t),
      tm_UpdatedAt = timestampToTime (tp_UpdatedAt t)\<rparr>) t"

definition templatesFromProto :: "template_proto option list \<Rightarrow> template option list" where
  "templatesFromProto ts = map templateFromProto ts"

section \<open>References\<close>

text \<open>The dynamic argument: a resource (possibly nil) by its ID, a string, or a value of another type.\<close>

datatype ref_arg = ResourceRef "string option" | RawRef string | OtherRef string

definition templateRefID :: "ref_arg \<Rightarrow> (go_error, string) result" where
  "templateRefID r = (case r of
     ResourceRef i \<Rightarrow> (case i of
         Some i \<Rightarrow> if i = [] then Inl (Plain ''sandbox: template reference has no ID'') else Inr i
       | None \<Rightarrow> Inl (Plain ''sandbox: template reference has no ID''))
   | RawRef s \<Rightarrow> if TrimSpace s = [] then Inl (Plain ''sandbox: template ID is required'') else Inr (TrimSpace s)
   | OtherRef ty \<Rightarrow> Inl (Plain (''sandbox: template reference must be *Template or string ID, got '' @ ty)))"

definition templateBuildRefID :: "ref_arg \<Rightarrow> (go_error, string) result" where
  "templateBuildRefID r = (case r of
     ResourceRef i \<Rightarrow> (case i of
         Some i \<Rightarrow> if i = [] then Inl (Plain ''sandbox: template build reference has no ID'') else Inr i
       | None \<Rightarrow> Inl (Plain ''sandbox: template build reference has no ID''))
   | RawRef s \<Rightarrow> if TrimSpace s = [] then Inl (Plain ''sandbox: template build ID is required'') else Inr (TrimSpace s)
   | OtherRef ty \<Rightarrow> Inl (Plain (''sandbox: template build reference must be *TemplateBuild or string ID, got '' @ ty)))"

section \<open>Creating and updating\<close>

definition errTemplateSpecLegacyConflict :: go_error where
  "errTemplateSpecLegacyConflict = Plain ''sandbox: WithTemplateSpec cannot be combined with legacy template field options''"

definition legacy_fields :: "template_config \<Rightarrow> bool" where
  "legacy_fields cfg \<longleftrightarrow> tc_baseImageIDSet cfg \<or> tc_setupScriptSet cfg \<or> tc_startCmdSet cfg \<or> tc_envSet cfg \<or> tc_resourcesSet cfg"

text \<open>The checks of both calls; \<open>conflict\<close> says when a typed recipe meets fields of the other form.\<close>

definition template_checks :: "(template_config \<Rightarrow> bool) \<Rightarrow> template_config \<Rightarrow> go_error option" where
  "template_checks conflict cfg = first_error
     [(if tc_resourcesSet cfg then validateTemplateResources (tc_resources cfg) else None),
      (case tc_spec cfg of
         None \<Rightarrow> None
       | Some s \<Rightarrow> if conflict cfg then Some errTemplateSpecLegacyConflict else Validate s)]"

record create_template =
  ct_Name :: string
  ct_BaseImageId :: string
  ct_SetupScript :: string
  ct_EnvVars :: "(string, string) gomap"
  ct_Tags :: "string list"
  ct_WorkspaceId :: string
  ct_ParentTemplateId :: "string option"
  ct_ParentImage :: "string option"
  ct_StartCmd :: "string option"
  ct_Resources :: "template_resources option"
  ct_BuilderSpec :: "build_spec option"

definition create_template_request :: "template_config \<Rightarrow> (go_error, create_template) result" where
  "create_template_request cfg =
     (case template_checks (\<lambda>cfg. legacy_fields cfg \<or> TrimSpace (tc_parentTemplateID cfg) \<noteq> [] \<or> TrimSpace (tc_parentImage cfg) \<noteq> []) cfg of
        Some e \<Rightarrow> Inl e
      | None \<Rightarrow> Inr
          \<lparr>ct_Name = tc_name cfg, ct_BaseImageId = tc_baseImageID cfg, ct_SetupScript = tc_setupScript cfg,
           ct_EnvVars = cloneStringMap (tc_env cfg), ct_Tags = tc_tags cfg, ct_WorkspaceId = TrimSpace (tc_workspaceID cfg),
           ct_ParentTemplateId = opt_text (tc_parentTemplateID cfg), ct_ParentImage = opt_text (tc_parentImage cfg),
           ct_StartCmd = (if tc_startCmdSet cfg then tc_startCmd cfg else None),
           ct_Resources = (if tc_resourcesSet cfg then tc_resources cfg else None),
           ct_BuilderSpec = map_option toProto (tc_spec cfg)\<rparr>)"

definition CreateTemplate ::
  "(create_template \<Rightarrow> (go_error, template_proto option) result) \<Rightarrow> template_config opt_fn list \<Rightarrow> (go_error, template option) result" where
  "CreateTemplate call opts =
     (case create_template_request (apply_opts opts defaultTemplateConfig) of
        Inl e \<Rightarrow> Inl e
      | Inr req \<Rightarrow> (case call req of
          Inl err \<Rightarrow> Inl (the (mapTemplateSpecError (Some err)))
        | Inr t \<Rightarrow> Inr (templateFromProto t)))"

record update_template =
  ut_TemplateId :: string
  ut_Name :: "string option"
  ut_BaseImageId :: "string option"
  ut_SetupScript :: "string option"
  ut_StartCmd :: "string option"
  ut_EnvVars :: "(string, string) gomap option"
  ut_Tags :: "string list"
  ut_ClearTags :: bool
  ut_Resources :: "template_resources option"
  ut_BuilderSpec :: "build_spec option"

definition update_template_request :: "ref_arg \<Rightarrow> template_config \<Rightarrow> (go_error, update_template) result" where
  "update_template_request ref cfg =
     (case templateRefID ref of
        Inl e \<Rightarrow> Inl e
      | Inr templateID \<Rightarrow> (case template_checks legacy_fields cfg of
          Some e \<Rightarrow> Inl e
        | None \<Rightarrow> Inr
            \<lparr>ut_TemplateId = templateID, ut_Name = (if tc_nameSet cfg then Some (tc_name cfg) else None),
             ut_BaseImageId = (if tc_baseImageIDSet cfg then Some (tc_baseImageID cfg) else None),
             ut_SetupScript = (if tc_setupScriptSet cfg then Some (tc_setupScript cfg) else None),
             ut_StartCmd = (if tc_startCmdSet cfg then tc_startCmd cfg else None),
             ut_EnvVars = (if tc_envSet cfg then Some (cloneStringMap (tc_env cfg)) else None),
             ut_Tags = (if tc_tagsSet cfg then tc_tags cfg else []), ut_ClearTags = (tc_tagsSet cfg \<and> tc_tags cfg = []),
             ut_Resources = (if tc_resourcesSet cfg then tc_resources cfg else None),
             ut_BuilderSpec = map_option toProto (tc_spec cfg)\<rparr>))"

definition UpdateTemplate ::
  "(update_template \<Rightarrow> (go_error, template_proto option) result) \<Rightarrow> ref_arg \<Rightarrow> template_config opt_fn list
    \<Rightarrow> (go_error, template option) result" where
  "UpdateTemplate call ref opts =
     (case update_template_request ref (apply_opts opts defaultTemplateConfig) of
        Inl e \<Rightarrow> Inl e
      | Inr req \<Rightarrow> (case call req of
          Inl err \<Rightarrow> Inl (the (mapTemplateSpecError (Some err)))
        | Inr t \<Rightarrow> Inr (templateFromProto t)))"

text \<open>The calls that take a reference and return a template or a build.\<close>

definition by_reference ::
  "(ref_arg \<Rightarrow> (go_error, string) result) \<Rightarrow> ('p \<Rightarrow> 'a) \<Rightarrow> (string \<Rightarrow> (go_error, 'p) result) \<Rightarrow> ref_arg \<Rightarrow> (go_error, 'a) result" where
  "by_reference refID view call ref =
     (case refID ref of Inl e \<Rightarrow> Inl e | Inr i \<Rightarrow> answered view (call i))"

definition GetTemplate ::
  "(string \<Rightarrow> (go_error, template_proto option) result) \<Rightarrow> ref_arg \<Rightarrow> (go_error, template option) result" where
  "GetTemplate = by_reference templateRefID templateFromProto"

definition DeleteTemplate ::
  "(string \<Rightarrow> (go_error, template_proto option) result) \<Rightarrow> ref_arg \<Rightarrow> (go_error, template option) result" where
  "DeleteTemplate = by_reference templateRefID templateFromProto"

definition ListActiveTemplateBuilds ::
  "(string \<Rightarrow> (go_error, build_proto option list) result) \<Rightarrow> ref_arg \<Rightarrow> (go_error, template_build option list) result" where
  "ListActiveTemplateBuilds = by_reference templateRefID (map templateBuildFromProto)"

definition GetTemplateBuild ::
  "(string \<Rightarrow> (go_error, build_proto option) result) \<Rightarrow> ref_arg \<Rightarrow> (go_error, template_build option) result" where
  "GetTemplateBuild = by_reference templateBuildRefID templateBuildFromProto"

definition CancelTemplateBuild ::
  "(string \<Rightarrow> (go_error, build_proto option) result) \<Rightarrow> ref_arg \<Rightarrow> (go_error, template_build option) result" where
  "CancelTemplateBuild = by_reference templateBuildRefID templateBuildFromProto"

section \<open>Waiting for a build\<close>

definition templateBuildPollInterval :: duration where "templateBuildPollInterval = 2 * Second"

text \<open>The events handed to the handler, and the first error it returns. The events are the unseen ones.\<close>

fun hand_over :: "(build_event \<Rightarrow> go_error option) \<Rightarrow> build_event list \<Rightarrow> build_event list \<times> go_error option" where
  "hand_over h [] = ([], None)"
| "hand_over h (e # es) = (case h e of
     Some err \<Rightarrow> ([e], Some err)
   | None \<Rightarrow> (let (handled, r) = hand_over h es in (e # handled, r)))"

text \<open>
  A turn is the answer of the server and whether the context ended during the wait after it. The
  result is the list of events handed over, and the build with the error; \<open>Some None\<close> is the panic on an
  answer without a build, \<open>None\<close> that the observations end first.
\<close>

type_synonym build_turn = "(go_error, build_proto option) result \<times> go_error option"
type_synonym build_wait = "build_event list \<times> (template_build option \<times> go_error option) option option"

fun waitForTemplateBuild ::
  "(build_event \<Rightarrow> go_error option) option \<Rightarrow> string \<Rightarrow> nat \<Rightarrow> build_turn list \<Rightarrow> build_wait" where
  "waitForTemplateBuild handler buildID seen [] = ([], None)"
| "waitForTemplateBuild handler buildID seen ((reply, ctx) # ts) =
     (case GetTemplateBuild (\<lambda>_. reply) (RawRef buildID) of
        Inl err \<Rightarrow> ([], Some (Some (None, Some err)))
      | Inr None \<Rightarrow> ([], Some None)
      | Inr (Some b) \<Rightarrow>
          (let (handled, r) = (case handler of None \<Rightarrow> ([], None) | Some h \<Rightarrow> hand_over h (drop seen (bd_Events b)));
               seen = (if Option.is_none handler then seen else max seen (length (bd_Events b)))
           in case r of
                Some err \<Rightarrow> (handled, Some (Some (None, Some err)))
              | None \<Rightarrow>
                  if bd_State b = BuildReady then (handled, Some (Some (Some b, None)))
                  else if bd_State b = BuildFailed then (handled, Some (Some (Some b, Some (template_build_failed b))))
                  else (case ctx of
                      Some e \<Rightarrow> (handled, Some (Some (None, Some e)))
                    | None \<Rightarrow> (let (more, out) = waitForTemplateBuild handler buildID seen ts in (handled @ more, out)))))"

definition WaitForTemplateBuildWithEvents ::
  "build_turn list \<Rightarrow> ref_arg \<Rightarrow> (build_event \<Rightarrow> go_error option) option \<Rightarrow> build_wait" where
  "WaitForTemplateBuildWithEvents turns ref handler =
     (case templateBuildRefID ref of
        Inl e \<Rightarrow> ([], Some (Some (None, Some e)))
      | Inr i \<Rightarrow> waitForTemplateBuild handler i 0 turns)"

definition WaitForTemplateBuild :: "build_turn list \<Rightarrow> ref_arg \<Rightarrow> build_wait" where
  "WaitForTemplateBuild turns ref =
     (case templateBuildRefID ref of
        Inl e \<Rightarrow> ([], Some (Some (None, Some e)))
      | Inr i \<Rightarrow> waitForTemplateBuild None i 0 turns)"

record build_request =
  br_TemplateId :: string
  br_PublishRawImage :: "bool option"
  br_BuildEnv :: "(string, string) gomap"
  br_BuildSecrets :: "(string, string) gomap"

definition no_build_config :: "'h build_config" where
  "no_build_config = \<lparr>tb_publishRawImage = None, tb_buildEnv = [], tb_buildSecrets = [], tb_waitForCompletion = False,
     tb_eventHandler = None\<rparr>"

definition BuildTemplate ::
  "(build_request \<Rightarrow> (go_error, build_proto option) result) \<Rightarrow> build_turn list \<Rightarrow> ref_arg
    \<Rightarrow> (build_event \<Rightarrow> go_error option) build_config opt_fn list \<Rightarrow> build_wait" where
  "BuildTemplate call turns ref opts =
     (case templateRefID ref of
        Inl e \<Rightarrow> ([], Some (Some (None, Some e)))
      | Inr templateID \<Rightarrow>
          (let cfg = apply_opts opts no_build_config
           in case call \<lparr>br_TemplateId = templateID, br_PublishRawImage = tb_publishRawImage cfg,
               br_BuildEnv = cloneStringMap (tb_buildEnv cfg), br_BuildSecrets = cloneStringMap (tb_buildSecrets cfg)\<rparr> of
             Inl err \<Rightarrow> ([], Some (Some (None, mapTemplateSpecError (Some err))))
           | Inr reply \<Rightarrow>
               (let b = templateBuildFromProto reply
                in if \<not> tb_waitForCompletion cfg then ([], Some (Some (b, None)))
                   else case b of
                     None \<Rightarrow> ([], Some None)
                   | Some b \<Rightarrow> waitForTemplateBuild (tb_eventHandler cfg) (bd_ID b) 0 turns)))"

text \<open>The pages of \<open>ListTemplates\<close>: workspace, page size, page token and tags.\<close>

definition ListTemplates ::
  "('s \<Rightarrow> string \<times> int \<times> string \<times> string list \<Rightarrow> 's \<times> (go_error, template_proto option list \<times> string) result) \<Rightarrow> 's
    \<Rightarrow> list_config opt_fn list \<Rightarrow> (go_error, template option list) result option" where
  "ListTemplates serve s opts =
     (let cfg = apply_opts opts defaultListConfig
      in paged serve (\<lambda>tok. (lc_workspaceID cfg, automaticPageSize, tok, lc_tags cfg)) templatesFromProto s)"

interpretation templates: listing "\<lambda>serve s. ListTemplates serve s opts"
    "\<lambda>tok. let cfg = apply_opts opts defaultListConfig in (lc_workspaceID cfg, automaticPageSize, tok, lc_tags cfg)" templatesFromProto
  by unfold_locales (simp add: ListTemplates_def Let_def)

section \<open>Properties of the requests\<close>

text \<open>The options of a template, and what they keep: a field that is not marked as set is empty.\<close>

inductive is_template_option :: "(template_config \<Rightarrow> template_config) \<Rightarrow> bool" where
  workspaceIDOption_applyTemplate: "is_template_option (workspaceIDOption_applyTemplate i)"
| WithTemplateName: "is_template_option (WithTemplateName n)"
| WithSetupScript: "is_template_option (WithSetupScript x)"
| WithStartCmd: "is_template_option (WithStartCmd x)"
| envOption_applyTemplate: "is_template_option (envOption_applyTemplate m)"
| WithTags_template: "is_template_option (WithTags_template lower ts)"
| WithTemplateResources: "is_template_option (WithTemplateResources c m)"
| WithTemplateDiskSizeGB: "is_template_option (WithTemplateDiskSizeGB gb)"
| WithBaseImageID: "is_template_option (WithBaseImageID i)"
| WithParentTemplateID: "is_template_option (WithParentTemplateID i)"
| WithParentImage: "is_template_option (WithParentImage i)"
| WithTemplateSpec: "is_template_option (WithTemplateSpec t)"

definition wf_template :: "template_config \<Rightarrow> bool" where
  "wf_template cfg \<longleftrightarrow>
     (\<not> tc_baseImageIDSet cfg \<longrightarrow> tc_baseImageID cfg = []) \<and> (\<not> tc_setupScriptSet cfg \<longrightarrow> tc_setupScript cfg = []) \<and>
     (\<not> tc_envSet cfg \<longrightarrow> tc_env cfg = [])"

lemma template_option_keeps_wf: "is_template_option f \<Longrightarrow> wf_template c \<Longrightarrow> wf_template (f c)"
  by (induction rule: is_template_option.induct)
    (simp_all add: wf_template_def workspaceIDOption_applyTemplate_def WithTemplateName_def WithSetupScript_def
      WithStartCmd_def envOption_applyTemplate_def WithTags_template_def WithTemplateResources_def
      WithTemplateDiskSizeGB_def WithBaseImageID_def WithParentTemplateID_def WithParentImage_def WithTemplateSpec_def Let_def)

lemma template_options_wf:
  assumes "\<And>f. Some f \<in> set opts \<Longrightarrow> is_template_option f"
  shows "wf_template (apply_opts opts defaultTemplateConfig)"
  by (rule apply_opts_invariant [where P = wf_template])
    (simp_all add: assms template_option_keeps_wf, simp add: wf_template_def defaultTemplateConfig_def)

lemma template_checks_None:
  "template_checks conflict cfg = None \<longleftrightarrow>
     (tc_resourcesSet cfg \<longrightarrow> validateTemplateResources (tc_resources cfg) = None) \<and>
     (case tc_spec cfg of None \<Rightarrow> True | Some t \<Rightarrow> \<not> conflict cfg \<and> template_contract (spec_clone t))"
  by (auto simp: template_checks_def simp flip: Validate_None split: option.splits)

lemma no_resources_valid [simp]: "validateTemplateResources None = None"
  by (simp add: validateTemplateResources_def)

lemma opt_text_None [simp]: "opt_text s = None \<longleftrightarrow> TrimSpace s = []"
  by (simp add: opt_text_def)

lemma create_template_requestD:
  assumes "create_template_request cfg = Inr req" and wf: "wf_template cfg"
  shows "validateTemplateResources (ct_Resources req) = None \<and>
    (case ct_BuilderSpec req of
       None \<Rightarrow> True
     | Some p \<Rightarrow> template_contract p \<and> ct_BaseImageId req = [] \<and> ct_SetupScript req = [] \<and> ct_StartCmd req = None \<and>
         ct_EnvVars req = [] \<and> ct_Resources req = None \<and> ct_ParentTemplateId req = None \<and> ct_ParentImage req = None)"
proof -
  let ?conflict = "\<lambda>cfg. legacy_fields cfg \<or> TrimSpace (tc_parentTemplateID cfg) \<noteq> [] \<or> TrimSpace (tc_parentImage cfg) \<noteq> []"
  have ok: "template_checks ?conflict cfg = None"
    using assms(1) by (cases "template_checks ?conflict cfg") (simp_all add: create_template_request_def)
  have req: "ct_Resources req = (if tc_resourcesSet cfg then tc_resources cfg else None)"
    "ct_BuilderSpec req = map_option toProto (tc_spec cfg)" "ct_BaseImageId req = tc_baseImageID cfg"
    "ct_SetupScript req = tc_setupScript cfg" "ct_EnvVars req = cloneStringMap (tc_env cfg)"
    "ct_StartCmd req = (if tc_startCmdSet cfg then tc_startCmd cfg else None)"
    "ct_ParentTemplateId req = opt_text (tc_parentTemplateID cfg)" "ct_ParentImage req = opt_text (tc_parentImage cfg)"
    using assms(1) ok by (auto simp: create_template_request_def)
  show ?thesis
    using ok [unfolded template_checks_None] wf [unfolded wf_template_def]
    by (cases "tc_spec cfg") (simp_all add: req legacy_fields_def cloneStringMap_def map_put_all_def toProto_def)
qed

text \<open>C33: the request of \<open>CreateTemplate\<close>, whatever options the caller gives and in whatever order, asks only for
  accepted resources, and carries either a typed recipe, which then satisfies the whole documented contract, or
  the fields of the older form, never both.\<close>

theorem create_template_sound:
  assumes "\<And>f. Some f \<in> set opts \<Longrightarrow> is_template_option f"
    and "create_template_request (apply_opts opts defaultTemplateConfig) = Inr req"
  shows "validateTemplateResources (ct_Resources req) = None \<and>
    (case ct_BuilderSpec req of
       None \<Rightarrow> True
     | Some p \<Rightarrow> template_contract p \<and> ct_BaseImageId req = [] \<and> ct_SetupScript req = [] \<and> ct_StartCmd req = None \<and>
         ct_EnvVars req = [] \<and> ct_Resources req = None \<and> ct_ParentTemplateId req = None \<and> ct_ParentImage req = None)"
  by (rule create_template_requestD [OF assms(2) template_options_wf [OF assms(1)]])

theorem create_template_sound_witness:
  "\<exists>req. create_template_request (apply_opts [Some (WithTemplateName ''api''), None,
      Some (WithTemplateSpec (Run ''make'' [] NewTemplateSpec))] defaultTemplateConfig) = Inr req \<and> ct_BaseImageId req = []"
proof -
  let ?opts = "[Some (WithTemplateName ''api''), None, Some (WithTemplateSpec (Run ''make'' [] NewTemplateSpec))]"
  have opts: "\<And>f. Some f \<in> set ?opts \<Longrightarrow> is_template_option f"
    by (auto intro: is_template_option.intros)
  have "Validate (Run ''make'' [] NewTemplateSpec) = None" unfolding Validate_None by code_simp
  then obtain req where req: "create_template_request (apply_opts ?opts defaultTemplateConfig) = Inr req"
    by (simp add: create_template_request_def template_checks_def WithTemplateName_def WithTemplateSpec_def
        defaultTemplateConfig_def legacy_fields_def)
  moreover have "ct_BuilderSpec req = Some (toProto (Run ''make'' [] NewTemplateSpec))"
    using req by (auto simp: create_template_request_def WithTemplateName_def WithTemplateSpec_def
        defaultTemplateConfig_def split: option.splits)
  ultimately show ?thesis using create_template_sound [OF opts req] by auto
qed

section \<open>Properties of the wait\<close>

text \<open>The builds that the server answers with, as the caller sees them.\<close>

fun answered_builds :: "build_turn list \<Rightarrow> template_build list" where
  "answered_builds [] = []"
| "answered_builds ((Inr (Some p), ctx) # ts) = the (templateBuildFromProto (Some p)) # answered_builds ts"
| "answered_builds (_ # ts) = answered_builds ts"

lemma GetTemplateBuild_Some:
  "GetTemplateBuild (\<lambda>_. reply) (RawRef i) = Inr (Some b) \<Longrightarrow>
     \<exists>p. reply = Inr (Some p) \<and> b = the (templateBuildFromProto (Some p))"
  by (auto simp: GetTemplateBuild_def by_reference_def answered_def templateBuildRefID_def templateBuildFromProto_def
      split: sum.splits if_splits)

lemma hand_over_all: "hand_over h es = (handled, None) \<Longrightarrow> handled = es"
  by (induction es arbitrary: handled) (auto split: option.splits prod.splits)

lemma hand_over_prefix: "prefix (fst (hand_over h es)) es"
  by (induction es) (auto split: option.splits prod.splits)

lemma drop_prefix_append: "n \<le> length xs \<Longrightarrow> prefix xs ys \<Longrightarrow> drop n xs @ drop (length xs) ys = drop n ys"
  by (auto simp: prefix_def)

text \<open>One turn of the wait with a handler: what it answers, and how the wait goes on.\<close>

lemma wait_turn:
  assumes "waitForTemplateBuild (Some h) i seen ((reply, ctx) # ts) = (handled, out)"
    and "GetTemplateBuild (\<lambda>_. reply) (RawRef i) = Inr (Some c)"
    and "hand_over h (drop seen (bd_Events c)) = (now, r)"
  shows "(case r of
      Some e \<Rightarrow> handled = now \<and> out = Some (Some (None, Some e))
    | None \<Rightarrow>
        if BuildState_IsTerminal (bd_State c)
        then handled = now \<and> out = Some (Some (Some c, if bd_State c = BuildReady then None else Some (template_build_failed c)))
        else (case ctx of
          Some e \<Rightarrow> handled = now \<and> out = Some (Some (None, Some e))
        | None \<Rightarrow> \<exists>more. waitForTemplateBuild (Some h) i (max seen (length (bd_Events c))) ts = (more, out) \<and> handled = now @ more))"
  using assms by (auto simp: BuildState_IsTerminal_def split: option.splits prod.splits if_splits)

lemma wait_reply_ends:
  assumes "waitForTemplateBuild handler i seen ((reply, ctx) # ts) = (handled, out)"
    and "\<nexists>c. GetTemplateBuild (\<lambda>_. reply) (RawRef i) = Inr (Some c)"
  shows "handled = [] \<and> (case out of Some (Some (Some b, e)) \<Rightarrow> False | _ \<Rightarrow> True)"
  using assms by (auto split: sum.splits option.splits)

definition grows :: "build_turn list \<Rightarrow> bool" where
  "grows ts \<longleftrightarrow> sorted_wrt (\<lambda>b c. prefix (bd_Events b) (bd_Events c)) (answered_builds ts)"

text \<open>What a wait that starts after \<open>seen\<close> events has handed over.\<close>

definition handed_over ::
  "(build_event \<Rightarrow> go_error option) \<Rightarrow> nat \<Rightarrow> build_turn list \<Rightarrow> build_event list \<Rightarrow> (template_build option \<times> go_error option) option option \<Rightarrow> bool" where
  "handed_over h seen ts handled out \<longleftrightarrow>
     (handled = [] \<or> list_ex (\<lambda>c. prefix handled (drop seen (bd_Events c))) (answered_builds ts)) \<and>
     (case out of
        Some (Some (Some b, err)) \<Rightarrow>
          b \<in> set (answered_builds ts) \<and> handled = drop seen (bd_Events b) \<and> BuildState_IsTerminal (bd_State b) \<and>
          list_all (\<lambda>e. h e = None) handled \<and>
          err = (if bd_State b = BuildReady then None else Some (template_build_failed b))
      | _ \<Rightarrow> True)"

lemma hand_over_accepted: "hand_over h es = (handled, None) \<Longrightarrow> list_all (\<lambda>e. h e = None) handled"
  by (induction es arbitrary: handled) (auto split: option.splits prod.splits)

lemma handed_over_earlier:
  assumes answered: "answered_builds (t # ts) = c # answered_builds ts"
    and rest: "handed_over h (length (bd_Events c)) ts later_events out"
    and accepted: "list_all (\<lambda>e. h e = None) (drop seen (bd_Events c))"
    and join: "\<And>d. d \<in> set (answered_builds ts) \<Longrightarrow>
      drop seen (bd_Events c) @ drop (length (bd_Events c)) (bd_Events d) = drop seen (bd_Events d)"
  shows "handed_over h seen (t # ts) (drop seen (bd_Events c) @ later_events) out"
proof -
  let ?handled = "drop seen (bd_Events c) @ later_events"
  have "list_ex (\<lambda>d. prefix ?handled (drop seen (bd_Events d))) (answered_builds (t # ts))"
  proof (cases "later_events = []")
    case True
    then show ?thesis by (simp add: answered)
  next
    case False
    with rest obtain d where d: "d \<in> set (answered_builds ts)" "prefix later_events (drop (length (bd_Events c)) (bd_Events d))"
      by (auto simp: handed_over_def list_ex_iff)
    then have "prefix ?handled (drop seen (bd_Events d))" by (simp flip: join [OF d(1)])
    with d(1) show ?thesis by (auto simp: answered list_ex_iff)
  qed
  moreover have "b \<in> set (answered_builds (t # ts)) \<and> ?handled = drop seen (bd_Events b) \<and>
      BuildState_IsTerminal (bd_State b) \<and> list_all (\<lambda>e. h e = None) (drop seen (bd_Events b)) \<and>
      err = (if bd_State b = BuildReady then None else Some (template_build_failed b))"
    if "out = Some (Some (Some b, err))" for b err
  proof -
    have b: "b \<in> set (answered_builds ts)" and rest: "later_events = drop (length (bd_Events c)) (bd_Events b)"
      "BuildState_IsTerminal (bd_State b)" "list_all (\<lambda>e. h e = None) later_events"
      "err = (if bd_State b = BuildReady then None else Some (template_build_failed b))"
      using rest [unfolded handed_over_def that option.case prod.case] by blast+
    have joined: "?handled = drop seen (bd_Events b)" unfolding rest(1) using b by (rule join)
    moreover have "list_all (\<lambda>e. h e = None) ?handled" using accepted rest(3) by simp
    then have "list_all (\<lambda>e. h e = None) (drop seen (bd_Events b))" by (simp only: joined)
    ultimately show ?thesis using b rest(2,4) by (simp add: answered)
  qed
  ultimately show ?thesis by (auto simp: handed_over_def split: option.splits)
qed

lemma wait_hands_over:
  assumes "waitForTemplateBuild (Some h) i seen ts = (handled, out)" and "grows ts"
    and "\<And>c. c \<in> set (answered_builds ts) \<Longrightarrow> seen \<le> length (bd_Events c)"
  shows "handed_over h seen ts handled out"
  using assms
proof (induction ts arbitrary: seen handled)
  case Nil
  then show ?case by (simp add: handed_over_def)
next
  case (Cons t ts)
  obtain reply ctx where t: "t = (reply, ctx)" by (cases t)
  show ?case
  proof (cases "\<exists>c. GetTemplateBuild (\<lambda>_. reply) (RawRef i) = Inr (Some c)")
    case False
    with wait_reply_ends [of "Some h" i seen reply ctx ts handled out] Cons.prems(1) t show ?thesis
      by (auto simp: handed_over_def split: option.splits)
  next
    case True
    then obtain c where get: "GetTemplateBuild (\<lambda>_. reply) (RawRef i) = Inr (Some c)" by blast
    then have answered: "answered_builds (t # ts) = c # answered_builds ts"
      using GetTemplateBuild_Some [OF get] by (auto simp: t)
    have seen: "seen \<le> length (bd_Events c)" using Cons.prems(3) by (simp add: answered)
    obtain now r where now: "hand_over h (drop seen (bd_Events c)) = (now, r)" by (cases "hand_over h (drop seen (bd_Events c))")
    have before: "prefix now (drop seen (bd_Events c))" using hand_over_prefix [of h "drop seen (bd_Events c)"] by (simp add: now)
    note turn = wait_turn [OF Cons.prems(1) [unfolded t] get now]
    show ?thesis
    proof (cases "r = None \<and> \<not> BuildState_IsTerminal (bd_State c) \<and> ctx = None")
      case False
      with turn before hand_over_all [of h "drop seen (bd_Events c)" now] hand_over_accepted [of h "drop seen (bd_Events c)" now]
      show ?thesis by (auto simp: handed_over_def answered now split: option.splits if_splits)
    next
      case True
      with turn obtain later_events where rest: "waitForTemplateBuild (Some h) i (max seen (length (bd_Events c))) ts = (later_events, out)"
        and handled: "handled = now @ later_events" by auto
      have "now = drop seen (bd_Events c)" using True now hand_over_all by fastforce
      with handled have handled: "handled = drop seen (bd_Events c) @ later_events" by simp
      have accepted: "list_all (\<lambda>e. h e = None) (drop seen (bd_Events c))"
        using True now hand_over_accepted hand_over_all by metis
      have later: "prefix (bd_Events c) (bd_Events d)" if "d \<in> set (answered_builds ts)" for d
        using Cons.prems(2) that by (simp add: grows_def answered)
      have "handed_over h (length (bd_Events c)) ts later_events out"
      proof (rule Cons.IH)
        show "waitForTemplateBuild (Some h) i (length (bd_Events c)) ts = (later_events, out)" using rest seen by (simp add: max_absorb2)
        show "grows ts" using Cons.prems(2) by (simp add: grows_def answered)
        show "length (bd_Events c) \<le> length (bd_Events d)" if "d \<in> set (answered_builds ts)" for d
          using later [OF that] by (rule prefix_length_le)
      qed
      moreover have "drop seen (bd_Events c) @ drop (length (bd_Events c)) (bd_Events d) = drop seen (bd_Events d)"
        if "d \<in> set (answered_builds ts)" for d
        using seen later [OF that] by (rule drop_prefix_append)
      ultimately show ?thesis
        unfolding handled by (rule handed_over_earlier [OF answered _ accepted])
    qed
  qed
qed

text \<open>While a build is awaited its events are handed over in order, each once, though every answer of the server
  carries all of them again: if the event lists of the answers extend one another, what the handler gets is always a
  prefix of the events of an answered build, and when a build is returned it is exactly the events of that build; the
  build has ended then, and the error is that of a failed build exactly if it did not end ready.\<close>

theorem build_events_once:
  assumes "WaitForTemplateBuildWithEvents ts ref (Some h) = (handled, out)" and "grows ts"
  shows "(handled = [] \<or> list_ex (\<lambda>c. prefix handled (bd_Events c)) (answered_builds ts)) \<and>
    (case out of
       Some (Some (Some b, err)) \<Rightarrow>
         b \<in> set (answered_builds ts) \<and> handled = bd_Events b \<and> BuildState_IsTerminal (bd_State b) \<and>
         list_all (\<lambda>e. h e = None) handled \<and>
         err = (if bd_State b = BuildReady then None else Some (template_build_failed b))
     | _ \<Rightarrow> True)"
proof (cases "templateBuildRefID ref")
  case (Inl e)
  with assms show ?thesis by (auto simp: WaitForTemplateBuildWithEvents_def)
next
  case (Inr i)
  with assms(1) have "waitForTemplateBuild (Some h) i 0 ts = (handled, out)"
    by (simp add: WaitForTemplateBuildWithEvents_def)
  from wait_hands_over [OF this assms(2)] show ?thesis unfolding handed_over_def drop_0 by simp
qed

definition example_build :: "int \<Rightarrow> event_proto list \<Rightarrow> build_proto" where
  "example_build state events =
     \<lparr>bp_id = ''b1'', bp_template_id = ''t1'', bp_state = state, bp_version = 1, bp_error = None, bp_log_tail = None,
      bp_log_truncated = False, bp_log_artifact_id = None, bp_started_at = None, bp_completed_at = None,
      bp_snapshot_id = None, bp_session_id = None, bp_builder_spec = None, bp_spec_hash = None, bp_image = None,
      bp_image_digest = None, bp_image_digest_ref = None, bp_events = events, bp_provenance = None,
      bp_failure = Some (''E1'', ''step failed'', None)\<rparr>"

definition example_log :: "string \<Rightarrow> event_proto" where
  "example_log data = LogProto None ''build'' None 1 data"

theorem build_events_once_witness:
  "\<exists>b. WaitForTemplateBuildWithEvents
       [(Inr (Some (example_build 2 [example_log ''a''])), None),
        (Inr (Some (example_build 4 [example_log ''a'', EventUnset, example_log ''b''])), None)] (RawRef '' b1 '') (Some (\<lambda>_. None))
     = (bd_Events b, Some (Some (Some b, Some (template_build_failed b)))) \<and> length (bd_Events b) = 2"
proof -
  let ?ts = "[(Inr (Some (example_build 2 [example_log ''a''])), None),
    (Inr (Some (example_build 4 [example_log ''a'', EventUnset, example_log ''b''])), None)] :: build_turn list"
  let ?h = "\<lambda>_ :: build_event. None :: go_error option"
  have grows: "grows ?ts"
    by (simp add: grows_def example_build_def example_log_def templateBuildFromProto_def)
  have trim: "TrimSpace '' b1 '' = ''b1''" "TrimSpace ''b1'' = ''b1''" by code_simp+
  obtain handled b err where w: "WaitForTemplateBuildWithEvents ?ts (RawRef '' b1 '') (Some ?h) = (handled, Some (Some (Some b, err)))"
    and b: "bd_State b = BuildFailed" "length (bd_Events b) = 2"
    by (simp add: WaitForTemplateBuildWithEvents_def templateBuildRefID_def trim GetTemplateBuild_def by_reference_def
        answered_def templateBuildFromProto_def example_build_def example_log_def templateBuildStateFromProto_def)
  from build_events_once [OF w grows] b have "handled = bd_Events b" "err = Some (template_build_failed b)" by auto
  with w b(2) show ?thesis by blast
qed

text \<open>A turn that leaves a build unfinished, without an error, is followed by the next one, so the wait returns
  with the first answer that ends the build, is an error, or has no build.\<close>

lemma wait_returns_at_end:
  assumes "GetTemplateBuild (\<lambda>_. reply) (RawRef i) = Inr (Some b)" and "BuildState_IsTerminal (bd_State b)"
  shows "waitForTemplateBuild None i seen ((reply, ctx) # ts) =
    ([], Some (Some (Some b, if bd_State b = BuildReady then None else Some (template_build_failed b))))"
  using assms by (auto simp: BuildState_IsTerminal_def)

lemma update_ignores_parent:
  "update_template_request ref (WithParentTemplateID i (WithParentImage j cfg)) = update_template_request ref cfg"
proof -
  have "template_checks legacy_fields (WithParentTemplateID i (WithParentImage j cfg)) = template_checks legacy_fields cfg"
    by (simp add: template_checks_def legacy_fields_def WithParentTemplateID_def WithParentImage_def cong: option.case_cong)
  then show ?thesis
    by (simp add: update_template_request_def WithParentTemplateID_def WithParentImage_def cong: option.case_cong sum.case_cong)
qed

lemma template_resources_drop_disk:
  "tc_resources (WithTemplateResources c m (WithTemplateDiskSizeGB gb cfg)) =
     Some \<lparr>tr_CPUCores = c, tr_MemoryMB = m, tr_DiskSizeGB = 0\<rparr>"
  by (simp add: WithTemplateResources_def)

end
