(* ===== verification/CreateRequest.thy ===== *)
theory CreateRequest
  imports Options TemplateValidate
begin

text \<open>
  The client constructor and the request of \<open>Client.Create\<close> (\<open>sandbox.go\<close>), with the
  conversions of the egress rules (\<open>session.go\<close>) and of the tailnet attachment (\<open>tailnet.go\<close>).
  \<open>os.Getenv\<close> is the argument \<open>getenv\<close>; deriving a gateway address from the base URL goes
  through \<open>net/url\<close> and is the argument \<open>derive\<close>. The two transports the constructor builds are
  not modelled.
\<close>

section \<open>The client\<close>

record 'o client_info =
  ci_authToken :: string
  ci_baseURL :: string
  ci_gatewayAddress :: string
  ci_gatewayExplicit :: bool
  ci_httpTimeout :: duration
  ci_connectOpts :: "'o list"
  ci_dataPlaneReadyTimeout :: duration
  ci_warningHandler :: "'o option"
  ci_prewarm :: bool

definition first_set :: "(string \<Rightarrow> string) \<Rightarrow> string list \<Rightarrow> string option" where
  "first_set getenv names = find (\<lambda>v. v \<noteq> []) (map getenv names)"

definition env_client_config :: "(string \<Rightarrow> string) \<Rightarrow> 'o client_config \<Rightarrow> 'o client_config" where
  "env_client_config getenv cfg =
     (let cfg = (case first_set getenv [''TENKI_API_ENDPOINT'', ''TENKI_API_URL''] of
            None \<Rightarrow> cfg | Some u \<Rightarrow> cfg\<lparr>cl_baseURL := u\<rparr>);
          cfg = (case first_set getenv [''TENKI_SANDBOX_GATEWAY_URL''] of
            None \<Rightarrow> cfg | Some u \<Rightarrow> cfg\<lparr>cl_gatewayAddress := u\<rparr>)
      in (case first_set getenv [''TENKI_AUTH_TOKEN'', ''TENKI_API_KEY''] of
            None \<Rightarrow> cfg | Some k \<Rightarrow> cfg\<lparr>cl_authToken := k\<rparr>))"

definition New ::
  "(string \<Rightarrow> string) \<Rightarrow> (string \<Rightarrow> string) \<Rightarrow> 'o option \<Rightarrow> 'o client_config opt_fn list
    \<Rightarrow> (go_error, 'o client_info) result" where
  "New getenv derive defaultHandler opts =
     (let cfg = apply_opts opts (env_client_config getenv (defaultClientConfig defaultHandler));
          authToken = TrimSpace (cl_authToken cfg)
      in if authToken = [] then Inl (Sentinel ErrMissingAuthToken)
         else if \<not> HasPrefix authToken ''tk_'' then Inl (Sentinel ErrInvalidAuthToken)
         else
           let explicit = TrimSpace (cl_gatewayAddress cfg) \<noteq> []
           in Inr \<lparr>ci_authToken = authToken, ci_baseURL = cl_baseURL cfg,
                ci_gatewayAddress =
                  (if explicit then cl_gatewayAddress cfg else derive (cl_baseURL cfg)),
                ci_gatewayExplicit = explicit,
                ci_httpTimeout =
                  (case cl_httpClient cfg of None \<Rightarrow> cl_httpTimeout cfg | Some t \<Rightarrow> t),
                ci_connectOpts = cl_connectOpts cfg,
                ci_dataPlaneReadyTimeout = cl_dataPlaneReadyTimeout cfg,
                ci_warningHandler = cl_warningHandler cfg,
                ci_prewarm = (cl_httpClient cfg = None)\<rparr>)"

section \<open>Egress rules\<close>

datatype egress_path = PathExact string | PathPrefix string | PathRegex string | PathAny

record egress_rule_proto =
  ep_domains :: "string list"
  ep_methods :: "string list"
  ep_path :: egress_path

text \<open>\<open>set\<close> counts the path fields that are given.\<close>

definition paths_set :: "egress_rule \<Rightarrow> nat" where
  "paths_set r = length (filter (\<lambda>p. p \<noteq> []) [er_PathExact r, er_PathPrefix r, er_PathRegex r])"

definition egress_rule_to_proto :: "egress_rule \<Rightarrow> (go_error, egress_rule_proto) result" where
  "egress_rule_to_proto r =
     (if 1 < paths_set r then
        Inl (Plain ''sandbox: an egress HTTP rule may set only one of PathExact, PathPrefix, PathRegex'')
      else Inr \<lparr>ep_domains = er_Domains r, ep_methods = er_Methods r,
        ep_path =
          (if er_PathExact r \<noteq> [] then PathExact (er_PathExact r)
           else if er_PathPrefix r \<noteq> [] then PathPrefix (er_PathPrefix r)
           else if er_PathRegex r \<noteq> [] then PathRegex (er_PathRegex r) else PathAny)\<rparr>)"

fun egressHTTPRulesToProto :: "egress_rule list \<Rightarrow> (go_error, egress_rule_proto list) result" where
  "egressHTTPRulesToProto [] = Inr []"
| "egressHTTPRulesToProto (r # rs) =
     (case egress_rule_to_proto r of
        Inl e \<Rightarrow> Inl e
      | Inr p \<Rightarrow> (case egressHTTPRulesToProto rs of Inl e \<Rightarrow> Inl e | Inr ps \<Rightarrow> Inr (p # ps)))"

record egress_policy_proto =
  pp_allowDomains :: "string list"
  pp_allowCidrs :: "string list"
  pp_interceptHttps :: bool
  pp_allowedPorts :: "int list"
  pp_httpRules :: "egress_rule_proto list"

record egress_policy =
  eg_AllowDomains :: "string list"
  eg_AllowCIDRs :: "string list"
  eg_InterceptHTTPS :: bool
  eg_AllowedPorts :: "int list"
  eg_HTTPRules :: "egress_rule list"
  eg_PolicyNames :: "string list"

definition egress_rule_from_proto :: "egress_rule_proto \<Rightarrow> egress_rule" where
  "egress_rule_from_proto p =
     \<lparr>er_Domains = ep_domains p, er_Methods = ep_methods p,
      er_PathExact = (case ep_path p of PathExact s \<Rightarrow> s | _ \<Rightarrow> []),
      er_PathPrefix = (case ep_path p of PathPrefix s \<Rightarrow> s | _ \<Rightarrow> []),
      er_PathRegex = (case ep_path p of PathRegex s \<Rightarrow> s | _ \<Rightarrow> [])\<rparr>"

definition egressPolicyFromProto :: "egress_policy_proto option \<Rightarrow> egress_policy" where
  "egressPolicyFromProto p =
     (case p of
        None \<Rightarrow> \<lparr>eg_AllowDomains = [], eg_AllowCIDRs = [], eg_InterceptHTTPS = False,
                 eg_AllowedPorts = [], eg_HTTPRules = [], eg_PolicyNames = []\<rparr>
      | Some q \<Rightarrow> \<lparr>eg_AllowDomains = pp_allowDomains q, eg_AllowCIDRs = pp_allowCidrs q,
                   eg_InterceptHTTPS = pp_interceptHttps q, eg_AllowedPorts = pp_allowedPorts q,
                   eg_HTTPRules = map egress_rule_from_proto (pp_httpRules q),
                   eg_PolicyNames = []\<rparr>)"

section \<open>Tailnet attachment\<close>

datatype exit_policy = ExitUnspecified | ExitTenkiAllowlist | ExitNodeManaged
datatype pause_policy = PauseUnspecified | PauseReject | PauseRecreateOnResume
datatype tailnet_credential = AuthKeyCredential string | ProfileCredential string

record tailnet_proto =
  tp_provider :: string
  tp_attachment :: tailnet_attachment
  tp_credential :: tailnet_credential
  tp_exitPolicy :: exit_policy
  tp_pausePolicy :: pause_policy

definition tailnetExitPolicyProto :: "string \<Rightarrow> (go_error, exit_policy) result" where
  "tailnetExitPolicyProto v =
     (if v = [] then Inr ExitUnspecified
      else if v = ''tenki_allowlist'' then Inr ExitTenkiAllowlist
      else if v = ''exit_node_managed'' then Inr ExitNodeManaged
      else Inl (Plain (''sandbox: unsupported tailnet exit policy '' @ go_quote v)))"

definition tailnetEphemeralPausePolicyProto :: "string \<Rightarrow> (go_error, pause_policy) result" where
  "tailnetEphemeralPausePolicyProto v =
     (if v = [] then Inr PauseUnspecified
      else if v = ''reject'' then Inr PauseReject
      else if v = ''recreate_on_resume'' then Inr PauseRecreateOnResume
      else Inl (Plain (''sandbox: unsupported tailnet ephemeral pause policy '' @ go_quote v)))"

text \<open>
  The remaining fields are copied one by one; the message holds the attachment they come from.
\<close>

definition tailnetAttachmentProto :: "tailnet_attachment \<Rightarrow> (go_error, tailnet_proto) result" where
  "tailnetAttachmentProto a =
     (let provider = (if ta_Provider a = [] then ''tailscale'' else ta_Provider a)
      in if provider \<noteq> ''tailscale'' then
           Inl (Plain (''sandbox: unsupported tailnet provider '' @ go_quote provider))
         else if ta_ProfileID a \<noteq> [] \<and> ta_AuthKey a \<noteq> [] then
           Inl (Plain ''sandbox: provide one tailnet credential: AuthKey or ProfileID'')
         else if ta_ProfileID a = [] \<and> TrimSpace (ta_AuthKey a) = [] then
           Inl (Plain ''sandbox: tailnet auth key is required'')
         else
           case tailnetExitPolicyProto (ta_ExitPolicy a) of
             Inl e \<Rightarrow> Inl e
           | Inr ex \<Rightarrow>
               (case tailnetEphemeralPausePolicyProto (ta_EphemeralPausePolicy a) of
                  Inl e \<Rightarrow> Inl e
                | Inr pause \<Rightarrow>
                    Inr \<lparr>tp_provider = provider, tp_attachment = a,
                      tp_credential =
                        (if ta_ProfileID a \<noteq> [] then ProfileCredential (ta_ProfileID a)
                         else AuthKeyCredential (ta_AuthKey a)),
                      tp_exitPolicy = ex, tp_pausePolicy = pause\<rparr>))"

section \<open>The create request\<close>

datatype create_source = FromRegistry string | FromSnapshotID string | FromSpec string | NoSource

record create_request =
  cr_ownerType :: string
  cr_ownerId :: string
  cr_name :: string
  cr_allowInbound :: bool
  cr_allowOutbound :: bool
  cr_metadata :: "(string, string) gomap"
  cr_tags :: "string list"
  cr_env :: "(string, string) gomap"
  cr_sshKeys :: "string list"
  cr_enableOpencode :: bool
  cr_cloneRepoUrl :: string
  cr_setupEnv :: "(string, string) gomap"
  cr_setupSecrets :: "(string, string) gomap"
  cr_secretOverrides :: "(string, string) gomap"
  cr_secretPolicies :: "string list"
  cr_secretFiles :: "secret_file option list"
  cr_runtime :: "template_runtime option"
  cr_egress :: "egress_policy_proto option"
  cr_egressPolicies :: "string list"
  cr_volumes :: "(string \<times> string \<times> bool) list"
  cr_maxDuration :: "duration option"
  cr_pauseRetention :: "duration option"
  cr_waitReady :: bool
  cr_waitForRuntime :: bool
  cr_sticky :: bool
  cr_cpuCores :: "int option"
  cr_memoryMb :: "int option"
  cr_diskSizeGb :: "int option"
  cr_source :: create_source
  cr_workspaceId :: "string option"
  cr_disableTailnet :: bool
  cr_tailnet :: "tailnet_proto option"

definition source_count :: "create_config \<Rightarrow> nat" where
  "source_count cfg = length (filter (\<lambda>s. s \<noteq> []) [cc_image cfg, cc_snapshotID cfg, cc_templateSpecID cfg])"

definition has_source :: "create_config \<Rightarrow> bool" where
  "has_source cfg \<longleftrightarrow> cc_image cfg \<noteq> [] \<or> cc_snapshotID cfg \<noteq> [] \<or> cc_templateSpecID cfg \<noteq> []"

fun is_source_file :: "secret_file option \<Rightarrow> bool" where
  "is_source_file (Some f) = (case sf_format f of Source s \<Rightarrow> True | _ \<Rightarrow> False)"
| "is_source_file None = False"

text \<open>The runtime of the request, or the error of its checks.\<close>

definition create_runtime :: "create_config \<Rightarrow> (go_error, template_runtime option) result" where
  "create_runtime cfg =
     (case cc_directRuntime cfg of
        None \<Rightarrow> Inr None
      | Some spec \<Rightarrow>
          if cc_templateSpecID cfg \<noteq> []
          then Inl (Plain ''sandbox: direct runtime conflicts with template spec source'')
          else case directRuntimeProto spec of
            Inl e \<Rightarrow> Inl e
          | Inr runtime \<Rightarrow>
              if list_ex (\<lambda>(target, name). map_of (cc_env cfg) target \<noteq> None) (rt_secret_env runtime)
              then Inl (Plain ''sandbox: secret target conflicts with session environment'')
              else Inr (Some runtime))"

definition create_egress :: "create_config \<Rightarrow> (go_error, egress_policy_proto option) result" where
  "create_egress cfg =
     (if cc_allowDomains cfg \<noteq> [] \<or> cc_allowCIDRs cfg \<noteq> [] \<or> cc_interceptHTTPS cfg \<or>
         cc_allowedPorts cfg \<noteq> [] \<or> cc_httpRules cfg \<noteq> []
      then case egressHTTPRulesToProto (cc_httpRules cfg) of
          Inl e \<Rightarrow> Inl e
        | Inr rules \<Rightarrow> Inr (Some \<lparr>pp_allowDomains = cc_allowDomains cfg,
            pp_allowCidrs = cc_allowCIDRs cfg, pp_interceptHttps = cc_interceptHTTPS cfg,
            pp_allowedPorts = cc_allowedPorts cfg, pp_httpRules = rules\<rparr>)
      else Inr None)"

definition create_tailnet :: "create_config \<Rightarrow> (go_error, tailnet_proto option) result" where
  "create_tailnet cfg =
     (case cc_tailnet cfg of
        None \<Rightarrow> Inr None
      | Some a \<Rightarrow>
          if cc_disableTailnet cfg
          then Inl (Plain ''choose a Tailscale connection or disable Tailscale'')
          else case tailnetAttachmentProto a of Inl e \<Rightarrow> Inl e | Inr p \<Rightarrow> Inr (Some p))"

definition assemble_request ::
  "create_config \<Rightarrow> template_runtime option \<Rightarrow> egress_policy_proto option \<Rightarrow> tailnet_proto option
    \<Rightarrow> create_request" where
  "assemble_request cfg runtime egress tailnet =
     \<lparr>cr_ownerType = ''SERVICE'', cr_ownerId = ''self'', cr_name = cc_name cfg,
      cr_allowInbound = cc_allowInbound cfg, cr_allowOutbound = cc_allowOutbound cfg,
      cr_metadata = cloneStringMap (cc_metadata cfg), cr_tags = cc_tags cfg,
      cr_env = cloneStringMap (cc_env cfg), cr_sshKeys = cc_sshKeys cfg,
      cr_enableOpencode = cc_enableOpenCode cfg, cr_cloneRepoUrl = cc_cloneRepoURL cfg,
      cr_setupEnv = cloneStringMap (cc_setupEnv cfg),
      cr_setupSecrets = cloneStringMap (cc_setupSecrets cfg),
      cr_secretOverrides = cloneStringMap (cc_secretOverrides cfg),
      cr_secretPolicies = cc_secretPolicies cfg, cr_secretFiles = cc_secretFiles cfg,
      cr_runtime = runtime, cr_egress = egress, cr_egressPolicies = cc_egressPolicies cfg,
      cr_volumes = List.map_filter
        (map_option (\<lambda>v. (vm_VolumeID v, vm_MountPath v, vm_ReadOnly v))) (cc_volumes cfg),
      cr_maxDuration = cc_maxDuration cfg,
      cr_pauseRetention = (case cc_pauseRetention cfg of
         Some r \<Rightarrow> if 0 < r then Some r else None | None \<Rightarrow> None),
      cr_waitReady = (cc_waitReady cfg \<and> cc_waitForRuntime cfg),
      cr_waitForRuntime = cc_waitForRuntime cfg, cr_sticky = cc_sticky cfg,
      cr_cpuCores = (if \<not> has_source cfg \<or> cc_cpuCoresSet cfg then cc_cpuCores cfg else None),
      cr_memoryMb = (if \<not> has_source cfg \<or> cc_memoryMBSet cfg then cc_memoryMB cfg else None),
      cr_diskSizeGb = (if \<not> has_source cfg \<or> cc_diskSizeGBSet cfg then cc_diskSizeGB cfg else None),
      cr_source =
        (if cc_image cfg \<noteq> [] then FromRegistry (cc_image cfg)
         else if cc_snapshotID cfg \<noteq> [] then FromSnapshotID (cc_snapshotID cfg)
         else if cc_templateSpecID cfg \<noteq> [] then FromSpec (cc_templateSpecID cfg) else NoSource),
      cr_workspaceId =
        (if TrimSpace (cc_workspaceID cfg) \<noteq> [] then Some (TrimSpace (cc_workspaceID cfg)) else None),
      cr_disableTailnet = cc_disableTailnet cfg, cr_tailnet = tailnet\<rparr>"

definition build_create_request :: "create_config \<Rightarrow> (go_error, create_request) result" where
  "build_create_request cfg =
     (case ValidateCreateResources (cc_cpuCores cfg) (cc_memoryMB cfg) (cc_diskSizeGB cfg) of
        Some e \<Rightarrow> Inl e
      | None \<Rightarrow>
          if 1 < source_count cfg
          then Inl (Plain ''sandbox: only one of image, snapshot, or template spec may be set'')
          else if \<not> validateSecretFiles (cc_secretFiles cfg) 0
          then Inl (Plain ''sandbox: invalid direct secret files'')
          else if list_ex is_source_file (cc_secretFiles cfg)
          then Inl (Plain ''sandbox: source paths require a template build; direct files supply content'')
          else case create_runtime cfg of Inl e \<Rightarrow> Inl e
          | Inr runtime \<Rightarrow> (case create_egress cfg of Inl e \<Rightarrow> Inl e
            | Inr egress \<Rightarrow> (case create_tailnet cfg of Inl e \<Rightarrow> Inl e
              | Inr tailnet \<Rightarrow> Inr (assemble_request cfg runtime egress tailnet))))"

definition effectiveCreateWaitTimeout :: "create_config \<Rightarrow> duration" where
  "effectiveCreateWaitTimeout cfg =
     (if cc_templateSpecID cfg \<noteq> [] \<and> \<not> cc_waitTimeoutSet cfg then DefaultTemplateSpecCreateTimeout
      else cc_waitTimeout cfg)"

text \<open>\<open>heldCreateContext\<close>: the bound put on the held call, \<open>None\<close> where there is none. The
  transport's own timeout is an option, absent for a client without an HTTP client.\<close>

definition heldCreateContext :: "duration option \<Rightarrow> duration \<Rightarrow> duration option" where
  "heldCreateContext httpTimeout timeout =
     (let bound = (case httpTimeout of
          Some t \<Rightarrow>
            if 3 * Second < t then
              (let transportBound = t - 1 * Second
               in if timeout \<le> 0 \<or> transportBound < timeout then transportBound else timeout)
            else timeout
        | None \<Rightarrow> timeout)
      in if bound \<le> 0 then None else Some bound)"

definition mapCreateSessionError :: "go_error \<Rightarrow> go_error" where
  "mapCreateSessionError err =
     (case as_connect err of
        None \<Rightarrow> mapErr err
      | Some c \<Rightarrow>
          (case find (\<lambda>d. case d of RuntimeFailureDetail s r \<Rightarrow> True | _ \<Rightarrow> False) (connect_details c) of
             Some (RuntimeFailureDetail session reason) \<Rightarrow>
               TemplateRuntimeFailedError session reason (Some err)
           | _ \<Rightarrow> mapErr err))"

section \<open>Lemmas\<close>

lemma egress_rule_roundtrip:
  "egress_rule_to_proto r = Inr p \<Longrightarrow> egress_rule_from_proto p = r"
  by (cases r) (auto simp: egress_rule_to_proto_def egress_rule_from_proto_def paths_set_def
      split: if_splits)

lemma egress_rules_roundtrip:
  "egressHTTPRulesToProto rs = Inr ps \<Longrightarrow> map egress_rule_from_proto ps = rs"
  by (induction rs arbitrary: ps) (auto split: sum.splits dest: egress_rule_roundtrip)

lemma egress_rules_ok:
  "is_ok (egressHTTPRulesToProto rs) \<longleftrightarrow> list_all (\<lambda>r. paths_set r \<le> 1) rs"
  by (induction rs) (auto simp: egress_rule_to_proto_def split: sum.splits if_splits)

lemma build_create_request_InrD:
  assumes "build_create_request cfg = Inr req"
  shows "\<exists>rt eg tn. req = assemble_request cfg rt eg tn \<and> create_runtime cfg = Inr rt \<and>
    create_egress cfg = Inr eg \<and> create_tailnet cfg = Inr tn \<and> source_count cfg \<le> 1 \<and>
    ValidateCreateResources (cc_cpuCores cfg) (cc_memoryMB cfg) (cc_diskSizeGB cfg) = None \<and>
    validateSecretFiles (cc_secretFiles cfg) 0 \<and> \<not> list_ex is_source_file (cc_secretFiles cfg)"
  using assms by (auto simp: build_create_request_def split: option.splits if_splits sum.splits)

lemma assembled_sizes:
  "cr_cpuCores (assemble_request cfg rt eg tn) =
     (if \<not> has_source cfg \<or> cc_cpuCoresSet cfg then cc_cpuCores cfg else None)"
  "cr_memoryMb (assemble_request cfg rt eg tn) =
     (if \<not> has_source cfg \<or> cc_memoryMBSet cfg then cc_memoryMB cfg else None)"
  "cr_diskSizeGb (assemble_request cfg rt eg tn) =
     (if \<not> has_source cfg \<or> cc_diskSizeGBSet cfg then cc_diskSizeGB cfg else None)"
  "cr_source (assemble_request cfg rt eg tn) = NoSource \<longleftrightarrow> \<not> has_source cfg"
  by (simp_all add: assemble_request_def has_source_def)

lemma ValidateCreateResources_weaken:
  "ValidateCreateResources c m d = None \<Longrightarrow>
   ValidateCreateResources (if b1 then c else None) (if b2 then m else None) (if b3 then d else None) = None"
  by (simp add: ValidateCreateResources_None)

text \<open>The checks of the constructor on a configuration with all options applied.\<close>

lemma New_client:
  assumes "New getenv derive h opts = Inr c"
  shows "ci_authToken c = TrimSpace (cl_authToken
      (apply_opts opts (env_client_config getenv (defaultClientConfig h)))) \<and>
    ci_baseURL c = cl_baseURL (apply_opts opts (env_client_config getenv (defaultClientConfig h))) \<and>
    HasPrefix (ci_authToken c) ''tk_''"
  using assms unfolding New_def Let_def by (simp split: if_splits) auto

lemma New_error:
  assumes "New getenv derive h opts = Inl e"
  shows "(let t = TrimSpace (cl_authToken
      (apply_opts opts (env_client_config getenv (defaultClientConfig h))))
    in t = [] \<and> e = Sentinel ErrMissingAuthToken \<or>
       \<not> HasPrefix t ''tk_'' \<and> e = Sentinel ErrInvalidAuthToken)"
  using assms unfolding New_def Let_def by (simp split: if_splits)

lemma env_client_config_fields:
  "cl_authToken (env_client_config getenv (defaultClientConfig h)) =
     (if getenv ''TENKI_AUTH_TOKEN'' \<noteq> [] then getenv ''TENKI_AUTH_TOKEN'' else getenv ''TENKI_API_KEY'')"
  "cl_baseURL (env_client_config getenv (defaultClientConfig h)) =
     (if getenv ''TENKI_API_ENDPOINT'' \<noteq> [] then getenv ''TENKI_API_ENDPOINT''
      else if getenv ''TENKI_API_URL'' \<noteq> [] then getenv ''TENKI_API_URL'' else defaultBaseURL)"
  by (simp_all add: env_client_config_def first_set_def defaultClientConfig_def Let_def)

section \<open>Properties\<close>

text \<open>a client is only ever built with a trimmed token that starts with \<open>tk_\<close>; the token of an
  option beats \<open>TENKI_AUTH_TOKEN\<close>, which beats \<open>TENKI_API_KEY\<close>, and the same holds for the base
  URL.\<close>

theorem new_resolution:
  "(case New getenv derive h opts of
      Inl e \<Rightarrow> e = Sentinel ErrMissingAuthToken \<or> e = Sentinel ErrInvalidAuthToken
    | Inr c \<Rightarrow> HasPrefix (ci_authToken c) ''tk_'' \<and> TrimSpace (ci_authToken c) = ci_authToken c) \<and>
   (case New getenv derive h (opts @ [Some (WithAuthToken t), Some (WithBaseURL u)]) of
      Inl e \<Rightarrow> \<not> HasPrefix (TrimSpace t) ''tk_''
    | Inr c \<Rightarrow> ci_authToken c = TrimSpace t \<and> ci_baseURL c = u) \<and>
   (case New getenv derive h [] of
      Inl e \<Rightarrow> True
    | Inr c \<Rightarrow>
        ci_authToken c = TrimSpace (if getenv ''TENKI_AUTH_TOKEN'' \<noteq> [] then getenv ''TENKI_AUTH_TOKEN''
                                    else getenv ''TENKI_API_KEY'') \<and>
        ci_baseURL c = (if getenv ''TENKI_API_ENDPOINT'' \<noteq> [] then getenv ''TENKI_API_ENDPOINT''
                        else if getenv ''TENKI_API_URL'' \<noteq> [] then getenv ''TENKI_API_URL''
                        else defaultBaseURL))"
proof (intro conjI)
  show "case New getenv derive h opts of
      Inl e \<Rightarrow> e = Sentinel ErrMissingAuthToken \<or> e = Sentinel ErrInvalidAuthToken
    | Inr c \<Rightarrow> HasPrefix (ci_authToken c) ''tk_'' \<and> TrimSpace (ci_authToken c) = ci_authToken c"
    by (cases "New getenv derive h opts") (auto simp: Let_def dest: New_error New_client)
  show "case New getenv derive h (opts @ [Some (WithAuthToken t), Some (WithBaseURL u)]) of
      Inl e \<Rightarrow> \<not> HasPrefix (TrimSpace t) ''tk_''
    | Inr c \<Rightarrow> ci_authToken c = TrimSpace t \<and> ci_baseURL c = u"
    by (cases "New getenv derive h (opts @ [Some (WithAuthToken t), Some (WithBaseURL u)])")
      (auto simp: Let_def WithAuthToken_def WithBaseURL_def dest!: New_error New_client)
  show "case New getenv derive h [] of
      Inl e \<Rightarrow> True
    | Inr c \<Rightarrow>
        ci_authToken c = TrimSpace (if getenv ''TENKI_AUTH_TOKEN'' \<noteq> [] then getenv ''TENKI_AUTH_TOKEN''
                                    else getenv ''TENKI_API_KEY'') \<and>
        ci_baseURL c = (if getenv ''TENKI_API_ENDPOINT'' \<noteq> [] then getenv ''TENKI_API_ENDPOINT''
                        else if getenv ''TENKI_API_URL'' \<noteq> [] then getenv ''TENKI_API_URL''
                        else defaultBaseURL)"
    by (cases "New getenv derive h []") (auto simp: env_client_config_fields dest!: New_client)
qed

text \<open>C15: a create request that passes the checks has at most one source; it sends a CPU, memory or disk
  size exactly when it has no source or the caller gave that size, and what it sends is within the
  documented range.\<close>

theorem create_request_sound:
  assumes "build_create_request cfg = Inr req" and "wf_create cfg"
  shows "source_count cfg \<le> 1 \<and>
    (cr_diskSizeGb req \<noteq> None \<longleftrightarrow> cr_source req = NoSource \<or> cc_diskSizeGBSet cfg) \<and>
    (cr_memoryMb req \<noteq> None \<longleftrightarrow> cr_source req = NoSource \<or> cc_memoryMBSet cfg) \<and>
    (cr_cpuCores req \<noteq> None \<longleftrightarrow> cr_source req = NoSource \<or> cc_cpuCoresSet cfg) \<and>
    ValidateCreateResources (cr_cpuCores req) (cr_memoryMb req) (cr_diskSizeGb req) = None"
proof -
  from build_create_request_InrD [OF assms(1)] obtain rt eg tn
    where req: "req = assemble_request cfg rt eg tn" and "source_count cfg \<le> 1"
      and v: "ValidateCreateResources (cc_cpuCores cfg) (cc_memoryMB cfg) (cc_diskSizeGB cfg) = None"
    by blast
  moreover have "cc_diskSizeGB cfg \<noteq> None" "cc_memoryMB cfg \<noteq> None" "cc_cpuCores cfg \<noteq> None"
    using assms(2) by (auto simp: wf_create_def)
  ultimately show ?thesis
    unfolding req using ValidateCreateResources_weaken [OF v] by (simp add: assembled_sizes)
qed

theorem create_request_sound_witness:
  "\<exists>req. build_create_request (WithImage (Inl ''acme/api'') defaultCreateConfig) = Inr req \<and>
     cr_diskSizeGb req = None"
proof -
  let ?cfg = "WithImage (Inl ''acme/api'') defaultCreateConfig"
  have "is_ok (build_create_request ?cfg)" by code_simp
  then obtain req where req: "build_create_request ?cfg = Inr req" by (auto simp: is_ok_iff)
  have wf: "wf_create ?cfg"
    by (rule option_keeps_wf [OF is_create_option.WithImage wf_defaultCreateConfig])
  obtain rt eg tn where "req = assemble_request ?cfg rt eg tn"
    using build_create_request_InrD [OF req] by blast
  moreover have "has_source ?cfg" by code_simp
  ultimately have "cr_source req \<noteq> NoSource" by (simp add: assembled_sizes)
  moreover have "\<not> cc_diskSizeGBSet ?cfg" by (simp add: WithImage_def defaultCreateConfig_def)
  ultimately have "cr_diskSizeGb req = None" using create_request_sound [OF req wf] by simp
  with req show ?thesis by blast
qed

text \<open>The egress rules that are sent read back as the rules that were given; the conversion refuses
  exactly the lists with a rule that sets two path fields.\<close>

theorem egress_rules_sent:
  "(case egressHTTPRulesToProto rs of
      Inr ps \<Rightarrow> eg_HTTPRules (egressPolicyFromProto (Some
        \<lparr>pp_allowDomains = ds, pp_allowCidrs = cs, pp_interceptHttps = ih, pp_allowedPorts = ports,
         pp_httpRules = ps\<rparr>)) = rs
    | Inl e \<Rightarrow> \<not> list_all (\<lambda>r. paths_set r \<le> 1) rs)"
proof (cases "egressHTTPRulesToProto rs")
  case (Inl e)
  then have "\<not> is_ok (egressHTTPRulesToProto rs)" by simp
  then show ?thesis unfolding egress_rules_ok by (simp add: Inl)
next
  case (Inr ps)
  then show ?thesis by (simp add: egressPolicyFromProto_def egress_rules_roundtrip)
qed

text \<open>A held create call ends before the transport's own timeout does: whenever the client has an
  HTTP timeout above three seconds the call is bounded, by at most one second less than it and by
  no more than the caller's positive timeout.\<close>

theorem held_create_bounded:
  assumes "3 * Second < t"
  shows "\<exists>b. heldCreateContext (Some t) timeout = Some b \<and> 0 < b \<and> b \<le> t - 1 * Second \<and>
    (0 < timeout \<longrightarrow> b \<le> timeout)"
  using assms by (auto simp: heldCreateContext_def Let_def)

theorem held_create_bounded_witness:
  "\<exists>b. heldCreateContext (Some defaultClientTimeout) DefaultTemplateSpecCreateTimeout = Some b \<and>
     b \<le> defaultClientTimeout - 1 * Second"
proof -
  have "3 * Second < defaultClientTimeout" by (simp add: timeout_defs)
  from held_create_bounded [OF this, of DefaultTemplateSpecCreateTimeout] show ?thesis by blast
qed

end
