(* ===== verification/SessionState.thy ===== *)
theory SessionState
  imports CreateRequest ErrorMap
begin

text \<open>
  The SDK's view of sessions, snapshots and volumes and its conversion from the wire
  (\<open>session.go\<close>, \<open>snapshot.go\<close>, \<open>volume.go\<close>, \<open>warning.go\<close>, \<open>tailnet.go\<close>). Enumerations of the
  protocol are numbers; timestamps are times in nanoseconds or absent. \<open>sv_\<close> fields are the
  exported fields of \<open>Session\<close>; the data plane of a session is modelled in the theory DataPlane.
\<close>

section \<open>States\<close>

datatype session_state =
    SessUnspecified | SessCreating | SessRunning | SessPaused | SessUserShutdown | SessPausing
  | SessResuming | SessTerminating | SessTerminated

definition sessionStateFromProto :: "int \<Rightarrow> session_state" where
  "sessionStateFromProto n =
     (if n = 1 then SessCreating else if n = 3 then SessRunning else if n = 4 then SessPaused
      else if n = 9 then SessUserShutdown else if n = 7 then SessPausing
      else if n = 8 then SessResuming else if n = 5 then SessTerminating
      else if n = 6 then SessTerminated else SessUnspecified)"

fun session_state_text :: "session_state \<Rightarrow> string" where
  "session_state_text SessUnspecified = ''UNSPECIFIED''"
| "session_state_text SessCreating = ''CREATING''"
| "session_state_text SessRunning = ''RUNNING''"
| "session_state_text SessPaused = ''PAUSED''"
| "session_state_text SessUserShutdown = ''USER_SHUTDOWN''"
| "session_state_text SessPausing = ''PAUSING''"
| "session_state_text SessResuming = ''RESUMING''"
| "session_state_text SessTerminating = ''TERMINATING''"
| "session_state_text SessTerminated = ''TERMINATED''"

definition SessionState_IsReady :: "session_state \<Rightarrow> bool" where
  "SessionState_IsReady s \<longleftrightarrow> s = SessRunning"

definition SessionState_IsTerminal :: "session_state \<Rightarrow> bool" where
  "SessionState_IsTerminal s \<longleftrightarrow> s = SessTerminated \<or> s = SessTerminating"

datatype runtime_state = RtUnspecified | RtStarting | RtReady | RtFailed | RtStopped

definition runtimeStateFromProto :: "int \<Rightarrow> runtime_state" where
  "runtimeStateFromProto n =
     (if n = 1 then RtStarting else if n = 2 then RtReady else if n = 3 then RtFailed
      else if n = 4 then RtStopped else RtUnspecified)"

datatype wildcard_status = WildUnspecified | WildPending | WildReady | WildFailed | WildDisabled

definition wildcardStatusFromProto :: "int \<Rightarrow> wildcard_status" where
  "wildcardStatusFromProto n =
     (if n = 1 then WildPending else if n = 2 then WildReady else if n = 3 then WildFailed
      else if n = 4 then WildDisabled else WildUnspecified)"

datatype snapshot_state =
  SnapUnspecified | SnapCreating | SnapReady | SnapFailed | SnapDeleting | SnapDeleted

definition snapshotStateFromProto :: "int \<Rightarrow> snapshot_state" where
  "snapshotStateFromProto n =
     (if n = 1 then SnapCreating else if n = 2 then SnapReady else if n = 3 then SnapFailed
      else if n = 4 then SnapDeleting else if n = 5 then SnapDeleted else SnapUnspecified)"

fun snapshot_state_text :: "snapshot_state \<Rightarrow> string" where
  "snapshot_state_text SnapUnspecified = ''UNSPECIFIED''"
| "snapshot_state_text SnapCreating = ''CREATING''"
| "snapshot_state_text SnapReady = ''READY''"
| "snapshot_state_text SnapFailed = ''FAILED''"
| "snapshot_state_text SnapDeleting = ''DELETING''"
| "snapshot_state_text SnapDeleted = ''DELETED''"

definition SnapshotState_IsReady :: "snapshot_state \<Rightarrow> bool" where
  "SnapshotState_IsReady s \<longleftrightarrow> s = SnapReady"

definition SnapshotState_IsTerminal :: "snapshot_state \<Rightarrow> bool" where
  "SnapshotState_IsTerminal s \<longleftrightarrow> s = SnapFailed \<or> s = SnapDeleted"

datatype durability = DurUnspecified | DurLocalReady | DurDurable | DurPropagationFailed | DurDurableCeph

definition snapshotDurabilityStateFromProto :: "int \<Rightarrow> durability" where
  "snapshotDurabilityStateFromProto n =
     (if n = 1 then DurLocalReady else if n = 2 then DurDurable
      else if n = 4 then DurDurableCeph else if n = 3 then DurPropagationFailed
      else DurUnspecified)"

definition IsDurable :: "durability \<Rightarrow> bool" where
  "IsDurable s \<longleftrightarrow> s = DurDurable"

datatype snapshot_type = TypeUnspecified | TypeUser | TypePause | TypeTemplate

definition snapshotTypeFromProto :: "int \<Rightarrow> snapshot_type" where
  "snapshotTypeFromProto n =
     (if n = 1 then TypeUser else if n = 2 then TypePause else if n = 3 then TypeTemplate
      else TypeUnspecified)"

datatype volume_state = VolUnspecified | VolAvailable | VolDeleting | VolDeleted | VolInUse

definition volumeStateFromProto :: "int \<Rightarrow> volume_state" where
  "volumeStateFromProto n =
     (if n = 1 then VolAvailable else if n = 2 then VolDeleting else if n = 3 then VolDeleted
      else if n = 4 then VolInUse else VolUnspecified)"

fun volume_state_text :: "volume_state \<Rightarrow> string" where
  "volume_state_text VolUnspecified = ''UNSPECIFIED''"
| "volume_state_text VolAvailable = ''AVAILABLE''"
| "volume_state_text VolDeleting = ''DELETING''"
| "volume_state_text VolDeleted = ''DELETED''"
| "volume_state_text VolInUse = ''IN_USE''"

definition VolumeState_IsReady :: "volume_state \<Rightarrow> bool" where
  "VolumeState_IsReady s \<longleftrightarrow> s = VolAvailable"

definition VolumeState_IsTerminal :: "volume_state \<Rightarrow> bool" where
  "VolumeState_IsTerminal s \<longleftrightarrow> s = VolDeleted"

section \<open>Snapshots\<close>

record snapshot_proto =
  np_id :: string
  np_sessionId :: string
  np_workspaceId :: "string option"
  np_name :: "string option"
  np_state :: int
  np_sizes :: "int \<times> int \<times> int"
  np_baseImageId :: string
  np_createdAt :: "gotime option"
  np_expiresAt :: "gotime option"
  np_tags :: "string list"
  np_type :: int
  np_resources :: "int \<times> int \<times> int"
  np_failureReason :: string
  np_durability :: int
  np_propagationError :: string
  np_rawImage :: bool
  np_runtimeSecrets :: bool

record snapshot =
  sn_ID :: string
  sn_SessionID :: string
  sn_WorkspaceID :: string
  sn_Name :: string
  sn_State :: snapshot_state
  sn_SizeBytes :: int
  sn_CompressedBytes :: int
  sn_MemoryBytes :: int
  sn_BaseImageID :: string
  sn_CreatedAt :: gotime
  sn_ExpiresAt :: gotime
  sn_Tags :: "string list"
  sn_Type :: snapshot_type
  sn_CPUCores :: int
  sn_MemoryMB :: int
  sn_DiskSizeGB :: int
  sn_FailureReason :: string
  sn_DurabilityState :: durability
  sn_PropagationError :: string
  sn_RawImageAvailable :: bool
  sn_HasRuntimeSecrets :: bool

definition or_zero :: "'a \<Rightarrow> 'a option \<Rightarrow> 'a" where
  "or_zero z x = (case x of None \<Rightarrow> z | Some v \<Rightarrow> v)"

definition snapshot_of :: "snapshot_proto \<Rightarrow> snapshot" where
  "snapshot_of p =
     (case (np_sizes p, np_resources p) of ((bytes, compressed, memory), (cpu, mem, disk)) \<Rightarrow>
       \<lparr>sn_ID = np_id p, sn_SessionID = np_sessionId p,
        sn_WorkspaceID = or_zero [] (np_workspaceId p), sn_Name = or_zero [] (np_name p),
        sn_State = snapshotStateFromProto (np_state p), sn_SizeBytes = bytes,
        sn_CompressedBytes = compressed, sn_MemoryBytes = memory, sn_BaseImageID = np_baseImageId p,
        sn_CreatedAt = or_zero 0 (np_createdAt p), sn_ExpiresAt = or_zero 0 (np_expiresAt p),
        sn_Tags = np_tags p, sn_Type = snapshotTypeFromProto (np_type p), sn_CPUCores = cpu,
        sn_MemoryMB = mem, sn_DiskSizeGB = disk, sn_FailureReason = np_failureReason p,
        sn_DurabilityState = snapshotDurabilityStateFromProto (np_durability p),
        sn_PropagationError = np_propagationError p, sn_RawImageAvailable = np_rawImage p,
        sn_HasRuntimeSecrets = np_runtimeSecrets p\<rparr>)"

definition snapshotFromProto :: "snapshot_proto option \<Rightarrow> snapshot option" where
  "snapshotFromProto p = map_option snapshot_of p"

record snapshot_update =
  nu_snapshotId :: string
  nu_name :: "string option"
  nu_clearExpiresAt :: bool
  nu_expiresAt :: "gotime option"
  nu_clearTags :: bool
  nu_tags :: "string list"

definition update_snapshot_request :: "string \<Rightarrow> update_snapshot_config \<Rightarrow> snapshot_update" where
  "update_snapshot_request i cfg =
     \<lparr>nu_snapshotId = TrimSpace i, nu_name = un_name cfg,
      nu_clearExpiresAt = (un_expiresAtSet cfg \<and> un_expiresAt cfg = None),
      nu_expiresAt = (if un_expiresAtSet cfg then un_expiresAt cfg else None),
      nu_clearTags = (un_tagsSet cfg \<and> un_tags cfg = []),
      nu_tags = (if un_tagsSet cfg then un_tags cfg else [])\<rparr>"

section \<open>Volumes\<close>

record volume_attachment =
  va_ID :: string
  va_VolumeID :: string
  va_SessionID :: string
  va_MountPath :: string
  va_ReadOnly :: bool
  va_State :: string

record volume =
  vo_ID :: string
  vo_WorkspaceID :: string
  vo_Name :: string
  vo_SizeBytes :: int
  vo_State :: volume_state
  vo_CreatedAt :: gotime
  vo_UpdatedAt :: gotime
  vo_Tags :: "string list"
  vo_ActiveAttachments :: "volume_attachment list"

record volume_proto =
  vp_id :: string
  vp_workspaceId :: string
  vp_name :: string
  vp_sizeBytes :: int
  vp_state :: int
  vp_createdAt :: string
  vp_updatedAt :: string
  vp_tags :: "string list"

text \<open>The RFC 3339 parser of the standard library is the argument \<open>parse\<close>.\<close>

definition parseVolumeTime :: "(string \<Rightarrow> gotime option) \<Rightarrow> string \<Rightarrow> gotime" where
  "parseVolumeTime parse raw =
     (if TrimSpace raw = [] then 0 else or_zero 0 (parse (TrimSpace raw)))"

definition volumeFromProto :: "(string \<Rightarrow> gotime option) \<Rightarrow> volume_proto option \<Rightarrow> volume option" where
  "volumeFromProto parse p = map_option (\<lambda>v.
     \<lparr>vo_ID = vp_id v, vo_WorkspaceID = vp_workspaceId v, vo_Name = vp_name v,
      vo_SizeBytes = vp_sizeBytes v, vo_State = volumeStateFromProto (vp_state v),
      vo_CreatedAt = parseVolumeTime parse (vp_createdAt v),
      vo_UpdatedAt = parseVolumeTime parse (vp_updatedAt v), vo_Tags = vp_tags v,
      vo_ActiveAttachments = []\<rparr>) p"

definition volumeAttachmentsFromProto :: "volume_attachment option list \<Rightarrow> volume_attachment list" where
  "volumeAttachmentsFromProto as = List.map_filter id as"

definition GetVolume_result ::
  "(string \<Rightarrow> gotime option) \<Rightarrow> volume_proto option \<Rightarrow> volume_attachment option list \<Rightarrow> volume option" where
  "GetVolume_result parse p as =
     map_option (\<lambda>v. v\<lparr>vo_ActiveAttachments := volumeAttachmentsFromProto as\<rparr>) (volumeFromProto parse p)"

definition IsDeletable :: "volume \<Rightarrow> bool" where
  "IsDeletable v \<longleftrightarrow> vo_State v = VolAvailable \<and> vo_ActiveAttachments v = []"

record volume_update =
  vu_volumeId :: string
  vu_name :: "string option"
  vu_clearTags :: bool
  vu_tags :: "string list"

definition update_volume_request :: "string \<Rightarrow> update_volume_config \<Rightarrow> volume_update" where
  "update_volume_request i cfg =
     \<lparr>vu_volumeId = TrimSpace i, vu_name = uv_name cfg,
      vu_clearTags = (uv_tagsSet cfg \<and> uv_tags cfg = []),
      vu_tags = (if uv_tagsSet cfg then uv_tags cfg else [])\<rparr>"

section \<open>Warnings and tailnet status\<close>

record sandbox_warning = sw_Code :: string  sw_Message :: string

text \<open>\<open>enum_name\<close> is the generated \<open>String\<close> method of the warning code.\<close>

definition sandboxWarningCodeFromProto :: "string \<Rightarrow> string" where
  "sandboxWarningCodeFromProto enum_name =
     (let v = TrimPrefix enum_name ''SANDBOX_WARNING_CODE_''
      in if v = [] \<or> v = enum_name then ''UNSPECIFIED'' else v)"

definition sandboxWarningsFromProto :: "(string \<times> string) option list \<Rightarrow> sandbox_warning list" where
  "sandboxWarningsFromProto ws = List.map_filter (map_option (\<lambda>(code, msg).
     \<lparr>sw_Code = sandboxWarningCodeFromProto code, sw_Message = msg\<rparr>)) ws"

record tailnet_status =
  ts_Provider :: string
  ts_State :: string
  ts_NodeID :: string
  ts_FQDN :: string
  ts_IPs :: "string list"
  ts_Tags :: "string list"
  ts_Owner :: string
  ts_Error :: string
  ts_DeviceRetained :: bool

definition tailnetStatusFromProto :: "tailnet_status option \<Rightarrow> tailnet_status option" where
  "tailnetStatusFromProto v = map_option (\<lambda>t.
     t\<lparr>ts_Provider := (if ts_Provider t = [] then ''tailscale'' else ts_Provider t)\<rparr>) v"

section \<open>Sessions\<close>

record session_proto =
  sp_id :: "string"
  sp_name :: "string"
  sp_state :: "int"
  sp_ownerType :: "string"
  sp_ownerId :: "string"
  sp_workspaceId :: "string"
  sp_inboundEnabled :: "bool"
  sp_outboundEnabled :: "bool"
  sp_cpuCores :: "int"
  sp_memoryMb :: "int"
  sp_diskSizeGb :: "int"
  sp_timeoutAt :: "gotime option"
  sp_idleTimeoutMinutes :: "int option"
  sp_lastActivityAt :: "gotime option"
  sp_pausedAt :: "gotime option"
  sp_pauseSnapshotId :: "string option"
  sp_pauseRetention :: "duration option"
  sp_pauseExpiresAt :: "gotime option"
  sp_sticky :: "bool"
  sp_metadata :: "(string, string) gomap"
  sp_tags :: "string list"
  sp_volumeAttachments :: "volume_mount option list"
  sp_pauseSnapshot :: "snapshot_proto option"
  sp_lastResumeError :: "string"
  sp_terminalError :: "string"
  sp_runtimeState :: "int"
  sp_runtimeError :: "string"
  sp_hasRuntimeSecrets :: "bool"
  sp_sourceRegistryImageId :: "string"
  sp_sourceSnapshotId :: "string"
  sp_sourceRegistryWorkspaceId :: "string"
  sp_sourceRegistryRef :: "string"
  sp_sourceTemplateId :: "string"
  sp_tailnetStatus :: "tailnet_status option"
  sp_egress :: "egress_policy_proto option"
  sp_egressPolicies :: "string list"

record session_view =
  sv_ID :: "string"
  sv_Name :: "string"
  sv_State :: "session_state"
  sv_OwnerType :: "string"
  sv_OwnerID :: "string"
  sv_WorkspaceID :: "string"
  sv_InboundEnabled :: "bool"
  sv_OutboundEnabled :: "bool"
  sv_CPUCores :: "int"
  sv_MemoryMB :: "int"
  sv_DiskSizeGB :: "int"
  sv_TimeoutAt :: "gotime"
  sv_IdleTimeoutMinutes :: "int option"
  sv_LastActivityAt :: "gotime"
  sv_PausedAt :: "gotime"
  sv_PauseSnapshotID :: "string"
  sv_PauseRetention :: "duration option"
  sv_PauseExpiresAt :: "gotime option"
  sv_Sticky :: "bool"
  sv_Metadata :: "(string, string) gomap"
  sv_Tags :: "string list"
  sv_VolumeMounts :: "volume_mount list"
  sv_PauseSnapshot :: "snapshot option"
  sv_LastResumeError :: "string"
  sv_TerminalError :: "string"
  sv_RuntimeState :: "runtime_state"
  sv_RuntimeError :: "string"
  sv_HasRuntimeSecrets :: "bool"
  sv_SourceRegistryImageID :: "string"
  sv_SourceSnapshotID :: "string"
  sv_SourceRegistryWorkspaceID :: "string"
  sv_SourceRegistryRef :: "string"
  sv_SourceTemplateID :: "string"
  sv_Warnings :: "sandbox_warning list"
  sv_TailnetStatus :: "tailnet_status option"
  sv_egress :: "egress_policy"

text \<open>The session of \<open>new(Session)\<close>, before anything is applied; its states are empty strings in
  the code, here the unspecified states.\<close>

definition zero_session :: session_view where
  "zero_session =
     \<lparr>sv_ID = [],
      sv_Name = [],
      sv_State = SessUnspecified,
      sv_OwnerType = [],
      sv_OwnerID = [],
      sv_WorkspaceID = [],
      sv_InboundEnabled = False,
      sv_OutboundEnabled = False,
      sv_CPUCores = 0,
      sv_MemoryMB = 0,
      sv_DiskSizeGB = 0,
      sv_TimeoutAt = 0,
      sv_IdleTimeoutMinutes = None,
      sv_LastActivityAt = 0,
      sv_PausedAt = 0,
      sv_PauseSnapshotID = [],
      sv_PauseRetention = None,
      sv_PauseExpiresAt = None,
      sv_Sticky = False,
      sv_Metadata = [],
      sv_Tags = [],
      sv_VolumeMounts = [],
      sv_PauseSnapshot = None,
      sv_LastResumeError = [],
      sv_TerminalError = [],
      sv_RuntimeState = RtUnspecified,
      sv_RuntimeError = [],
      sv_HasRuntimeSecrets = False,
      sv_SourceRegistryImageID = [],
      sv_SourceSnapshotID = [],
      sv_SourceRegistryWorkspaceID = [],
      sv_SourceRegistryRef = [],
      sv_SourceTemplateID = [],
      sv_Warnings = [],
      sv_TailnetStatus = None,
      sv_egress = egressPolicyFromProto None\<rparr>"

definition zero_session_proto :: session_proto where
  "zero_session_proto =
     \<lparr>sp_id = [],
      sp_name = [],
      sp_state = 0,
      sp_ownerType = [],
      sp_ownerId = [],
      sp_workspaceId = [],
      sp_inboundEnabled = False,
      sp_outboundEnabled = False,
      sp_cpuCores = 0,
      sp_memoryMb = 0,
      sp_diskSizeGb = 0,
      sp_timeoutAt = None,
      sp_idleTimeoutMinutes = None,
      sp_lastActivityAt = None,
      sp_pausedAt = None,
      sp_pauseSnapshotId = None,
      sp_pauseRetention = None,
      sp_pauseExpiresAt = None,
      sp_sticky = False,
      sp_metadata = [],
      sp_tags = [],
      sp_volumeAttachments = [],
      sp_pauseSnapshot = None,
      sp_lastResumeError = [],
      sp_terminalError = [],
      sp_runtimeState = 0,
      sp_runtimeError = [],
      sp_hasRuntimeSecrets = False,
      sp_sourceRegistryImageId = [],
      sp_sourceSnapshotId = [],
      sp_sourceRegistryWorkspaceId = [],
      sp_sourceRegistryRef = [],
      sp_sourceTemplateId = [],
      sp_tailnetStatus = None,
      sp_egress = None,
      sp_egressPolicies = []\<rparr>"

definition apply_proto :: "session_proto \<Rightarrow> session_view \<Rightarrow> session_view" where
  "apply_proto p s = s\<lparr>sv_ID := sp_id p,
      sv_Name := sp_name p,
      sv_State := sessionStateFromProto (sp_state p),
      sv_OwnerType := sp_ownerType p,
      sv_OwnerID := sp_ownerId p,
      sv_WorkspaceID := sp_workspaceId p,
      sv_InboundEnabled := sp_inboundEnabled p,
      sv_OutboundEnabled := sp_outboundEnabled p,
      sv_CPUCores := sp_cpuCores p,
      sv_MemoryMB := sp_memoryMb p,
      sv_DiskSizeGB := sp_diskSizeGb p,
      sv_TimeoutAt := or_zero (sv_TimeoutAt s) (sp_timeoutAt p),
      sv_IdleTimeoutMinutes := sp_idleTimeoutMinutes p,
      sv_LastActivityAt := or_zero (sv_LastActivityAt s) (sp_lastActivityAt p),
      sv_PausedAt := or_zero (sv_PausedAt s) (sp_pausedAt p),
      sv_PauseSnapshotID := or_zero [] (sp_pauseSnapshotId p),
      sv_PauseRetention := sp_pauseRetention p,
      sv_PauseExpiresAt := sp_pauseExpiresAt p,
      sv_Sticky := sp_sticky p,
      sv_Metadata := cloneStringMap (sp_metadata p),
      sv_Tags := sp_tags p,
      sv_VolumeMounts := List.map_filter id (sp_volumeAttachments p),
      sv_PauseSnapshot := snapshotFromProto (sp_pauseSnapshot p),
      sv_LastResumeError := sp_lastResumeError p,
      sv_TerminalError := sp_terminalError p,
      sv_RuntimeState := runtimeStateFromProto (sp_runtimeState p),
      sv_RuntimeError := sp_runtimeError p,
      sv_HasRuntimeSecrets := sp_hasRuntimeSecrets p,
      sv_SourceRegistryImageID := sp_sourceRegistryImageId p,
      sv_SourceSnapshotID := sp_sourceSnapshotId p,
      sv_SourceRegistryWorkspaceID := sp_sourceRegistryWorkspaceId p,
      sv_SourceRegistryRef := sp_sourceRegistryRef p,
      sv_SourceTemplateID := sp_sourceTemplateId p,
      sv_TailnetStatus := tailnetStatusFromProto (sp_tailnetStatus p),
      sv_egress := (egressPolicyFromProto (sp_egress p))\<lparr>eg_PolicyNames := sp_egressPolicies p\<rparr>\<rparr>"

definition apply_session :: "session_proto option \<Rightarrow> session_view \<Rightarrow> session_view" where
  "apply_session p s = (case p of None \<Rightarrow> s | Some q \<Rightarrow> apply_proto q s)"

definition newSession :: "session_proto option \<Rightarrow> session_view" where
  "newSession p = apply_session p zero_session"

definition sessionsFromProto :: "session_proto option list \<Rightarrow> session_view list" where
  "sessionsFromProto ps = map newSession ps"

text \<open>\<open>Client.Session\<close>: a handle for a known ID without a lookup.\<close>

definition Client_Session :: "string \<Rightarrow> (go_error, session_view) result" where
  "Client_Session i =
     (if TrimSpace i = [] then Inl (Plain ''sandbox: session id is required'')
      else Inr (newSession (Some (zero_session_proto\<lparr>sp_id := TrimSpace i\<rparr>))))"

definition copyFrom :: "session_view \<Rightarrow> session_view \<Rightarrow> session_view" where
  "copyFrom other s = s\<lparr>sv_ID := sv_ID other,
      sv_Name := sv_Name other,
      sv_State := sv_State other,
      sv_OwnerType := sv_OwnerType other,
      sv_OwnerID := sv_OwnerID other,
      sv_InboundEnabled := sv_InboundEnabled other,
      sv_OutboundEnabled := sv_OutboundEnabled other,
      sv_CPUCores := sv_CPUCores other,
      sv_MemoryMB := sv_MemoryMB other,
      sv_DiskSizeGB := sv_DiskSizeGB other,
      sv_TimeoutAt := sv_TimeoutAt other,
      sv_IdleTimeoutMinutes := sv_IdleTimeoutMinutes other,
      sv_LastActivityAt := sv_LastActivityAt other,
      sv_PausedAt := sv_PausedAt other,
      sv_PauseSnapshotID := sv_PauseSnapshotID other,
      sv_PauseRetention := sv_PauseRetention other,
      sv_Sticky := sv_Sticky other,
      sv_Metadata := sv_Metadata other,
      sv_Tags := sv_Tags other,
      sv_VolumeMounts := sv_VolumeMounts other,
      sv_PauseSnapshot := sv_PauseSnapshot other,
      sv_LastResumeError := sv_LastResumeError other,
      sv_TerminalError := sv_TerminalError other,
      sv_RuntimeState := sv_RuntimeState other,
      sv_RuntimeError := sv_RuntimeError other,
      sv_HasRuntimeSecrets := sv_HasRuntimeSecrets other,
      sv_SourceRegistryImageID := sv_SourceRegistryImageID other,
      sv_SourceSnapshotID := sv_SourceSnapshotID other,
      sv_SourceRegistryWorkspaceID := sv_SourceRegistryWorkspaceID other,
      sv_SourceRegistryRef := sv_SourceRegistryRef other,
      sv_SourceTemplateID := sv_SourceTemplateID other,
      sv_TailnetStatus := sv_TailnetStatus other,
      sv_egress := sv_egress other\<rparr>"

definition terminalStateError :: "session_view \<Rightarrow> go_error" where
  "terminalStateError s =
     (if TrimSpace (sv_TerminalError s) \<noteq> [] then
        Plain (''session entered terminal state: '' @ session_state_text (sv_State s) @ '': '' @ sv_TerminalError s)
      else Plain (''session entered terminal state: '' @ session_state_text (sv_State s)))"

definition resumeFailedError :: "session_view \<Rightarrow> go_error" where
  "resumeFailedError s =
     Wrapf (Sentinel ErrResumeFailed)
       ('': session '' @ sv_ID s @ '' reverted to '' @ session_state_text (sv_State s) @
        (if TrimSpace (sv_LastResumeError s) \<noteq> [] then '': '' @ sv_LastResumeError s else []))"

section \<open>Requests that change a session\<close>

record session_update =
  su_sessionId :: string
  su_name :: "string option"
  su_clearTags :: bool
  su_tags :: "string list"
  su_sticky :: "bool option"
  su_maxDuration :: "duration option"

definition update_session_request ::
  "string \<Rightarrow> update_session_config \<Rightarrow> (go_error, session_update) result" where
  "update_session_request i cfg =
     (case us_maxDuration cfg of
        Some d \<Rightarrow>
          if d \<le> 0 then Inl (Plain ''sandbox: max duration must be positive'')
          else if us_sticky cfg = None
          then Inl (Plain ''sandbox: sticky must be set when max duration is provided'')
          else Inr \<lparr>su_sessionId = i, su_name = us_name cfg,
            su_clearTags = (us_tagsSet cfg \<and> us_tags cfg = []),
            su_tags = (if us_tagsSet cfg then us_tags cfg else []), su_sticky = us_sticky cfg,
            su_maxDuration = Some d\<rparr>
      | None \<Rightarrow> Inr \<lparr>su_sessionId = i, su_name = us_name cfg,
            su_clearTags = (us_tagsSet cfg \<and> us_tags cfg = []),
            su_tags = (if us_tagsSet cfg then us_tags cfg else []), su_sticky = us_sticky cfg,
            su_maxDuration = None\<rparr>)"

text \<open>
  \<open>Session.Update\<close>: the answer of the server is its session, if any, and its warnings. The error of
  the RPC is mapped; the update of the view is the result.
\<close>

definition Session_Update ::
  "(session_update \<Rightarrow> (go_error, session_proto option \<times> (string \<times> string) option list) result)
    \<Rightarrow> update_session_config opt_fn list \<Rightarrow> session_view \<Rightarrow> go_error option \<times> session_view" where
  "Session_Update rpc opts s =
     (let cfg = apply_opts opts \<lparr>us_name = None, us_tags = [], us_tagsSet = False, us_sticky = None,
                                 us_maxDuration = None\<rparr>
      in case update_session_request (sv_ID s) cfg of
           Inl e \<Rightarrow> (Some e, s)
         | Inr req \<Rightarrow>
             (case rpc req of
                Inl e \<Rightarrow> (Some (mapErr e), s)
              | Inr (p, ws) \<Rightarrow>
                  (None, (apply_session p s)\<lparr>sv_Warnings := sandboxWarningsFromProto ws\<rparr>)))"

definition AttachVolume_result :: "volume_mount option \<Rightarrow> session_view \<Rightarrow> session_view" where
  "AttachVolume_result attachment s = (case attachment of
     None \<Rightarrow> s
   | Some a \<Rightarrow> s\<lparr>sv_VolumeMounts := sv_VolumeMounts s @ [a\<lparr>vm_State := []\<rparr>]\<rparr>)"

definition isVolumeDetached :: "string \<Rightarrow> session_view \<Rightarrow> bool" where
  "isVolumeDetached i s \<longleftrightarrow>
     list_all (\<lambda>v. vm_VolumeID v = i \<longrightarrow> vm_State v = ''DETACHED'') (sv_VolumeMounts s)"

definition drop_volume :: "string \<Rightarrow> session_view \<Rightarrow> session_view" where
  "drop_volume i s = s\<lparr>sv_VolumeMounts := filter (\<lambda>v. vm_VolumeID v \<noteq> i) (sv_VolumeMounts s)\<rparr>"

fun is_fork_detail :: "detail \<Rightarrow> bool" where
  "is_fork_detail (ForkDetail i ss) = True"
| "is_fork_detail d = False"

definition mapForkError :: "go_error \<Rightarrow> go_error" where
  "mapForkError err =
     (case as_connect err of
        None \<Rightarrow> mapErr err
      | Some c \<Rightarrow>
          (case find is_fork_detail (connect_details c) of
             Some (ForkDetail snapshotID sessions) \<Rightarrow>
               ForkFailedError snapshotID sessions (Some (mapErr err))
           | _ \<Rightarrow> mapErr err))"

record exposed_port =
  xp_Port :: int
  xp_PreviewURL :: string
  xp_ExpiresAt :: "gotime option"
  xp_PreviewURLID :: string
  xp_Slug :: string
  xp_Wildcard :: bool
  xp_WildcardStatus :: wildcard_status
  xp_WildcardStatusReason :: string

record exposed_port_proto =
  ep_port :: int
  ep_previewUrl :: string
  ep_expiresAt :: "gotime option"
  ep_previewUrlId :: string
  ep_slug :: string
  ep_wildcard :: bool
  ep_wildcardStatus :: int
  ep_wildcardStatusReason :: string

definition exposed_port_of :: "exposed_port_proto \<Rightarrow> exposed_port" where
  "exposed_port_of p =
     \<lparr>xp_Port = ep_port p, xp_PreviewURL = ep_previewUrl p, xp_ExpiresAt = ep_expiresAt p,
      xp_PreviewURLID = ep_previewUrlId p, xp_Slug = ep_slug p, xp_Wildcard = ep_wildcard p,
      xp_WildcardStatus = wildcardStatusFromProto (ep_wildcardStatus p),
      xp_WildcardStatusReason = ep_wildcardStatusReason p\<rparr>"

definition ListExposedPorts_result :: "exposed_port_proto option list \<Rightarrow> exposed_port list" where
  "ListExposedPorts_result ps = List.map_filter (map_option exposed_port_of) ps"

section \<open>Lemmas\<close>

lemma ready_not_terminal [simp]: "SessionState_IsReady s \<Longrightarrow> \<not> SessionState_IsTerminal s"
  by (simp add: SessionState_IsReady_def SessionState_IsTerminal_def)

lemma or_zero_simps [simp]: "or_zero z None = z" "or_zero z (Some v) = v"
  by (simp_all add: or_zero_def)

lemma or_zero_twice [simp]: "or_zero (or_zero a x) x = or_zero a x"
  by (cases x) simp_all

lemma drop_volume_detached: "isVolumeDetached i (drop_volume i s)"
  by (simp add: isVolumeDetached_def drop_volume_def list_all_iff)

section \<open>Properties\<close>

text \<open>Applying a server session twice is applying it once, and what a session keeps from before is
  only the three times the server left out, and its warnings.\<close>

theorem apply_session_idem:
  "apply_session p (apply_session p s) = apply_session p s \<and>
   (case p of None \<Rightarrow> apply_session p s = s
    | Some q \<Rightarrow> (apply_session p s)\<lparr>sv_TimeoutAt := 0, sv_LastActivityAt := 0, sv_PausedAt := 0,
                                     sv_Warnings := []\<rparr> =
                (newSession p)\<lparr>sv_TimeoutAt := 0, sv_LastActivityAt := 0, sv_PausedAt := 0\<rparr>)"
  by (cases p) (simp_all add: apply_session_def apply_proto_def newSession_def zero_session_def)

text \<open>Refreshing a session through \<open>copyFrom\<close> takes over everything the server sent except the
  workspace ID, the pause expiry and the warnings, which keep their old values.\<close>

theorem copyFrom_leaves_stale:
  "copyFrom other s = other\<lparr>sv_WorkspaceID := sv_WorkspaceID s, sv_PauseExpiresAt := sv_PauseExpiresAt s,
                            sv_Warnings := sv_Warnings s\<rparr>"
  by (cases other; cases s) (simp add: copyFrom_def)

text \<open>a session update with a lifetime is sent only for a positive lifetime together with a sticky
  flag; tags are cleared, replaced or left alone, never two of these, and left alone exactly when no tag
  option is given.\<close>

theorem update_request_sound:
  "(case update_session_request i cfg of
      Inl e \<Rightarrow> \<exists>d. us_maxDuration cfg = Some d \<and> (d \<le> 0 \<or> us_sticky cfg = None)
    | Inr req \<Rightarrow>
        (su_maxDuration req = None \<or> (\<exists>d. su_maxDuration req = Some d \<and> 0 < d \<and> su_sticky req \<noteq> None)) \<and>
        us_tagsSet cfg = (if su_clearTags req then su_tags req = [] else su_tags req \<noteq> []))"
  by (cases "us_maxDuration cfg") (auto simp: update_session_request_def)

text \<open>A fork that failed after its snapshot was taken reports the snapshot and the children that
  already run, keeps the code of the server's error and matches both \<open>ErrForkFailed\<close> and every
  sentinel of the underlying error.\<close>

theorem fork_error_reports_children:
  assumes "as_connect err = Some c" and "find is_fork_detail (connect_details c) = Some (ForkDetail i ss)"
  shows "mapForkError err = ForkFailedError i ss (Some (mapErr err)) \<and>
    errors_Is (mapForkError err) ErrForkFailed \<and> CodeOf (mapForkError err) = CodeOf err \<and>
    (errors_Is err x \<longrightarrow> errors_Is (mapForkError err) x)"
proof -
  have eq: "mapForkError err = ForkFailedError i ss (Some (mapErr err))"
    using assms by (simp add: mapForkError_def)
  have "CodeOf (ForkFailedError i ss (Some e)) = CodeOf e" for e
    by (rule CodeOf_cong) simp
  moreover have "errors_Is err x \<Longrightarrow> errors_Is (ForkFailedError i ss (Some (mapErr err))) x"
    unfolding errors_Is_carriers by (rule disjI2) (rule mapErr_Is)
  ultimately show ?thesis unfolding eq by (simp only: errors_Is_carriers mapErr_CodeOf) simp
qed

theorem fork_error_reports_children_witness:
  "errors_Is (mapForkError (ConnectError CodeInternal ''boom'' ''boom'' [OtherDetail, ForkDetail ''snap'' [''s1'']] None))
     ErrForkFailed"
proof -
  let ?e = "ConnectError CodeInternal ''boom'' ''boom'' [OtherDetail, ForkDetail ''snap'' [''s1'']] None"
  have "as_connect ?e = Some ?e" and "find is_fork_detail (connect_details ?e) = Some (ForkDetail ''snap'' [''s1''])"
    by simp_all
  from fork_error_reports_children [OF this] show ?thesis by blast
qed

end
