(* ===== verification/SessionWait.thy ===== *)
theory SessionWait
  imports SessionState
begin

text \<open>
  Waiting for sessions, snapshots and volumes (\<open>session.go\<close>, \<open>sandbox.go\<close>, \<open>snapshot.go\<close>,
  \<open>volume.go\<close>). A wait is a loop over observations: what one turn reads from the clock, what the
  server answers, and whether the context ends before the backoff timer. A wait that has not
  returned when the observations end is \<open>None\<close>.
\<close>

section \<open>The polling loop\<close>

record 'o turn =
  tn_now :: gotime
  tn_reply :: 'o
  tn_ctx :: "go_error option"

text \<open>
  \<open>for live(time.Now()) { reply; return or go on; select { ctx.Done, time.After(backoff) } }\<close>, and
  after the loop \<open>expire\<close>. \<open>step\<close> is the body up to the select, with its result when it returns.
\<close>

fun poll_until ::
  "(gotime \<Rightarrow> bool) \<Rightarrow> ('s \<Rightarrow> 'o \<Rightarrow> 's \<times> 'r option) \<Rightarrow> ('s \<Rightarrow> 'r) \<Rightarrow> (go_error \<Rightarrow> 'r) \<Rightarrow> 's \<Rightarrow> 'o turn list
    \<Rightarrow> ('r \<times> 's) option" where
  "poll_until live step expire cancel s [] = None"
| "poll_until live step expire cancel s (t # ts) =
     (if \<not> live (tn_now t) then Some (expire s, s)
      else case step s (tn_reply t) of
        (s', Some r) \<Rightarrow> Some (r, s')
      | (s', None) \<Rightarrow>
          (case tn_ctx t of
             Some e \<Rightarrow> Some (cancel e, s')
           | None \<Rightarrow> poll_until live step expire cancel s' ts))"

text \<open>
  The clock of a run: turns begin no earlier than \<open>now\<close>, and a backoff timer (\<open>time.After\<close>) fires
  no sooner than its duration.
\<close>

fun clock_ok :: "gotime \<Rightarrow> nat \<Rightarrow> 'o turn list \<Rightarrow> bool" where
  "clock_ok now attempt [] \<longleftrightarrow> True"
| "clock_ok now attempt (t # ts) \<longleftrightarrow> now \<le> tn_now t \<and> clock_ok (tn_now t + pollBackoff attempt) (Suc attempt) ts"

lemma poll_live:
  "poll_until live step expire cancel s ts = None \<Longrightarrow> list_all (\<lambda>t. live (tn_now t)) ts"
  by (induction live step expire cancel s ts rule: poll_until.induct)
    (auto split: if_splits prod.splits option.splits)

lemma clock_elapsed:
  "clock_ok now attempt ts \<Longrightarrow> list_all (\<lambda>t. tn_now t < deadline) ts \<Longrightarrow> ts \<noteq> [] \<Longrightarrow>
   now + 100 * Millisecond * (len ts - 1) < deadline"
proof (induction ts arbitrary: now attempt)
  case (Cons t ts)
  show ?case
  proof (cases ts)
    case Nil
    with Cons.prems show ?thesis by simp
  next
    case (Cons u us)
    have "tn_now t + pollBackoff attempt + 100 * Millisecond * (len ts - 1) < deadline"
      using Cons.IH [of "tn_now t + pollBackoff attempt" "Suc attempt"] Cons.prems Cons by simp
    moreover have "100 * Millisecond \<le> pollBackoff attempt" using pollBackoff_bounds by blast
    ultimately show ?thesis using Cons.prems by simp
  qed
qed simp

text \<open>A wait with a deadline returns.\<close>

lemma poll_returns:
  assumes "clock_ok start 0 ts" and "timeout \<le> 100 * Millisecond * (len ts - 1)" and "ts \<noteq> []"
  shows "\<exists>r s'. poll_until (\<lambda>now. now < start + timeout) step expire cancel s ts = Some (r, s')"
proof (rule ccontr)
  assume "\<not> ?thesis"
  then have "poll_until (\<lambda>now. now < start + timeout) step expire cancel s ts = None"
    by (cases "poll_until (\<lambda>now. now < start + timeout) step expire cancel s ts") auto
  then have "list_all (\<lambda>t. tn_now t < start + timeout) ts" by (rule poll_live)
  from clock_elapsed [OF assms(1) this assms(3)] assms(2) show False by simp
qed

text \<open>
  The contract of a wait: it succeeds only in a state that is ready, and an answer that shows such a
  state ends it with success.
\<close>

locale waiter =
  fixes step :: "'s \<Rightarrow> 'o \<Rightarrow> 's \<times> 'r option"
    and success :: "'r \<Rightarrow> bool"
    and ready :: "'s \<Rightarrow> bool"
    and shows_ready :: "'o \<Rightarrow> bool"
  assumes success_ready: "step s x = (s', Some r) \<Longrightarrow> success r \<Longrightarrow> ready s' \<and> shows_ready x"
    and ready_success: "shows_ready x \<Longrightarrow> \<exists>s' r. step s x = (s', Some r) \<and> success r"
begin

lemma wait_sound:
  assumes "poll_until live step expire cancel s ts = Some (r, s')" and "success r"
    and "\<And>s. \<not> success (expire s)" and "\<And>e. \<not> success (cancel e)"
  shows "ready s' \<and> (\<exists>t \<in> set ts. shows_ready (tn_reply t))"
  using assms
proof (induction ts arbitrary: s)
  case (Cons t ts)
  then show ?case
    by (auto split: if_splits prod.splits option.splits dest: success_ready)
qed simp

text \<open>A wait that has not returned before an answer that shows a ready state succeeds with it.\<close>

lemma wait_prompt:
  "poll_until live step expire cancel s pre = None \<Longrightarrow> live (tn_now t) \<Longrightarrow> shows_ready (tn_reply t) \<Longrightarrow>
   \<exists>r s'. poll_until live step expire cancel s (pre @ t # post) = Some (r, s') \<and> success r"
proof (induction pre arbitrary: s)
  case Nil
  then show ?case using ready_success [of "tn_reply t" s] by auto
next
  case (Cons u pre)
  then show ?case by (auto split: if_splits prod.splits option.splits)
qed

end

section \<open>Resuming and pausing\<close>

definition resumeRevertGrace :: duration where "resumeRevertGrace = 3 * Second"
definition pauseRevertGrace :: duration where "pauseRevertGrace = 3 * Second"

text \<open>
  The state is the session and whether the transition was seen; an answer comes with
  \<open>time.Since(start)\<close>. The result is the error returned.
\<close>

type_synonym get_reply = "(go_error, session_view) result \<times> duration"

definition resume_step ::
  "session_view \<times> bool \<Rightarrow> get_reply \<Rightarrow> (session_view \<times> bool) \<times> go_error option option" where
  "resume_step st reply = (case (st, reply) of
     ((s, sawResuming), (Inl err, since)) \<Rightarrow>
       if CodeOf err = CodeNotFound then ((s, sawResuming), None) else ((s, sawResuming), Some (Some err))
   | ((s, sawResuming), (Inr updated, since)) \<Rightarrow>
       let s = copyFrom updated s
       in if SessionState_IsReady (sv_State s) then ((s, sawResuming), Some None)
          else if SessionState_IsTerminal (sv_State s) then ((s, sawResuming), Some (Some (terminalStateError s)))
          else if sv_State s = SessResuming then ((s, True), None)
          else if sv_State s = SessPaused \<or> sv_State s = SessUserShutdown then
            (if sawResuming \<or> resumeRevertGrace < since then ((s, sawResuming), Some (Some (resumeFailedError s)))
             else ((s, sawResuming), None))
          else ((s, sawResuming), None))"

definition WaitResumed ::
  "gotime \<Rightarrow> duration \<Rightarrow> session_view \<Rightarrow> get_reply turn list \<Rightarrow> (go_error option \<times> session_view \<times> bool) option" where
  "WaitResumed start timeout s =
     poll_until (\<lambda>now. now < start + timeout) resume_step
       (\<lambda>(s, saw). Some (Plain (''timeout waiting for session '' @ sv_ID s @ '' to resume''))) Some (s, False)"

definition pause_step ::
  "session_view \<times> bool \<Rightarrow> get_reply \<Rightarrow> (session_view \<times> bool) \<times> go_error option option" where
  "pause_step st reply = (case (st, reply) of
     ((s, sawPausing), (Inl err, since)) \<Rightarrow>
       if CodeOf err = CodeNotFound then ((s, sawPausing), None) else ((s, sawPausing), Some (Some err))
   | ((s, sawPausing), (Inr updated, since)) \<Rightarrow>
       let s = copyFrom updated s
       in if sv_State s = SessPaused then ((s, sawPausing), Some None)
          else if SessionState_IsTerminal (sv_State s) then ((s, sawPausing), Some (Some (terminalStateError s)))
          else if sv_State s = SessPausing then ((s, True), None)
          else if sv_State s = SessRunning then
            (if sawPausing \<or> pauseRevertGrace < since
             then ((s, sawPausing), Some (Some (Wrapf (Sentinel ErrPauseFailed)
               ('': session '' @ sv_ID s @ '' reverted to '' @ session_state_text (sv_State s)))))
             else ((s, sawPausing), None))
          else ((s, sawPausing), None))"

definition WaitPaused ::
  "gotime \<Rightarrow> duration \<Rightarrow> session_view \<Rightarrow> get_reply turn list \<Rightarrow> (go_error option \<times> session_view \<times> bool) option" where
  "WaitPaused start timeout s =
     poll_until (\<lambda>now. timeout \<le> 0 \<or> now < start + timeout) pause_step
       (\<lambda>(s, saw). Some (Plain (''timeout waiting for session '' @ sv_ID s @ '' to pause''))) Some (s, False)"

section \<open>Volumes and snapshots\<close>

definition detach_step ::
  "string \<Rightarrow> session_view \<Rightarrow> (go_error, session_view) result \<Rightarrow> session_view \<times> go_error option option" where
  "detach_step volumeID s reply = (case reply of
     Inl err \<Rightarrow> (s, Some (Some err))
   | Inr updated \<Rightarrow>
       let s = copyFrom updated s
       in if isVolumeDetached volumeID s then (s, Some None) else (s, None))"

definition waitVolumeDetached ::
  "gotime \<Rightarrow> duration \<Rightarrow> string \<Rightarrow> session_view \<Rightarrow> (go_error, session_view) result turn list
    \<Rightarrow> (go_error option \<times> session_view) option" where
  "waitVolumeDetached start timeout volumeID =
     poll_until (\<lambda>now. now < start + timeout) (detach_step volumeID)
       (\<lambda>s. Some (Plain (''timeout waiting for volume '' @ volumeID @ '' to detach from session '' @ sv_ID s))) Some"

text \<open>
  A snapshot or volume and an error; \<open>None\<close> is the panic of reading the state of a nil object, which
  a server that answers without one causes.
\<close>

type_synonym 'a fetched = "('a option \<times> go_error option) option"

definition snapshot_ready_step ::
  "unit \<Rightarrow> (go_error, snapshot option) result \<Rightarrow> unit \<times> snapshot fetched option" where
  "snapshot_ready_step u reply = (case reply of
     Inl err \<Rightarrow> (u, Some (Some (None, Some err)))
   | Inr None \<Rightarrow> (u, Some None)
   | Inr (Some snap) \<Rightarrow>
       if SnapshotState_IsReady (sn_State snap) then (u, Some (Some (Some snap, None)))
       else if sn_State snap = SnapFailed then
         (if sn_FailureReason snap \<noteq> []
          then (u, Some (Some (None, Some (Wrapf (Sentinel ErrSnapshotFailed) ('': '' @ sn_FailureReason snap)))))
          else (u, Some (Some (None, Some (Sentinel ErrSnapshotFailed)))))
       else if SnapshotState_IsTerminal (sn_State snap) then
         (u, Some (Some (None, Some (Plain (''snapshot entered terminal state: '' @ snapshot_state_text (sn_State snap))))))
       else (u, None))"

definition WaitSnapshotReady ::
  "gotime \<Rightarrow> duration \<Rightarrow> string \<Rightarrow> (go_error, snapshot option) result turn list \<Rightarrow> (snapshot fetched \<times> unit) option" where
  "WaitSnapshotReady start timeout snapshotID =
     poll_until (\<lambda>now. now < start + timeout) snapshot_ready_step
       (\<lambda>u. Some (None, Some (Wrapf (Sentinel ErrSnapshotWaitTimeout) ('': snapshot '' @ snapshotID @
          '' is still being created, call WaitSnapshotReady with this ID to keep waiting''))))
       (\<lambda>e. Some (None, Some e)) ()"

definition volume_ready_step ::
  "unit \<Rightarrow> (go_error, volume option) result \<Rightarrow> unit \<times> volume fetched option" where
  "volume_ready_step u reply = (case reply of
     Inl err \<Rightarrow> (u, Some (Some (None, Some err)))
   | Inr None \<Rightarrow> (u, Some None)
   | Inr (Some vol) \<Rightarrow>
       if VolumeState_IsReady (vo_State vol) then (u, Some (Some (Some vol, None)))
       else if VolumeState_IsTerminal (vo_State vol) then
         (u, Some (Some (None, Some (Plain (''volume entered terminal state: '' @ volume_state_text (vo_State vol))))))
       else (u, None))"

definition WaitVolumeReady ::
  "gotime \<Rightarrow> duration \<Rightarrow> string \<Rightarrow> (go_error, volume option) result turn list \<Rightarrow> (volume fetched \<times> unit) option" where
  "WaitVolumeReady start timeout volumeID =
     poll_until (\<lambda>now. now < start + timeout) volume_ready_step
       (\<lambda>u. Some (None, Some (Plain (''timeout waiting for volume '' @ volumeID @ '' to become ready''))))
       (\<lambda>e. Some (None, Some e)) ()"

section \<open>The waits meet the contract\<close>

fun session_shows :: "(session_state \<Rightarrow> bool) \<Rightarrow> get_reply \<Rightarrow> bool" where
  "session_shows p (Inl err, since) \<longleftrightarrow> False"
| "session_shows p (Inr updated, since) \<longleftrightarrow> p (sv_State updated)"

lemma copyFrom_State [simp]: "sv_State (copyFrom updated s) = sv_State updated"
  by (simp add: copyFrom_def)

lemma copyFrom_VolumeMounts [simp]: "sv_VolumeMounts (copyFrom updated s) = sv_VolumeMounts updated"
  by (simp add: copyFrom_def)

interpretation resumed: waiter resume_step "\<lambda>r. r = None" "\<lambda>(s, saw). sv_State s = SessRunning"
  "session_shows (\<lambda>st. st = SessRunning)"
proof unfold_locales
  fix st x st' r
  assume "resume_step st x = (st', Some r)" and "r = None"
  then show "(\<lambda>(s, saw). sv_State s = SessRunning) st' \<and> session_shows (\<lambda>st. st = SessRunning) x"
    by (cases x; cases "fst x")
      (auto simp: resume_step_def Let_def SessionState_IsReady_def split: prod.splits if_splits)
next
  fix st x
  assume "session_shows (\<lambda>st. st = SessRunning) x"
  then show "\<exists>st' r. resume_step st x = (st', Some r) \<and> r = None"
    by (cases x; cases "fst x")
      (auto simp: resume_step_def Let_def SessionState_IsReady_def split: prod.splits)
qed

interpretation paused: waiter pause_step "\<lambda>r. r = None" "\<lambda>(s, saw). sv_State s = SessPaused"
  "session_shows (\<lambda>st. st = SessPaused)"
proof unfold_locales
  fix st x st' r
  assume "pause_step st x = (st', Some r)" and "r = None"
  then show "(\<lambda>(s, saw). sv_State s = SessPaused) st' \<and> session_shows (\<lambda>st. st = SessPaused) x"
    by (cases x; cases "fst x") (auto simp: pause_step_def Let_def split: prod.splits if_splits)
next
  fix st x
  assume "session_shows (\<lambda>st. st = SessPaused) x"
  then show "\<exists>st' r. pause_step st x = (st', Some r) \<and> r = None"
    by (cases x; cases "fst x") (auto simp: pause_step_def Let_def split: prod.splits)
qed

fun reply_shows :: "('a \<Rightarrow> bool) \<Rightarrow> (go_error, 'a) result \<Rightarrow> bool" where
  "reply_shows p (Inl err) \<longleftrightarrow> False"
| "reply_shows p (Inr v) \<longleftrightarrow> p v"

lemma detached_copy [simp]: "isVolumeDetached v (copyFrom updated s) = isVolumeDetached v updated"
  by (simp add: isVolumeDetached_def)

interpretation detached: waiter "detach_step volumeID" "\<lambda>r. r = None" "isVolumeDetached volumeID"
  "reply_shows (isVolumeDetached volumeID)" for volumeID
  by unfold_locales (auto simp: detach_step_def Let_def split: sum.splits if_splits elim: reply_shows.elims)

definition fetched_ok :: "'a fetched \<Rightarrow> bool" where
  "fetched_ok r = (case r of Some (Some v, None) \<Rightarrow> True | _ \<Rightarrow> False)"

interpretation snapshot_ready: waiter snapshot_ready_step fetched_ok "\<lambda>u. True"
  "reply_shows (\<lambda>x. case x of None \<Rightarrow> False | Some snap \<Rightarrow> SnapshotState_IsReady (sn_State snap))"
  by unfold_locales
    (auto simp: snapshot_ready_step_def fetched_ok_def split: sum.splits option.splits if_splits elim: reply_shows.elims)

interpretation volume_ready: waiter volume_ready_step fetched_ok "\<lambda>u. True"
  "reply_shows (\<lambda>x. case x of None \<Rightarrow> False | Some vol \<Rightarrow> VolumeState_IsReady (vo_State vol))"
  by unfold_locales
    (auto simp: volume_ready_step_def fetched_ok_def split: sum.splits option.splits if_splits elim: reply_shows.elims)

section \<open>Properties\<close>

text \<open>
  A running and a paused session as the server shows them, and the turns of a wait that sees one
  stale answer first.
\<close>

definition shown :: "session_state \<Rightarrow> session_view" where
  "shown st = zero_session\<lparr>sv_ID := ''s'', sv_State := st\<rparr>"

definition stale_then :: "session_state \<Rightarrow> session_state \<Rightarrow> get_reply turn list" where
  "stale_then old new =
     [\<lparr>tn_now = 0, tn_reply = (Inr (shown old), 0), tn_ctx = None\<rparr>,
      \<lparr>tn_now = 500 * Millisecond, tn_reply = (Inr (shown new), 500 * Millisecond), tn_ctx = None\<rparr>]"

text \<open>Waiting for a resume, or for a pause with a positive timeout, always returns: with timers
that fire no sooner than asked, no run has more turns than the timeout has room for.\<close>

theorem transition_waits_return:
  assumes "clock_ok start 0 ts" and "0 < timeout" and "timeout \<le> 100 * Millisecond * (len ts - 1)"
  shows "(\<exists>r st. WaitResumed start timeout s ts = Some (r, st)) \<and>
    (\<exists>r st. WaitPaused start timeout s ts = Some (r, st))"
proof -
  have ne: "ts \<noteq> []" using assms(2,3) by auto
  have p: "(\<lambda>now. timeout \<le> 0 \<or> now < start + timeout) = (\<lambda>now. now < start + timeout)"
    using assms(2) by auto
  show ?thesis
    unfolding WaitResumed_def WaitPaused_def p by (intro conjI poll_returns [OF assms(1,3) ne])
qed

lemma transition_waits_return_witness:
  "\<exists>r st. WaitPaused 0 (100 * Millisecond) (shown SessRunning) (stale_then SessRunning SessRunning) = Some (r, st)"
  using transition_waits_return [of 0 "stale_then SessRunning SessRunning" "100 * Millisecond" "shown SessRunning"]
  by (simp add: stale_then_def pollBackoff_def)

text \<open>A wait for a resume or a pause reports success only with the session in the state waited
for, which some answer of the server showed.\<close>

theorem transition_waits_sound:
  "(case WaitResumed start timeout s ts of
      Some (None, s', saw) \<Rightarrow> sv_State s' = SessRunning \<and>
        list_ex (\<lambda>t. session_shows (\<lambda>st. st = SessRunning) (tn_reply t)) ts
    | _ \<Rightarrow> True) \<and>
   (case WaitPaused start timeout s ts of
      Some (None, s', saw) \<Rightarrow> sv_State s' = SessPaused \<and>
        list_ex (\<lambda>t. session_shows (\<lambda>st. st = SessPaused) (tn_reply t)) ts
    | _ \<Rightarrow> True)"
proof -
  have "sv_State s' = SessRunning \<and> list_ex (\<lambda>t. session_shows (\<lambda>st. st = SessRunning) (tn_reply t)) ts"
    if "WaitResumed start timeout s ts = Some (None, s', saw)" for s' saw
    using resumed.wait_sound [OF that [unfolded WaitResumed_def]] by (auto simp: list_ex_iff)
  moreover have "sv_State s' = SessPaused \<and> list_ex (\<lambda>t. session_shows (\<lambda>st. st = SessPaused) (tn_reply t)) ts"
    if "WaitPaused start timeout s ts = Some (None, s', saw)" for s' saw
    using paused.wait_sound [OF that [unfolded WaitPaused_def]] by (auto simp: list_ex_iff)
  ultimately show ?thesis by (auto split: option.splits)
qed

text \<open>
  A wait for a resume that has only seen a stopped session within the grace period, and no RESUMING.
\<close>

definition only_stale :: "get_reply turn \<Rightarrow> bool" where
  "only_stale t = (tn_ctx t = None \<and> (case tn_reply t of
     (Inl e, since) \<Rightarrow> CodeOf e = CodeNotFound
   | (Inr u, since) \<Rightarrow> sv_State u \<in> {SessPaused, SessUserShutdown} \<and> since \<le> resumeRevertGrace))"

lemma stale_step:
  assumes "only_stale t"
  shows "tn_ctx t = None \<and> (\<exists>s'. resume_step (s, False) (tn_reply t) = ((s', False), None))"
proof (cases "tn_reply t")
  case (Pair reply since)
  then show ?thesis
    using assms
    by (cases reply) (auto simp: only_stale_def resume_step_def Let_def SessionState_IsReady_def
        SessionState_IsTerminal_def)
qed

lemma stale_goes_on:
  "list_all only_stale ts \<Longrightarrow> list_all (\<lambda>t. live (tn_now t)) ts \<Longrightarrow>
   poll_until live resume_step expire cancel (s, False) ts = None"
proof (induction ts arbitrary: s)
  case (Cons t ts)
  then obtain s' where "resume_step (s, False) (tn_reply t) = ((s', False), None)" and "tn_ctx t = None"
    using stale_step by fastforce
  with Cons show ?case by simp
qed simp

text \<open>Stale reads do not fail a resume: while the server only shows the stopped state it showed
before (or no session yet), within the grace period and without RESUMING in between, the wait goes
on, and the first answer that shows the session running, in time, ends it with success.\<close>

theorem resume_tolerates_stale_reads:
  assumes "list_all only_stale stale" and "list_all (\<lambda>t. tn_now t < start + timeout) (stale @ [t])"
    and "session_shows (\<lambda>st. st = SessRunning) (tn_reply t)"
  shows "\<exists>s' saw. WaitResumed start timeout s (stale @ t # rest) = Some (None, s', saw) \<and> sv_State s' = SessRunning"
proof -
  let ?poll = "poll_until (\<lambda>now. now < start + timeout) resume_step
       (\<lambda>(s, saw). Some (Plain (''timeout waiting for session '' @ sv_ID s @ '' to resume''))) Some (s, False)"
  have "?poll stale = None" using stale_goes_on [OF assms(1)] assms(2) by simp
  from resumed.wait_prompt [OF this _ assms(3), of rest] assms(2)
  obtain st where "?poll (stale @ t # rest) = Some (None, st)" by auto
  then have w: "WaitResumed start timeout s (stale @ t # rest) = Some (None, st)" by (simp add: WaitResumed_def)
  from resumed.wait_sound [OF w [unfolded WaitResumed_def]]
  show ?thesis using w by (cases st) auto
qed

lemma resume_tolerates_stale_reads_witness:
  "\<exists>s' saw. WaitResumed 0 Second (shown SessPaused) (stale_then SessPaused SessRunning) = Some (None, s', saw) \<and>
     sv_State s' = SessRunning"
  using resume_tolerates_stale_reads [of "[hd (stale_then SessPaused SessRunning)]" 0 Second
      "hd (tl (stale_then SessPaused SessRunning))" "shown SessPaused" "[]"]
  by (simp add: stale_then_def only_stale_def shown_def resumeRevertGrace_def)

end
