(* ===== verification/CreateWait.thy ===== *)
theory CreateWait
  imports SessionWait DataPlane
begin

text \<open>
  Waiting for a session to become ready and the end of \<open>Create\<close> (\<open>session.go\<close>, \<open>sandbox.go\<close>), with
  the waits of \<open>snapshot.go\<close> and \<open>volume.go\<close> that follow schedules of their own. The session is its
  view and its data plane, which the readiness stream configures on the way.
\<close>

section \<open>Transient errors\<close>

definition waitConnectionMarkers :: "string list" where
  "waitConnectionMarkers =
     [''refused_stream'', ''refused stream'', ''goaway'', ''too_many_pings'', ''enhance_your_calm'']"

definition waitTransportMarkers :: "string list" where
  "waitTransportMarkers =
     [''http2:'', ''rst_stream'', ''stream reset'', ''stream error'', ''stream removed'',
      ''stream closed'', ''internal_error'', ''econnreset'', ''connection reset'',
      ''connection lost'', ''i/o timeout'', ''socket closed'', ''socket hang up'',
      ''unexpected eof'', ''missing status'', ''no grpc-status trailer'', ''incomplete envelope'',
      ''server closed'', ''transport closing'', ''timeout awaiting response headers'',
      ''upstream request timeout'']"

text \<open>
  \<open>errors.As(err, &netErr)\<close> finds the first node with the methods of \<open>net.Error\<close>; the two
  deadline sentinels have them, too.
\<close>

fun is_net_node :: "go_error \<Rightarrow> bool" where
  "is_net_node (NetError _ _) = True"
| "is_net_node (Sentinel s) = (s = CtxDeadlineExceeded \<or> s = OsDeadlineExceeded)"
| "is_net_node _ = False"

fun net_timeout :: "go_error \<Rightarrow> bool" where
  "net_timeout (NetError _ t) = t"
| "net_timeout e = True"

definition timed_out :: "go_error \<Rightarrow> bool" where
  "timed_out err \<longleftrightarrow> errors_Is err CtxDeadlineExceeded \<or> errors_Is err OsDeadlineExceeded \<or>
     (case find is_net_node (nodes err) of None \<Rightarrow> False | Some e \<Rightarrow> net_timeout e)"

definition isTransientWaitError :: "go_error \<Rightarrow> bool" where
  "isTransientWaitError err = (case as_connect err of
     None \<Rightarrow> False
   | Some c \<Rightarrow>
       let msg = to_lower (error_text err)
       in if list_ex (Contains msg) waitConnectionMarkers then True
          else
            let by_transport = timed_out err \<or> list_ex (Contains msg) waitTransportMarkers
            in case connect_code c of
                 CodeUnavailable \<Rightarrow> True
               | CodeDeadlineExceeded \<Rightarrow> True
               | CodeInvalidArgument \<Rightarrow> Contains msg ''protocol error'' \<and> by_transport
               | CodeInternal \<Rightarrow> by_transport
               | CodeAborted \<Rightarrow> by_transport
               | CodeUnknown \<Rightarrow> by_transport
               | CodeCanceled \<Rightarrow> by_transport
               | _ \<Rightarrow> False)"

definition isRetryableWaitStreamError :: "go_error \<Rightarrow> bool" where
  "isRetryableWaitStreamError err \<longleftrightarrow>
     errors_Is err ErrWaitStreamEnded \<or> CodeOf err = CodeUnimplemented \<or> isTransientWaitError err"

definition isRetryableWaitPollError :: "go_error \<Rightarrow> bool" where
  "isRetryableWaitPollError err \<longleftrightarrow> CodeOf err = CodeNotFound \<or> isTransientWaitError err"

definition waitPollAttemptTimeout :: duration where "waitPollAttemptTimeout = 10 * Second"

section \<open>WaitReady\<close>

type_synonym session = "session_view \<times> dp"

record wait_message =
  wm_session :: "session_proto option"
  wm_endpoint :: string
  wm_credential :: "session_credential option"
  wm_status :: int

definition settled :: "session_view \<Rightarrow> go_error option option" where
  "settled s =
     (if SessionState_IsReady (sv_State s) then Some None
      else if SessionState_IsTerminal (sv_State s) then Some (Some (terminalStateError s))
      else None)"

definition apply_wait_message :: "url_parser \<Rightarrow> wait_message \<Rightarrow> session \<Rightarrow> session" where
  "apply_wait_message parse m sess =
     (let (s, d) = sess
      in (copyFrom (newSession (wm_session m)) s,
          applyDataPlaneResponse parse (wm_endpoint m) (wm_credential m) (wm_status m) d))"

text \<open>The messages received until \<open>Receive\<close> returns false, and then \<open>stream.Err()\<close>.\<close>

fun receive_messages ::
  "url_parser \<Rightarrow> wait_message list \<Rightarrow> go_error option \<Rightarrow> session \<Rightarrow> go_error option \<times> session" where
  "receive_messages parse [] ended sess = (case ended of
     Some err \<Rightarrow> (mapError (Some err), sess)
   | None \<Rightarrow> (case settled (fst sess) of
       Some r \<Rightarrow> (r, sess)
     | None \<Rightarrow> (Some (Wrapf (Sentinel ErrWaitStreamEnded) ('': '' @ sv_ID (fst sess))), sess)))"
| "receive_messages parse (m # ms) ended sess =
     (let sess = apply_wait_message parse m sess
      in case settled (fst sess) of Some r \<Rightarrow> (r, sess) | None \<Rightarrow> receive_messages parse ms ended sess)"

definition waitReadyStream ::
  "url_parser \<Rightarrow> (go_error, wait_message list \<times> go_error option) result \<Rightarrow> session \<Rightarrow> go_error option \<times> session" where
  "waitReadyStream parse opened sess = (case opened of
     Inl err \<Rightarrow> (mapError (Some err), sess)
   | Inr (ms, ended) \<Rightarrow> receive_messages parse ms ended sess)"

text \<open>
  A turn of the poll: whether \<open>pollCtx\<close> is alive when it begins, the answer of \<open>Get\<close>, and whether
  \<open>ctx\<close> has ended when an error is looked at. \<open>ctxErr\<close> is \<open>ctx.Err()\<close> after the loop.
\<close>

record ready_turn =
  rt_live :: bool
  rt_reply :: "(go_error, session_view) result"
  rt_ctxDone :: bool

fun waitReadyPoll ::
  "go_error option \<Rightarrow> ready_turn list \<Rightarrow> go_error option \<Rightarrow> session_view \<Rightarrow> (go_error option \<times> session_view) option" where
  "waitReadyPoll ctxErr [] lastErr s = None"
| "waitReadyPoll ctxErr (t # ts) lastErr s =
     (if \<not> rt_live t then
        Some (case ctxErr of
            Some e \<Rightarrow> (Some e, s)
          | None \<Rightarrow> (case lastErr of
              Some e \<Rightarrow> (Some (Plain (''timeout waiting for session '' @ sv_ID s @
                 '' to become ready (last error: '' @ error_text e @ '')'')), s)
            | None \<Rightarrow> (Some (Plain (''timeout waiting for session '' @ sv_ID s @ '' to become ready'')), s)))
      else case rt_reply t of
        Inr updated \<Rightarrow>
          (let s = copyFrom updated s
           in case settled s of Some r \<Rightarrow> Some (r, s) | None \<Rightarrow> waitReadyPoll ctxErr ts lastErr s)
      | Inl err \<Rightarrow>
          if isRetryableWaitPollError err then waitReadyPoll ctxErr ts (Some err) s
          else if rt_ctxDone t then waitReadyPoll ctxErr ts lastErr s
          else Some (Some err, s))"

text \<open>
  \<open>ctxErr\<close> is \<open>ctx.Err()\<close> after the stream, \<open>remaining\<close> the time left then, \<open>ts\<close> and \<open>ctxErr'\<close> the
  poll that may follow.
\<close>

definition WaitReady ::
  "url_parser \<Rightarrow> (go_error, wait_message list \<times> go_error option) result \<Rightarrow> go_error option \<Rightarrow> duration
    \<Rightarrow> go_error option \<Rightarrow> ready_turn list \<Rightarrow> session \<Rightarrow> (go_error option \<times> session) option" where
  "WaitReady parse opened ctxErr remaining ctxErr' ts sess =
     (case waitReadyStream parse opened sess of
        (None, sess) \<Rightarrow> Some (None, sess)
      | (Some err, sess) \<Rightarrow>
          if ctxErr \<noteq> None then Some (ctxErr, sess)
          else if \<not> isRetryableWaitStreamError err then Some (Some err, sess)
          else if remaining \<le> 0 then Some (Some err, sess)
          else case waitReadyPoll ctxErr' ts None (fst sess) of
            None \<Rightarrow> None
          | Some (r, s) \<Rightarrow> Some (r, (s, snd sess)))"

section \<open>The end of Create\<close>

record create_reply =
  rp_session :: "session_proto option"
  rp_warnings :: "(string \<times> string) option list"
  rp_endpoint :: string
  rp_credential :: "session_credential option"
  rp_status :: int

text \<open>A new handle shares the pool of its client.\<close>

definition newSessionFromCreate :: "url_parser \<Rightarrow> pool \<Rightarrow> create_reply \<Rightarrow> session" where
  "newSessionFromCreate parse p r =
     ((newSession (rp_session r))\<lparr>sv_Warnings := sandboxWarningsFromProto (rp_warnings r)\<rparr>,
      applyDataPlaneResponse parse (rp_endpoint r) (rp_credential r) (rp_status r) (fresh_dp\<lparr>dp_pool := p\<rparr>))"

text \<open>
  \<open>Create\<close> after its request is built; \<open>wait\<close> is the call of \<open>WaitReady\<close>. The second component is the
  session a \<open>WaitReadyFailedError\<close> hands back.
\<close>

definition create_session ::
  "url_parser \<Rightarrow> pool \<Rightarrow> create_config \<Rightarrow> (go_error, create_reply) result
    \<Rightarrow> (session \<Rightarrow> go_error option \<times> session) \<Rightarrow> (go_error, session) result \<times> session option" where
  "create_session parse p cfg reply wait =
     (case reply of
        Inl err \<Rightarrow> (Inl (mapCreateSessionError err), None)
      | Inr r \<Rightarrow>
          let sess = newSessionFromCreate parse p r
          in if \<not> cc_waitReady cfg \<and> \<not> cc_waitForRuntime cfg then (Inr sess, None)
             else case settled (fst sess) of
               Some None \<Rightarrow> (Inr sess, None)
             | Some (Some err) \<Rightarrow> (Inl err, None)
             | None \<Rightarrow>
                 (case wait sess of
                    (None, sess) \<Rightarrow> (Inr sess, None)
                  | (Some err, sess) \<Rightarrow>
                      if SessionState_IsTerminal (sv_State (fst sess)) then (Inl err, None)
                      else (Inl (WaitReadyFailedError (sv_ID (fst sess)) (Some err)), Some sess)))"

section \<open>Durable snapshots\<close>

definition snapshotDurablePollInterval :: duration where "snapshotDurablePollInterval = 2 * Second"

definition durable_step :: "snapshot \<Rightarrow> go_error option option" where
  "durable_step snap =
     (if sn_State snap = SnapFailed then
        Some (Some (if sn_FailureReason snap \<noteq> []
          then Wrapf (Sentinel ErrSnapshotFailed) ('': '' @ sn_FailureReason snap) else Sentinel ErrSnapshotFailed))
      else if sn_State snap = SnapDeleted \<or> sn_State snap = SnapDeleting then Some (Some (Sentinel ErrSnapshotNotFound))
      else case sn_DurabilityState snap of
        DurDurable \<Rightarrow> Some None
      | DurDurableCeph \<Rightarrow>
          if sn_PropagationError snap \<noteq> [] then
            Some (Some (Wrapf (Sentinel ErrSnapshotNotDurable)
              ('': cluster-durable in Ceph but R2 upload failed: '' @ sn_PropagationError snap)))
          else None
      | DurPropagationFailed \<Rightarrow> Some (Some (Sentinel ErrSnapshotNotDurable))
      | DurUnspecified \<Rightarrow>
          if sn_State snap = SnapReady then
            Some (Some (Wrapf (Sentinel ErrSnapshotNotDurable)
              '': durability state unspecified; snapshot may predate durability tracking''))
          else None
      | DurLocalReady \<Rightarrow> None)"

text \<open>
  Each turn is the answer and whether the context ended during the wait; the result is the snapshot
  and the error, or \<open>None\<close> for the panic on an answer without a snapshot.
\<close>

fun WaitForSnapshotDurable ::
  "((go_error, snapshot option) result \<times> go_error option) list \<Rightarrow> snapshot fetched option" where
  "WaitForSnapshotDurable [] = None"
| "WaitForSnapshotDurable ((reply, ctx) # ts) =
     (case reply of
        Inl err \<Rightarrow> Some (Some (None, Some err))
      | Inr None \<Rightarrow> Some None
      | Inr (Some snap) \<Rightarrow>
          (case durable_step snap of
             Some r \<Rightarrow> Some (Some (Some snap, r))
           | None \<Rightarrow> (case ctx of Some e \<Rightarrow> Some (Some (None, Some e)) | None \<Rightarrow> WaitForSnapshotDurable ts)))"

section \<open>Deleting a volume\<close>

text \<open>
  A try: the error of the call, the clock when it is compared with the deadline, and whether the
  context ends during the wait. The result lists the waits and, when the call returns, its error.
\<close>

record delete_try =
  dt_error :: "go_error option"
  dt_now :: gotime
  dt_ctx :: "go_error option"

fun delete_volume_loop ::
  "gotime \<Rightarrow> duration \<Rightarrow> delete_try list \<Rightarrow> duration list \<times> go_error option option" where
  "delete_volume_loop deadline backoff [] = ([], None)"
| "delete_volume_loop deadline backoff (t # ts) =
     (let mapped = mapError (dt_error t)
      in if (case mapped of None \<Rightarrow> True | Some e \<Rightarrow> \<not> errors_Is e ErrVolumeSyncPending) \<or> deadline < dt_now t
         then ([], Some mapped)
         else case dt_ctx t of
           Some e \<Rightarrow> ([backoff], Some (Some e))
         | None \<Rightarrow>
             (let (ws, r) = delete_volume_loop deadline (if backoff < 10 * Second then backoff * 2 else backoff) ts
              in (backoff # ws, r)))"

definition DeleteVolume :: "gotime \<Rightarrow> delete_try list \<Rightarrow> duration list \<times> go_error option option" where
  "DeleteVolume start ts = delete_volume_loop (start + 60 * Second) Second ts"

section \<open>Properties\<close>

lemma settled_None_err: "settled s = Some None \<longleftrightarrow> sv_State s = SessRunning"
  by (simp add: settled_def SessionState_IsReady_def)

lemma receive_sound:
  "receive_messages parse ms ended sess = (None, sess') \<Longrightarrow> sv_State (fst sess') = SessRunning"
  by (induction parse ms ended sess rule: receive_messages.induct)
    (auto simp: Let_def settled_None_err mapError_Some dest: sym split: option.splits)

lemma poll_sound:
  "waitReadyPoll ctxErr ts lastErr s = Some (None, s') \<Longrightarrow> sv_State s' = SessRunning"
proof (induction ts arbitrary: lastErr s)
  case (Cons t ts)
  show ?case
  proof (cases "rt_live t")
    case False
    with Cons.prems show ?thesis by (simp split: option.splits)
  next
    case live: True
    show ?thesis
    proof (cases "rt_reply t")
      case (Inl err)
      with live Cons show ?thesis by (simp split: if_splits)
    next
      case (Inr updated)
      then show ?thesis
        using live Cons by (cases "settled (copyFrom updated s)") (auto simp: settled_None_err Let_def)
    qed
  qed
qed simp

lemma WaitReady_sound:
  "WaitReady parse opened ctxErr remaining ctxErr' ts sess = Some (None, sess') \<Longrightarrow> sv_State (fst sess') = SessRunning"
proof -
  assume w: "WaitReady parse opened ctxErr remaining ctxErr' ts sess = Some (None, sess')"
  obtain r s1 where Pair: "waitReadyStream parse opened sess = (r, s1)" by (rule prod.exhaust)
  show ?thesis
  proof (cases r)
    case None
    then have "receive_messages parse (fst (projr opened)) (snd (projr opened)) sess = (None, s1)"
      using Pair by (cases opened) (auto simp: waitReadyStream_def)
    from receive_sound [OF this] show ?thesis using w Pair None by (simp add: WaitReady_def)
  next
    case (Some e)
    then obtain s where "waitReadyPoll ctxErr' ts None (fst s1) = Some (None, s)" and "fst sess' = s"
      using w Pair by (auto simp: WaitReady_def split: if_splits option.splits)
    then show ?thesis using poll_sound by simp
  qed
qed

text \<open>C25: \<open>WaitReady\<close> reports success only for a running session, however it learned of it (the
readiness stream or, after a stream that ended early or failed in transport, polling); a terminal
state or an error that is not transient is reported at once, without polling.\<close>

theorem wait_ready_sound:
  "case WaitReady parse opened ctxErr remaining ctxErr' ts sess of
     None \<Rightarrow> True
   | Some (None, sess') \<Rightarrow> sv_State (fst sess') = SessRunning
   | Some (Some err, sess') \<Rightarrow>
       (case waitReadyStream parse opened sess of
          (Some e, sess1) \<Rightarrow>
            if ctxErr \<noteq> None then Some err = ctxErr
            else if isRetryableWaitStreamError e \<and> 0 < remaining
            then (case waitReadyPoll ctxErr' ts None (fst sess1) of
                Some (Some e', s') \<Rightarrow> err = e' \<and> sess' = (s', snd sess1) | _ \<Rightarrow> False)
            else err = e \<and> sess' = sess1
        | (None, sess1) \<Rightarrow> False)"
proof (cases "WaitReady parse opened ctxErr remaining ctxErr' ts sess")
  case (Some r)
  obtain e sess' where r: "r = (e, sess')" by (rule prod.exhaust)
  obtain e1 s1 where w: "waitReadyStream parse opened sess = (e1, s1)" by (rule prod.exhaust)
  show ?thesis
  proof (cases e)
    case None
    then show ?thesis using Some r WaitReady_sound by fastforce
  next
    case err: (Some x)
    then show ?thesis
      using Some r w by (cases e1) (auto simp: WaitReady_def split: if_splits option.splits)
  qed
qed simp


definition creating_reply :: create_reply where
  "creating_reply = \<lparr>rp_session = Some (zero_session_proto\<lparr>sp_id := ''s''\<rparr>), rp_warnings = [], rp_endpoint = [],
     rp_credential = None, rp_status = 0\<rparr>"


section \<open>Properties of the other waits\<close>

text \<open>A wait for a durable snapshot succeeds only with a snapshot the server reports as durable
and that has neither failed nor been deleted.\<close>

theorem durable_wait_sound:
  "case WaitForSnapshotDurable ts of
     Some (Some (Some snap, None)) \<Rightarrow> IsDurable (sn_DurabilityState snap) \<and>
       \<not> SnapshotState_IsTerminal (sn_State snap) \<and> list_ex (\<lambda>t. fst t = Inr (Some snap)) ts
   | _ \<Rightarrow> True"
proof -
  have d: "durable_step snap = Some None \<Longrightarrow> IsDurable (sn_DurabilityState snap) \<and> \<not> SnapshotState_IsTerminal (sn_State snap)" for snap
    by (auto simp: durable_step_def IsDurable_def SnapshotState_IsTerminal_def split: durability.splits if_splits)
  have "IsDurable (sn_DurabilityState snap) \<and> \<not> SnapshotState_IsTerminal (sn_State snap) \<and> list_ex (\<lambda>t. fst t = Inr (Some snap)) ts"
    if "WaitForSnapshotDurable ts = Some (Some (Some snap, None))" for snap
    using that
  proof (induction ts rule: WaitForSnapshotDurable.induct)
    case (2 reply ctx ts)
    show ?case
    proof (cases reply)
      case (Inr o1)
      then show ?thesis
        using 2 d by (cases o1) (auto split: option.splits)
    qed (use 2 in simp)
  qed simp
  then show ?thesis by (auto split: option.splits prod.splits)
qed

text \<open>
  The clock of a deletion: a try is timed no earlier than \<open>now\<close>, and the timer between two tries
  fires no sooner than asked.
\<close>

fun delete_clock :: "gotime \<Rightarrow> duration \<Rightarrow> delete_try list \<Rightarrow> bool" where
  "delete_clock now backoff [] \<longleftrightarrow> True"
| "delete_clock now backoff (t # ts) \<longleftrightarrow> now \<le> dt_now t \<and>
     delete_clock (dt_now t + backoff) (if backoff < 10 * Second then backoff * 2 else backoff) ts"

lemma delete_pending:
  "snd (delete_volume_loop deadline backoff ts) = None \<Longrightarrow> list_all (\<lambda>t. dt_now t \<le> deadline) ts"
  by (induction deadline backoff ts rule: delete_volume_loop.induct)
    (auto simp: Let_def case_prod_beta split: if_splits option.splits)

text \<open>The time that \<open>n\<close> waits take, the first one \<open>backoff\<close> long.\<close>

fun waits_sum :: "duration \<Rightarrow> nat \<Rightarrow> duration" where
  "waits_sum backoff 0 = 0"
| "waits_sum backoff (Suc n) = backoff + waits_sum (if backoff < 10 * Second then backoff * 2 else backoff) n"

lemma waits_sum_nonneg: "0 \<le> backoff \<Longrightarrow> 0 \<le> waits_sum backoff n"
  by (induction backoff n rule: waits_sum.induct) auto

lemma seven_waits: "63 * Second \<le> waits_sum Second (7 + n)"
  using waits_sum_nonneg [of "16 * Second" n] by (simp add: eval_nat_numeral)

lemma delete_elapsed:
  "delete_clock now backoff ts \<Longrightarrow> list_all (\<lambda>t. dt_now t \<le> deadline) ts \<Longrightarrow> ts \<noteq> [] \<Longrightarrow>
   now + waits_sum backoff (length ts - 1) \<le> deadline"
proof (induction now backoff ts rule: delete_clock.induct)
  case (2 now backoff t ts)
  then show ?case by (cases ts) auto
qed simp

lemma delete_clock_take: "delete_clock now backoff ts \<Longrightarrow> delete_clock now backoff (take n ts)"
proof (induction now backoff ts arbitrary: n rule: delete_clock.induct)
  case (2 now backoff t ts)
  then show ?case by (cases n) auto
qed simp

lemma delete_waits_length: "length (fst (delete_volume_loop deadline backoff ts)) \<le> length ts"
  by (induction deadline backoff ts rule: delete_volume_loop.induct)
    (auto simp: Let_def case_prod_beta split: option.splits)

lemma delete_waits:
  "list_all (\<lambda>t. dt_now t \<le> deadline) (take (length (fst (delete_volume_loop deadline backoff ts))) ts)"
  by (induction deadline backoff ts rule: delete_volume_loop.induct)
    (auto simp: Let_def case_prod_beta split: option.splits)

lemma delete_short:
  "backoff \<in> {1 * Second, 2 * Second, 4 * Second, 8 * Second, 16 * Second} \<Longrightarrow>
   list_all (\<lambda>w. w \<le> 16 * Second) (fst (delete_volume_loop deadline backoff ts))"
  by (induction deadline backoff ts rule: delete_volume_loop.induct)
    (auto simp: Let_def case_prod_beta split: option.splits)

text \<open>Deleting a volume whose upload is pending gives up: after seven waits (1, 2, 4, 8, 16, 16 and
16 seconds, no wait being longer than 16) the minute is over, so at most eight tries are made, and an
error other than the pending upload is reported by the try that got it.\<close>

theorem delete_volume_returns:
  assumes "delete_clock start Second ts" and "8 \<le> length ts"
  shows "\<exists>waits err. DeleteVolume start ts = (waits, Some err) \<and> length waits < 8 \<and>
    list_all (\<lambda>w. w \<le> 16 * Second) waits"
proof -
  let ?D = "start + 60 * Second"
  have few: "length us < 8" if c: "delete_clock start Second us" and l: "list_all (\<lambda>t. dt_now t \<le> ?D) us" for us
  proof (rule ccontr)
    assume big: "\<not> length us < 8"
    then have "us \<noteq> []" and "7 \<le> length us - 1" by auto
    then obtain n where n: "length us - 1 = 7 + n" using le_Suc_ex by blast
    with \<open>us \<noteq> []\<close> have "start + waits_sum Second (7 + n) \<le> ?D" using delete_elapsed [OF c l] by simp
    then show False using seven_waits [of n] by simp
  qed
  obtain waits r where w: "DeleteVolume start ts = (waits, r)" by (rule prod.exhaust)
  then have d: "delete_volume_loop ?D Second ts = (waits, r)" by (simp add: DeleteVolume_def)
  have "r \<noteq> None" using few [OF assms(1)] delete_pending [of ?D Second ts] assms(2) d by auto
  moreover have "length waits < 8"
  proof -
    have "length (take (length waits) ts) < 8"
      using few [OF delete_clock_take [OF assms(1)]] delete_waits [of ?D Second ts] d by simp
    moreover have "length waits \<le> length ts" using delete_waits_length [of ?D Second ts] d by simp
    ultimately show ?thesis by simp
  qed
  moreover have "list_all (\<lambda>w. w \<le> 16 * Second) waits"
    using delete_short [of Second ?D ts] d by simp
  ultimately show ?thesis using w by auto
qed

lemma delete_volume_returns_witness:
  "\<exists>waits err. DeleteVolume 0 (map (\<lambda>n. \<lparr>dt_error = Some (Sentinel ErrVolumeSyncPending), dt_now = n * Second, dt_ctx = None\<rparr>)
      [0, 1, 3, 7, 15, 31, 47, 63]) = (waits, Some err) \<and> length waits < 8"
  using delete_volume_returns [of 0 "map (\<lambda>n. \<lparr>dt_error = Some (Sentinel ErrVolumeSyncPending), dt_now = n * Second, dt_ctx = None\<rparr>)
      [0, 1, 3, 7, 15, 31, 47, 63]"]
  by auto

end
