(* ===== verification/SessionOps.thy ===== *)
theory SessionOps
  imports CreateWait Registry DataPlaneSpec
begin

text \<open>
  The operations of a session handle (\<open>session.go\<close>) over its two parts, the view of the session and the data
  plane: refreshing, pausing and resuming, forking, extending, closing, volumes and ports. A handle is a pair;
  the server is the argument of each operation. The last part follows the slice of volume mounts in memory,
  where \<open>apply\<close> and \<open>DetachVolume\<close> rewrite the array that a caller may still hold.
\<close>

section \<open>Reading and lifecycle\<close>

definition Client_Get ::
  "(string \<Rightarrow> (go_error, session_proto option) result) \<Rightarrow> string \<Rightarrow> (go_error, session_view) result" where
  "Client_Get call sessionID = answered newSession (call sessionID)"

definition Session_Refresh ::
  "(string \<Rightarrow> (go_error, session_proto option) result) \<Rightarrow> session \<Rightarrow> go_error option \<times> session" where
  "Session_Refresh call sess =
     (let (s, d) = sess
      in case Client_Get call (sv_ID s) of
           Inl err \<Rightarrow> (Some err, sess)
         | Inr updated \<Rightarrow> (None, (copyFrom updated s, d)))"

definition Session_pause ::
  "(string \<times> bool \<Rightarrow> (go_error, session_proto option) result) \<Rightarrow> bool \<Rightarrow> session \<Rightarrow> go_error option \<times> session" where
  "Session_pause call async sess =
     (let (s, d) = sess
      in case call (sv_ID s, async) of
           Inl err \<Rightarrow> (mapError (Some err), sess)
         | Inr p \<Rightarrow> (None, (apply_session p s, resetDataPlane d)))"

definition Session_Pause ::
  "(string \<times> bool \<Rightarrow> (go_error, session_proto option) result) \<Rightarrow> session \<Rightarrow> go_error option \<times> session" where
  "Session_Pause call sess = Session_pause call False sess"

definition Session_PauseAsync ::
  "(string \<times> bool \<Rightarrow> (go_error, session_proto option) result) \<Rightarrow> session \<Rightarrow> go_error option \<times> session" where
  "Session_PauseAsync call sess = Session_pause call True sess"

definition Session_Resume ::
  "(string \<Rightarrow> (go_error, session_proto option) result) \<Rightarrow> session \<Rightarrow> go_error option \<times> session" where
  "Session_Resume call sess =
     (let (s, d) = sess
      in case call (sv_ID s) of
           Inl err \<Rightarrow> (mapError (Some err), sess)
         | Inr p \<Rightarrow> (None, (apply_session p s, resetDataPlane d)))"

definition Session_Extend ::
  "(string \<times> duration \<Rightarrow> (go_error, session_proto option) result) \<Rightarrow> duration \<Rightarrow> session \<Rightarrow> go_error option \<times> session" where
  "Session_Extend call additional sess =
     (let (s, d) = sess
      in case call (sv_ID s, additional) of
           Inl err \<Rightarrow> (mapError (Some err), sess)
         | Inr p \<Rightarrow> (None, (apply_session p s, d)))"

text \<open>\<open>Close\<close> with both parts: the data plane of \<open>Session_Close\<close>, and the view of the answer.\<close>

definition close_session :: "(go_error, session_proto option) result \<Rightarrow> session \<Rightarrow> go_error option \<times> session" where
  "close_session reply sess =
     (let (s, d) = sess; (err, d') = Session_Close reply d
      in (err, (if dp_closeDone d then s else case reply of Inl e \<Rightarrow> s | Inr p \<Rightarrow> apply_session p s, d')))"

definition CloseIfOpen :: "(go_error, session_proto option) result \<Rightarrow> session \<Rightarrow> go_error option \<times> session" where
  "CloseIfOpen reply sess =
     (if SessionState_IsTerminal (sv_State (fst sess)) then (None, sess) else close_session reply sess)"

record fork_options =
  fk_Count :: int
  fk_NamePrefix :: string
  fk_Wait :: bool

text \<open>Children are new handles; they share the pool of the client.\<close>

definition forkChildren :: "pool \<Rightarrow> session_proto option list \<Rightarrow> session list" where
  "forkChildren p children = map (\<lambda>c. (newSession c, fresh_dp\<lparr>dp_pool := p\<rparr>)) children"

definition Session_Fork ::
  "(string \<times> fork_options \<Rightarrow> (go_error, session_proto option list) result) \<Rightarrow> fork_options \<Rightarrow> session
    \<Rightarrow> (go_error, session list) result" where
  "Session_Fork call opts sess =
     (let (s, d) = sess
      in case call (sv_ID s, opts) of
           Inl err \<Rightarrow> Inl (mapForkError err)
         | Inr children \<Rightarrow> Inr (forkChildren (dp_pool d) children))"

section \<open>Settings, ports and volumes\<close>

definition Session_Egress :: "session option \<Rightarrow> egress_policy" where
  "Session_Egress sess = (case sess of None \<Rightarrow> egressPolicyFromProto None | Some (s, d) \<Rightarrow> sv_egress s)"


definition UpdateTags ::
  "(string \<Rightarrow> string) \<Rightarrow> (session_update \<Rightarrow> (go_error, session_proto option \<times> (string \<times> string) option list) result)
    \<Rightarrow> string list \<Rightarrow> session_view \<Rightarrow> go_error option \<times> session_view" where
  "UpdateTags lower call tags s = Session_Update call [Some (WithTags_session lower tags)] s"

text \<open>A call of which only the error is used.\<close>

definition checked :: "(go_error, 'p) result \<Rightarrow> go_error option" where
  "checked reply = (case reply of Inl err \<Rightarrow> mapError (Some err) | Inr p \<Rightarrow> None)"

definition UpdateSSHAuthorizedKeys ::
  "(string \<times> string list \<Rightarrow> (go_error, unit) result) \<Rightarrow> string list \<Rightarrow> session_view \<Rightarrow> go_error option" where
  "UpdateSSHAuthorizedKeys call keys s = checked (call (sv_ID s, keys))"

definition UnexposePort :: "(string \<times> int \<Rightarrow> (go_error, unit) result) \<Rightarrow> int \<Rightarrow> session_view \<Rightarrow> go_error option" where
  "UnexposePort call port s = checked (call (sv_ID s, port))"

text \<open>The answer of the server is \<open>None\<close> when there is no message; the wildcard status of the code is then the empty
  string, here the unspecified one.\<close>

definition ExposePort ::
  "(string \<times> int \<times> gotime option \<times> string option \<Rightarrow> (go_error, exposed_port_proto option) result) \<Rightarrow> int
    \<Rightarrow> expose_config opt_fn list \<Rightarrow> session_view \<Rightarrow> (go_error, exposed_port) result" where
  "ExposePort call port opts s =
     (let cfg = apply_opts opts \<lparr>xc_expiresAt = None, xc_slug = []\<rparr>
      in answered (\<lambda>r. case r of
             None \<Rightarrow> \<lparr>xp_Port = port, xp_PreviewURL = [], xp_ExpiresAt = None, xp_PreviewURLID = [], xp_Slug = [],
               xp_Wildcard = False, xp_WildcardStatus = WildUnspecified, xp_WildcardStatusReason = []\<rparr>
           | Some p \<Rightarrow> exposed_port_of p)
          (call (sv_ID s, port, xc_expiresAt cfg, if xc_slug cfg = [] then None else Some (xc_slug cfg))))"

definition ListExposedPorts ::
  "(string \<Rightarrow> (go_error, exposed_port_proto option list) result) \<Rightarrow> session_view \<Rightarrow> (go_error, exposed_port list) result" where
  "ListExposedPorts call s = answered ListExposedPorts_result (call (sv_ID s))"

definition AttachVolume ::
  "(string \<times> string \<times> string \<times> bool \<Rightarrow> (go_error, volume_mount option) result) \<Rightarrow> string \<Rightarrow> string
    \<Rightarrow> volume_config opt_fn list \<Rightarrow> session_view \<Rightarrow> go_error option \<times> session_view" where
  "AttachVolume call volumeID mountPath opts s =
     (let cfg = apply_opts opts \<lparr>vc_readonly = False\<rparr>
      in case call (sv_ID s, volumeID, mountPath, vc_readonly cfg) of
           Inl err \<Rightarrow> (mapError (Some err), s)
         | Inr attachment \<Rightarrow> (None, AttachVolume_result attachment s))"

text \<open>\<open>turns\<close> are the polls of the wait; \<open>None\<close> that they end before it does.\<close>

definition DetachVolume ::
  "(string \<times> string \<times> bool \<Rightarrow> (go_error, unit) result) \<Rightarrow> gotime \<Rightarrow> (go_error, session_view) result turn list \<Rightarrow> string
    \<Rightarrow> detach_config opt_fn list \<Rightarrow> session_view \<Rightarrow> (go_error option \<times> session_view) option" where
  "DetachVolume call start turns volumeID opts s =
     (let cfg = apply_opts opts defaultDetachVolumeConfig
      in case call (sv_ID s, volumeID, dc_force cfg) of
           Inl err \<Rightarrow> Some (mapError (Some err), s)
         | Inr r \<Rightarrow>
             if 0 < dc_waitTimeout cfg
             then (case waitVolumeDetached start (dc_waitTimeout cfg) volumeID s turns of
                 None \<Rightarrow> None
               | Some (Some err, s) \<Rightarrow> Some (Some err, s)
               | Some (None, s) \<Rightarrow> Some (None, drop_volume volumeID s))
             else Some (None, drop_volume volumeID s))"

section \<open>Volume mounts in memory\<close>

text \<open>
  A slice is an array and a length (the offset is always 0 here); an array is a list of its capacity. \<open>grow\<close>
  is the spare capacity the runtime gives an array that \<open>append\<close> has to allocate.
\<close>

type_synonym mount_slice = "nat \<times> nat"
type_synonym mount_heap = "volume_mount list list"

definition zero_mount :: volume_mount where
  "zero_mount = \<lparr>vm_VolumeID = [], vm_MountPath = [], vm_ReadOnly = False, vm_State = []\<rparr>"

definition slice_read :: "mount_heap \<Rightarrow> mount_slice \<Rightarrow> volume_mount list" where
  "slice_read h sl = take (snd sl) (h ! fst sl)"

definition slice_append :: "(nat \<Rightarrow> nat) \<Rightarrow> mount_heap \<Rightarrow> mount_slice \<Rightarrow> volume_mount \<Rightarrow> mount_heap \<times> mount_slice" where
  "slice_append grow h sl v =
     (let (a, n) = sl
      in if n < length (h ! a) then (h[a := (h ! a)[n := v]], (a, Suc n))
         else (h @ [take n (h ! a) @ [v] @ replicate (grow n) zero_mount], (length h, Suc n)))"

text \<open>The loop at the end of \<open>DetachVolume\<close>: element \<open>i\<close> of the slice is read when its turn comes.\<close>

fun filter_loop ::
  "(nat \<Rightarrow> nat) \<Rightarrow> string \<Rightarrow> mount_slice \<Rightarrow> nat \<Rightarrow> nat \<Rightarrow> mount_slice \<Rightarrow> mount_heap \<Rightarrow> mount_heap \<times> mount_slice" where
  "filter_loop grow volumeID sl i 0 filtered h = (h, filtered)"
| "filter_loop grow volumeID sl i (Suc k) filtered h =
     (let v = h ! fst sl ! i
      in if vm_VolumeID v = volumeID then filter_loop grow volumeID sl (Suc i) k filtered h
         else (let (h, filtered) = slice_append grow h filtered v
               in filter_loop grow volumeID sl (Suc i) k filtered h))"

definition detach_in_place :: "(nat \<Rightarrow> nat) \<Rightarrow> string \<Rightarrow> mount_heap \<Rightarrow> mount_slice \<Rightarrow> mount_heap \<times> mount_slice" where
  "detach_in_place grow volumeID h sl = filter_loop grow volumeID sl 0 (snd sl) (fst sl, 0) h"

text \<open>\<open>apply\<close> empties the slice of the handle and appends the mounts of the answer.\<close>

fun append_all :: "(nat \<Rightarrow> nat) \<Rightarrow> volume_mount list \<Rightarrow> mount_heap \<Rightarrow> mount_slice \<Rightarrow> mount_heap \<times> mount_slice" where
  "append_all grow [] h sl = (h, sl)"
| "append_all grow (v # vs) h sl = (let (h, sl) = slice_append grow h sl v in append_all grow vs h sl)"

definition apply_in_place :: "(nat \<Rightarrow> nat) \<Rightarrow> volume_mount list \<Rightarrow> mount_heap \<Rightarrow> mount_slice \<Rightarrow> mount_heap \<times> mount_slice" where
  "apply_in_place grow vs h sl = append_all grow vs h (fst sl, 0)"

definition valid_slice :: "mount_heap \<Rightarrow> mount_slice \<Rightarrow> bool" where
  "valid_slice h sl \<longleftrightarrow> fst sl < length h \<and> snd sl \<le> length (h ! fst sl)"

section \<open>The slices refine the lists\<close>

lemma valid_slice_update [simp]:
  "valid_slice (h[a := xs]) (b, n) \<longleftrightarrow> b < length h \<and> n \<le> (if b = a then length xs else length (h ! b))"
  by (cases "b < length h") (auto simp: valid_slice_def)

lemma take_Suc_update: "j < length xs \<Longrightarrow> take (Suc j) (xs[j := x]) = take j xs @ [x]"
  by (simp add: take_Suc_conv_app_nth)

text \<open>The write position never overtakes the read position, so the loop reads what was there before it.\<close>

lemma filter_loop_eq:
  assumes "a < length h" and "j \<le> i" and "i + k \<le> length (h ! a)"
  shows "filter_loop grow v (a, n) i k (a, j) h =
    (let ks = filter (\<lambda>m. vm_VolumeID m \<noteq> v) (take k (drop i (h ! a)))
     in (h[a := take j (h ! a) @ ks @ drop (j + length ks) (h ! a)], (a, j + length ks)))"
  using assms
proof (induction k arbitrary: i j h)
  case 0
  then show ?case by simp
next
  case (Suc k)
  let ?x = "h ! a ! i"
  have i: "i < length (h ! a)" using Suc.prems by simp
  then have rest: "take (Suc k) (drop i (h ! a)) = ?x # take k (drop (Suc i) (h ! a))"
    by (simp flip: Cons_nth_drop_Suc)
  show ?case
  proof (cases "vm_VolumeID ?x = v")
    case True
    with Suc.prems Suc.IH [of h j "Suc i"] rest show ?thesis by (simp add: Let_def)
  next
    case False
    let ?h = "h[a := (h ! a)[j := ?x]]"
    have j: "j < length (h ! a)" using Suc.prems i by simp
    have keep: "drop (Suc j + m) ((h ! a)[j := ?x]) = drop (Suc j + m) (h ! a)" "drop (Suc i) ((h ! a)[j := ?x]) = drop (Suc i) (h ! a)" for m
      using Suc.prems by simp_all
    have "filter_loop grow v (a, n) (Suc i) k (a, Suc j) ?h =
      (let ks = filter (\<lambda>m. vm_VolumeID m \<noteq> v) (take k (drop (Suc i) (h ! a)))
       in (h[a := take j (h ! a) @ [?x] @ ks @ drop (Suc j + length ks) (h ! a)], (a, Suc j + length ks)))"
      using Suc.prems Suc.IH [of ?h "Suc j" "Suc i"] j by (simp add: Let_def keep take_Suc_update)
    with False j rest show ?thesis by (simp add: slice_append_def Let_def)
  qed
qed

lemma detach_in_place_eq:
  assumes "valid_slice h sl"
  shows "detach_in_place grow v h sl =
    (let ks = filter (\<lambda>m. vm_VolumeID m \<noteq> v) (slice_read h sl)
     in (h[fst sl := ks @ drop (length ks) (h ! fst sl)], (fst sl, length ks)))"
  using assms filter_loop_eq [of "fst sl" h 0 0 "snd sl" grow v "snd sl"]
  by (simp add: detach_in_place_def valid_slice_def slice_read_def)

lemma slice_append_read:
  assumes "slice_append grow h sl v = (h', sl')" and "valid_slice h sl"
  shows "valid_slice h' sl'" and "slice_read h' sl' = slice_read h sl @ [v]" and "length h \<le> length h'"
    and "b < length h \<Longrightarrow> b \<noteq> fst sl \<Longrightarrow> h' ! b = h ! b" and "fst sl' = fst sl \<or> length h \<le> fst sl'"
  using assms by (auto simp: slice_append_def valid_slice_def slice_read_def take_Suc_update nth_append split: if_splits prod.splits)

lemma append_all_read:
  assumes "append_all grow vs h sl = (h', sl')" and "valid_slice h sl"
  shows "slice_read h' sl' = slice_read h sl @ vs \<and> valid_slice h' sl' \<and> (\<forall>b. b < length h \<longrightarrow> b \<noteq> fst sl \<longrightarrow> h' ! b = h ! b)"
  using assms
proof (induction vs arbitrary: h sl)
  case Nil
  then show ?case by simp
next
  case (Cons v vs)
  obtain h1 sl1 where one: "slice_append grow h sl v = (h1, sl1)" by (cases "slice_append grow h sl v")
  with Cons.prems(1) have rest: "append_all grow vs h1 sl1 = (h', sl')" by simp
  note one' = slice_append_read [OF one Cons.prems(2)]
  from Cons.IH [OF rest one'(1)] have read: "slice_read h' sl' = slice_read h1 sl1 @ vs" and "valid_slice h' sl'"
    and frame: "\<And>b. b < length h1 \<Longrightarrow> b \<noteq> fst sl1 \<Longrightarrow> h' ! b = h1 ! b" by blast+
  moreover have "h' ! b = h ! b" if "b < length h" "b \<noteq> fst sl" for b
    using that frame [of b] one'(3,5) one'(4) [of b] by fastforce
  ultimately show ?case using one'(2) by simp
qed

lemma apply_in_place_read:
  assumes "apply_in_place grow vs h sl = (h', sl')" and "valid_slice h sl"
  shows "slice_read h' sl' = vs"
  using append_all_read [of grow vs h "(fst sl, 0)" h' sl'] assms
  by (auto simp: apply_in_place_def valid_slice_def slice_read_def)

text \<open>C13: The mounts that a handle keeps in memory are those of its view: \<open>DetachVolume\<close> filters the array in
  place and the handle reads exactly the mounts of other volumes, in order; \<open>apply\<close> refills it and the handle
  reads exactly the attachments of the answer. A caller that holds the slice from before reads the filtered mounts
  followed by what was left behind them.\<close>

theorem mounts_refine_view:
  assumes "valid_slice h sl" and "sv_VolumeMounts s = slice_read h sl"
  shows "sv_VolumeMounts (drop_volume v s) = slice_read (fst (detach_in_place grow v h sl)) (snd (detach_in_place grow v h sl)) \<and>
    sv_VolumeMounts (apply_session (Some q) s) =
      slice_read (fst (apply_in_place grow (sv_VolumeMounts (newSession (Some q))) h sl))
        (snd (apply_in_place grow (sv_VolumeMounts (newSession (Some q))) h sl)) \<and>
    slice_read (fst (detach_in_place grow v h sl)) sl =
      sv_VolumeMounts (drop_volume v s) @ drop (length (sv_VolumeMounts (drop_volume v s))) (sv_VolumeMounts s)"
proof -
  let ?ks = "filter (\<lambda>m. vm_VolumeID m \<noteq> v) (slice_read h sl)"
  have len: "length ?ks \<le> length (slice_read h sl)" by (rule length_filter_le)
  have n: "length (slice_read h sl) = snd sl" using assms(1) by (simp add: slice_read_def valid_slice_def)
  have "slice_read (fst (detach_in_place grow v h sl)) (snd (detach_in_place grow v h sl)) = ?ks"
    using assms(1) len n by (simp add: detach_in_place_eq Let_def slice_read_def valid_slice_def)
  moreover have "slice_read (fst (detach_in_place grow v h sl)) sl = ?ks @ drop (length ?ks) (slice_read h sl)"
    using assms(1) len n by (simp add: detach_in_place_eq Let_def slice_read_def valid_slice_def drop_take)
  moreover have "sv_VolumeMounts (apply_session (Some q) s) = sv_VolumeMounts (newSession (Some q))"
    by (simp add: newSession_def apply_session_def apply_proto_def)
  moreover have "slice_read (fst (apply_in_place grow vs h sl)) (snd (apply_in_place grow vs h sl)) = vs" for vs
    using apply_in_place_read [OF prod.collapse [symmetric] assms(1)] by metis
  ultimately show ?thesis by (simp add: drop_volume_def assms(2))
qed

definition mount :: "string \<Rightarrow> volume_mount" where
  "mount v = zero_mount\<lparr>vm_VolumeID := v\<rparr>"

theorem mounts_refine_view_witness:
  "slice_read (fst (detach_in_place (\<lambda>n. n) ''a'' [[mount ''a'', mount ''b'', mount ''c'']] (0, 3))) (0, 3)
     = [mount ''b'', mount ''c'', mount ''c'']"
proof -
  let ?h = "[[mount ''a'', mount ''b'', mount ''c'']]"
  let ?s = "zero_session\<lparr>sv_VolumeMounts := [mount ''a'', mount ''b'', mount ''c'']\<rparr>"
  have "valid_slice ?h (0, 3)" by (simp add: valid_slice_def)
  moreover have "sv_VolumeMounts ?s = slice_read ?h (0, 3)" by (simp add: slice_read_def)
  ultimately have "slice_read (fst (detach_in_place (\<lambda>n. n) ''a'' ?h (0, 3))) (0, 3) =
      sv_VolumeMounts (drop_volume ''a'' ?s) @ drop (length (sv_VolumeMounts (drop_volume ''a'' ?s))) (sv_VolumeMounts ?s)"
    by (rule mounts_refine_view [THEN conjunct2, THEN conjunct2])
  then show ?thesis by (simp add: drop_volume_def mount_def zero_mount_def)
qed

text \<open>A caller that detaches, without waiting, each volume of the slice it holds; the volumes it asks for.\<close>

fun detach_each :: "(nat \<Rightarrow> nat) \<Rightarrow> mount_slice \<Rightarrow> nat \<Rightarrow> nat \<Rightarrow> mount_heap \<Rightarrow> mount_slice \<Rightarrow> string list \<times> mount_heap \<times> mount_slice" where
  "detach_each grow held i 0 h sl = ([], h, sl)"
| "detach_each grow held i (Suc k) h sl =
     (let v = vm_VolumeID (h ! fst held ! i); (h, sl) = detach_in_place grow v h sl;
          (vs, r) = detach_each grow held (Suc i) k h sl
      in (v # vs, r))"

text \<open>A caller that ranges over the mounts of a session and detaches each without waiting skips volumes: of
  three mounts it asks for the first and twice for the last, and the second one stays attached.\<close>

theorem detach_while_ranging_skips:
  "let h = [[mount ''a'', mount ''b'', mount ''c'']]; (asked, h', sl') = detach_each grow (0, 3) 0 3 h (0, 3)
   in asked = [''a'', ''c'', ''c''] \<and> slice_read h' sl' = [mount ''b'']"
  by (simp add: eval_nat_numeral detach_in_place_def slice_append_def slice_read_def mount_def zero_mount_def Let_def)

lemma detach_wait_last:
  assumes "waitVolumeDetached start timeout v s ts = Some (None, s')"
  shows "list_ex (\<lambda>t. case tn_reply t of
      Inl e \<Rightarrow> False
    | Inr u \<Rightarrow> isVolumeDetached v u \<and> sv_VolumeMounts s' = sv_VolumeMounts u) ts"
  using assms
proof (induction ts arbitrary: s)
  case Nil
  then show ?case by (simp add: waitVolumeDetached_def)
next
  case (Cons t ts)
  show ?case
  proof (cases "tn_reply t")
    case (Inl e)
    with Cons.prems show ?thesis by (simp add: waitVolumeDetached_def detach_step_def split: if_splits)
  next
    case (Inr u)
    have shown: "isVolumeDetached v (copyFrom u s) = isVolumeDetached v u" by (simp add: isVolumeDetached_def)
    show ?thesis
    proof (cases "isVolumeDetached v u")
      case True
      with Inr Cons.prems shown show ?thesis
        by (auto simp: waitVolumeDetached_def detach_step_def split: if_splits)
    next
      case False
      with Inr Cons.prems shown have "waitVolumeDetached start timeout v (copyFrom u s) ts = Some (None, s')"
        by (simp add: waitVolumeDetached_def detach_step_def split: if_splits option.splits)
      from Cons.IH [OF this] show ?thesis by simp
    qed
  qed
qed

text \<open>Detaching a volume succeeds only when the server accepted the call and, when it waits, answered with a session
  of which no attachment of the volume is still attached; the handle then shows the other mounts of that answer,
  or its own other mounts when it does not wait.\<close>

theorem detach_outcome:
  "case DetachVolume call start turns v opts s of
     Some (None, s') \<Rightarrow>
       checked (call (sv_ID s, v, dc_force (apply_opts opts defaultDetachVolumeConfig))) = None \<and>
       (if dc_waitTimeout (apply_opts opts defaultDetachVolumeConfig) \<le> 0 then s' = drop_volume v s
        else list_ex (\<lambda>t. case tn_reply t of
            Inl e \<Rightarrow> False
          | Inr u \<Rightarrow> isVolumeDetached v u \<and> sv_VolumeMounts s' = sv_VolumeMounts (drop_volume v u)) turns)
   | _ \<Rightarrow> True"
proof -
  let ?cfg = "apply_opts opts defaultDetachVolumeConfig"
  have waited: "list_ex (\<lambda>t. case tn_reply t of
      Inl e \<Rightarrow> False
    | Inr u \<Rightarrow> isVolumeDetached v u \<and> sv_VolumeMounts (drop_volume v w) = sv_VolumeMounts (drop_volume v u)) turns"
    if "waitVolumeDetached start (dc_waitTimeout ?cfg) v s turns = Some (None, w)" for w
    using detach_wait_last [OF that] by (auto simp: list_ex_iff drop_volume_def split: sum.splits)
  show ?thesis
  proof (cases "call (sv_ID s, v, dc_force ?cfg)")
    case (Inl err)
    then show ?thesis by (auto simp: DetachVolume_def Let_def split: option.splits)
  next
    case (Inr u)
    then show ?thesis
      using waited by (auto simp: DetachVolume_def Let_def checked_def split: option.splits)
  qed
qed

section \<open>The handle and its data plane\<close>

lemma resetDataPlane_eq:
  "resetDataPlane d = d\<lparr>dp_hint := [], dp_verified := None,
     dp_cancelled := opt_list (dp_cancel d) @ dp_cancelled d, dp_cancel := None, dp_dones := [],
     dp_endpoint := [], dp_credential := [], dp_credEndpoint := [], dp_expiresAt := 0,
     dp_client := None, dp_fromHint := False, dp_release := None,
     dp_pool := (case dp_release d of None \<Rightarrow> dp_pool d | Some h \<Rightarrow> pool_release h (dp_pool d)),
     dp_exited := dp_dones d @ dp_exited d\<rparr>"
  by (simp add: resetDataPlane_def reset_eq hints_clear_def clear_verified_def await_loops_def Let_def
      split: option.splits)

lemma link_of_reset: "link_of (resetDataPlane d) = (link_of d)\<lparr>lk_client := None, lk_cred := None, lk_renewing := False\<rparr>"
  by (simp add: resetDataPlane_eq link_of_def)

lemma link_of_close: "link_of (closeDataPlane d) = (link_of d)\<lparr>lk_open := False, lk_renewing := False\<rparr>"
  by (simp add: closeDataPlane_def closeDataPlane_locked_def drain_eq await_loops_def link_of_def)

lemma bound_resetDataPlane: "client_bound parse d \<Longrightarrow> client_bound parse (resetDataPlane d)"
  using bound_reset [of parse d]
  by (subst (asm) bound_cong [of "resetDataPlane d" "fst (resetDataPlane_locked d)", symmetric])
    (simp_all add: resetDataPlane_eq reset_eq)

lemma bound_closeDataPlane: "client_bound parse d \<Longrightarrow> client_bound parse (closeDataPlane d)"
  by (subst bound_cong) (simp_all add: closeDataPlane_def closeDataPlane_locked_def drain_eq await_loops_def)

text \<open>A step of a handle is one of its operations with any answer of the server; \<open>sent\<close> are the credentials that
  the server sends.\<close>

definition credential_in :: "string set \<Rightarrow> session_credential option \<Rightarrow> bool" where
  "credential_in sent c \<longleftrightarrow> (case c of None \<Rightarrow> True | Some c \<Rightarrow> TrimSpace (sc_credential c) \<in> sent)"

inductive session_step :: "url_parser \<Rightarrow> string set \<Rightarrow> session \<Rightarrow> session \<Rightarrow> bool" for parse sent where
  refresh: "session_step parse sent sess (snd (Session_Refresh call sess))"
| pause: "session_step parse sent sess (snd (Session_pause call async sess))"
| resume: "session_step parse sent sess (snd (Session_Resume call sess))"
| extend: "session_step parse sent sess (snd (Session_Extend call additional sess))"
| close: "session_step parse sent sess (snd (close_session reply sess))"
| closeIfOpen: "session_step parse sent sess (snd (CloseIfOpen reply sess))"
| release: "session_step parse sent (s, d) (s, Session_Release d)"
| update: "session_step parse sent (s, d) (snd (Session_Update call opts s), d)"
| attach: "session_step parse sent (s, d) (snd (AttachVolume acall v path vopts s), d)"
| detach: "DetachVolume dcall start turns v dopts s = Some (err, s') \<Longrightarrow> session_step parse sent (s, d) (s', d)"
| message: "credential_in sent (wm_credential m) \<Longrightarrow> session_step parse sent sess (apply_wait_message parse m sess)"

inductive session_reach :: "url_parser \<Rightarrow> string set \<Rightarrow> session \<Rightarrow> bool" for parse sent where
  created: "pool_inv p \<Longrightarrow> credential_in sent (rp_credential r) \<Longrightarrow> session_reach parse sent (newSessionFromCreate parse p r)"
| child: "pool_inv p \<Longrightarrow> sess \<in> set (forkChildren p children) \<Longrightarrow> session_reach parse sent sess"
| step: "session_reach parse sent sess \<Longrightarrow> session_step parse sent sess sess' \<Longrightarrow> session_reach parse sent sess'"

definition linked :: "url_parser \<Rightarrow> string set \<Rightarrow> dp \<Rightarrow> dp \<Rightarrow> bool" where
  "linked parse sent d d' \<longleftrightarrow> client_bound parse d' \<and> link_steps sent (link_of d) (link_of d')"

lemma linked_refl [simp]: "client_bound parse d \<Longrightarrow> linked parse sent d d"
  by (simp add: linked_def)

lemma linked_trans: "linked parse sent d d' \<Longrightarrow> linked parse sent d' d'' \<Longrightarrow> linked parse sent d d''"
  by (auto simp: linked_def)

lemma linked_reset: "client_bound parse d \<Longrightarrow> linked parse sent d (resetDataPlane d)"
  by (simp add: linked_def bound_resetDataPlane link_of_reset link_one forget)

lemma linked_close: "client_bound parse d \<Longrightarrow> linked parse sent d (closeDataPlane d)"
  by (simp add: linked_def bound_closeDataPlane link_of_close link_one shut)

lemma linked_Session_Close:
  assumes "client_bound parse d"
  shows "linked parse sent d (snd (Session_Close reply d))"
proof (cases "dp_closeDone d")
  case False
  let ?d = "resetDataPlane (closeDataPlane d)"
  have d: "linked parse sent d ?d"
    by (rule linked_trans [OF linked_close [OF assms] linked_reset [OF bound_closeDataPlane [OF assms]]])
  show ?thesis
  proof (cases reply)
    case (Inl err)
    have b: "client_bound parse (?d\<lparr>dp_closed := x\<rparr>)" for x using d bound_cong [of "?d\<lparr>dp_closed := x\<rparr>" ?d] by (simp add: linked_def)
    have "link_steps sent (link_of ?d) (link_of (?d\<lparr>dp_closed := dp_released ?d\<rparr>))"
    proof (cases "dp_released ?d")
      case True
      have "link_of (?d\<lparr>dp_closed := True\<rparr>) = (link_of ?d)\<lparr>lk_open := False, lk_renewing := False\<rparr>"
        by (simp add: link_of_def resetDataPlane_eq)
      with True show ?thesis by (simp add: link_one shut)
    next
      case False
      then have "link_of (?d\<lparr>dp_closed := False\<rparr>) = (link_of ?d)\<lparr>lk_open := True\<rparr>" and "\<not> lk_released (link_of ?d)"
        by (simp_all add: link_of_def)
      with False show ?thesis by (simp add: link_one reopen)
    qed
    then have "linked parse sent ?d (?d\<lparr>dp_closed := dp_released ?d\<rparr>)" using b by (simp add: linked_def)
    with d have "linked parse sent d (?d\<lparr>dp_closed := dp_released ?d\<rparr>)" by (rule linked_trans)
    with Inl \<open>\<not> dp_closeDone d\<close> show ?thesis by (simp add: Session_Close_def Let_def)
  next
    case (Inr r)
    have "link_of (?d\<lparr>dp_closeDone := True\<rparr>) = link_of ?d" by (simp add: link_of_def)
    moreover have "client_bound parse (?d\<lparr>dp_closeDone := True\<rparr>)" using d bound_cong [of "?d\<lparr>dp_closeDone := True\<rparr>" ?d] by (simp add: linked_def)
    ultimately show ?thesis using d Inr \<open>\<not> dp_closeDone d\<close> by (simp add: Session_Close_def Let_def linked_def)
  qed
qed (simp add: Session_Close_def assms)

lemma linked_response:
  assumes "client_bound parse d" and "credential_in sent cred"
  shows "linked parse sent d (applyDataPlaneResponse parse ep cred st d)"
proof -
  let ?c = "configureDataPlane parse ep cred False d"
  have sent: "\<And>c. cred = Some c \<Longrightarrow> TrimSpace (sc_credential c) \<in> sent" using assms(2) by (simp add: credential_in_def)
  have c: "linked parse sent d ?c"
    using link_configure [OF assms(1) sent] bound_configure [OF assms(1)] by (simp add: linked_def)
  have same: "link_of (markCurrentDataPlaneVerified ?c) = link_of ?c" "link_of (startDataPlaneWarm ?c) = link_of ?c"
    by (auto intro!: link_cong simp: markCurrentDataPlaneVerified_def markDataPlaneVerified_def startDataPlaneWarm_def split: option.splits)
  have bound: "client_bound parse (markCurrentDataPlaneVerified ?c)" "client_bound parse (startDataPlaneWarm ?c)"
    using c by (simp_all add: linked_def markCurrentDataPlaneVerified_def markDataPlaneVerified_def startDataPlaneWarm_def
      split: option.split) (auto intro: bound_cong [THEN iffD2])
  show ?thesis using c same bound assms(1) by (simp add: applyDataPlaneResponse_def Let_def linked_def)
qed

lemma linked_Release:
  assumes "client_bound parse d"
  shows "linked parse sent d (Session_Release d)"
proof -
  let ?r = "d\<lparr>dp_released := True\<rparr>"
  have "client_bound parse ?r" using assms by (subst bound_cong) simp_all
  moreover have "link_of ?r = (link_of d)\<lparr>lk_released := True\<rparr>" by (simp add: link_of_def)
  ultimately have r: "linked parse sent d ?r" by (simp add: linked_def link_one DataPlaneSpec.release)
  then have "linked parse sent ?r (closeDataPlane ?r)" by (intro linked_close) (simp add: linked_def)
  moreover from this have "linked parse sent (closeDataPlane ?r) (resetDataPlane (closeDataPlane ?r))"
    by (intro linked_reset) (simp add: linked_def)
  ultimately show ?thesis using r unfolding Session_Release_def by (blast intro: linked_trans)
qed

lemma linked_step:
  assumes "session_step parse sent sess sess'" and "client_bound parse (snd sess)"
  shows "linked parse sent (snd sess) (snd sess')"
  using assms
proof cases
  case (refresh call)
  with assms(2) show ?thesis by (auto simp: Session_Refresh_def split: prod.splits sum.splits)
next
  case (pause call async)
  with assms(2) show ?thesis by (auto simp: Session_pause_def linked_reset split: prod.splits sum.splits)
next
  case (resume call)
  with assms(2) show ?thesis by (auto simp: Session_Resume_def linked_reset split: prod.splits sum.splits)
next
  case (extend call additional)
  with assms(2) show ?thesis by (auto simp: Session_Extend_def split: prod.splits sum.splits)
next
  case (close reply)
  with linked_Session_Close [OF assms(2), of sent reply] show ?thesis
    by (simp add: close_session_def case_prod_beta Let_def)
next
  case (closeIfOpen reply)
  with assms(2) linked_Session_Close [OF assms(2), of sent reply] show ?thesis
    by (simp add: CloseIfOpen_def close_session_def case_prod_beta Let_def)
next
  case (message m)
  with linked_response [OF assms(2) message(2), of "wm_endpoint m" "wm_status m"] show ?thesis
    by (simp add: apply_wait_message_def case_prod_beta)
qed (use assms(2) linked_Release in simp_all)

lemma link_fresh: "pool_inv p \<Longrightarrow> client_bound parse (fresh_dp\<lparr>dp_pool := p\<rparr>) \<and> link_of (fresh_dp\<lparr>dp_pool := p\<rparr>) = new_link"
  by (simp add: client_bound_def fresh_dp_def link_of_def new_link_def)



definition unlinked :: "link \<Rightarrow> dp \<Rightarrow> bool" where
  "unlinked l d \<longleftrightarrow> link_of d = l\<lparr>lk_client := None, lk_cred := None, lk_renewing := False\<rparr> \<and>
     dp_release d = None \<and> dp_verified d = None \<and> dp_hint d = []"

lemma unlinked_reset [simp]: "unlinked (link_of d) (resetDataPlane d)"
  by (simp add: unlinked_def link_of_reset) (simp add: resetDataPlane_eq)

text \<open>A pause or a resume that the server accepts takes the link away, whatever it was: the handle keeps no client,
  no credential, no renewal, no hint and no reference on the pool, and the view is that of the answer. One that the
  server refuses changes nothing.\<close>

theorem lifecycle_takes_link_away:
  "(case call (sv_ID s, async) of
      Inr p \<Rightarrow> (case Session_pause call async (s, d) of (e, s', d') \<Rightarrow> e = None \<and> s' = apply_session p s \<and> unlinked (link_of d) d')
    | Inl err \<Rightarrow> Session_pause call async (s, d) = (mapError (Some err), s, d)) \<and>
   (case rcall (sv_ID s) of
      Inr p \<Rightarrow> (case Session_Resume rcall (s, d) of (e, s', d') \<Rightarrow> e = None \<and> s' = apply_session p s \<and> unlinked (link_of d) d')
    | Inl err \<Rightarrow> Session_Resume rcall (s, d) = (mapError (Some err), s, d))"
  by (simp add: Session_pause_def Session_Resume_def split: sum.split)

text \<open>\<open>CloseIfOpen\<close> on a handle that shows a terminal state does nothing at all: the client, the credential, the
  renewal and the reference on the pool stay, which \<open>Close\<close> would have given up.\<close>

theorem close_if_open_keeps_link:
  "if SessionState_IsTerminal (sv_State s)
   then CloseIfOpen reply (s, d) = (None, s, d) \<and>
     (if dp_closeDone d then True else dp_release (snd (snd (close_session reply (s, d)))) = None \<and>
        lk_client (link_of (snd (snd (close_session reply (s, d))))) = None)
   else CloseIfOpen reply (s, d) = close_session reply (s, d)"
  by (auto simp: CloseIfOpen_def close_session_def Session_Close_def case_prod_beta Let_def resetDataPlane_eq link_of_def
      split: sum.splits)

end
