(* ===== verification/ServiceCalls.thy ===== *)
theory ServiceCalls
  imports SessionOps
begin

text \<open>
  The calls of the client that keep no state in the SDK: sessions and their creation (\<open>sandbox.go\<close>), snapshots
  (\<open>snapshot.go\<close>) and volumes (\<open>volume.go\<close>). Each builds a request, hands it to the server, which is an argument,
  and converts the answer; every listing goes through \<open>paged\<close> and is an instance of the interface \<open>listing\<close>.
\<close>

section \<open>Sessions\<close>

type_synonym session_query = "string \<times> int \<times> string \<times> string list \<times> bool option \<times> bool"

definition Client_List ::
  "('s \<Rightarrow> session_query \<Rightarrow> 's \<times> (go_error, session_proto option list \<times> string) result) \<Rightarrow> 's
    \<Rightarrow> list_config opt_fn list \<Rightarrow> (go_error, session_view list) result option" where
  "Client_List serve s opts =
     (let cfg = apply_opts opts defaultListConfig
      in paged serve (\<lambda>tok. (lc_workspaceID cfg, automaticPageSize, tok, lc_tags cfg, lc_sticky cfg, lc_includeTerminated cfg))
           sessionsFromProto s)"

interpretation sessions: listing "\<lambda>serve s. Client_List serve s opts"
    "\<lambda>tok. let cfg = apply_opts opts defaultListConfig
       in (lc_workspaceID cfg, automaticPageSize, tok, lc_tags cfg, lc_sticky cfg, lc_includeTerminated cfg)" sessionsFromProto
  by unfold_locales (simp add: Client_List_def Let_def)

text \<open>
  \<open>Create\<close>: the request is built, sent and waited for; \<open>call\<close> also gets the bound on the held call, and \<open>wait\<close>
  is \<open>WaitReady\<close> with its timeout.
\<close>

definition Client_Create ::
  "url_parser \<Rightarrow> pool \<Rightarrow> duration option \<Rightarrow> (create_request \<Rightarrow> duration option \<Rightarrow> (go_error, create_reply) result)
    \<Rightarrow> (duration \<Rightarrow> session \<Rightarrow> go_error option \<times> session) \<Rightarrow> create_config opt_fn list
    \<Rightarrow> (go_error, session) result \<times> session option" where
  "Client_Create parse p httpTimeout call wait opts =
     (let cfg = apply_opts opts defaultCreateConfig
      in case build_create_request cfg of
           Inl err \<Rightarrow> (Inl err, None)
         | Inr req \<Rightarrow>
             (let waitTimeout = effectiveCreateWaitTimeout cfg;
                  bound = (if \<not> cc_waitReady cfg \<and> \<not> cc_waitForRuntime cfg then None
                           else heldCreateContext httpTimeout waitTimeout)
              in create_session parse p cfg (call req bound) (wait waitTimeout)))"

definition CreateAndWait ::
  "url_parser \<Rightarrow> pool \<Rightarrow> duration option \<Rightarrow> (create_request \<Rightarrow> duration option \<Rightarrow> (go_error, create_reply) result)
    \<Rightarrow> (duration \<Rightarrow> session \<Rightarrow> go_error option \<times> session) \<Rightarrow> duration \<Rightarrow> create_config opt_fn list
    \<Rightarrow> (go_error, session) result \<times> session option" where
  "CreateAndWait parse p httpTimeout call wait timeout opts =
     Client_Create parse p httpTimeout call wait (opts @ [Some (WithWaitReady True), Some (WithWaitTimeout timeout)])"

text \<open>\<open>Client.Close\<close> on a client that is not nil; closing the idle connections of the transport is not modelled.\<close>

definition Client_Close :: "pool \<Rightarrow> pool" where
  "Client_Close p = closeDataPlaneHTTPClients p"

record ci_runner_size = cz_RunsOnLabel :: string  cz_CPU :: int  cz_MemoryGiB :: int
record ci_runner_sizes = cs_Sizes :: "ci_runner_size list"  cs_DefaultRunsOnLabel :: string

definition ListCIRunnerSizes ::
  "(go_error, string \<times> (string \<times> int \<times> int) list) result \<Rightarrow> (go_error, ci_runner_sizes) result" where
  "ListCIRunnerSizes reply =
     answered (\<lambda>(default_label, sizes).
       \<lparr>cs_Sizes = map (\<lambda>(l, c, m). \<lparr>cz_RunsOnLabel = l, cz_CPU = c, cz_MemoryGiB = m\<rparr>) sizes,
        cs_DefaultRunsOnLabel = default_label\<rparr>) reply"

section \<open>Snapshots\<close>

record snapshot_create =
  nc_sessionId :: string
  nc_async :: bool
  nc_name :: "string option"
  nc_expiresAt :: "gotime option"

definition createSnapshot ::
  "(snapshot_create \<Rightarrow> (go_error, snapshot_proto option) result) \<Rightarrow> string \<Rightarrow> string \<Rightarrow> gotime option \<Rightarrow> bool
    \<Rightarrow> (go_error, snapshot option) result" where
  "createSnapshot call sessionID name expiresAt async =
     answered snapshotFromProto
       (call \<lparr>nc_sessionId = sessionID, nc_async = async, nc_name = opt_text name, nc_expiresAt = expiresAt\<rparr>)"

definition CreateSnapshot ::
  "(snapshot_create \<Rightarrow> (go_error, snapshot_proto option) result) \<Rightarrow> string \<Rightarrow> string \<Rightarrow> gotime option
    \<Rightarrow> (go_error, snapshot option) result" where
  "CreateSnapshot call sessionID name expiresAt = createSnapshot call sessionID name expiresAt False"

definition CreateSnapshotAsync ::
  "(snapshot_create \<Rightarrow> (go_error, snapshot_proto option) result) \<Rightarrow> string \<Rightarrow> string \<Rightarrow> gotime option
    \<Rightarrow> (go_error, snapshot option) result" where
  "CreateSnapshotAsync call sessionID name expiresAt = createSnapshot call sessionID name expiresAt True"

definition GetSnapshot ::
  "(string \<Rightarrow> (go_error, snapshot_proto option) result) \<Rightarrow> string \<Rightarrow> (go_error, snapshot option) result" where
  "GetSnapshot call snapshotID = answered snapshotFromProto (call (TrimSpace snapshotID))"

definition DeleteSnapshot ::
  "(string \<Rightarrow> (go_error, snapshot_proto option) result) \<Rightarrow> string \<Rightarrow> (go_error, snapshot option) result" where
  "DeleteSnapshot call snapshotID = answered snapshotFromProto (call snapshotID)"

definition UpdateSnapshot ::
  "(snapshot_update \<Rightarrow> (go_error, snapshot_proto option) result) \<Rightarrow> string \<Rightarrow> update_snapshot_config opt_fn list
    \<Rightarrow> (go_error, snapshot option) result" where
  "UpdateSnapshot call snapshotID opts =
     answered snapshotFromProto (call (update_snapshot_request snapshotID
       (apply_opts opts \<lparr>un_name = None, un_expiresAt = None, un_expiresAtSet = False, un_tags = [], un_tagsSet = False\<rparr>)))"

record snapshot_download = nd_URL :: string  nd_ExpiresAt :: gotime

definition GetSnapshotDownloadURL ::
  "(string \<Rightarrow> (go_error, string \<times> gotime option) result) \<Rightarrow> string \<Rightarrow> (go_error, snapshot_download) result" where
  "GetSnapshotDownloadURL call snapshotID =
     answered (\<lambda>(url, t). \<lparr>nd_URL = url, nd_ExpiresAt = timestampToTime t\<rparr>) (call (TrimSpace snapshotID))"

definition snapshotsFromProto :: "snapshot_proto option list \<Rightarrow> snapshot option list" where
  "snapshotsFromProto ps = map snapshotFromProto ps"

definition ListSnapshots ::
  "('s \<Rightarrow> string \<times> int \<times> string \<Rightarrow> 's \<times> (go_error, snapshot_proto option list \<times> string) result) \<Rightarrow> 's
    \<Rightarrow> list_config opt_fn list \<Rightarrow> (go_error, snapshot option list) result option" where
  "ListSnapshots serve s opts =
     (let cfg = apply_opts opts defaultListConfig
      in paged serve (\<lambda>tok. (lc_workspaceID cfg, automaticPageSize, tok)) snapshotsFromProto s)"

definition ListSessionSnapshots ::
  "('s \<Rightarrow> string \<times> int \<times> string \<Rightarrow> 's \<times> (go_error, snapshot_proto option list \<times> string) result) \<Rightarrow> 's \<Rightarrow> string
    \<Rightarrow> (go_error, snapshot option list) result option" where
  "ListSessionSnapshots serve s sessionID =
     paged serve (\<lambda>tok. (TrimSpace sessionID, automaticPageSize, tok)) snapshotsFromProto s"

definition ListDanglingSnapshots ::
  "('s \<Rightarrow> int \<times> string \<Rightarrow> 's \<times> (go_error, snapshot_proto option list \<times> string) result) \<Rightarrow> 's
    \<Rightarrow> (go_error, snapshot option list) result option" where
  "ListDanglingSnapshots serve s = paged serve (\<lambda>tok. (automaticPageSize, tok)) snapshotsFromProto s"

interpretation snapshots: listing "\<lambda>serve s. ListSnapshots serve s opts"
    "\<lambda>tok. (lc_workspaceID (apply_opts opts defaultListConfig), automaticPageSize, tok)" snapshotsFromProto
  by unfold_locales (simp add: ListSnapshots_def Let_def)

interpretation session_snapshots: listing "\<lambda>serve s. ListSessionSnapshots serve s sessionID"
    "\<lambda>tok. (TrimSpace sessionID, automaticPageSize, tok)" snapshotsFromProto
  by unfold_locales (simp add: ListSessionSnapshots_def)

interpretation dangling_snapshots: listing ListDanglingSnapshots "\<lambda>tok. (automaticPageSize, tok)" snapshotsFromProto
  by unfold_locales (simp add: ListDanglingSnapshots_def)

text \<open>\<open>turns ID\<close> are the polls of the snapshot with that ID. \<open>Some (None, _)\<close> is the panic on no snapshot.\<close>

definition CreateSnapshotAndWait ::
  "(snapshot_create \<Rightarrow> (go_error, snapshot_proto option) result) \<Rightarrow> gotime \<Rightarrow> (string \<Rightarrow> (go_error, snapshot option) result turn list)
    \<Rightarrow> string \<Rightarrow> string \<Rightarrow> gotime option \<Rightarrow> duration \<Rightarrow> (snapshot fetched \<times> unit) option" where
  "CreateSnapshotAndWait call start turns sessionID name expiresAt timeout =
     (case CreateSnapshotAsync call sessionID name expiresAt of
        Inl err \<Rightarrow> Some (Some (None, Some err), ())
      | Inr None \<Rightarrow> Some (None, ())
      | Inr (Some snap) \<Rightarrow> WaitSnapshotReady start timeout (sn_ID snap) (turns (sn_ID snap)))"

section \<open>Volumes\<close>

record volume_create =
  vc_name :: string
  vc_sizeBytes :: int
  vc_workspaceId :: string

definition CreateVolume ::
  "(string \<Rightarrow> gotime option) \<Rightarrow> (volume_create \<Rightarrow> (go_error, volume_proto option) result) \<Rightarrow> create_volume_config opt_fn list
    \<Rightarrow> (go_error, volume option) result" where
  "CreateVolume parse call opts =
     (let cfg = apply_opts opts \<lparr>cv_workspaceID = [], cv_name = [], cv_sizeBytes = 0\<rparr>
      in answered (volumeFromProto parse)
           (call \<lparr>vc_name = cv_name cfg, vc_sizeBytes = cv_sizeBytes cfg, vc_workspaceId = TrimSpace (cv_workspaceID cfg)\<rparr>))"

definition GetVolume ::
  "(string \<Rightarrow> gotime option) \<Rightarrow> (string \<Rightarrow> (go_error, volume_proto option \<times> volume_attachment option list) result) \<Rightarrow> string
    \<Rightarrow> (go_error, volume option) result" where
  "GetVolume parse call volumeID = answered (\<lambda>(v, as). GetVolume_result parse v as) (call volumeID)"

definition volumesFromProto :: "(string \<Rightarrow> gotime option) \<Rightarrow> volume_proto option list \<Rightarrow> volume option list" where
  "volumesFromProto parse vs = map (volumeFromProto parse) vs"

definition ListVolumes ::
  "(string \<Rightarrow> gotime option) \<Rightarrow> ('s \<Rightarrow> string \<times> int \<times> string \<Rightarrow> 's \<times> (go_error, volume_proto option list \<times> string) result) \<Rightarrow> 's
    \<Rightarrow> list_config opt_fn list \<Rightarrow> (go_error, volume option list) result option" where
  "ListVolumes parse serve s opts =
     (let cfg = apply_opts opts defaultListConfig
      in paged serve (\<lambda>tok. (lc_workspaceID cfg, automaticPageSize, tok)) (volumesFromProto parse) s)"

interpretation volumes: listing "\<lambda>serve s. ListVolumes parse serve s opts"
    "\<lambda>tok. (lc_workspaceID (apply_opts opts defaultListConfig), automaticPageSize, tok)" "volumesFromProto parse"
  by unfold_locales (simp add: ListVolumes_def Let_def)

definition ResizeVolume ::
  "(string \<Rightarrow> gotime option) \<Rightarrow> (string \<times> int \<Rightarrow> (go_error, volume_proto option) result) \<Rightarrow> string \<Rightarrow> int
    \<Rightarrow> (go_error, volume option) result" where
  "ResizeVolume parse call volumeID newSizeBytes = answered (volumeFromProto parse) (call (volumeID, newSizeBytes))"

definition UpdateVolume ::
  "(string \<Rightarrow> gotime option) \<Rightarrow> (volume_update \<Rightarrow> (go_error, volume_proto option) result) \<Rightarrow> string
    \<Rightarrow> update_volume_config opt_fn list \<Rightarrow> (go_error, volume option) result" where
  "UpdateVolume parse call volumeID opts =
     answered (volumeFromProto parse) (call (update_volume_request volumeID
       (apply_opts opts \<lparr>uv_name = None, uv_tags = [], uv_tagsSet = False\<rparr>)))"

end
