(* ===== verification/ClientCalls.thy ===== *)
theory ClientCalls
  imports ServiceCalls
begin

text \<open>
  Preview URLs (\<open>preview_url.go\<close>), named egress policies (\<open>egress_policies.go\<close>), metrics (\<open>metrics.go\<close>),
  the identity of the caller (\<open>whoami.go\<close>) and SSH certificates (\<open>ssh_cert.go\<close>).
\<close>

section \<open>Preview URLs\<close>

record preview_proto =
  pv_id :: string
  pv_workspace_id :: string
  pv_owner_id :: string
  pv_slug :: string
  pv_token :: string
  pv_preview_url :: string
  pv_session_id :: "string option"
  pv_port :: "int option"
  pv_created_at :: "gotime option"
  pv_updated_at :: "gotime option"
  pv_last_accessed_at :: "gotime option"
  pv_wildcard :: bool
  pv_wildcard_status :: int
  pv_wildcard_status_reason :: string
  pv_expires_at :: "gotime option"

record preview_url =
  pl_ID :: string
  pl_WorkspaceID :: string
  pl_OwnerID :: string
  pl_Slug :: string
  pl_Token :: string
  pl_PreviewURL :: string
  pl_SessionID :: string
  pl_Port :: "int option"
  pl_CreatedAt :: gotime
  pl_UpdatedAt :: gotime
  pl_LastAccessedAt :: "gotime option"
  pl_Wildcard :: bool
  pl_WildcardStatus :: wildcard_status
  pl_WildcardStatusReason :: string
  pl_ExpiresAt :: "gotime option"

definition previewURLFromProto :: "preview_proto option \<Rightarrow> preview_url option" where
  "previewURLFromProto p = map_option (\<lambda>p.
     \<lparr>pl_ID = pv_id p, pl_WorkspaceID = pv_workspace_id p, pl_OwnerID = pv_owner_id p, pl_Slug = pv_slug p,
      pl_Token = pv_token p, pl_PreviewURL = pv_preview_url p, pl_SessionID = get_string (pv_session_id p),
      pl_Port = pv_port p, pl_CreatedAt = timestampToTime (pv_created_at p), pl_UpdatedAt = timestampToTime (pv_updated_at p),
      pl_LastAccessedAt = pv_last_accessed_at p, pl_Wildcard = pv_wildcard p,
      pl_WildcardStatus = wildcardStatusFromProto (pv_wildcard_status p),
      pl_WildcardStatusReason = pv_wildcard_status_reason p, pl_ExpiresAt = pv_expires_at p\<rparr>) p"

definition no_preview_config :: preview_config where
  "no_preview_config = \<lparr>pc_workspaceID = [], pc_sessionID = [], pc_expiresAt = None\<rparr>"

text \<open>An empty setting is not sent.\<close>

definition if_text :: "string \<Rightarrow> string option" where
  "if_text s = (if s = [] then None else Some s)"

record preview_create =
  pq_slug :: string
  pq_expires_at :: "gotime option"
  pq_workspace_id :: "string option"
  pq_session_id :: "string option"
  pq_port :: "int option"

definition CreatePreviewURL ::
  "(preview_create \<Rightarrow> (go_error, preview_proto option) result) \<Rightarrow> string \<Rightarrow> string option \<Rightarrow> int option
    \<Rightarrow> preview_config opt_fn list \<Rightarrow> (go_error, preview_url option) result" where
  "CreatePreviewURL call slug sessionID port opts =
     (let cfg = apply_opts opts no_preview_config
      in answered previewURLFromProto
           (call \<lparr>pq_slug = TrimSpace slug, pq_expires_at = pc_expiresAt cfg, pq_workspace_id = if_text (pc_workspaceID cfg),
                  pq_session_id = sessionID, pq_port = port\<rparr>))"

definition DeletePreviewURL :: "(string \<Rightarrow> (go_error, unit) result) \<Rightarrow> string \<Rightarrow> go_error option" where
  "DeletePreviewURL call previewURLID = checked (call (TrimSpace previewURLID))"

definition BindPreviewURL ::
  "(string \<times> string \<times> int \<times> gotime option \<Rightarrow> (go_error, preview_proto option) result) \<Rightarrow> string \<Rightarrow> string \<Rightarrow> int
    \<Rightarrow> preview_config opt_fn list \<Rightarrow> (go_error, preview_url option) result" where
  "BindPreviewURL call previewURLID sessionID port opts =
     answered previewURLFromProto
       (call (TrimSpace previewURLID, TrimSpace sessionID, port, pc_expiresAt (apply_opts opts no_preview_config)))"

definition UnbindPreviewURL ::
  "(string \<Rightarrow> (go_error, preview_proto option) result) \<Rightarrow> string \<Rightarrow> (go_error, preview_url option) result" where
  "UnbindPreviewURL call previewURLID = answered previewURLFromProto (call (TrimSpace previewURLID))"

definition GetPreviewURL ::
  "(string \<Rightarrow> (go_error, preview_proto option) result) \<Rightarrow> string \<Rightarrow> (go_error, preview_url option) result" where
  "GetPreviewURL call previewURLID = answered previewURLFromProto (call (TrimSpace previewURLID))"

definition ListPreviewURLs ::
  "('s \<Rightarrow> int \<times> string \<times> string option \<times> string option \<Rightarrow> 's \<times> (go_error, preview_proto option list \<times> string) result) \<Rightarrow> 's
    \<Rightarrow> preview_config opt_fn list \<Rightarrow> (go_error, preview_url option list) result option" where
  "ListPreviewURLs serve s opts =
     (let cfg = apply_opts opts no_preview_config
      in paged serve (\<lambda>tok. (automaticPageSize, tok, if_text (pc_workspaceID cfg), if_text (pc_sessionID cfg)))
           (map previewURLFromProto) s)"

interpretation preview_urls: listing "\<lambda>serve s. ListPreviewURLs serve s opts"
    "\<lambda>tok. let cfg = apply_opts opts no_preview_config
       in (automaticPageSize, tok, if_text (pc_workspaceID cfg), if_text (pc_sessionID cfg))" "map previewURLFromProto"
  by unfold_locales (simp add: ListPreviewURLs_def Let_def)

section \<open>Named egress policies\<close>

text \<open>\<open>AsTime\<close> of a missing timestamp is the epoch, not the zero time; \<open>epoch\<close> stands for it.\<close>

record policy_message =
  pm_id :: string
  pm_workspace_id :: string
  pm_name :: string
  pm_revision :: int
  pm_egress :: "egress_policy_proto option"
  pm_active_session_count :: int
  pm_created_at :: "gotime option"
  pm_updated_at :: "gotime option"
  pm_deleted_at :: "gotime option"

record named_policy =
  po_ID :: string
  po_WorkspaceID :: string
  po_Name :: string
  po_Revision :: int
  po_Egress :: egress_policy
  po_ActiveSessionCount :: int
  po_CreatedAt :: gotime
  po_UpdatedAt :: gotime
  po_DeletedAt :: "gotime option"

text \<open>Options only set the workspace.\<close>

definition workspaceIDOption_applyEgressPolicy :: "string \<Rightarrow> string \<Rightarrow> string" where
  "workspaceIDOption_applyEgressPolicy workspaceID cfg = TrimSpace workspaceID"

definition egressPolicyWorkspace :: "string opt_fn list \<Rightarrow> string option" where
  "egressPolicyWorkspace opts = opt_text (apply_opts opts [])"

definition egressPolicyBodyToProto :: "egress_policy \<Rightarrow> (go_error, egress_policy_proto) result" where
  "egressPolicyBodyToProto egress =
     (case egressHTTPRulesToProto (eg_HTTPRules egress) of
        Inl err \<Rightarrow> Inl err
      | Inr rules \<Rightarrow> Inr
          \<lparr>pp_allowDomains = eg_AllowDomains egress, pp_allowCidrs = eg_AllowCIDRs egress,
           pp_interceptHttps = eg_InterceptHTTPS egress, pp_allowedPorts = eg_AllowedPorts egress, pp_httpRules = rules\<rparr>)"

definition egressPolicyFromMessage :: "gotime \<Rightarrow> policy_message option \<Rightarrow> named_policy option" where
  "egressPolicyFromMessage epoch p = map_option (\<lambda>p.
     \<lparr>po_ID = pm_id p, po_WorkspaceID = pm_workspace_id p, po_Name = pm_name p, po_Revision = pm_revision p,
      po_Egress = egressPolicyFromProto (pm_egress p), po_ActiveSessionCount = pm_active_session_count p,
      po_CreatedAt = or_zero epoch (pm_created_at p), po_UpdatedAt = or_zero epoch (pm_updated_at p),
      po_DeletedAt = pm_deleted_at p\<rparr>) p"

text \<open>The calls take the workspace, the name or ID, the expected revision and the body where they have them.\<close>

definition CreateEgressPolicy ::
  "gotime \<Rightarrow> (string option \<times> string \<times> egress_policy_proto \<Rightarrow> (go_error, policy_message option) result) \<Rightarrow> string
    \<Rightarrow> egress_policy \<Rightarrow> string opt_fn list \<Rightarrow> (go_error, named_policy option) result" where
  "CreateEgressPolicy epoch call name egress opts =
     (case egressPolicyBodyToProto egress of
        Inl err \<Rightarrow> Inl err
      | Inr body \<Rightarrow> answered (egressPolicyFromMessage epoch) (call (egressPolicyWorkspace opts, name, body)))"

definition UpdateEgressPolicy ::
  "gotime \<Rightarrow> (string option \<times> string \<times> int \<times> egress_policy_proto \<Rightarrow> (go_error, policy_message option) result) \<Rightarrow> string \<Rightarrow> int
    \<Rightarrow> egress_policy \<Rightarrow> string opt_fn list \<Rightarrow> (go_error, named_policy option) result" where
  "UpdateEgressPolicy epoch call nameOrID expectedRevision egress opts =
     (case egressPolicyBodyToProto egress of
        Inl err \<Rightarrow> Inl err
      | Inr body \<Rightarrow> answered (egressPolicyFromMessage epoch)
          (call (egressPolicyWorkspace opts, nameOrID, expectedRevision, body)))"

definition GetEgressPolicy ::
  "gotime \<Rightarrow> (string option \<times> string \<Rightarrow> (go_error, policy_message option) result) \<Rightarrow> string \<Rightarrow> string opt_fn list
    \<Rightarrow> (go_error, named_policy option) result" where
  "GetEgressPolicy epoch call nameOrID opts =
     answered (egressPolicyFromMessage epoch) (call (egressPolicyWorkspace opts, nameOrID))"

definition DeleteEgressPolicy ::
  "gotime \<Rightarrow> (string option \<times> string \<times> int \<Rightarrow> (go_error, policy_message option) result) \<Rightarrow> string \<Rightarrow> int \<Rightarrow> string opt_fn list
    \<Rightarrow> (go_error, named_policy option) result" where
  "DeleteEgressPolicy epoch call nameOrID expectedRevision opts =
     answered (egressPolicyFromMessage epoch) (call (egressPolicyWorkspace opts, nameOrID, expectedRevision))"

definition ListEgressPolicies ::
  "gotime \<Rightarrow> ('s \<Rightarrow> string option \<times> int \<times> string \<Rightarrow> 's \<times> (go_error, policy_message option list \<times> string) result) \<Rightarrow> 's
    \<Rightarrow> string opt_fn list \<Rightarrow> (go_error, named_policy option list) result option" where
  "ListEgressPolicies epoch serve s opts =
     paged serve (\<lambda>cursor. (egressPolicyWorkspace opts, automaticPageSize, cursor)) (map (egressPolicyFromMessage epoch)) s"

interpretation egress_policies: listing "\<lambda>serve s. ListEgressPolicies epoch serve s opts"
    "\<lambda>cursor. (egressPolicyWorkspace opts, automaticPageSize, cursor)" "map (egressPolicyFromMessage epoch)"
  by unfold_locales (simp add: ListEgressPolicies_def)

section \<open>Metrics\<close>

text \<open>Floats are only copied: they are of any type \<open>'f\<close>, with the zero \<open>z\<close> of a missing message.\<close>

record 'f cpu_usage =
  cu_AverageCores :: "'f option"
  cu_AveragePercent :: "'f option"
  cu_LimitCores :: 'f
  cu_SampleCount :: int
  cu_ObservedDuration :: duration
  cu_CoveragePercent :: 'f
  cu_FirstSampleAt :: "gotime option"
  cu_LastSampleAt :: "gotime option"

record 'f memory_usage =
  mu_AverageBytes :: "'f option"
  mu_AveragePercent :: "'f option"
  mu_LimitBytes :: int
  mu_SampleCount :: int
  mu_ObservedDuration :: duration
  mu_CoveragePercent :: 'f
  mu_FirstSampleAt :: "gotime option"
  mu_LastSampleAt :: "gotime option"

record 'f session_metrics =
  sm_SessionID :: string
  sm_RequestedWindow :: duration
  sm_WindowStart :: "gotime option"
  sm_WindowEnd :: "gotime option"
  sm_CPU :: "'f cpu_usage"
  sm_Memory :: "'f memory_usage"

record 'f usage_proto =
  ug_average :: "'f option"
  ug_average_percent :: "'f option"
  ug_limit :: 'f
  ug_limit_bytes :: int
  ug_sample_count :: int
  ug_observed_duration :: "duration option"
  ug_coverage_percent :: 'f
  ug_first_sample_at :: "gotime option"
  ug_last_sample_at :: "gotime option"

record 'f metrics_proto =
  mt_session_id :: string
  mt_requested_window :: "duration option"
  mt_window_start :: "gotime option"
  mt_window_end :: "gotime option"
  mt_cpu :: "'f usage_proto option"
  mt_memory :: "'f usage_proto option"

definition durationFromProto :: "duration option \<Rightarrow> duration" where
  "durationFromProto d = or_zero 0 d"

definition cpuUsageAverageFromProto :: "'f \<Rightarrow> 'f usage_proto option \<Rightarrow> 'f cpu_usage" where
  "cpuUsageAverageFromProto z u = (case u of
     None \<Rightarrow> \<lparr>cu_AverageCores = None, cu_AveragePercent = None, cu_LimitCores = z, cu_SampleCount = 0,
              cu_ObservedDuration = 0, cu_CoveragePercent = z, cu_FirstSampleAt = None, cu_LastSampleAt = None\<rparr>
   | Some u \<Rightarrow> \<lparr>cu_AverageCores = ug_average u, cu_AveragePercent = ug_average_percent u, cu_LimitCores = ug_limit u,
              cu_SampleCount = ug_sample_count u, cu_ObservedDuration = durationFromProto (ug_observed_duration u),
              cu_CoveragePercent = ug_coverage_percent u, cu_FirstSampleAt = ug_first_sample_at u,
              cu_LastSampleAt = ug_last_sample_at u\<rparr>)"

definition memoryUsageAverageFromProto :: "'f \<Rightarrow> 'f usage_proto option \<Rightarrow> 'f memory_usage" where
  "memoryUsageAverageFromProto z u = (case u of
     None \<Rightarrow> \<lparr>mu_AverageBytes = None, mu_AveragePercent = None, mu_LimitBytes = 0, mu_SampleCount = 0,
              mu_ObservedDuration = 0, mu_CoveragePercent = z, mu_FirstSampleAt = None, mu_LastSampleAt = None\<rparr>
   | Some u \<Rightarrow> \<lparr>mu_AverageBytes = ug_average u, mu_AveragePercent = ug_average_percent u, mu_LimitBytes = ug_limit_bytes u,
              mu_SampleCount = ug_sample_count u, mu_ObservedDuration = durationFromProto (ug_observed_duration u),
              mu_CoveragePercent = ug_coverage_percent u, mu_FirstSampleAt = ug_first_sample_at u,
              mu_LastSampleAt = ug_last_sample_at u\<rparr>)"

definition sessionMetricsFromProto :: "'f \<Rightarrow> 'f metrics_proto option \<Rightarrow> 'f session_metrics" where
  "sessionMetricsFromProto z m = (case m of
     None \<Rightarrow> \<lparr>sm_SessionID = [], sm_RequestedWindow = 0, sm_WindowStart = None, sm_WindowEnd = None,
              sm_CPU = cpuUsageAverageFromProto z None, sm_Memory = memoryUsageAverageFromProto z None\<rparr>
   | Some m \<Rightarrow> \<lparr>sm_SessionID = mt_session_id m, sm_RequestedWindow = durationFromProto (mt_requested_window m),
              sm_WindowStart = mt_window_start m, sm_WindowEnd = mt_window_end m,
              sm_CPU = cpuUsageAverageFromProto z (mt_cpu m), sm_Memory = memoryUsageAverageFromProto z (mt_memory m)\<rparr>)"

definition GetSessionMetrics ::
  "'f \<Rightarrow> (string \<times> duration option \<Rightarrow> (go_error, 'f metrics_proto option) result) \<Rightarrow> string \<Rightarrow> duration
    \<Rightarrow> (go_error, 'f session_metrics) result" where
  "GetSessionMetrics z call sessionID window =
     answered (sessionMetricsFromProto z) (call (sessionID, if window = 0 then None else Some window))"

definition Session_Metrics ::
  "'f \<Rightarrow> (string \<times> duration option \<Rightarrow> (go_error, 'f metrics_proto option) result) \<Rightarrow> session_view \<Rightarrow> duration
    \<Rightarrow> (go_error, 'f session_metrics) result" where
  "Session_Metrics z call s window = GetSessionMetrics z call (sv_ID s) window"

section \<open>The caller\<close>

record identity_workspace = iw_ID :: string  iw_Name :: string
record identity = id_OwnerType :: string  id_OwnerID :: string  id_Workspaces :: "identity_workspace list"

definition WhoAmI :: "(go_error, string \<times> string \<times> (string \<times> string) list) result \<Rightarrow> (go_error, identity) result" where
  "WhoAmI reply = answered (\<lambda>(ty, i, ws).
     \<lparr>id_OwnerType = ty, id_OwnerID = i, id_Workspaces = map (\<lambda>(i, n). \<lparr>iw_ID = i, iw_Name = n\<rparr>) ws\<rparr>) reply"

record ssh_cert =
  hc_SSHCert :: string
  hc_CAPub :: string
  hc_ExpiresAt :: gotime
  hc_CertSerial :: string
  hc_PinHostKey :: bool

text \<open>\<open>gateway\<close> is the SSH gateway service, \<open>None\<close> on a client that has none. Its errors are not mapped.\<close>

definition IssueSandboxSSHCert ::
  "(string \<times> string \<times> duration option \<Rightarrow> (go_error, string \<times> string \<times> gotime option \<times> string \<times> bool) result) option
    \<Rightarrow> string \<Rightarrow> string \<Rightarrow> duration \<Rightarrow> (go_error, ssh_cert) result" where
  "IssueSandboxSSHCert gateway sessionID publicKey ttl =
     (case gateway of
        None \<Rightarrow> Inl (Plain ''sandbox: client not initialized'')
      | Some call \<Rightarrow>
          if TrimSpace sessionID = [] then Inl (Plain ''sandbox: session_id required'')
          else if TrimSpace publicKey = [] then Inl (Plain ''sandbox: public_key required'')
          else case call (sessionID, TrimSpace publicKey, if 0 < ttl then Some ttl else None) of
            Inl err \<Rightarrow> Inl err
          | Inr (cert, ca, expires, serial, pin) \<Rightarrow> Inr
              \<lparr>hc_SSHCert = cert, hc_CAPub = ca, hc_ExpiresAt = timestampToTime expires, hc_CertSerial = serial,
               hc_PinHostKey = pin\<rparr>)"

end
