(* ===== verification/Files.thy ===== *)
theory Files
  imports SessionState Registry "HOL-Library.Sublist"
begin

text \<open>
  The files of a sandbox over the data plane (\<open>fs.go\<close> and \<open>ReadFile\<close>, \<open>WriteFile\<close> of \<open>session.go\<close>). The
  data plane is the argument \<open>dp\<close>, the error of resolving it or nothing, and the calls answer. A stream of
  the server is the list of its frames with the error it ends with; an \<open>io.Pipe\<close> hands its reader the chunks
  that are written, in order, until one end closes it.
\<close>

section \<open>Calls\<close>

record file_info =
  fi_Path :: string
  fi_Size :: int
  fi_Mode :: int
  fi_IsDir :: bool
  fi_ModifiedUnixNs :: int
  fi_IsSymlink :: bool
  fi_SymlinkTarget :: string

text \<open>A call over the data plane: its error, or the answer of the call.\<close>

definition over_data_plane :: "go_error option \<Rightarrow> (go_error, 'p) result \<Rightarrow> ('p \<Rightarrow> (go_error, 'a) result) \<Rightarrow> (go_error, 'a) result" where
  "over_data_plane dp reply view = (case dp of
     Some err \<Rightarrow> Inl err
   | None \<Rightarrow> (case reply of Inl err \<Rightarrow> Inl (mapErr err) | Inr p \<Rightarrow> view p))"

record stat_response =
  se_exists :: bool
  se_size :: int
  se_mode :: int
  se_is_dir :: bool
  se_modified :: int
  se_is_symlink :: bool
  se_symlink_target :: string

definition fileInfoFromStatResponse :: "string \<Rightarrow> stat_response option \<Rightarrow> (go_error, file_info) result" where
  "fileInfoFromStatResponse path stat = (case stat of
     None \<Rightarrow> Inl (Wrapf (Sentinel ErrFileNotFound) ('': '' @ path))
   | Some st \<Rightarrow>
       if \<not> se_exists st then Inl (Wrapf (Sentinel ErrFileNotFound) ('': '' @ path))
       else Inr \<lparr>fi_Path = path, fi_Size = se_size st, fi_Mode = se_mode st, fi_IsDir = se_is_dir st,
              fi_ModifiedUnixNs = se_modified st, fi_IsSymlink = se_is_symlink st, fi_SymlinkTarget = se_symlink_target st\<rparr>)"

definition Session_Stat ::
  "go_error option \<Rightarrow> (string \<times> string \<Rightarrow> (go_error, stat_response option) result) \<Rightarrow> string \<Rightarrow> string \<Rightarrow> (go_error, file_info) result" where
  "Session_Stat dp call sessionID path = over_data_plane dp (call (sessionID, path)) (fileInfoFromStatResponse path)"

text \<open>The mode is 0755 and the call creates missing parents.\<close>

definition Session_Mkdir ::
  "go_error option \<Rightarrow> (string \<times> string \<times> int \<times> bool \<Rightarrow> (go_error, unit) result) \<Rightarrow> string \<Rightarrow> string \<Rightarrow> (go_error, unit) result" where
  "Session_Mkdir dp call sessionID path = over_data_plane dp (call (sessionID, path, 493, True)) Inr"

definition Session_Remove ::
  "go_error option \<Rightarrow> (string \<times> string \<times> bool \<Rightarrow> (go_error, unit) result) \<Rightarrow> string \<Rightarrow> string \<Rightarrow> (go_error, unit) result" where
  "Session_Remove dp call sessionID path = over_data_plane dp (call (sessionID, path, True)) Inr"

text \<open>An entry has a name, a size, a mode, a kind and a time; missing ones are skipped.\<close>

definition Session_List ::
  "go_error option \<Rightarrow> (string \<times> string \<times> bool \<Rightarrow> (go_error, (string \<times> int \<times> int \<times> bool \<times> int) option list) result) \<Rightarrow> string
    \<Rightarrow> string \<Rightarrow> bool list \<Rightarrow> (go_error, file_info list) result" where
  "Session_List dp call sessionID path opts =
     (let hidden = (case opts of [] \<Rightarrow> False | h # _ \<Rightarrow> h)
      in over_data_plane dp (call (sessionID, path, hidden)) (\<lambda>entries. Inr (List.map_filter (map_option
           (\<lambda>(name, size, mode, dir, modified). \<lparr>fi_Path = name, fi_Size = size, fi_Mode = mode, fi_IsDir = dir,
              fi_ModifiedUnixNs = modified, fi_IsSymlink = False, fi_SymlinkTarget = []\<rparr>)) entries)))"

definition Session_WriteFile ::
  "go_error option \<Rightarrow> (string \<times> string \<times> string \<Rightarrow> (go_error, unit) result) \<Rightarrow> string \<Rightarrow> string \<Rightarrow> string \<Rightarrow> (go_error, unit) result" where
  "Session_WriteFile dp call sessionID path data = over_data_plane dp (call (sessionID, path, data)) Inr"

definition Session_ReadFile ::
  "go_error option \<Rightarrow> (string \<times> string \<Rightarrow> (go_error, string) result) \<Rightarrow> string \<Rightarrow> string \<Rightarrow> (go_error, string) result" where
  "Session_ReadFile dp call sessionID path = over_data_plane dp (call (sessionID, path)) Inr"

section \<open>Reading a stream\<close>

type_synonym read_frame = "string \<times> bool"

definition errClosedPipe :: go_error where
  "errClosedPipe = Plain ''io: read/write on closed pipe''"

text \<open>
  The goroutine of \<open>ReadStream\<close>. \<open>reader\<close> says how many chunks the reader takes before it closes its
  end, \<open>None\<close> when it reads on. The result is the chunks that reach the reader, the error the pipe is closed
  with (\<open>None\<close> is a normal end) and the frames that are left when the stream is closed.
\<close>

fun pump_read :: "read_frame list \<Rightarrow> go_error option \<Rightarrow> nat option \<Rightarrow> string list \<times> go_error option \<times> read_frame list" where
  "pump_read [] ended reader = ([], mapError ended, [])"
| "pump_read ((data, eof) # fs) ended reader =
     (if data \<noteq> [] \<and> reader = Some 0 then ([], Some errClosedPipe, fs)
      else
        let chunk = (if data = [] then [] else [data]); reader = (if data = [] then reader else map_option (\<lambda>n. n - 1) reader)
        in if eof then (chunk, None, fs)
           else (let (chunks, r) = pump_read fs ended reader in (chunk @ chunks, r)))"

text \<open>The call answers with the stream or an error; the pipe is what its reader sees.\<close>

definition ReadStream ::
  "go_error option \<Rightarrow> (string \<times> string \<times> int \<times> int \<Rightarrow> (go_error, read_frame list \<times> go_error option) result) \<Rightarrow> nat option
    \<Rightarrow> string \<Rightarrow> string \<Rightarrow> int \<Rightarrow> int \<Rightarrow> (go_error, string list \<times> go_error option \<times> read_frame list) result" where
  "ReadStream dp call reader sessionID path offset amount =
     over_data_plane dp (call (sessionID, path, offset, amount)) (\<lambda>(fs, ended). Inr (pump_read fs ended reader))"

definition ReadFileStream ::
  "go_error option \<Rightarrow> (string \<times> string \<times> int \<times> int \<Rightarrow> (go_error, read_frame list \<times> go_error option) result) \<Rightarrow> nat option
    \<Rightarrow> string \<Rightarrow> string \<Rightarrow> (go_error, string list \<times> go_error option \<times> read_frame list) result" where
  "ReadFileStream dp call reader sessionID path = ReadStream dp call reader sessionID path 0 0"

section \<open>Writing a stream\<close>

record write_options =
  wo_Mode :: int
  wo_Truncate :: bool
  wo_Sync :: bool

datatype write_event =
    SendStart string string int bool bool
  | SendData string
  | CloseAndReceive
  | CancelContext

text \<open>A writer is whether it is closed; the events are what happens to the stream, in order.\<close>

definition fileStreamWriter_Write ::
  "bool \<Rightarrow> string \<Rightarrow> go_error option \<Rightarrow> write_event list \<times> (go_error, int) result" where
  "fileStreamWriter_Write isClosed p sent =
     (if isClosed then ([], Inl errClosedPipe)
      else case sent of
        Some err \<Rightarrow> ([SendData p], Inl (mapErr err))
      | None \<Rightarrow> ([SendData p], Inr (len p)))"

definition fileStreamWriter_Close ::
  "bool \<Rightarrow> (go_error, unit) result \<Rightarrow> bool \<times> write_event list \<times> go_error option" where
  "fileStreamWriter_Close isClosed reply =
     (if isClosed then (True, [], None)
      else (True, [CloseAndReceive], case reply of Inl err \<Rightarrow> mapError (Some err) | Inr u \<Rightarrow> None))"

definition write_config :: "write_options list \<Rightarrow> write_options" where
  "write_config opts = (case opts of
     [] \<Rightarrow> \<lparr>wo_Mode = 420, wo_Truncate = True, wo_Sync = False\<rparr>
   | o1 # _ \<Rightarrow> if wo_Mode o1 = 0 then o1\<lparr>wo_Mode := 420\<rparr> else o1)"

definition WriteStream ::
  "go_error option \<Rightarrow> go_error option \<Rightarrow> string \<Rightarrow> string \<Rightarrow> write_options list \<Rightarrow> write_event list \<times> go_error option" where
  "WriteStream dp sent sessionID path opts = (case dp of
     Some err \<Rightarrow> ([], Some err)
   | None \<Rightarrow>
       (let cfg = write_config opts
        in ([SendStart sessionID path (wo_Mode cfg) (wo_Truncate cfg) (wo_Sync cfg)],
            case sent of Some err \<Rightarrow> mapError (Some err) | None \<Rightarrow> None)))"

text \<open>
  \<open>io.Copy\<close> of a reader: a chunk with the error that came with it, \<open>Some IoEOF\<close> at the end of the
  input; a \<open>WriterTo\<close> is a reader of one chunk. The outcome of each \<open>Send\<close> comes with its chunk. \<open>None\<close>
  is that the observations end first.
\<close>

type_synonym copy_turn = "string \<times> go_error option \<times> go_error option"

fun copy_chunks :: "copy_turn list \<Rightarrow> write_event list \<times> go_error option option" where
  "copy_chunks [] = ([], None)"
| "copy_chunks ((data, readErr, sent) # ts) =
     (let (events, wrote) = (if data = [] then ([], Inr 0) else fileStreamWriter_Write False data sent)
      in case wrote of
           Inl err \<Rightarrow> (events, Some (Some err))
         | Inr n \<Rightarrow> (case readErr of
               Some err \<Rightarrow> (events, Some (if err = Sentinel IoEOF then None else Some err))
             | None \<Rightarrow> (let (more_events, r) = copy_chunks ts in (events @ more_events, r))))"

text \<open>The deferred cancel is the last event; \<open>reply\<close> is what \<open>CloseAndReceive\<close> gets.\<close>

definition WriteFileStream ::
  "go_error option \<Rightarrow> go_error option \<Rightarrow> copy_turn list \<Rightarrow> (go_error, unit) result \<Rightarrow> string \<Rightarrow> string
    \<Rightarrow> write_event list \<times> go_error option option" where
  "WriteFileStream dp startSent turns reply sessionID path =
     (case WriteStream dp startSent sessionID path [\<lparr>wo_Mode = 0, wo_Truncate = True, wo_Sync = False\<rparr>] of
        (events, Some err) \<Rightarrow> (events @ [CancelContext], Some (Some err))
      | (events, None) \<Rightarrow> (case copy_chunks turns of
            (copied, None) \<Rightarrow> (events @ copied, None)
          | (copied, Some (Some copyErr)) \<Rightarrow>
              (events @ copied @ [CancelContext] @ fst (snd (fileStreamWriter_Close False reply)) @ [CancelContext], Some (Some copyErr))
          | (copied, Some None) \<Rightarrow>
              (case fileStreamWriter_Close False reply of
                 (isClosed, closing, err) \<Rightarrow> (events @ copied @ closing @ [CancelContext], Some err))))"

section \<open>Properties\<close>

text \<open>What the server sends up to its end marker.\<close>

fun file_content :: "read_frame list \<Rightarrow> string" where
  "file_content [] = []"
| "file_content ((data, eof) # fs) = data @ (if eof then [] else file_content fs)"

lemma pump_read_all:
  "concat (fst (pump_read fs ended None)) = file_content fs \<and>
   fst (snd (pump_read fs ended None)) = (if list_ex snd fs then None else mapError ended)"
  by (induction fs) (auto simp: Let_def split: prod.splits)

lemma pump_read_some:
  "length (fst (pump_read fs ended (Some n))) \<le> n \<and> prefix (concat (fst (pump_read fs ended (Some n)))) (file_content fs)"
proof (induction fs arbitrary: n)
  case (Cons f fs)
  obtain data eof where f: "f = (data, eof)" by (cases f)
  show ?case using Cons.IH [of n] Cons.IH [of "n - 1"] by (cases n) (auto simp: f Let_def split: prod.splits)
qed simp

text \<open>Reading a file stream to its end gives exactly what the server sent up to its end marker, and a normal end
  precisely if there was a marker or the stream of the server ended without an error; a reader that stops early has
  a prefix of it.\<close>

theorem read_stream_exact:
  "(case pump_read fs ended None of (chunks, err, rest) \<Rightarrow>
      concat chunks = file_content fs \<and> (err = None \<longleftrightarrow> list_ex snd fs \<or> ended = None)) \<and>
   (case pump_read fs ended (Some n) of (chunks, err, rest) \<Rightarrow>
      length chunks \<le> n \<and> prefix (concat chunks) (file_content fs))"
  using pump_read_all [of fs ended] pump_read_some [of fs ended n] by (cases ended) (auto split: prod.splits if_splits)

text \<open>The content that a reader hands to \<open>io.Copy\<close>, with the error it ends with.\<close>

fun copy_input :: "copy_turn list \<Rightarrow> string \<times> go_error option" where
  "copy_input [] = ([], None)"
| "copy_input ((data, readErr, sent) # ts) =
     (if readErr = None then (data @ fst (copy_input ts), snd (copy_input ts)) else (data, readErr))"

text \<open>What the server sees: the content sent, and whether the call is cancelled before the client ends it.\<close>

fun event_data :: "write_event \<Rightarrow> string" where
  "event_data (SendData p) = p"
| "event_data e = []"

definition data_sent :: "write_event list \<Rightarrow> string" where
  "data_sent evs = concat (map event_data evs)"

definition aborted :: "write_event list \<Rightarrow> bool" where
  "aborted evs \<longleftrightarrow> CancelContext \<in> set (takeWhile (\<lambda>e. e \<noteq> CloseAndReceive) evs)"

lemma data_sent_simps [simp]:
  "data_sent [] = []" "data_sent (e # evs) = event_data e @ data_sent evs" "data_sent (xs @ ys) = data_sent xs @ data_sent ys"
  by (simp_all add: data_sent_def)

lemma write_open [simp]:
  "fileStreamWriter_Write False p sent = ([SendData p], case sent of Some err \<Rightarrow> Inl (mapErr err) | None \<Rightarrow> Inr (len p))"
  by (simp add: fileStreamWriter_Write_def split: option.split)

lemma copy_events: "CloseAndReceive \<notin> set (fst (copy_chunks ts)) \<and> CancelContext \<notin> set (fst (copy_chunks ts))"
proof (induction ts)
  case (Cons t ts)
  obtain data readErr sent where "t = (data, readErr, sent)" by (cases t)
  with Cons show ?case by (cases "data = []"; cases sent; cases readErr) (auto split: prod.splits)
qed simp

lemma copy_complete:
  "snd (copy_chunks ts) = Some None \<Longrightarrow>
     data_sent (fst (copy_chunks ts)) = fst (copy_input ts) \<and> snd (copy_input ts) = Some (Sentinel IoEOF)"
proof (induction ts)
  case (Cons t ts)
  obtain data readErr sent where "t = (data, readErr, sent)" by (cases t)
  with Cons show ?case by (cases "data = []"; cases sent; cases readErr) (auto split: prod.splits if_splits)
qed simp

lemma takeWhile_none: "x \<notin> set xs \<Longrightarrow> takeWhile (\<lambda>e. e \<noteq> x) (xs @ ys) = xs @ takeWhile (\<lambda>e. e \<noteq> x) ys"
  by (induction xs) auto

text \<open>C11: An upload is complete or aborted: unless the client cancels the call before it ends it, which is never
  reported as a success, the server got the whole content of the reader, the reader had come to its normal end, and
  the result is the answer of the server.\<close>

theorem upload_complete_or_aborted:
  "case WriteFileStream dp startSent turns reply sessionID path of
     (evs, Some r) \<Rightarrow>
       if aborted evs then r \<noteq> None
       else data_sent evs = fst (copy_input turns) \<and> snd (copy_input turns) = Some (Sentinel IoEOF) \<and>
         r = (case reply of Inl err \<Rightarrow> mapError (Some err) | Inr u \<Rightarrow> None)
   | (evs, None) \<Rightarrow> True"
proof (cases "\<exists>e. snd (WriteStream dp startSent sessionID path [\<lparr>wo_Mode = 0, wo_Truncate = True, wo_Sync = False\<rparr>]) = Some e")
  case True
  then show ?thesis
    by (auto simp: WriteFileStream_def WriteStream_def aborted_def Let_def split: option.splits prod.splits)
next
  case False
  then obtain a b c d e where start: "WriteStream dp startSent sessionID path [\<lparr>wo_Mode = 0, wo_Truncate = True, wo_Sync = False\<rparr>]
      = ([SendStart a b c d e], None)"
    by (cases dp; cases startSent) (auto simp: WriteStream_def Let_def)
  note copied = copy_events [of turns]
  show ?thesis
  proof (cases "snd (copy_chunks turns)")
    case None
    with start show ?thesis by (auto simp: WriteFileStream_def split: prod.splits)
  next
    case (Some r)
    show ?thesis
    proof (cases r)
      case None
      with Some start copied copy_complete [of turns] show ?thesis
        by (auto simp: WriteFileStream_def fileStreamWriter_Close_def aborted_def takeWhile_none split: prod.splits sum.splits)
    next
      case (Some e)
      with \<open>snd (copy_chunks turns) = Some r\<close> start copied show ?thesis
        by (auto simp: WriteFileStream_def aborted_def takeWhile_none split: prod.splits)
    qed
  qed
qed

text \<open>When the server refuses an upload, a \<open>Send\<close> fails with the end of the stream and the reason comes with the
  answer of \<open>CloseAndReceive\<close>, which is dropped: the result is the error of the \<open>Send\<close>, whatever the server said.\<close>

theorem upload_refusal_hidden:
  "snd (WriteFileStream None None ((c # data, readErr, Some (Wrapf (Sentinel IoEOF) t)) # turns) reply sessionID path) =
     Some (Some (Wrapf (Sentinel IoEOF) t))"
  by (simp add: WriteFileStream_def WriteStream_def fileStreamWriter_Write_def mapError_def Let_def split: prod.splits)

end
