(* ===== verification/Ssh.thy ===== *)
theory Ssh
  imports SecretFiles CreateRequest Registry ClientInfo "HOL-Library.Sublist"
begin

text \<open>
  SSH transports over the gateway WebSocket (\<open>ssh.go\<close> and the gateway URLs of \<open>sandbox.go\<close>): the choice of
  the gateway, the errors of the handshake, and the connection as a byte stream over messages. \<open>url.Parse\<close> and
  \<open>URL.String\<close> are the arguments \<open>parse\<close> and \<open>render\<close>.
\<close>

section \<open>Gateway URLs\<close>

record url =
  u_Scheme :: string
  u_Host :: string
  u_Path :: string
  u_RawQuery :: string
  u_Fragment :: string

text \<open>\<open>strings.TrimRight(s, "/")\<close>, \<open>path.Join\<close>, \<open>URL.Hostname\<close>, \<open>URL.Port\<close> and \<open>net.JoinHostPort\<close>.\<close>

definition trim_slashes :: "string \<Rightarrow> string" where
  "trim_slashes s = rev (dropWhile (\<lambda>c. c = CHR ''/'') (rev s))"

definition path_Join :: "string list \<Rightarrow> string" where
  "path_Join es = (let es = filter (\<lambda>e. e \<noteq> []) es in if es = [] then [] else path_Clean (join_with ''/'' es))"

definition valid_port :: "string \<Rightarrow> bool" where
  "valid_port s = list_all is_digit s"

definition host_port :: "string \<Rightarrow> string \<times> string" where
  "host_port s =
     (let colon = LastIndex s (CHR '':'');
          (h, p) = (if colon \<noteq> - 1 \<and> valid_port (drop (nat colon + 1) s)
                    then (take (nat colon) s, drop (nat colon + 1) s) else (s, []))
      in (if HasPrefix h ''['' \<and> HasSuffix h '']'' then take (length h - 2) (drop 1 h) else h, p))"

definition JoinHostPort :: "string \<Rightarrow> string \<Rightarrow> string" where
  "JoinHostPort h p = (if CHR '':'' \<in> set h then ''['' @ h @ '']:'' @ p else h @ '':'' @ p)"

definition deriveGatewayAddress :: "(string \<Rightarrow> url option) \<Rightarrow> (url \<Rightarrow> string) \<Rightarrow> string \<Rightarrow> string" where
  "deriveGatewayAddress parse render baseURL =
     (case parse (TrimSpace baseURL) of
        None \<Rightarrow> []
      | Some u \<Rightarrow>
          if u_Host u = [] then []
          else
            let (host, port) = host_port (u_Host u);
                host = (if HasPrefix host ''api.'' then ''sandbox-gateway.'' @ TrimPrefix host ''api.''
                        else if HasPrefix host ''app.'' then ''sandbox-gateway.'' @ TrimPrefix host ''app.''
                        else ''sandbox-gateway.'' @ host)
            in render (u\<lparr>u_Host := (if port \<noteq> [] then JoinHostPort host port else host), u_Path := [],
                         u_RawQuery := [], u_Fragment := []\<rparr>))"

definition ssh_path :: "string \<Rightarrow> string \<Rightarrow> string" where
  "ssh_path p sessionID = path_Join [trim_slashes p, ''v1'', ''ssh'', sessionID]"

text \<open>The receiver is not nil.\<close>

definition gatewaySSHURL :: "(string \<Rightarrow> url option) \<Rightarrow> (url \<Rightarrow> string) \<Rightarrow> 'o client_info \<Rightarrow> string \<Rightarrow> string" where
  "gatewaySSHURL parse render c sessionID =
     (if TrimSpace (ci_gatewayAddress c) = [] \<or> TrimSpace sessionID = [] then []
      else case parse (ci_gatewayAddress c) of
        None \<Rightarrow> []
      | Some u \<Rightarrow> render (u\<lparr>u_Path := ssh_path (u_Path u) sessionID, u_RawQuery := [], u_Fragment := [],
          u_Scheme := (if u_Scheme u = ''http'' then ''ws'' else if u_Scheme u = ''https'' then ''wss'' else u_Scheme u)\<rparr>))"

text \<open>\<open>None\<close> is a client without the gateway service; a gateway is its endpoint and whether it is healthy.\<close>

definition DiscoverSSHGateway ::
  "(string \<Rightarrow> url option) \<Rightarrow> (url \<Rightarrow> string) \<Rightarrow> (string \<Rightarrow> (go_error, (string \<times> bool) list) result) option \<Rightarrow> string \<Rightarrow> string" where
  "DiscoverSSHGateway parse render service sessionID =
     (case service of
        None \<Rightarrow> []
      | Some call \<Rightarrow>
          if TrimSpace sessionID = [] then []
          else case call sessionID of
            Inl err \<Rightarrow> []
          | Inr gateways \<Rightarrow>
              (case List.map_filter (\<lambda>(endpoint, healthy).
                   let bridge = TrimSpace endpoint
                   in if bridge = [] \<or> \<not> healthy then None
                      else case parse bridge of None \<Rightarrow> None | Some u \<Rightarrow> if u_Host u = [] then None else Some u) gateways of
                 [] \<Rightarrow> []
               | u # _ \<Rightarrow> render (u\<lparr>
                   u_Scheme := (if u_Scheme u = ''http'' then ''ws'' else if u_Scheme u = ''https'' \<or> u_Scheme u = [] then ''wss'' else u_Scheme u),
                   u_Path := ssh_path (u_Path u) (TrimSpace sessionID), u_RawQuery := [], u_Fragment := []\<rparr>)))"

definition overrideGatewayHost :: "(string \<Rightarrow> url option) \<Rightarrow> (url \<Rightarrow> string) \<Rightarrow> string \<Rightarrow> string \<Rightarrow> string \<Rightarrow> string" where
  "overrideGatewayHost parse render base override sessionID =
     (case parse (TrimSpace override) of
        None \<Rightarrow> base
      | Some ou \<Rightarrow>
          if u_Host ou = [] then base
          else
            let ou = ou\<lparr>u_Scheme := (if u_Scheme ou = ''http'' then ''ws'' else if u_Scheme ou = ''https'' \<or> u_Scheme ou = [] then ''wss''
                                      else u_Scheme ou)\<rparr>
            in if TrimSpace base = [] then
                 render (ou\<lparr>u_Path := ''/v1/ssh/'' @ TrimSpace sessionID, u_RawQuery := [], u_Fragment := []\<rparr>)
               else case parse base of
                 None \<Rightarrow> base
               | Some bu \<Rightarrow> render (bu\<lparr>u_Scheme := u_Scheme ou, u_Host := u_Host ou\<rparr>))"

text \<open>The URL that \<open>SSH\<close> dials; \<open>override\<close> is the option \<open>WithGatewayURL\<close>.\<close>

definition WithGatewayURL :: "string \<Rightarrow> string \<Rightarrow> string" where
  "WithGatewayURL u cfg = u"

definition ssh_gateway ::
  "(string \<Rightarrow> url option) \<Rightarrow> (url \<Rightarrow> string) \<Rightarrow> 'o client_info \<Rightarrow> (string \<Rightarrow> (go_error, (string \<times> bool) list) result) option
    \<Rightarrow> string opt_fn list \<Rightarrow> string \<Rightarrow> string" where
  "ssh_gateway parse render c service opts sessionID =
     (let override = apply_opts opts [];
          gatewayURL = gatewaySSHURL parse render c sessionID;
          discovered = DiscoverSSHGateway parse render service sessionID;
          gatewayURL = (if \<not> ci_gatewayExplicit c \<and> TrimSpace override = [] \<and> discovered \<noteq> [] then discovered else gatewayURL)
      in if TrimSpace override \<noteq> [] then overrideGatewayHost parse render gatewayURL override sessionID else gatewayURL)"

section \<open>Request headers\<close>

text \<open>
  The interceptor of the control plane: \<open>next\<close> takes the headers of a request; a streaming connection is returned
  by \<open>next\<close> with its headers. \<open>setAuthHeaders\<close> does nothing on a nil client.
\<close>

definition auth_setHeaders :: "build_info option \<Rightarrow> string \<Rightarrow> string \<Rightarrow> headers \<Rightarrow> headers" where
  "auth_setHeaders info version authToken header = setClientAuthHeaders info version header authToken"

definition auth_WrapUnary ::
  "build_info option \<Rightarrow> string \<Rightarrow> string \<Rightarrow> (headers \<Rightarrow> 'r) \<Rightarrow> bool \<Rightarrow> headers \<Rightarrow> 'r" where
  "auth_WrapUnary info version authToken next isClient header =
     next (if isClient then auth_setHeaders info version authToken header else header)"

definition auth_WrapStreamingClient ::
  "build_info option \<Rightarrow> string \<Rightarrow> string \<Rightarrow> ('q \<Rightarrow> 'c \<times> headers) \<Rightarrow> 'q \<Rightarrow> 'c \<times> headers" where
  "auth_WrapStreamingClient info version authToken next spec =
     (let (conn, header) = next spec in (conn, auth_setHeaders info version authToken header))"

definition setAuthHeaders :: "build_info option \<Rightarrow> string \<Rightarrow> 'o client_info option \<Rightarrow> headers \<Rightarrow> headers" where
  "setAuthHeaders info version c header = (case c of
     None \<Rightarrow> header
   | Some c \<Rightarrow> setClientAuthHeaders info version header (ci_authToken c))"

section \<open>The handshake\<close>

text \<open>\<open>StatusText\<close> is the table of \<open>net/http\<close>; a body is what can be read of it and the error of reading.\<close>

record http_response =
  ht_StatusCode :: int
  ht_Body :: "(string \<times> go_error option) option"

definition readSSHErrorBody :: "(int \<Rightarrow> string) \<Rightarrow> http_response \<Rightarrow> string" where
  "readSSHErrorBody StatusText resp = (case ht_Body resp of
     None \<Rightarrow> StatusText (ht_StatusCode resp)
   | Some (body, err) \<Rightarrow>
       if err \<noteq> None \<or> take 256 body = [] then StatusText (ht_StatusCode resp) else TrimSpace (take 256 body))"

definition mapSSHWebSocketError :: "(int \<Rightarrow> string) \<Rightarrow> http_response option \<Rightarrow> go_error option \<Rightarrow> go_error option" where
  "mapSSHWebSocketError StatusText resp err = (case err of
     None \<Rightarrow> None
   | Some err \<Rightarrow> (case resp of
       None \<Rightarrow> Some (Wrapf (Sentinel ErrSSHUnavailable) ('': '' @ error_text err))
     | Some resp \<Rightarrow>
         (let reason = '': '' @ readSSHErrorBody StatusText resp; code = ht_StatusCode resp
          in Some (Wrapf (Sentinel
               (if code = 401 then ErrUnauthorized else if code = 403 then ErrPermissionDenied
                else if code = 404 then ErrSessionNotFound else if code = 409 then ErrInvalidState else ErrSSHUnavailable)) reason))))"

text \<open>\<open>dial\<close> is the WebSocket dialer with the headers of the client: a failed handshake may come with a response.\<close>

definition Client_SSH ::
  "(string \<Rightarrow> url option) \<Rightarrow> (url \<Rightarrow> string) \<Rightarrow> (int \<Rightarrow> string) \<Rightarrow> 'o client_info
    \<Rightarrow> (string \<Rightarrow> (go_error, (string \<times> bool) list) result) option
    \<Rightarrow> (string \<Rightarrow> headers \<Rightarrow> (http_response option \<times> go_error, 'c) result) \<Rightarrow> build_info option \<Rightarrow> string
    \<Rightarrow> string opt_fn list \<Rightarrow> string \<Rightarrow> (go_error, 'c) result" where
  "Client_SSH parse render StatusText c service dial info version opts sessionID =
     (let gatewayURL = ssh_gateway parse render c service opts sessionID
      in if gatewayURL = [] then Inl (Wrapf (Sentinel ErrSSHUnavailable) '': gateway address not configured'')
         else case dial gatewayURL (setAuthHeaders info version (Some c) []) of
           Inr conn \<Rightarrow> Inr conn
         | Inl (resp, err) \<Rightarrow> Inl (the (mapSSHWebSocketError StatusText resp (Some err))))"

definition Session_SSH ::
  "(string \<Rightarrow> url option) \<Rightarrow> (url \<Rightarrow> string) \<Rightarrow> (int \<Rightarrow> string) \<Rightarrow> 'o client_info option
    \<Rightarrow> (string \<Rightarrow> (go_error, (string \<times> bool) list) result) option
    \<Rightarrow> (string \<Rightarrow> headers \<Rightarrow> (http_response option \<times> go_error, 'c) result) \<Rightarrow> build_info option \<Rightarrow> string
    \<Rightarrow> string opt_fn list \<Rightarrow> string \<Rightarrow> (go_error, 'c) result" where
  "Session_SSH parse render StatusText c service dial info version opts sessionID = (case c of
     None \<Rightarrow> Inl (Sentinel ErrSSHUnavailable)
   | Some c \<Rightarrow> Client_SSH parse render StatusText c service dial info version opts sessionID)"

section \<open>The connection\<close>

text \<open>What \<open>ReadMessage\<close> returns: a message and whether it is binary, a close with its code, or an error.\<close>

datatype ws_read =
    WsMessage bool string
  | WsClose int string
  | WsError go_error

definition mapSSHReadError :: "ws_read \<Rightarrow> go_error" where
  "mapSSHReadError r = (case r of
     WsClose code text \<Rightarrow>
       if code = 1000 \<or> code = 1001 then Sentinel IoEOF else Wrapf (Sentinel ErrSSHUnavailable) ('': '' @ text)
   | WsError err \<Rightarrow> Wrapf (Sentinel ErrSSHUnavailable) ('': '' @ error_text err)
   | WsMessage b d \<Rightarrow> Sentinel IoEOF)"

definition mapSSHWriteError :: "go_error \<Rightarrow> go_error" where
  "mapSSHWriteError err = Wrapf (Sentinel ErrSSHUnavailable) ('': '' @ error_text err)"

text \<open>\<open>Read\<close> with a slice of \<open>n\<close> bytes; the state is the buffer and what \<open>ReadMessage\<close> will return. \<open>None\<close>
  is that it waits for more.\<close>

fun SSHConn_Read :: "nat \<Rightarrow> string \<Rightarrow> ws_read list \<Rightarrow> ((go_error, string) result \<times> string \<times> ws_read list) option" where
  "SSHConn_Read n (c # buf) ms = Some (Inr (take n (c # buf)), drop n (c # buf), ms)"
| "SSHConn_Read n [] [] = None"
| "SSHConn_Read n [] (WsMessage binary d # ms) = SSHConn_Read n (if binary then d else []) ms"
| "SSHConn_Read n [] (r # ms) = Some (Inl (mapSSHReadError r), [], ms)"

text \<open>\<open>Write\<close>: the messages that are sent, and its result.\<close>

definition SSHConn_Write :: "string \<Rightarrow> go_error option \<Rightarrow> string list \<times> (go_error, int) result" where
  "SSHConn_Write p sent =
     (if p = [] then ([], Inr 0)
      else ([p], case sent of Some err \<Rightarrow> Inl (mapSSHWriteError err) | None \<Rightarrow> Inr (len p)))"

section \<open>Properties\<close>

text \<open>The bytes still to come: those of the binary messages before the first error.\<close>

fun binary_data :: "ws_read list \<Rightarrow> string" where
  "binary_data [] = []"
| "binary_data (WsMessage binary d # ms) = (if binary then d else []) @ binary_data ms"
| "binary_data (r # ms) = []"

lemma read_accounts:
  "SSHConn_Read n buf ms = None \<Longrightarrow> buf = [] \<and> binary_data ms = []"
  "SSHConn_Read n buf ms = Some (Inl e, buf', ms') \<Longrightarrow> buf = [] \<and> binary_data ms = [] \<and> buf' = []"
  "SSHConn_Read n buf ms = Some (Inr p, buf', ms') \<Longrightarrow>
     p @ buf' @ binary_data ms' = buf @ binary_data ms \<and> length p \<le> n \<and> (p = [] \<longrightarrow> n = 0)"
  by (induction n buf ms rule: SSHConn_Read.induct) (auto split: if_splits)

text \<open>Reads one after another, until one fails or waits: the bytes read, the state, and how it ended.\<close>

fun ssh_reads :: "nat list \<Rightarrow> string \<Rightarrow> ws_read list \<Rightarrow> string \<times> string \<times> ws_read list \<times> go_error option" where
  "ssh_reads [] buf ms = ([], buf, ms, None)"
| "ssh_reads (n # ns) buf ms = (case SSHConn_Read n buf ms of
     None \<Rightarrow> ([], buf, ms, None)
   | Some (Inl e, buf', ms') \<Rightarrow> ([], buf', ms', Some e)
   | Some (Inr p, buf', ms') \<Rightarrow> (let (q, r) = ssh_reads ns buf' ms' in (p @ q, r)))"

text \<open>C27: The connection is the byte stream of the binary messages: however it is read, the bytes read and the bytes
  still to come are the bytes that were there, in order, and an error or the end is only reported when every byte
  before it has been read.\<close>

theorem ssh_stream_exact:
  "case ssh_reads ns buf ms of (p, buf', ms', e) \<Rightarrow>
     length p \<le> sum_list ns \<and>
     (if e = None then p @ buf' @ binary_data ms' = buf @ binary_data ms
      else p = buf @ binary_data ms \<and> buf' = [])"
proof (induction ns arbitrary: buf ms)
  case (Cons n ns)
  show ?case
  proof (cases "SSHConn_Read n buf ms")
    case None
    then show ?thesis using read_accounts(1) by simp
  next
    case (Some r)
    obtain x buf' ms' where r: "r = (x, buf', ms')" by (cases r)
    show ?thesis
    proof (cases x)
      case (Inl e)
      then show ?thesis using Some r read_accounts(2) [of n buf ms e buf' ms'] by simp
    next
      case (Inr p)
      with Cons.IH [of buf' ms'] read_accounts(3) [of n buf ms p buf' ms'] show ?thesis
        by (auto simp: Some r split: prod.splits if_splits)
    qed
  qed
qed simp

text \<open>An override that does not parse, or names no host, is ignored: the call goes to the gateway it was to replace.\<close>

lemma bad_override_ignored:
  "parse (TrimSpace override) = None \<Longrightarrow> TrimSpace override \<noteq> [] \<Longrightarrow>
   ssh_gateway parse render c service [Some (WithGatewayURL override)] sessionID = gatewaySSHURL parse render c sessionID"
  by (simp add: ssh_gateway_def overrideGatewayHost_def WithGatewayURL_def Let_def)

text \<open>A refused handshake matches the sentinel of its status, and \<open>ErrSSHUnavailable\<close> exactly when no other one.\<close>

theorem ssh_handshake_errors:
  "case mapSSHWebSocketError StatusText resp (Some err) of
     None \<Rightarrow> False
   | Some e \<Rightarrow>
       errors_Is e ErrSSHUnavailable = (case resp of None \<Rightarrow> True | Some r \<Rightarrow> ht_StatusCode r \<notin> {401, 403, 404, 409}) \<and>
       (case resp of None \<Rightarrow> True | Some r \<Rightarrow>
          (errors_Is e ErrUnauthorized \<longleftrightarrow> ht_StatusCode r = 401) \<and> (errors_Is e ErrSessionNotFound \<longleftrightarrow> ht_StatusCode r = 404))"
  by (auto simp: mapSSHWebSocketError_def errors_Is_def Let_def split: option.splits)

end
