(* ===== verification/SshClose.thy ===== *)
theory SshClose
  imports Prelude
begin

text \<open>
  Closing an SSH connection under concurrent calls (\<open>SSHConn\<close> in \<open>ssh.go\<close>): the two locks, \<open>closeOnce\<close>, the close
  frame and the end of the socket. What the bytes are is in \<open>Ssh\<close>; here a call is only where it stands.
\<close>

section \<open>Calls\<close>

text \<open>
  A \<open>Read\<close> waits for \<open>readMu\<close> and then in \<open>ReadMessage\<close>, a \<open>Write\<close> for \<open>writeMu\<close> and then in \<open>WriteMessage\<close>; a
  \<open>Close\<close> is at \<open>closeOnce\<close>, waits for \<open>writeMu\<close>, sends the close frame, and has given the lock back.
\<close>

datatype ssh_thread =
    ReadWaits | Reading | WriteWaits | Writing
  | CloseCalled | CloseLocking | CloseSending | CloseUnlocked | Returned

datatype once = NotRun | Running | Ran

record ssh_conn =
  sc_threads :: "ssh_thread list"
  sc_once :: once
  sc_deadline :: bool
  sc_closed :: bool
  sc_frames :: nat

definition new_ssh_conn :: ssh_conn where
  "new_ssh_conn = \<lparr>sc_threads = [], sc_once = NotRun, sc_deadline = False, sc_closed = False, sc_frames = 0\<rparr>"

definition read_locked :: "ssh_conn \<Rightarrow> bool" where
  "read_locked s = (Reading \<in> set (sc_threads s))"

fun holds_write :: "ssh_thread \<Rightarrow> bool" where
  "holds_write Writing = True"
| "holds_write CloseSending = True"
| "holds_write p = False"

definition write_locked :: "ssh_conn \<Rightarrow> bool" where
  "write_locked s = list_ex holds_write (sc_threads s)"

text \<open>
  What a call does next by itself, if it can: a blocked \<open>ReadMessage\<close> ends at its deadline or with the socket, a
  blocked \<open>WriteMessage\<close>, which has no deadline, with the socket. The close frame has a deadline of a second and its
  error is dropped.
\<close>

fun ssh_act :: "ssh_conn \<Rightarrow> ssh_thread \<Rightarrow> (ssh_thread \<times> ssh_conn) option" where
  "ssh_act s ReadWaits = (if read_locked s then None else Some (Reading, s))"
| "ssh_act s Reading = (if sc_deadline s \<or> sc_closed s then Some (Returned, s) else None)"
| "ssh_act s WriteWaits = (if write_locked s then None else Some (Writing, s))"
| "ssh_act s Writing = (if sc_closed s then Some (Returned, s) else None)"
| "ssh_act s CloseCalled = (case sc_once s of
     NotRun \<Rightarrow> Some (CloseLocking, s\<lparr>sc_once := Running\<rparr>) | Running \<Rightarrow> None | Ran \<Rightarrow> Some (Returned, s))"
| "ssh_act s CloseLocking = (if write_locked s then None else Some (CloseSending, s))"
| "ssh_act s CloseSending = Some (CloseUnlocked, s\<lparr>sc_frames := Suc (sc_frames s)\<rparr>)"
| "ssh_act s CloseUnlocked = Some (Returned, s\<lparr>sc_deadline := True, sc_closed := True, sc_once := Ran\<rparr>)"
| "ssh_act s Returned = None"

definition set_thread :: "nat \<Rightarrow> ssh_thread \<Rightarrow> ssh_conn \<Rightarrow> ssh_conn" where
  "set_thread i p s = s\<lparr>sc_threads := (sc_threads s)[i := p]\<rparr>"

inductive program_step :: "ssh_conn \<Rightarrow> ssh_conn \<Rightarrow> bool" where
  acts: "i < length (sc_threads s) \<Longrightarrow> ssh_act s (sc_threads s ! i) = Some (p, s') \<Longrightarrow> program_step s (set_thread i p s')"

text \<open>The peer sends a message or accepts one, and the user makes calls.\<close>

inductive outer_step :: "ssh_conn \<Rightarrow> ssh_conn \<Rightarrow> bool" where
  received: "i < length (sc_threads s) \<Longrightarrow> sc_threads s ! i = Reading \<Longrightarrow> outer_step s (set_thread i Returned s)"
| accepted: "i < length (sc_threads s) \<Longrightarrow> sc_threads s ! i = Writing \<Longrightarrow> outer_step s (set_thread i Returned s)"
| calls: "p \<in> {ReadWaits, WriteWaits, CloseCalled} \<Longrightarrow> outer_step s (s\<lparr>sc_threads := sc_threads s @ [p]\<rparr>)"

inductive ssh_reach :: "ssh_conn \<Rightarrow> bool" where
  ssh_start: "ssh_reach new_ssh_conn"
| ssh_program: "ssh_reach s \<Longrightarrow> program_step s t \<Longrightarrow> ssh_reach t"
| ssh_outer: "ssh_reach s \<Longrightarrow> outer_step s t \<Longrightarrow> ssh_reach t"

section \<open>The invariant\<close>

definition how_many :: "(ssh_thread \<Rightarrow> bool) \<Rightarrow> ssh_conn \<Rightarrow> nat" where
  "how_many P s = sum_list (map (one_if P) (sc_threads s))"

fun in_close :: "ssh_thread \<Rightarrow> bool" where
  "in_close CloseLocking = True"
| "in_close CloseSending = True"
| "in_close CloseUnlocked = True"
| "in_close p = False"

fun before_frame :: "ssh_thread \<Rightarrow> bool" where
  "before_frame CloseLocking = True"
| "before_frame CloseSending = True"
| "before_frame p = False"

text \<open>
  The locks have one holder, one call of \<open>Close\<close> runs the body and the others wait for it, and the close frame is
  sent once, before the socket is closed.
\<close>

definition ssh_inv :: "ssh_conn \<Rightarrow> bool" where
  "ssh_inv s \<longleftrightarrow>
     how_many (\<lambda>p. p = Reading) s \<le> 1 \<and> how_many holds_write s \<le> 1 \<and>
     how_many in_close s = (if sc_once s = Running then 1 else 0) \<and>
     sc_frames s + how_many before_frame s = (if sc_once s = NotRun then 0 else 1) \<and>
     sc_closed s = (sc_once s = Ran) \<and> sc_deadline s = sc_closed s"

lemma how_many_set:
  "i < length (sc_threads s) \<Longrightarrow> how_many P (set_thread i p s) + one_if P (sc_threads s ! i) = how_many P s + one_if P p"
  by (simp add: how_many_def set_thread_def sum_list_set)

lemma how_many_frame [simp]:
  "how_many P (s\<lparr>sc_once := x\<rparr>) = how_many P s" "how_many P (s\<lparr>sc_frames := n\<rparr>) = how_many P s"
  "how_many P (s\<lparr>sc_deadline := b, sc_closed := c, sc_once := x\<rparr>) = how_many P s"
  by (simp_all add: how_many_def)

lemma set_thread_fields [simp]:
  "sc_once (set_thread i p s) = sc_once s" "sc_deadline (set_thread i p s) = sc_deadline s"
  "sc_closed (set_thread i p s) = sc_closed s" "sc_frames (set_thread i p s) = sc_frames s"
  "sc_threads (set_thread i p s) = (sc_threads s)[i := p]"
  by (simp_all add: set_thread_def)

lemma how_many_0: "how_many P s = 0 \<longleftrightarrow> list_all (\<lambda>p. \<not> P p) (sc_threads s)"
  by (auto simp: how_many_def one_if_def sum_list_eq_0_iff list_all_iff split: if_splits)

lemma unlocked:
  "\<not> read_locked s \<Longrightarrow> how_many (\<lambda>p. p = Reading) s = 0"
  "\<not> write_locked s \<Longrightarrow> how_many holds_write s = 0"
  by (auto simp: read_locked_def write_locked_def how_many_0 list_all_iff list_ex_iff)

lemma ssh_inv_program:
  assumes "program_step s t" and "ssh_inv s"
  shows "ssh_inv t"
  using assms
proof (induction rule: program_step.induct)
  case (acts i s p s')
  have how: "how_many P (set_thread i p s') + one_if P (sc_threads s ! i) = how_many P s + one_if P p" for P
    using how_many_set [of i s P p] acts.hyps
    by (cases "sc_threads s ! i") (auto simp: how_many_def set_thread_def split: if_splits once.splits)
  show ?case
    using acts how [of "\<lambda>p. p = Reading"] how [of holds_write] how [of in_close] how [of before_frame] unlocked [of s]
    by (cases "sc_threads s ! i") (auto simp: ssh_inv_def one_if_def split: if_splits once.splits)
qed

lemma ssh_inv_outer:
  assumes "outer_step s t" and "ssh_inv s"
  shows "ssh_inv t"
  using assms
proof (induction rule: outer_step.induct)
  case (received i s)
  note how = how_many_set [OF received.hyps(1), of _ Returned]
  show ?case using received how [of "\<lambda>p. p = Reading"] how [of holds_write] how [of in_close] how [of before_frame]
    by (simp add: ssh_inv_def one_if_def)
next
  case (accepted i s)
  note how = how_many_set [OF accepted.hyps(1), of _ Returned]
  show ?case using accepted how [of "\<lambda>p. p = Reading"] how [of holds_write] how [of in_close] how [of before_frame]
    by (simp add: ssh_inv_def one_if_def)
next
  case (calls p s)
  have "how_many P (s\<lparr>sc_threads := sc_threads s @ [p]\<rparr>) = how_many P s + one_if P p" for P
    by (simp add: how_many_def)
  with calls show ?case by (auto simp: ssh_inv_def one_if_def)
qed

lemma ssh_reach_inv: "ssh_reach s \<Longrightarrow> ssh_inv s"
proof (induction rule: ssh_reach.induct)
  case ssh_start
  show ?case by (simp add: ssh_inv_def new_ssh_conn_def how_many_def)
qed (use ssh_inv_program ssh_inv_outer in blast)+

section \<open>Progress\<close>

fun thread_work :: "ssh_thread \<Rightarrow> nat" where
  "thread_work ReadWaits = 2"
| "thread_work Reading = 1"
| "thread_work WriteWaits = 2"
| "thread_work Writing = 1"
| "thread_work CloseCalled = 4"
| "thread_work CloseLocking = 3"
| "thread_work CloseSending = 2"
| "thread_work CloseUnlocked = 1"
| "thread_work Returned = 0"

definition ssh_work :: "ssh_conn \<Rightarrow> nat" where
  "ssh_work s = sum_list (map thread_work (sc_threads s))"

lemma ssh_work_program: "program_step s t \<Longrightarrow> ssh_work t < ssh_work s"
proof (induction rule: program_step.induct)
  case (acts i s p s')
  then have "thread_work p < thread_work (sc_threads s ! i)" and "sc_threads s' = sc_threads s"
    by (cases "sc_threads s ! i"; auto split: if_splits once.splits)+
  with sum_list_set [OF acts.hyps(1), of thread_work p] show ?case by (simp add: ssh_work_def)
qed

definition can_act :: "ssh_conn \<Rightarrow> bool" where
  "can_act s = list_ex (\<lambda>p. ssh_act s p \<noteq> None) (sc_threads s)"

lemma can_act_iff: "can_act s \<longleftrightarrow> (\<exists>t. program_step s t)"
proof
  assume "can_act s"
  then obtain i where "i < length (sc_threads s)" "ssh_act s (sc_threads s ! i) \<noteq> None"
    by (auto simp: can_act_def list_ex_iff in_set_conv_nth)
  then show "\<exists>t. program_step s t" by (cases "ssh_act s (sc_threads s ! i)") (auto intro: acts)
next
  assume "\<exists>t. program_step s t"
  then obtain i p s' where "i < length (sc_threads s)" "ssh_act s (sc_threads s ! i) = Some (p, s')"
    by (auto elim: program_step.cases)
  then show "can_act s" unfolding can_act_def list_ex_iff by (intro bexI [of _ "sc_threads s ! i"]) simp_all
qed


text \<open>
  A stalled peer: a \<open>Write\<close> blocks in \<open>WriteMessage\<close>, and the \<open>Close\<close> that should end it waits for the lock it holds.
\<close>

definition stalled :: ssh_conn where
  "stalled = \<lparr>sc_threads = [Writing, CloseLocking], sc_once = Running, sc_deadline = False, sc_closed = False, sc_frames = 0\<rparr>"

lemma stalled_reach: "ssh_reach stalled"
proof -
  let ?w = "new_ssh_conn\<lparr>sc_threads := [WriteWaits]\<rparr>"
  let ?b = "set_thread 0 Writing ?w"
  let ?c = "?b\<lparr>sc_threads := [Writing, CloseCalled]\<rparr>"
  note defs = new_ssh_conn_def set_thread_def write_locked_def
  have "ssh_reach ?w" using ssh_outer [OF ssh_start calls [of WriteWaits]] by (simp add: new_ssh_conn_def)
  then have "ssh_reach ?b" by (rule ssh_program [OF _ acts]) (simp_all add: defs)
  then have "ssh_reach ?c" using ssh_outer [OF _ calls [of CloseCalled ?b]] by (simp add: defs)
  then have "ssh_reach (set_thread 1 CloseLocking (?c\<lparr>sc_once := Running\<rparr>))"
    by (rule ssh_program [OF _ acts]) (simp_all add: defs)
  then show ?thesis by (simp add: stalled_def defs)
qed

lemma stalled_stuck: "\<not> (\<exists>t. program_step stalled t)"
  by (simp add: can_act_iff [symmetric] can_act_def stalled_def write_locked_def)


end
