(* ===== verification/GitOps.thy ===== *)
theory GitOps
  imports Run Registry
begin

text \<open>
  Structured git operations on a session (\<open>git.go\<close>): the arguments of each operation, the call, and the two
  commands by which a pull request is fetched and checked out. \<open>Exec\<close> is the argument \<open>exec\<close>, a server with
  a state.
\<close>

section \<open>Operations\<close>

datatype git_operation = GitClone | GitCheckout | GitDiff | GitLog

fun git_operation_text :: "git_operation \<Rightarrow> string" where
  "git_operation_text GitClone = ''clone''"
| "git_operation_text GitCheckout = ''checkout''"
| "git_operation_text GitDiff = ''diff''"
| "git_operation_text GitLog = ''log''"

record git_clone_params = gc_Branch :: string  gc_Depth :: int  gc_Directory :: string
record git_checkout_params = gk_Create :: bool  gk_Directory :: string
record git_diff_params = gd_Range :: string  gd_Base :: string  gd_Head :: string  gd_Path :: string  gd_Directory :: string
record git_log_params = gl_MaxCount :: int  gl_Range :: string  gl_Path :: string  gl_Directory :: string
record git_fetch_pr_params = gp_Directory :: string  gp_Remote :: string  gp_BranchPrefix :: string

text \<open>The arguments are sent as they are put into the map; an empty one, or a count that is not positive, is not.\<close>

definition put_text :: "string \<Rightarrow> string \<Rightarrow> (string, string) gomap \<Rightarrow> (string, string) gomap" where
  "put_text k v m = (if v \<noteq> [] then map_put k v m else m)"

definition put_count :: "string \<Rightarrow> int \<Rightarrow> (string, string) gomap \<Rightarrow> (string, string) gomap" where
  "put_count k n m = (if 0 < n then map_put k (show_int n) m else m)"

definition clone_args :: "string \<Rightarrow> git_clone_params \<Rightarrow> (string, string) gomap" where
  "clone_args repo params =
     put_text ''directory'' (gc_Directory params) (put_count ''depth'' (gc_Depth params)
       (put_text ''branch'' (gc_Branch params) (map_put ''repo'' repo [])))"

definition checkout_args :: "string \<Rightarrow> git_checkout_params \<Rightarrow> (string, string) gomap" where
  "checkout_args gref params =
     put_text ''directory'' (gk_Directory params)
       (if gk_Create params then map_put ''create'' ''true'' (map_put ''ref'' gref []) else map_put ''ref'' gref [])"

definition diff_args :: "git_diff_params \<Rightarrow> (string, string) gomap" where
  "diff_args params =
     put_text ''directory'' (gd_Directory params) (put_text ''path'' (gd_Path params)
       (put_text ''head'' (gd_Head params) (put_text ''base'' (gd_Base params) (put_text ''range'' (gd_Range params) []))))"

definition log_args :: "git_log_params \<Rightarrow> (string, string) gomap" where
  "log_args params =
     put_text ''directory'' (gl_Directory params) (put_text ''path'' (gl_Path params)
       (put_text ''range'' (gl_Range params) (put_count ''max_count'' (gl_MaxCount params) [])))"

type_synonym git_call = "string \<times> string \<times> (string, string) gomap \<Rightarrow> (go_error, string) result"

definition GitOperation :: "git_call \<Rightarrow> string \<Rightarrow> git_operation \<Rightarrow> (string, string) gomap \<Rightarrow> (go_error, string) result" where
  "GitOperation call sessionID operation args =
     answered (\<lambda>r. r) (call (sessionID, git_operation_text operation, cloneStringMap args))"

definition Git_Clone :: "git_call \<Rightarrow> string \<Rightarrow> string \<Rightarrow> git_clone_params \<Rightarrow> (go_error, string) result" where
  "Git_Clone call sessionID repo params = GitOperation call sessionID GitClone (clone_args repo params)"

definition Git_Checkout :: "git_call \<Rightarrow> string \<Rightarrow> string \<Rightarrow> git_checkout_params \<Rightarrow> (go_error, string) result" where
  "Git_Checkout call sessionID gref params = GitOperation call sessionID GitCheckout (checkout_args gref params)"

definition Git_Diff :: "git_call \<Rightarrow> string \<Rightarrow> git_diff_params \<Rightarrow> (go_error, string) result" where
  "Git_Diff call sessionID params = GitOperation call sessionID GitDiff (diff_args params)"

definition Git_Log :: "git_call \<Rightarrow> string \<Rightarrow> git_log_params \<Rightarrow> (go_error, string) result" where
  "Git_Log call sessionID params = GitOperation call sessionID GitLog (log_args params)"

section \<open>Fetching a pull request\<close>

fun command_status_text :: "command_status \<Rightarrow> string" where
  "command_status_text CommandStatusUnspecified = ''UNSPECIFIED''"
| "command_status_text CommandStatusQueued = ''QUEUED''"
| "command_status_text CommandStatusRunning = ''RUNNING''"
| "command_status_text CommandStatusSucceeded = ''SUCCEEDED''"
| "command_status_text CommandStatusFailed = ''FAILED''"
| "command_status_text CommandStatusTimedOut = ''TIMED_OUT''"

definition StdoutString :: "run_result \<Rightarrow> string" where
  "StdoutString r = TrimSpace (rr_Stdout r)"

definition StderrString :: "run_result \<Rightarrow> string" where
  "StderrString r = TrimSpace (rr_Stderr r)"

definition or_default :: "string \<Rightarrow> string \<Rightarrow> string" where
  "or_default s d = (if TrimSpace s = [] then d else TrimSpace s)"

definition pr_branch :: "int \<Rightarrow> git_fetch_pr_params \<Rightarrow> string" where
  "pr_branch prNumber params = or_default (gp_BranchPrefix params) ''pr'' @ ''-'' @ show_int prNumber"

definition pr_base_args :: "git_fetch_pr_params \<Rightarrow> string list" where
  "pr_base_args params = (if TrimSpace (gp_Directory params) \<noteq> [] then [''-C'', TrimSpace (gp_Directory params)] else [])"

definition pr_fetch_args :: "int \<Rightarrow> git_fetch_pr_params \<Rightarrow> string list" where
  "pr_fetch_args prNumber params =
     pr_base_args params @ [''fetch'', or_default (gp_Remote params) ''origin'',
       ''pull/'' @ show_int prNumber @ ''/head:'' @ pr_branch prNumber params]"

definition pr_checkout_args :: "int \<Rightarrow> git_fetch_pr_params \<Rightarrow> string list" where
  "pr_checkout_args prNumber params = pr_base_args params @ [''checkout'', pr_branch prNumber params]"

definition pr_failed :: "string \<Rightarrow> run_result \<Rightarrow> go_error" where
  "pr_failed what r = Plain (''sandbox: git '' @ what @ '' PR failed (status='' @ command_status_text (rr_Status r) @
     '' exit_code='' @ show_int (rr_ExitCode r) @ ''): '' @ TrimSpace (rr_Stderr r))"

text \<open>\<open>exec\<close> takes the state of the sandbox, a command and its arguments.\<close>

definition FetchPR ::
  "('s \<Rightarrow> string \<Rightarrow> string list \<Rightarrow> 's \<times> (go_error, run_result) result) \<Rightarrow> 's \<Rightarrow> int \<Rightarrow> git_fetch_pr_params
    \<Rightarrow> 's \<times> (go_error, string) result" where
  "FetchPR exec s prNumber params =
     (if prNumber \<le> 0 then (s, Inl (Plain ''sandbox: pr number must be > 0''))
      else case exec s ''git'' (pr_fetch_args prNumber params) of
        (s, Inl err) \<Rightarrow> (s, Inl err)
      | (s, Inr fetched) \<Rightarrow>
          if rr_Status fetched \<noteq> CommandStatusSucceeded then (s, Inl (pr_failed ''fetch'' fetched))
          else case exec s ''git'' (pr_checkout_args prNumber params) of
            (s, Inl err) \<Rightarrow> (s, Inl err)
          | (s, Inr checked) \<Rightarrow>
              if rr_Status checked \<noteq> CommandStatusSucceeded then (s, Inl (pr_failed ''checkout'' checked))
              else
                let output = TrimSpace (rr_Stdout fetched); checkoutOutput = TrimSpace (rr_Stdout checked)
                in (s, Inr (if output = [] then checkoutOutput else if checkoutOutput = [] then output
                            else output @ [CHR 0x0A] @ checkoutOutput)))"

section \<open>Properties\<close>

text \<open>The commands that a run of \<open>exec\<close> has seen are its state.\<close>

definition recorded :: "(string list \<Rightarrow> (go_error, run_result) result) \<Rightarrow> string list list \<Rightarrow> string \<Rightarrow> string list
    \<Rightarrow> string list list \<times> (go_error, run_result) result" where
  "recorded answer cmds command args = (cmds @ [args], answer args)"

definition succeeded :: "(go_error, run_result) result \<Rightarrow> bool" where
  "succeeded r = (case r of Inl e \<Rightarrow> False | Inr x \<Rightarrow> rr_Status x = CommandStatusSucceeded)"

text \<open>A pull request is fetched and then checked out, in the same directory and under the same local branch; the
  checkout is only run after a fetch that succeeded, and the call succeeds only if both did.\<close>

theorem fetch_pr_in_order:
  "case FetchPR (recorded answer) [] prNumber params of
     (cmds, r) \<Rightarrow>
       (if prNumber \<le> 0 then cmds = [] \<and> \<not> is_ok r
        else if succeeded (answer (pr_fetch_args prNumber params))
        then cmds = [pr_fetch_args prNumber params, pr_checkout_args prNumber params] \<and>
          (is_ok r \<longleftrightarrow> succeeded (answer (pr_checkout_args prNumber params)))
        else cmds = [pr_fetch_args prNumber params] \<and> \<not> is_ok r) \<and>
       (\<exists>base remote branch. pr_fetch_args prNumber params =
            base @ [''fetch'', remote, ''pull/'' @ show_int prNumber @ ''/head:'' @ branch] \<and>
          pr_checkout_args prNumber params = base @ [''checkout'', branch])"
  by (auto simp: FetchPR_def recorded_def succeeded_def pr_fetch_args_def pr_checkout_args_def Let_def 
      split: sum.splits)

text \<open>The arguments that are sent are those that are set.\<close>

lemma git_args_exact:
  "map_of (clone_args repo params) k =
     (if k = ''repo'' then Some repo
      else if k = ''branch'' \<and> gc_Branch params \<noteq> [] then Some (gc_Branch params)
      else if k = ''depth'' \<and> 0 < gc_Depth params then Some (show_int (gc_Depth params))
      else if k = ''directory'' \<and> gc_Directory params \<noteq> [] then Some (gc_Directory params) else None)"
  by (simp add: clone_args_def put_text_def put_count_def)

end
