(* ===== verification/Redact.thy ===== *)
theory Redact
  imports SessionState
begin

text \<open>
  Formatting without credentials (\<open>redact.go\<close>, and the formatters of \<open>tailnet.go\<close>): the secret, the client,
  the session and the tailnet attachment. What \<open>fmt.Fprintf\<close> writes for one value under one format is the argument
  \<open>fprintf\<close>, where an attachment's own format string is written out.
\<close>

section \<open>Secrets\<close>

definition redacted :: string where
  "redacted = ''[REDACTED]''"

datatype secret = Secret "string option"

definition newSecret :: "string \<Rightarrow> secret" where
  "newSecret v = (if v = [] then Secret None else Secret (Some v))"

fun reveal :: "secret \<Rightarrow> string" where
  "reveal (Secret None) = []"
| "reveal (Secret (Some v)) = v"

definition secret_String :: "secret \<Rightarrow> string" where
  "secret_String s = redacted"

definition secret_GoString :: "secret \<Rightarrow> string" where
  "secret_GoString s = redacted"

text \<open>A formatter is given the flags, the width and the precision, and the verb.\<close>

record fmt_state =
  fs_flags :: "char set"
  fs_width :: "nat option"
  fs_precision :: "nat option"

definition secret_Format :: "secret \<Rightarrow> fmt_state \<Rightarrow> char \<Rightarrow> string" where
  "secret_Format s state verb = redacted"

datatype log_value = LogString string | LogGroup "(string \<times> string) list"

definition secret_LogValue :: "secret \<Rightarrow> log_value" where
  "secret_LogValue s = LogString redacted"

section \<open>The client\<close>

record client_secrets =
  ck_authToken :: secret
  ck_baseURL :: string

definition Client_String :: "client_secrets option \<Rightarrow> string" where
  "Client_String c =
     (case c of
        None \<Rightarrow> ''<nil>''
      | Some c \<Rightarrow> ''sandbox.Client{baseURL: '' @ go_quote (ck_baseURL c) @ '', authToken: '' @ redacted @ ''}'')"

definition Client_GoString :: "client_secrets option \<Rightarrow> string" where
  "Client_GoString c = Client_String c"

definition Client_Format :: "client_secrets option \<Rightarrow> fmt_state \<Rightarrow> char \<Rightarrow> string" where
  "Client_Format c state verb = Client_String c"

definition Client_LogValue :: "client_secrets option \<Rightarrow> log_value" where
  "Client_LogValue c =
     (case c of None \<Rightarrow> LogString ''<nil>'' | Some c \<Rightarrow> LogGroup [(''base_url'', ck_baseURL c)])"

section \<open>Formatting the exported fields of a struct\<close>

text \<open>
  A field value as \<open>reflect\<close> shows it: a pointer has a type, an address and whether its type formats itself; the
  other values are kept as they are.
\<close>

datatype field_value =
    StringValue string
  | IntValue int
  | BoolValue bool
  | TimeValue gotime
  | StringsValue "string list"
  | MapValue "(string, string) gomap"
  | MountsValue "volume_mount list"
  | WarningsValue "sandbox_warning list"
  | SecretValue secret
  | EgressValue egress_policy
  | HintsValue "string list"
  | FuncValue "nat option"
  | NilPointer string
  | Pointer (pointer_type: string) (pointer_address: nat) (pointer_formats: bool)

type_synonym struct_field = "string \<times> field_value"

text \<open>A field is exported if its name starts with an upper case letter.\<close>

definition IsExported :: "string \<Rightarrow> bool" where
  "IsExported name = (case name of [] \<Rightarrow> False | c # cs \<Rightarrow> 65 \<le> byte c \<and> byte c \<le> 90)"

fun isOpaquePointer :: "field_value \<Rightarrow> bool" where
  "isOpaquePointer (Pointer t a formats) = (\<not> formats)"
| "isOpaquePointer v = False"

text \<open>\<open>fmt.FormatString\<close> writes the flags of the state in a fixed order.\<close>

definition FormatString :: "fmt_state \<Rightarrow> char \<Rightarrow> string" where
  "FormatString state verb =
     ''%'' @ filter (\<lambda>c. c \<in> fs_flags state) '' +-#0'' @
     (case fs_width state of None \<Rightarrow> [] | Some w \<Rightarrow> show_nat w) @
     (case fs_precision state of None \<Rightarrow> [] | Some p \<Rightarrow> ''.'' @ show_nat p) @ [verb]"

fun hex :: "nat \<Rightarrow> string" where
  "hex n = (if n < 16 then [hex_digit n] else hex (n div 16) @ [hex_digit (n mod 16)])"

declare hex.simps [simp del]

definition goSyntax :: "fmt_state \<Rightarrow> char \<Rightarrow> bool" where
  "goSyntax state verb \<longleftrightarrow> verb = CHR ''v'' \<and> CHR ''#'' \<in> fs_flags state"

definition withNames :: "fmt_state \<Rightarrow> char \<Rightarrow> bool" where
  "withNames state verb \<longleftrightarrow> goSyntax state verb \<or> (verb = CHR ''v'' \<and> CHR ''+'' \<in> fs_flags state)"

definition format_field :: "(string \<Rightarrow> field_value \<Rightarrow> string) \<Rightarrow> fmt_state \<Rightarrow> char \<Rightarrow> struct_field \<Rightarrow> string" where
  "format_field fprintf state verb field =
     (case field of (name, v) \<Rightarrow>
       (if withNames state verb then name @ '':'' else []) @
       (if \<not> isOpaquePointer v then fprintf (FormatString state verb) v
        else if goSyntax state verb then ''('' @ pointer_type v @ '')(0x'' @ hex (pointer_address v) @ '')''
        else ''0x'' @ hex (pointer_address v)))"

text \<open>The loop over the fields; \<open>first\<close> says that none has been written.\<close>

fun format_fields ::
  "(string \<Rightarrow> field_value \<Rightarrow> string) \<Rightarrow> fmt_state \<Rightarrow> char \<Rightarrow> bool \<Rightarrow> struct_field list \<Rightarrow> string" where
  "format_fields fprintf state verb first [] = []"
| "format_fields fprintf state verb first (f # fs) =
     (if \<not> IsExported (fst f) then format_fields fprintf state verb first fs
      else (if first then [] else if goSyntax state verb then '', '' else '' '') @
           format_field fprintf state verb f @ format_fields fprintf state verb False fs)"

definition formatExportedFields ::
  "(string \<Rightarrow> field_value \<Rightarrow> string) \<Rightarrow> fmt_state \<Rightarrow> char \<Rightarrow> string \<Rightarrow> struct_field list \<Rightarrow> string" where
  "formatExportedFields fprintf state verb type_name fs =
     (if goSyntax state verb then ''&'' @ type_name @ ''{'' else ''&{'') @
     format_fields fprintf state verb True fs @ ''}''"

section \<open>The session\<close>

text \<open>
  A session as a struct value, its fields in the order of the declaration. \<open>addr\<close> gives the address of what a field
  points to; \<open>hidden\<close> the value of an unexported field, of which the credential is one.
\<close>

fun runtime_state_text :: "runtime_state \<Rightarrow> string" where
  "runtime_state_text RtUnspecified = ''UNSPECIFIED''"
| "runtime_state_text RtStarting = ''STARTING''"
| "runtime_state_text RtReady = ''READY''"
| "runtime_state_text RtFailed = ''FAILED''"
| "runtime_state_text RtStopped = ''STOPPED''"

definition pointer_field :: "(string \<Rightarrow> nat) \<Rightarrow> string \<Rightarrow> string \<Rightarrow> bool \<Rightarrow> 'a option \<Rightarrow> struct_field" where
  "pointer_field addr name ty formats v =
     (name, case v of None \<Rightarrow> NilPointer ty | Some x \<Rightarrow> Pointer ty (addr name) formats)"

definition hidden_names :: "string list" where
  "hidden_names =
     [''localDataPlaneHints'', ''dataPlaneMu'', ''dataPlaneEndpoint'', ''dataPlaneCredential'',
      ''dataPlaneCredentialEndpoint'', ''dataPlaneExpiresAt'', ''dataPlaneClient'', ''dataPlaneRelease'',
      ''dataPlaneFromHint'', ''renewalCancel'', ''renewalDones'', ''dataPlaneClosed'', ''dataPlaneProbeMu'',
      ''dataPlaneVerifiedMu'', ''dataPlaneVerifiedClient'', ''closeMu'', ''closeDone'', ''released'',
      ''dataPlaneWarmOnce'', ''egress'']"

definition hidden_field :: "(string \<Rightarrow> field_value) \<Rightarrow> secret \<Rightarrow> string \<Rightarrow> struct_field" where
  "hidden_field hidden credential name =
     (name, if name = ''dataPlaneCredential'' then SecretValue credential else hidden name)"

definition view_fields :: "(string \<Rightarrow> nat) \<Rightarrow> session_view \<Rightarrow> struct_field list" where
  "view_fields addr s =
     [(''ID'', StringValue (sv_ID s)), (''Name'', StringValue (sv_Name s)),
      (''State'', StringValue (session_state_text (sv_State s))),
      (''OwnerType'', StringValue (sv_OwnerType s)), (''OwnerID'', StringValue (sv_OwnerID s)),
      (''WorkspaceID'', StringValue (sv_WorkspaceID s)),
      (''InboundEnabled'', BoolValue (sv_InboundEnabled s)), (''OutboundEnabled'', BoolValue (sv_OutboundEnabled s)),
      (''CPUCores'', IntValue (sv_CPUCores s)), (''MemoryMB'', IntValue (sv_MemoryMB s)),
      (''DiskSizeGB'', IntValue (sv_DiskSizeGB s)), (''TimeoutAt'', TimeValue (sv_TimeoutAt s)),
      pointer_field addr ''IdleTimeoutMinutes'' ''*int32'' False (sv_IdleTimeoutMinutes s),
      (''LastActivityAt'', TimeValue (sv_LastActivityAt s)), (''PausedAt'', TimeValue (sv_PausedAt s)),
      (''PauseSnapshotID'', StringValue (sv_PauseSnapshotID s)),
      pointer_field addr ''PauseRetention'' ''*time.Duration'' True (sv_PauseRetention s),
      pointer_field addr ''PauseExpiresAt'' ''*time.Time'' True (sv_PauseExpiresAt s),
      (''Sticky'', BoolValue (sv_Sticky s)), (''Metadata'', MapValue (sv_Metadata s)),
      (''Tags'', StringsValue (sv_Tags s)), (''VolumeMounts'', MountsValue (sv_VolumeMounts s)),
      pointer_field addr ''PauseSnapshot'' ''*sandbox.Snapshot'' False (sv_PauseSnapshot s),
      (''LastResumeError'', StringValue (sv_LastResumeError s)),
      (''TerminalError'', StringValue (sv_TerminalError s)),
      (''RuntimeState'', StringValue (runtime_state_text (sv_RuntimeState s))),
      (''RuntimeError'', StringValue (sv_RuntimeError s)), (''HasRuntimeSecrets'', BoolValue (sv_HasRuntimeSecrets s)),
      (''SourceRegistryImageID'', StringValue (sv_SourceRegistryImageID s)),
      (''SourceSnapshotID'', StringValue (sv_SourceSnapshotID s)),
      (''SourceRegistryWorkspaceID'', StringValue (sv_SourceRegistryWorkspaceID s)),
      (''SourceRegistryRef'', StringValue (sv_SourceRegistryRef s)),
      (''SourceTemplateID'', StringValue (sv_SourceTemplateID s)),
      (''Warnings'', WarningsValue (sv_Warnings s)),
      pointer_field addr ''TailnetStatus'' ''*sandbox.TailnetStatus'' False (sv_TailnetStatus s)]"

record session_struct =
  ss_view :: session_view
  ss_git :: bool
  ss_credential :: secret
  ss_hidden :: "string \<Rightarrow> field_value"

definition session_fields :: "(string \<Rightarrow> nat) \<Rightarrow> session_struct \<Rightarrow> struct_field list" where
  "session_fields addr s =
     (''client'', ss_hidden s ''client'') #
     pointer_field addr ''Git'' ''*sandbox.Git'' False (if ss_git s then Some () else None) #
     map (hidden_field (ss_hidden s) (ss_credential s)) hidden_names @ view_fields addr (ss_view s)"

definition Session_Format ::
  "(string \<Rightarrow> field_value \<Rightarrow> string) \<Rightarrow> (string \<Rightarrow> nat) \<Rightarrow> session_struct option \<Rightarrow> fmt_state \<Rightarrow> char \<Rightarrow> string" where
  "Session_Format fprintf addr s state verb =
     (case s of None \<Rightarrow> ''<nil>''
      | Some s \<Rightarrow> formatExportedFields fprintf state verb ''sandbox.Session'' (session_fields addr s))"

text \<open>\<open>fmt.Sprintf\<close> with the verb alone, or with the flag \<open>#\<close>, calls the formatter.\<close>

definition no_flags :: fmt_state where
  "no_flags = \<lparr>fs_flags = {}, fs_width = None, fs_precision = None\<rparr>"

definition Session_String ::
  "(string \<Rightarrow> field_value \<Rightarrow> string) \<Rightarrow> (string \<Rightarrow> nat) \<Rightarrow> session_struct option \<Rightarrow> string" where
  "Session_String fprintf addr s = Session_Format fprintf addr s no_flags (CHR ''v'')"

definition Session_GoString ::
  "(string \<Rightarrow> field_value \<Rightarrow> string) \<Rightarrow> (string \<Rightarrow> nat) \<Rightarrow> session_struct option \<Rightarrow> string" where
  "Session_GoString fprintf addr s = Session_Format fprintf addr s (no_flags\<lparr>fs_flags := {CHR ''#''}\<rparr>) (CHR ''v'')"

section \<open>The tailnet attachment\<close>

datatype tailnet_auth_key = TailnetAuthKey string

definition NewTailnetAuthKey :: "string \<Rightarrow> tailnet_auth_key" where
  "NewTailnetAuthKey v = TailnetAuthKey v"

definition TailnetAuthKey_String :: "tailnet_auth_key \<Rightarrow> string" where
  "TailnetAuthKey_String k = ''[REDACTED]''"

definition TailnetAuthKey_GoString :: "tailnet_auth_key \<Rightarrow> string" where
  "TailnetAuthKey_GoString k = ''sandbox.TailnetAuthKey([REDACTED])''"

definition TailnetAuthKey_Format :: "tailnet_auth_key \<Rightarrow> fmt_state \<Rightarrow> char \<Rightarrow> string" where
  "TailnetAuthKey_Format k state verb = ''[REDACTED]''"

text \<open>\<open>%t\<close> and \<open>%v\<close> of a slice.\<close>

definition show_bool :: "bool \<Rightarrow> string" where
  "show_bool b = (if b then ''true'' else ''false'')"

definition show_slice :: "string list \<Rightarrow> string" where
  "show_slice xs = ''['' @ join_with '' '' xs @ '']''"

definition TailnetAttachment_Format :: "tailnet_attachment \<Rightarrow> fmt_state \<Rightarrow> char \<Rightarrow> string" where
  "TailnetAttachment_Format a state verb =
     ''TailnetAttachment{AuthKey:[REDACTED] Provider:'' @ go_quote (ta_Provider a) @
     '' Hostname:'' @ go_quote (ta_Hostname a) @ '' Tags:'' @ show_slice (ta_Tags a) @
     '' Ephemeral:'' @ show_bool (ta_Ephemeral a) @ '' ControlURL:'' @ go_quote (ta_ControlURL a) @
     '' ExitNode:'' @ go_quote (ta_ExitNode a) @ '' AcceptRoutes:'' @ show_bool (ta_AcceptRoutes a) @
     '' WakeOnConnect:'' @ show_bool (ta_WakeOnConnect a) @
     '' ExposePorts:'' @ show_slice (map show_int (ta_ExposePorts a)) @
     '' WaitForOnline:'' @ show_bool (ta_WaitForOnline a) @ '' ExitPolicy:'' @ go_quote (ta_ExitPolicy a) @
     '' EphemeralPausePolicy:'' @ go_quote (ta_EphemeralPausePolicy a) @ ''}''"

section \<open>Properties\<close>

text \<open>The exported fields, and what is written of them.\<close>

lemma format_fields_exported:
  "format_fields fprintf state verb first fs =
     format_fields fprintf state verb first (filter (\<lambda>f. IsExported (fst f)) fs)"
  by (induction fs arbitrary: first) auto

lemma format_fields_joined:
  "list_all (\<lambda>f. IsExported (fst f)) fs \<Longrightarrow>
   format_fields fprintf state verb first fs =
     (if first \<or> fs = [] then [] else if goSyntax state verb then '', '' else '' '') @
     join_with (if goSyntax state verb then '', '' else '' '') (map (format_field fprintf state verb) fs)"
proof (induction fs arbitrary: first)
  case (Cons f fs)
  then show ?case by (cases fs) auto
qed simp

lemma hidden_not_exported:
  "filter (\<lambda>f. IsExported (fst f)) (map (hidden_field hidden credential) hidden_names) = []"
  by (simp add: hidden_names_def hidden_field_def IsExported_def)

lemma view_exported: "list_all (\<lambda>f. IsExported (fst f)) (view_fields addr s)"
  by (simp add: view_fields_def pointer_field_def IsExported_def)

lemma client_not_exported: "\<not> IsExported ''client''"
  by (simp add: IsExported_def)

lemma git_exported: "IsExported (fst (pointer_field addr ''Git'' ty formats v))"
  by (simp add: IsExported_def pointer_field_def)

lemma session_exported:
  "filter (\<lambda>f. IsExported (fst f)) (session_fields addr s) =
     pointer_field addr ''Git'' ''*sandbox.Git'' False (if ss_git s then Some () else None) # view_fields addr (ss_view s)"
proof -
  have "filter (\<lambda>f. IsExported (fst f)) (view_fields addr (ss_view s)) = view_fields addr (ss_view s)"
    using view_exported by (simp add: filter_id_conv list_all_iff)
  then show ?thesis
    by (simp add: session_fields_def hidden_not_exported client_not_exported git_exported)
qed

text \<open>C12: Every way of printing a session writes exactly its exported fields, in the order of the declaration, each one
  once; so two sessions with the same view print alike whatever credential and data plane they hold, and the printed
  client and tailnet attachment do not depend on the token and the key.\<close>

theorem formatting_hides_credentials:
  "Session_Format fprintf addr (Some s) state verb =
     (if goSyntax state verb then ''&sandbox.Session{'' else ''&{'') @
     join_with (if goSyntax state verb then '', '' else '' '')
       (map (format_field fprintf state verb)
         (pointer_field addr ''Git'' ''*sandbox.Git'' False (if ss_git s then Some () else None) #
          view_fields addr (ss_view s))) @ ''}'' \<and>
   Session_Format fprintf addr (Some (s\<lparr>ss_credential := credential, ss_hidden := hidden\<rparr>)) state verb =
     Session_Format fprintf addr (Some s) state verb \<and>
   Client_Format (Some (c\<lparr>ck_authToken := token\<rparr>)) state verb = Client_Format (Some c) state verb \<and>
   Client_LogValue (Some (c\<lparr>ck_authToken := token\<rparr>)) = Client_LogValue (Some c) \<and>
   TailnetAttachment_Format (a\<lparr>ta_AuthKey := key\<rparr>) state verb = TailnetAttachment_Format a state verb"
proof -
  have fields: "format_fields fprintf state verb True (session_fields addr s) =
      join_with (if goSyntax state verb then '', '' else '' '')
       (map (format_field fprintf state verb)
         (pointer_field addr ''Git'' ''*sandbox.Git'' False (if ss_git s then Some () else None) #
          view_fields addr (ss_view s)))" for s
    unfolding format_fields_exported [of _ _ _ _ "session_fields addr s"] session_exported
    by (subst format_fields_joined) (simp_all add: git_exported view_exported del: join_with.simps)
  show ?thesis
    by (simp add: Session_Format_def formatExportedFields_def fields Client_Format_def Client_String_def
        Client_LogValue_def TailnetAttachment_Format_def del: join_with.simps)
qed

lemma reveal_newSecret [simp]: "reveal (newSecret v) = v"
  by (simp add: newSecret_def)

end
