(* ===== verification/RequestId.thy ===== *)
theory RequestId
  imports GoStrings "HOL-Library.Word"
begin

unbundle bit_operations_syntax

text \<open>
  Request identifiers (\<open>secretRequestID\<close> in \<open>workspace/secrets.go\<close>): the caller's, or a random UUID of version 4.
  The array that \<open>rand.Read\<close> fills is a function of which the places 0 to 15 count, or the read fails.
\<close>

section \<open>Hexadecimal text\<close>

text \<open>The verb \<open>%x\<close> on a slice of bytes.\<close>

definition hex_byte :: "8 word \<Rightarrow> string" where
  "hex_byte w = [hex_digit (unat w div 16), hex_digit (unat w mod 16)]"

definition hex_bytes :: "8 word list \<Rightarrow> string" where
  "hex_bytes ws = concat (map hex_byte ws)"

definition hex_chars :: string where
  "hex_chars = ''0123456789abcdef''"

fun hex_value :: "char \<Rightarrow> nat" where
  "hex_value c = (if byte c < 58 then byte c - 48 else byte c - 87)"

fun read_hex :: "string \<Rightarrow> 8 word list" where
  "read_hex (c # d # s) = word_of_nat (16 * hex_value c + hex_value d) # read_hex s"
| "read_hex s = []"

lemma hex_digits_table: "list_all (\<lambda>n. hex_digit n \<in> set hex_chars \<and> hex_value (hex_digit n) = n) [0..<16]"
  by code_simp

lemma hex_digit_char: "n < 16 \<Longrightarrow> hex_digit n \<in> set hex_chars"
  using hex_digits_table by (simp add: list_all_iff)

lemma hex_value_digit: "n < 16 \<Longrightarrow> hex_value (hex_digit n) = n"
  using hex_digits_table by (simp add: list_all_iff)

lemma byte_digits: "unat (w :: 8 word) div 16 < 16"
  using unsigned_less [of w, where 'a = nat] by simp

lemma set_hex_bytes: "set (hex_bytes ws) \<subseteq> set hex_chars"
  by (auto simp: hex_bytes_def hex_byte_def hex_digit_char byte_digits)

lemma length_hex_bytes [simp]: "length (hex_bytes ws) = 2 * length ws"
  by (induction ws) (simp_all add: hex_bytes_def hex_byte_def)

lemma read_hex_bytes [simp]: "read_hex (hex_bytes ws) = ws"
proof (induction ws)
  case (Cons w ws)
  have "16 * (unat w div 16) + unat w mod 16 = unat w" by simp
  with Cons show ?case
    by (simp add: hex_bytes_def hex_byte_def hex_value_digit byte_digits del: hex_value.simps)
qed (simp add: hex_bytes_def)

section \<open>The identifier\<close>

type_synonym random_read = "string + (nat \<Rightarrow> 8 word)"

text \<open>The version goes to the high half of byte 6, the variant to the two high bits of byte 8.\<close>

definition uuid_bits :: "(nat \<Rightarrow> 8 word) \<Rightarrow> nat \<Rightarrow> 8 word" where
  "uuid_bits b = b(6 := (b 6 AND 0x0F) OR 0x40, 8 := (b 8 AND 0x3F) OR 0x80)"

definition uuid_text :: "(nat \<Rightarrow> 8 word) \<Rightarrow> string" where
  "uuid_text b =
     hex_bytes (map b [0..<4]) @ ''-'' @ hex_bytes (map b [4..<6]) @ ''-'' @ hex_bytes (map b [6..<8]) @ ''-'' @
     hex_bytes (map b [8..<10]) @ ''-'' @ hex_bytes (map b [10..<16])"

definition secretRequestID :: "random_read \<Rightarrow> string \<Rightarrow> string + string" where
  "secretRequestID rand reqid =
     (if reqid \<noteq> [] then Inr reqid
      else case rand of Inl err \<Rightarrow> Inl err | Inr b \<Rightarrow> Inr (uuid_text (uuid_bits b)))"

text \<open>What RFC 4122 asks of the text of a random UUID.\<close>

definition uuid_v4 :: "string \<Rightarrow> bool" where
  "uuid_v4 s \<longleftrightarrow>
     length s = 36 \<and> map (\<lambda>i. s ! i) [8, 13, 14, 18, 23] = ''--4--'' \<and> s ! 19 \<in> set ''89ab'' \<and>
     set s \<subseteq> insert (CHR ''-'') (set hex_chars)"

definition uuid_bytes :: "string \<Rightarrow> 8 word list" where
  "uuid_bytes s = read_hex (filter (\<lambda>c. c \<noteq> CHR ''-'') s)"

lemma filter_hex_bytes [simp]: "filter (\<lambda>c. c \<noteq> CHR ''-'') (hex_bytes ws) = hex_bytes ws"
  using set_hex_bytes [of ws] by (auto simp: filter_id_conv hex_chars_def)

lemma hex_bytes_append: "hex_bytes (vs @ ws) = hex_bytes vs @ hex_bytes ws"
  by (simp add: hex_bytes_def)

lemma uuid_bytes_text: "uuid_bytes (uuid_text b) = map b [0..<16]"
proof -
  have "[0..<16] = [0..<4] @ [4..<6] @ [6..<8] @ [8..<10] @ [10..<16::nat]" by (simp add: upt_rec)
  then have "hex_bytes (map b [0..<4]) @ hex_bytes (map b [4..<6]) @ hex_bytes (map b [6..<8]) @
      hex_bytes (map b [8..<10]) @ hex_bytes (map b [10..<16]) = hex_bytes (map b [0..<16])"
    by (simp only: map_append hex_bytes_append)
  then show ?thesis by (simp add: uuid_bytes_def uuid_text_def)
qed

lemma uuid_text_inj: "uuid_text b = uuid_text c \<longleftrightarrow> map b [0..<16] = map c [0..<16]"
proof
  show "map b [0..<16] = map c [0..<16]" if "uuid_text b = uuid_text c" using that by (metis uuid_bytes_text)
next
  assume eq: "map b [0..<16] = map c [0..<16]"
  have *: "map b [i..<j] = map c [i..<j]" if "j \<le> 16" for i j using eq that by simp
  show "uuid_text b = uuid_text c" unfolding uuid_text_def
    using * [of 4 0] * [of 6 4] * [of 8 6] * [of 10 8] * [of 16 10] by (simp only: rel_simps simp_thms)
qed

text \<open>The two bytes that are fixed, by the high half of their values.\<close>

lemma hex_digit_values:
  "hex_digit 4 = CHR ''4''" "hex_digit 8 = CHR ''8''" "hex_digit 9 = CHR ''9''"
  "hex_digit 10 = CHR ''a''" "hex_digit 11 = CHR ''b''"
  by code_simp+

lemma version_byte: "hex_byte ((b AND 0x0F) OR 0x40) ! 0 = CHR ''4''"
proof -
  have "unat ((b AND 0x0F) OR 0x40 :: 8 word) = (unat b AND 15) OR 64"
    by (simp add: unsigned_or_eq unsigned_and_eq)
  also have "unat b AND 15 = take_bit 4 (unat b)" by (simp add: take_bit_eq_mask mask_eq_exp_minus_1)
  finally have "drop_bit 4 (unat ((b AND 0x0F) OR 0x40 :: 8 word)) = drop_bit 4 64"
    by (simp add: drop_bit_or drop_bit_take_bit)
  then have "unat ((b AND 0x0F) OR 0x40 :: 8 word) div 16 = 4" by (simp add: drop_bit_eq_div)
  then show ?thesis by (simp add: hex_byte_def hex_digit_values)
qed

lemma variant_byte: "hex_byte ((b AND 0x3F) OR 0x80) ! 0 \<in> set ''89ab''"
proof -
  have "unat ((b AND 0x3F) OR 0x80 :: 8 word) = (unat b AND 63) OR 128"
    by (simp add: unsigned_or_eq unsigned_and_eq)
  also have "unat b AND 63 = take_bit 6 (unat b)" by (simp add: take_bit_eq_mask mask_eq_exp_minus_1)
  finally have "drop_bit 4 (unat ((b AND 0x3F) OR 0x80 :: 8 word)) = take_bit 2 (drop_bit 4 (unat b)) OR drop_bit 4 128"
    by (simp add: drop_bit_or drop_bit_take_bit)
  moreover have "take_bit 2 (drop_bit 4 (unat b)) \<in> {0, 1, 2, 3}"
    using take_bit_nat_less_exp [of 2 "drop_bit 4 (unat b)"] by auto
  ultimately have "unat ((b AND 0x3F) OR 0x80 :: 8 word) div 16 \<in> {8, 9, 10, 11}"
    by (auto simp: drop_bit_eq_div)
  then show ?thesis by (auto simp: hex_byte_def hex_digit_values)
qed

lemma hex_bytes_Cons: "hex_bytes (w # ws) = hex_byte w @ hex_bytes ws"
  by (simp add: hex_bytes_def)

lemma uuid_v4_text: "uuid_v4 (uuid_text (uuid_bits b))"
proof -
  have "[6..<8] = [6, 7::nat]" "[8..<10] = [8, 9::nat]" by (simp_all add: upt_rec)
  then have halves: "hex_bytes (map (uuid_bits b) [6..<8]) ! 0 = CHR ''4''"
      "hex_bytes (map (uuid_bits b) [8..<10]) ! 0 \<in> set ''89ab''"
    using version_byte [of "b 6"] variant_byte [of "b 8"]
    by (simp_all add: hex_bytes_Cons nth_append uuid_bits_def hex_byte_def)
  have "set (uuid_text (uuid_bits b)) \<subseteq> insert (CHR ''-'') (set hex_chars)"
    using set_hex_bytes by (auto simp: uuid_text_def)
  then show ?thesis using halves by (simp add: uuid_v4_def uuid_text_def nth_append del: upt_rec_numeral)
qed

text \<open>C35: A mutation is identified by the caller's text as it is, or else by the text of a random UUID of version 4, from
  which the random bytes can be read back: two generated identifiers are equal exactly when they agree on the 122
  bits that are random. If the random bytes cannot be read there is no identifier.\<close>

theorem request_id_uuid:
  "secretRequestID rand (c # cs) = Inr (c # cs) \<and> secretRequestID (Inl err) [] = Inl err \<and>
   (case secretRequestID (Inr b) [] of
      Inl err \<Rightarrow> False
    | Inr u \<Rightarrow> uuid_v4 u \<and> uuid_bytes u = map (uuid_bits b) [0..<16]) \<and>
   (secretRequestID (Inr b) [] = secretRequestID (Inr b') []) =
     (map (uuid_bits b) [0..<16] = map (uuid_bits b') [0..<16])"
  by (simp add: secretRequestID_def uuid_v4_text uuid_bytes_text uuid_text_inj del: map_eq_conv)

end
