(* ===== verification/Workspace.thy ===== *)
theory Workspace
  imports RequestId ClientInfo CreateRequest
begin

text \<open>
  The workspace client (\<open>workspace/client.go\<close>, \<open>workspace/secrets.go\<close>, \<open>workspace/policies.go\<close>): the construction of
  the client, the calls on secrets, their versions and repositories, and the calls on request policies. The server
  is a function \<open>serve\<close> on a state of its own, the random bytes are the argument \<open>rand\<close>; every call also returns the
  requests it has sent. A timestamp is nil or a time; a message that the server left out is \<open>None\<close>.
\<close>

section \<open>Errors\<close>

text \<open>\<open>WorkspaceSecretError\<close> carries a code and its cause; other errors are returned as they are.\<close>

datatype ws_error = WorkspaceSecretError (ws_code: code) (ws_cause: go_error) | OtherError (ws_cause: go_error)

definition WorkspaceSecretError_Unwrap :: "ws_error \<Rightarrow> go_error option" where
  "WorkspaceSecretError_Unwrap e = (case e of WorkspaceSecretError c err \<Rightarrow> Some err | OtherError err \<Rightarrow> errors_Unwrap err)"

text \<open>\<open>Error\<close>, on top of the texts of the causes.\<close>

definition WorkspaceSecretError_Error :: "(go_error \<Rightarrow> string) \<Rightarrow> ws_error \<Rightarrow> string" where
  "WorkspaceSecretError_Error text e = text (ws_cause e)"

definition workspaceSecretError :: "go_error \<Rightarrow> ws_error" where
  "workspaceSecretError err =
     (case as_connect err of None \<Rightarrow> OtherError err | Some rpcError \<Rightarrow> WorkspaceSecretError (connect_code rpcError) err)"

section \<open>Messages and metadata\<close>

type_synonym uint = "32 word"
type_synonym bytes = "8 word list"

record secret_message =
  sg_id :: string
  sg_workspace_id :: string
  sg_name :: string
  sg_active_version :: uint
  sg_revision :: uint
  sg_created_at :: "gotime option"
  sg_updated_at :: "gotime option"
  sg_revoked_at :: "gotime option"
  sg_deleted_at :: "gotime option"
  sg_repository :: string

record workspace_secret =
  ws_ID :: string
  ws_WorkspaceID :: string
  ws_Name :: string
  ws_Repository :: string
  ws_ActiveVersion :: uint
  ws_Revision :: uint
  ws_CreatedAt :: "gotime option"
  ws_UpdatedAt :: "gotime option"
  ws_RevokedAt :: "gotime option"
  ws_DeletedAt :: "gotime option"

record workspace_secret_version =
  wv_Version :: uint
  wv_CreatedAt :: "gotime option"
  wv_RevokedAt :: "gotime option"

text \<open>A nil timestamp stays nil, another is copied.\<close>

definition secretTime :: "gotime option \<Rightarrow> gotime option" where
  "secretTime ts = (case ts of None \<Rightarrow> None | Some t \<Rightarrow> Some t)"

definition secretMetadata :: "secret_message option \<Rightarrow> (ws_error, workspace_secret) result" where
  "secretMetadata secret =
     (case secret of
        None \<Rightarrow> Inl (OtherError (Plain ''missing secret metadata''))
      | Some m \<Rightarrow> Inr \<lparr>ws_ID = sg_id m, ws_WorkspaceID = sg_workspace_id m, ws_Name = sg_name m, ws_Repository = sg_repository m,
          ws_ActiveVersion = sg_active_version m, ws_Revision = sg_revision m,
          ws_CreatedAt = secretTime (sg_created_at m), ws_UpdatedAt = secretTime (sg_updated_at m),
          ws_RevokedAt = secretTime (sg_revoked_at m), ws_DeletedAt = secretTime (sg_deleted_at m)\<rparr>)"

record secret_request_rule =
  rr_origin :: string
  rr_methods :: "string list"
  rr_path_prefix :: string
  rr_header :: string
  rr_query_parameter :: string
  rr_json_pointer :: string
  rr_secrets :: "string list"

record secret_access_policy =
  ap_id :: string
  ap_workspace_id :: string
  ap_name :: string
  ap_revision :: uint
  ap_rules :: "secret_request_rule option list"
  ap_created_at :: "gotime option"
  ap_updated_at :: "gotime option"
  ap_deleted_at :: "gotime option"
  ap_attached_session_count :: uint

record workspace_secret_policy =
  wp_ID :: string
  wp_WorkspaceID :: string
  wp_Name :: string
  wp_Revision :: uint
  wp_AttachedSessionCount :: uint
  wp_Rules :: "secret_request_rule option list"
  wp_CreatedAt :: "gotime option"
  wp_UpdatedAt :: "gotime option"
  wp_DeletedAt :: "gotime option"

text \<open>The rules are values here, so a clone is the rule itself.\<close>

definition policyMetadata :: "secret_access_policy option \<Rightarrow> (ws_error, workspace_secret_policy) result" where
  "policyMetadata p =
     (case p of
        None \<Rightarrow> Inl (OtherError (Plain ''missing secret policy metadata''))
      | Some m \<Rightarrow> Inr \<lparr>wp_ID = ap_id m, wp_WorkspaceID = ap_workspace_id m, wp_Name = ap_name m, wp_Revision = ap_revision m,
          wp_AttachedSessionCount = ap_attached_session_count m, wp_Rules = map (\<lambda>r. r) (ap_rules m),
          wp_CreatedAt = secretTime (ap_created_at m), wp_UpdatedAt = secretTime (ap_updated_at m),
          wp_DeletedAt = secretTime (ap_deleted_at m)\<rparr>)"

section \<open>Requests\<close>

text \<open>The messages that are sent; \<open>rq_value\<close> of an update and the versions are nil or given.\<close>

datatype ws_request =
    CreateSecretRequest (rq_workspace: string) (rq_name: string) (rq_bytes: bytes) (rq_id: string) (rq_repository: string)
  | UpdateSecretRequest (rq_workspace: string) (rq_secret: string) (rq_value: "bytes option") (rq_revision: uint) (rq_id: string)
      (rq_active: "uint option")
  | GetSecretRequest (rq_workspace: string) (rq_secret: string)
  | ListSecretsRequest (rq_workspace: string) (rq_page: uint) (rq_cursor: string)
  | ListSecretRepositoriesRequest (rq_workspace: string) (rq_page: uint) (rq_cursor: string) (rq_search: string)
  | ListSecretVersionsRequest (rq_workspace: string) (rq_secret: string) (rq_page: uint) (rq_cursor: string)
  | RevokeSecretRequest (rq_workspace: string) (rq_secret: string) (rq_version: "uint option") (rq_revision: uint) (rq_id: string)
  | DeleteSecretRequest (rq_workspace: string) (rq_secret: string) (rq_revision: uint) (rq_id: string)
  | CreateSecretPolicyRequest (rq_workspace: string) (rq_name: string) (rq_rules: "secret_request_rule option list") (rq_id: string)
  | UpdateSecretPolicyRequest (rq_workspace: string) (rq_policy: string) (rq_rules: "secret_request_rule option list")
      (rq_revision: uint) (rq_id: string)
  | DeleteSecretPolicyRequest (rq_workspace: string) (rq_policy: string) (rq_revision: uint) (rq_id: string)
  | GetSecretPolicyRequest (rq_workspace: string) (rq_policy: string)
  | ListSecretPoliciesRequest (rq_workspace: string) (rq_page: uint) (rq_cursor: string)

text \<open>The state of the server afterwards, the requests that were sent, and the result.\<close>

type_synonym ('s, 'a) ws_call = "'s \<times> ws_request list \<times> (ws_error, 'a) result"
type_synonym ('s, 'r) ws_server = "'s \<Rightarrow> ws_request \<Rightarrow> 's \<times> (go_error, 'r) result"

definition refused :: "'s \<Rightarrow> go_error \<Rightarrow> ('s, 'a) ws_call" where
  "refused s err = (s, [], Inl (OtherError err))"

definition ws_send ::
  "('s, 'r) ws_server \<Rightarrow> 's \<Rightarrow> ('r \<Rightarrow> (ws_error, 'a) result) \<Rightarrow> ws_request \<Rightarrow> ('s, 'a) ws_call" where
  "ws_send serve s convert req =
     (case serve s req of
        (s, Inl err) \<Rightarrow> (s, [req], Inl (workspaceSecretError err))
      | (s, Inr response) \<Rightarrow> (s, [req], convert response))"

text \<open>The first lines of every mutation.\<close>

definition identified :: "random_read \<Rightarrow> string \<Rightarrow> 's \<Rightarrow> (string \<Rightarrow> ('s, 'a) ws_call) \<Rightarrow> ('s, 'a) ws_call" where
  "identified rand reqid s next =
     (case secretRequestID rand reqid of Inl err \<Rightarrow> refused s (Plain err) | Inr reqid \<Rightarrow> next reqid)"

section \<open>Secrets\<close>

record mutation_options =
  mo_ExpectedRevision :: uint
  mo_RequestID :: string

record update_options = mutation_options +
  uo_Value :: "bytes option"
  uo_ActiveVersion :: "uint option"

definition secrets_create ::
  "('s, secret_message option) ws_server \<Rightarrow> 's \<Rightarrow> random_read \<Rightarrow> string \<Rightarrow> string \<Rightarrow> string \<Rightarrow> bytes option \<Rightarrow> string
    \<Rightarrow> ('s, workspace_secret) ws_call" where
  "secrets_create serve s rand workspaceID repository name val reqid =
     (case val of
        None \<Rightarrow> refused s (Plain ''secret value required; use a non-nil empty slice for an empty value'')
      | Some v \<Rightarrow> identified rand reqid s
          (\<lambda>reqid. ws_send serve s secretMetadata (CreateSecretRequest workspaceID name v reqid repository)))"

definition Secrets_Create ::
  "('s, secret_message option) ws_server \<Rightarrow> 's \<Rightarrow> random_read \<Rightarrow> string \<Rightarrow> string \<Rightarrow> bytes option \<Rightarrow> string
    \<Rightarrow> ('s, workspace_secret) ws_call" where
  "Secrets_Create serve s rand workspaceID name val reqid = secrets_create serve s rand workspaceID [] name val reqid"

definition CreateForRepository ::
  "('s, secret_message option) ws_server \<Rightarrow> 's \<Rightarrow> random_read \<Rightarrow> string \<Rightarrow> string \<Rightarrow> string \<Rightarrow> bytes option \<Rightarrow> string
    \<Rightarrow> ('s, workspace_secret) ws_call" where
  "CreateForRepository serve s rand workspaceID repository name val reqid =
     (case Cut repository ''/'' of (owner, repo, ok) \<Rightarrow>
        if \<not> ok \<or> owner = [] \<or> repo = [] \<or> Contains repo ''/''
        then refused s (Plain (''repository must be owner/name, got '' @ go_quote repository))
        else secrets_create serve s rand workspaceID repository name val reqid)"

definition Secrets_Update ::
  "('s, secret_message option) ws_server \<Rightarrow> 's \<Rightarrow> random_read \<Rightarrow> string \<Rightarrow> string \<Rightarrow> update_options \<Rightarrow> ('s, workspace_secret) ws_call" where
  "Secrets_Update serve s rand workspaceID secretID options =
     identified rand (mo_RequestID options) s
       (\<lambda>reqid. ws_send serve s secretMetadata
          (UpdateSecretRequest workspaceID secretID (uo_Value options) (mo_ExpectedRevision options) reqid (uo_ActiveVersion options)))"

definition Secrets_Get ::
  "('s, secret_message option) ws_server \<Rightarrow> 's \<Rightarrow> string \<Rightarrow> string \<Rightarrow> ('s, workspace_secret) ws_call" where
  "Secrets_Get serve s workspaceID secretID = ws_send serve s secretMetadata (GetSecretRequest workspaceID secretID)"

text \<open>The loop of the listings: the first entry without metadata ends the call with its error.\<close>

fun metadata_loop :: "('m \<Rightarrow> (ws_error, 'a) result) \<Rightarrow> 'a list \<Rightarrow> 'm list \<Rightarrow> (ws_error, 'a list) result" where
  "metadata_loop convert acc [] = Inr acc"
| "metadata_loop convert acc (m # ms) =
     (case convert m of Inl err \<Rightarrow> Inl err | Inr a \<Rightarrow> metadata_loop convert (acc @ [a]) ms)"

definition with_cursor :: "string \<Rightarrow> (ws_error, 'a list) result \<Rightarrow> (ws_error, 'a list \<times> string) result" where
  "with_cursor cursor r = (case r of Inl err \<Rightarrow> Inl err | Inr xs \<Rightarrow> Inr (xs, cursor))"

definition Secrets_List ::
  "('s, secret_message option list \<times> string) ws_server \<Rightarrow> 's \<Rightarrow> string \<Rightarrow> uint \<Rightarrow> string
    \<Rightarrow> ('s, workspace_secret list \<times> string) ws_call" where
  "Secrets_List serve s workspaceID pageSize cursor =
     ws_send serve s (\<lambda>(secrets, next). with_cursor next (metadata_loop secretMetadata [] secrets))
       (ListSecretsRequest workspaceID pageSize cursor)"

definition ListRepositories ::
  "('s, string list \<times> string) ws_server \<Rightarrow> 's \<Rightarrow> string \<Rightarrow> uint \<Rightarrow> string \<Rightarrow> string \<Rightarrow> ('s, string list \<times> string) ws_call" where
  "ListRepositories serve s workspaceID pageSize cursor search =
     ws_send serve s Inr (ListSecretRepositoriesRequest workspaceID pageSize cursor search)"

definition ListVersions ::
  "('s, (uint \<times> gotime option \<times> gotime option) list \<times> string) ws_server \<Rightarrow> 's \<Rightarrow> string \<Rightarrow> string \<Rightarrow> uint \<Rightarrow> string
    \<Rightarrow> ('s, workspace_secret_version list \<times> string) ws_call" where
  "ListVersions serve s workspaceID secretID pageSize cursor =
     ws_send serve s
       (\<lambda>(versions, next). Inr (map (\<lambda>(v, created, revoked).
          \<lparr>wv_Version = v, wv_CreatedAt = secretTime created, wv_RevokedAt = secretTime revoked\<rparr>) versions, next))
       (ListSecretVersionsRequest workspaceID secretID pageSize cursor)"

definition Secrets_Revoke ::
  "('s, secret_message option) ws_server \<Rightarrow> 's \<Rightarrow> random_read \<Rightarrow> string \<Rightarrow> string \<Rightarrow> uint option \<Rightarrow> mutation_options
    \<Rightarrow> ('s, workspace_secret) ws_call" where
  "Secrets_Revoke serve s rand workspaceID secretID version options =
     identified rand (mo_RequestID options) s
       (\<lambda>reqid. ws_send serve s secretMetadata
          (RevokeSecretRequest workspaceID secretID version (mo_ExpectedRevision options) reqid))"

definition Secrets_Delete ::
  "('s, secret_message option) ws_server \<Rightarrow> 's \<Rightarrow> random_read \<Rightarrow> string \<Rightarrow> string \<Rightarrow> mutation_options
    \<Rightarrow> ('s, workspace_secret) ws_call" where
  "Secrets_Delete serve s rand workspaceID secretID options =
     identified rand (mo_RequestID options) s
       (\<lambda>reqid. ws_send serve s secretMetadata
          (DeleteSecretRequest workspaceID secretID (mo_ExpectedRevision options) reqid))"

section \<open>Policies\<close>

definition Policies_Create ::
  "('s, secret_access_policy option) ws_server \<Rightarrow> 's \<Rightarrow> random_read \<Rightarrow> string \<Rightarrow> string \<Rightarrow> secret_request_rule option list \<Rightarrow> string
    \<Rightarrow> ('s, workspace_secret_policy) ws_call" where
  "Policies_Create serve s rand workspaceID name rules reqid =
     identified rand reqid s
       (\<lambda>reqid. ws_send serve s policyMetadata (CreateSecretPolicyRequest workspaceID name rules reqid))"

definition Policies_Update ::
  "('s, secret_access_policy option) ws_server \<Rightarrow> 's \<Rightarrow> random_read \<Rightarrow> string \<Rightarrow> string \<Rightarrow> secret_request_rule option list
    \<Rightarrow> mutation_options \<Rightarrow> ('s, workspace_secret_policy) ws_call" where
  "Policies_Update serve s rand workspaceID policyID rules options =
     identified rand (mo_RequestID options) s
       (\<lambda>reqid. ws_send serve s policyMetadata
          (UpdateSecretPolicyRequest workspaceID policyID rules (mo_ExpectedRevision options) reqid))"

definition Policies_Delete ::
  "('s, secret_access_policy option) ws_server \<Rightarrow> 's \<Rightarrow> random_read \<Rightarrow> string \<Rightarrow> string \<Rightarrow> mutation_options
    \<Rightarrow> ('s, workspace_secret_policy) ws_call" where
  "Policies_Delete serve s rand workspaceID policyID options =
     identified rand (mo_RequestID options) s
       (\<lambda>reqid. ws_send serve s policyMetadata
          (DeleteSecretPolicyRequest workspaceID policyID (mo_ExpectedRevision options) reqid))"

definition Policies_Get ::
  "('s, secret_access_policy option) ws_server \<Rightarrow> 's \<Rightarrow> string \<Rightarrow> string \<Rightarrow> ('s, workspace_secret_policy) ws_call" where
  "Policies_Get serve s workspaceID nameOrID =
     ws_send serve s policyMetadata (GetSecretPolicyRequest workspaceID nameOrID)"

definition Policies_List ::
  "('s, secret_access_policy option list \<times> string) ws_server \<Rightarrow> 's \<Rightarrow> string \<Rightarrow> uint \<Rightarrow> string
    \<Rightarrow> ('s, workspace_secret_policy list \<times> string) ws_call" where
  "Policies_List serve s workspaceID pageSize cursor =
     ws_send serve s (\<lambda>(policies, next). with_cursor next (metadata_loop policyMetadata [] policies))
       (ListSecretPoliciesRequest workspaceID pageSize cursor)"

section \<open>The client\<close>

record 'h workspace_options =
  wo_WorkspaceID :: string
  wo_AuthToken :: string
  wo_BaseURL :: string
  wo_HTTPClient :: "'h option"

text \<open>The HTTP client is the caller's or the client's own, with its timeout.\<close>

datatype 'h http_client = SuppliedClient 'h | OwnClient duration

record 'h workspace_client =
  wk_httpClient :: "'h http_client"
  wk_ownsHTTPClient :: bool
  wk_workspaceID :: string
  wk_baseURL :: string
  wk_token :: string

datatype ws_sentinel = WsErrMissingAuthToken | WsErrInvalidAuthToken

primrec ws_sentinel_text :: "ws_sentinel \<Rightarrow> string" where
  "ws_sentinel_text WsErrMissingAuthToken = ''workspace: missing auth token; set TENKI_AUTH_TOKEN or TENKI_API_KEY''"
| "ws_sentinel_text WsErrInvalidAuthToken = ''workspace: API keys and service tokens must start with tk_''"

definition or_env :: "(string \<Rightarrow> string) \<Rightarrow> string \<Rightarrow> string \<Rightarrow> string" where
  "or_env getenv name v = (if v = [] then getenv name else v)"

definition NewWorkspaceClient ::
  "(string \<Rightarrow> string) \<Rightarrow> 'h workspace_options \<Rightarrow> ws_sentinel + 'h workspace_client" where
  "NewWorkspaceClient getenv options =
     (let token = TrimSpace (or_env getenv ''TENKI_API_KEY'' (or_env getenv ''TENKI_AUTH_TOKEN'' (wo_AuthToken options)))
      in if token = [] then Inl WsErrMissingAuthToken
         else if \<not> HasPrefix token ''tk_'' then Inl WsErrInvalidAuthToken
         else
           let baseURL = or_env getenv ''TENKI_CLOUD_API_URL'' (wo_BaseURL options);
               baseURL = (if baseURL = [] then ''https://api.tenki.cloud'' else baseURL)
           in Inr \<lparr>wk_httpClient =
                  (case wo_HTTPClient options of None \<Rightarrow> OwnClient (30 * Second) | Some h \<Rightarrow> SuppliedClient h),
                wk_ownsHTTPClient = (wo_HTTPClient options = None),
                wk_workspaceID = wo_WorkspaceID options, wk_baseURL = baseURL, wk_token = token\<rparr>)"

text \<open>The interceptor: the headers with which \<open>next\<close> is called.\<close>

definition ws_auth :: "build_info option \<Rightarrow> string \<Rightarrow> 'h workspace_client \<Rightarrow> headers \<Rightarrow> headers" where
  "ws_auth info version c header =
     SetHeaders info version (map_put ''authorization'' (''Bearer '' @ wk_token c) header)"

text \<open>\<open>Close\<close>: the clients whose idle connections are closed.\<close>

definition WorkspaceClient_Close :: "'h workspace_client \<Rightarrow> 'h http_client list" where
  "WorkspaceClient_Close c = (if wk_ownsHTTPClient c then [wk_httpClient c] else [])"

end
