(* ===== verification/WorkspaceSpec.thy ===== *)
theory WorkspaceSpec
  imports Workspace
begin

text \<open>
  What the workspace client promises: one request per call, with the scope of the client and the identifier of the
  caller; replays that the server can recognise; the status of errors; the scope of a repository; and the same
  tokens as the sandbox client.
\<close>

section \<open>Repositories\<close>

lemma Cut_char:
  "Cut s [d] = (hd (split_on d s), join_with [d] (tl (split_on d s)), tl (split_on d s) \<noteq> [])"
proof (induction s)
  case (Cons c s)
  then show ?case using join_split_on [of d s]
    by (cases "split_on d s") (auto simp: Cut_def split: option.splits prod.splits if_splits simp del: join_split_on)
qed (simp add: Cut_def)

lemma Contains_char: "Contains s [d] \<longleftrightarrow> d \<in> set s"
  by (induction s) auto

text \<open>The names that are accepted are those with two parts, both of them nonempty.\<close>

definition owner_and_name :: "string \<Rightarrow> bool" where
  "owner_and_name r \<longleftrightarrow> length (split_on (CHR ''/'') r) = 2 \<and> [] \<notin> set (split_on (CHR ''/'') r)"

lemma repository_accepted:
  "(case Cut r ''/'' of (owner, repo, ok) \<Rightarrow> \<not> ok \<or> owner = [] \<or> repo = [] \<or> Contains repo ''/'') = (\<not> owner_and_name r)"
proof -
  obtain w ws where p: "split_on (CHR ''/'') r = w # ws" by (metis list.exhaust split_on_neq_Nil)
  show ?thesis
  proof (cases ws)
    case (Cons v vs)
    have "CHR ''/'' \<notin> set v" using split_on_no_sep [of v "CHR ''/''" r] p Cons by simp
    then show ?thesis using p Cons
      by (cases vs) (auto simp: Cut_char Contains_char owner_and_name_def)
  qed (simp add: p Cut_char owner_and_name_def)
qed

lemma CreateForRepository_iff:
  "CreateForRepository serve s rand ws r name val reqid =
     (if owner_and_name r then secrets_create serve s rand ws r name val reqid
      else refused s (Plain (''repository must be owner/name, got '' @ go_quote r)))"
  using repository_accepted [of r] unfolding CreateForRepository_def by (cases "Cut r ''/''") auto

section \<open>One request\<close>

text \<open>
  A mutation with the identifier \<open>reqid\<close>: at most one request, in the scope of the client, identified as the caller
  wants or by a UUID; without a request the state of the server is as before and there is an error.
\<close>

definition mutation_ok :: "string \<Rightarrow> string \<Rightarrow> 's \<Rightarrow> ('s, 'a) ws_call \<Rightarrow> bool" where
  "mutation_ok ws reqid s call =
     (case call of (s', sent, r) \<Rightarrow>
        case sent of
          [] \<Rightarrow> s' = s \<and> \<not> is_ok r
        | [req] \<Rightarrow> rq_workspace req = ws \<and> (if reqid = [] then uuid_v4 (rq_id req) else rq_id req = reqid)
        | _ \<Rightarrow> False)"

lemma refused_ok [simp]: "mutation_ok ws reqid s (refused s err)"
  by (simp add: mutation_ok_def refused_def)

lemma identified_ok:
  assumes "\<And>u. rq_workspace (mk u) = ws \<and> rq_id (mk u) = u"
  shows "mutation_ok ws reqid s (identified rand reqid s (\<lambda>u. ws_send serve s conv (mk u)))"
  using assms uuid_v4_text
  by (auto simp: identified_def secretRequestID_def mutation_ok_def ws_send_def refused_def split: sum.split prod.split)

lemma create_ok: "mutation_ok ws reqid s (secrets_create serve s rand ws repo name val reqid)"
  by (simp add: secrets_create_def identified_ok split: option.split)

text \<open>C16: Every mutation sends at most one request, and never retries. The request names the workspace of the client
  and carries the caller's request ID, or a random UUID where there is none; a call that sends nothing returns an
  error. A repository reaches the server only as \<open>owner/name\<close> with both parts, and the value of an update is sent as
  it was given, with nil apart from empty.\<close>

theorem workspace_mutations_sound:
  "mutation_ok ws reqid s (Secrets_Create serve s rand ws name val reqid) \<and>
   mutation_ok ws reqid s (CreateForRepository serve s rand ws repo name val reqid) \<and>
   mutation_ok ws (mo_RequestID uo) s (Secrets_Update serve s rand ws secretID uo) \<and>
   mutation_ok ws (mo_RequestID mo) s (Secrets_Revoke serve s rand ws secretID version mo) \<and>
   mutation_ok ws (mo_RequestID mo) s (Secrets_Delete serve s rand ws secretID mo) \<and>
   mutation_ok ws reqid s (Policies_Create pserve s rand ws name rules reqid) \<and>
   mutation_ok ws (mo_RequestID mo) s (Policies_Update pserve s rand ws policyID rules mo) \<and>
   mutation_ok ws (mo_RequestID mo) s (Policies_Delete pserve s rand ws policyID mo) \<and>
   list_all (\<lambda>req. owner_and_name repo \<and> rq_repository req = repo)
     (fst (snd (CreateForRepository serve s rand ws repo name val reqid))) \<and>
   list_all (\<lambda>req. rq_value req = uo_Value uo \<and> rq_revision req = mo_ExpectedRevision uo \<and> rq_active req = uo_ActiveVersion uo)
     (fst (snd (Secrets_Update serve s rand ws secretID uo)))"
proof (intro conjI)
  show "list_all (\<lambda>req. owner_and_name repo \<and> rq_repository req = repo)
      (fst (snd (CreateForRepository serve s rand ws repo name val reqid)))"
    by (auto simp: CreateForRepository_iff secrets_create_def identified_def refused_def ws_send_def
        split: option.split sum.split prod.split)
  show "list_all (\<lambda>req. rq_value req = uo_Value uo \<and> rq_revision req = mo_ExpectedRevision uo \<and> rq_active req = uo_ActiveVersion uo)
      (fst (snd (Secrets_Update serve s rand ws secretID uo)))"
    by (auto simp: Secrets_Update_def identified_def refused_def ws_send_def split: sum.split prod.split)
qed (simp_all add: Secrets_Create_def CreateForRepository_iff Secrets_Update_def Secrets_Revoke_def Secrets_Delete_def
  Policies_Create_def Policies_Update_def Policies_Delete_def identified_ok create_ok)

section \<open>Replays\<close>

text \<open>
  The server's side of the contract: a request whose ID it has seen, sent again, changes nothing.
\<close>

definition replay_safe :: "('s, 'r) ws_server \<Rightarrow> bool" where
  "replay_safe serve \<longleftrightarrow> (\<forall>s req. fst (serve (fst (serve s req)) req) = fst (serve s req))"

text \<open>
  A call and its repetition after an uncertain result, with other random bytes: with an ID of the caller the request
  is the same and applies once, without one two independent requests are sent.
\<close>

definition replay_ok :: "string \<Rightarrow> random_read \<Rightarrow> random_read \<Rightarrow> 's \<Rightarrow> ('s \<Rightarrow> random_read \<Rightarrow> ('s, 'a) ws_call) \<Rightarrow> bool" where
  "replay_ok reqid rand rand' s op =
     (case op s rand of (s1, sent1, r1) \<Rightarrow> case op s1 rand' of (s2, sent2, r2) \<Rightarrow>
        if reqid \<noteq> [] then s2 = s1 \<and> sent2 = sent1
        else case (rand, rand') of
               (Inr b, Inr b') \<Rightarrow> (sent1 = sent2) = (map (uuid_bits b) [0..<16] = map (uuid_bits b') [0..<16])
             | _ \<Rightarrow> True)"

lemma identified_replay:
  assumes "replay_safe serve" and id: "\<And>u. rq_id (mk u) = u"
  shows "replay_ok reqid rand rand' s (\<lambda>s rand. identified rand reqid s (\<lambda>u. ws_send serve s conv (mk u)))"
proof -
  have inj: "mk u = mk v \<longleftrightarrow> u = v" for u v by (metis id)
  have sent: "\<exists>s' r. ws_send serve t conv (mk u) = (s', [mk u], r) \<and> s' = fst (serve t (mk u))" for t u
    by (cases "serve t (mk u)"; cases "snd (serve t (mk u))") (auto simp: ws_send_def)
  show ?thesis
  proof (cases "reqid = []")
    case False
    then show ?thesis using sent [of s reqid] sent [of "fst (serve s (mk reqid))" reqid] assms(1)
      by (auto simp: replay_ok_def identified_def secretRequestID_def replay_safe_def)
  next
    case True
    show ?thesis
    proof (cases "rand")
      case (Inr b)
      show ?thesis
      proof (cases "rand'")
        case r: (Inr b')
        let ?u = "uuid_text (uuid_bits b)" and ?v = "uuid_text (uuid_bits b')"
        show ?thesis using sent [of s ?u] sent [of "fst (serve s (mk ?u))" ?v] True Inr r
          by (auto simp: replay_ok_def identified_def secretRequestID_def inj uuid_text_inj simp del: map_eq_conv)
      qed (use True Inr sent [of s "uuid_text (uuid_bits b)"] in \<open>auto simp: replay_ok_def identified_def secretRequestID_def refused_def\<close>)
    qed (use True in \<open>auto simp: replay_ok_def identified_def secretRequestID_def refused_def split: sum.split prod.split\<close>)
  qed
qed

lemma create_replay:
  "replay_safe serve \<Longrightarrow> val \<noteq> None \<Longrightarrow>
     replay_ok reqid rand rand' s (\<lambda>s rand. secrets_create serve s rand ws repo name val reqid)"
  by (auto simp: secrets_create_def intro!: identified_replay)

text \<open>C17: On a server that recognises the IDs of requests, a mutation that is repeated with the caller's request ID and
  the same arguments sends the same request and changes nothing more, whatever the random bytes are. Without an ID
  the repetition is another request, unless the random bits coincide.\<close>

theorem workspace_replays:
  assumes "replay_safe serve" and "replay_safe pserve" and "val \<noteq> None"
  shows
    "replay_ok reqid rand rand' s (\<lambda>s rand. Secrets_Create serve s rand ws name val reqid) \<and>
     replay_ok (mo_RequestID uo) rand rand' s (\<lambda>s rand. Secrets_Update serve s rand ws secretID uo) \<and>
     replay_ok (mo_RequestID mo) rand rand' s (\<lambda>s rand. Secrets_Revoke serve s rand ws secretID version mo) \<and>
     replay_ok (mo_RequestID mo) rand rand' s (\<lambda>s rand. Secrets_Delete serve s rand ws secretID mo) \<and>
     replay_ok reqid rand rand' t (\<lambda>s rand. Policies_Create pserve s rand ws name rules reqid) \<and>
     replay_ok (mo_RequestID mo) rand rand' t (\<lambda>s rand. Policies_Update pserve s rand ws policyID rules mo) \<and>
     replay_ok (mo_RequestID mo) rand rand' t (\<lambda>s rand. Policies_Delete pserve s rand ws policyID mo)"
  unfolding Secrets_Create_def Secrets_Update_def Secrets_Revoke_def Secrets_Delete_def
    Policies_Create_def Policies_Update_def Policies_Delete_def
  using assms by (intro conjI identified_replay create_replay) simp_all

text \<open>A server that counts the requests it has not seen.\<close>

definition counting :: "(ws_request list \<times> nat, secret_message option) ws_server" where
  "counting s req = (if req \<in> set (fst s) then s else (req # fst s, Suc (snd s)), Inr None)"

definition counting_policies :: "(ws_request list \<times> nat, secret_access_policy option) ws_server" where
  "counting_policies s req = (if req \<in> set (fst s) then s else (req # fst s, Suc (snd s)), Inr None)"

lemma workspace_replays_witness:
  "let op = (\<lambda>s rand. Secrets_Create counting s rand ''ws'' ''TOKEN'' (Some []) ''id'') in
   snd (fst (op ([], 0) (Inl []))) = 1 \<and> snd (fst (op (fst (op ([], 0) (Inl []))) (Inl []))) = 1"
proof -
  have "replay_safe counting" "replay_safe counting_policies"
    by (auto simp: replay_safe_def counting_def counting_policies_def)
  then have "replay_ok ''id'' (Inl []) (Inl []) ([], 0)
      (\<lambda>s rand. Secrets_Create counting s rand ''ws'' ''TOKEN'' (Some []) ''id'')"
    using workspace_replays [of counting counting_policies "Some []" "''id''" "Inl []" "Inl []" "([], 0)" "''ws''" "''TOKEN''"]
    by simp
  then show ?thesis
    by (auto simp: replay_ok_def Secrets_Create_def secrets_create_def identified_def secretRequestID_def ws_send_def counting_def)
qed

section \<open>Errors and pages\<close>

lemma metadata_loop_Inr:
  "metadata_loop convert acc ms = Inr ys \<longleftrightarrow> (\<exists>xs. ys = acc @ xs \<and> map convert ms = map Inr xs)"
proof (induction ms arbitrary: acc)
  case (Cons m ms)
  then show ?case by (cases "convert m") (auto simp: Cons_eq_map_conv)
qed auto

text \<open>A page is returned only with the metadata of all its entries, in their order, and the server's cursor.\<close>

lemma page_exact:
  "snd (snd (ws_send serve s (\<lambda>(ms, next). with_cursor next (metadata_loop convert [] ms)) req)) = Inr (xs, cursor) \<longleftrightarrow>
   (\<exists>ms. snd (serve s req) = Inr (ms, cursor) \<and> map convert ms = map Inr xs)"
  by (auto simp: ws_send_def with_cursor_def metadata_loop_Inr split: sum.split prod.split)
    (metis append_Nil metadata_loop_Inr sum.distinct(1))+

text \<open>C31: A listing of secrets or policies succeeds exactly when the server answers and every entry has its metadata,
  and then with the metadata of all of them; an RPC error keeps its code, its text and its causes, and another
  error is returned as it is.\<close>

theorem workspace_answers_exact:
  "(snd (snd (Secrets_List sserve s ws n cur)) = Inr (secrets, next) \<longleftrightarrow>
     (\<exists>ms. snd (sserve s (ListSecretsRequest ws n cur)) = Inr (ms, next) \<and> map secretMetadata ms = map Inr secrets)) \<and>
   (snd (snd (Policies_List pserve s ws n cur)) = Inr (policies, next) \<longleftrightarrow>
     (\<exists>ms. snd (pserve s (ListSecretPoliciesRequest ws n cur)) = Inr (ms, next) \<and> map policyMetadata ms = map Inr policies)) \<and>
   (case workspaceSecretError err of
      WorkspaceSecretError c cause \<Rightarrow> as_connect err \<noteq> None \<and> c = CodeOf err \<and> cause = err
    | OtherError cause \<Rightarrow> as_connect err = None \<and> cause = err) \<and>
   WorkspaceSecretError_Error text (workspaceSecretError err) = text err"
  unfolding Secrets_List_def Policies_List_def page_exact
  by (auto simp: workspaceSecretError_def WorkspaceSecretError_Error_def CodeOf_def split: option.split)

section \<open>The client\<close>

definition same_refusal :: "ws_sentinel \<Rightarrow> sentinel" where
  "same_refusal e = (case e of WsErrMissingAuthToken \<Rightarrow> ErrMissingAuthToken | WsErrInvalidAuthToken \<Rightarrow> ErrInvalidAuthToken)"

lemma env_token:
  "cl_authToken (env_client_config getenv (defaultClientConfig handler)) =
     or_env getenv ''TENKI_API_KEY'' (or_env getenv ''TENKI_AUTH_TOKEN'' [])"
  by (simp add: env_client_config_def first_set_def or_env_def defaultClientConfig_def Let_def split: option.split)

lemma new_client:
  "NewWorkspaceClient getenv options = Inr c \<Longrightarrow>
     HasPrefix (wk_token c) ''tk_'' \<and> TrimSpace (wk_token c) = wk_token c \<and> wk_baseURL c \<noteq> [] \<and>
     wk_ownsHTTPClient c = (wo_HTTPClient options = None) \<and>
     wk_httpClient c = (case wo_HTTPClient options of None \<Rightarrow> OwnClient (30 * Second) | Some hc \<Rightarrow> SuppliedClient hc)"
  by (auto simp: NewWorkspaceClient_def Let_def split: if_splits)

lemma ws_auth_headers:
  "map_of (ws_auth info version c h) ''authorization'' = Some (''Bearer '' @ wk_token c)"
  "map_of (ws_auth info version c h) ''x-tenki-client-family'' = Some ''go''"
  by (simp_all add: ws_auth_def SetHeaders_lookup client_headers_def)

lemma env_tokens_agree:
  assumes "wo_AuthToken options = []"
  shows "case NewWorkspaceClient getenv options of
      Inl e \<Rightarrow> New getenv derive handler [] = Inl (Sentinel (same_refusal e))
    | Inr c \<Rightarrow> (case New getenv derive handler [] of Inl e \<Rightarrow> False | Inr c' \<Rightarrow> ci_authToken c' = wk_token c)"
  using assms by (auto simp: NewWorkspaceClient_def New_def env_token same_refusal_def Let_def)

text \<open>A workspace client only exists with a trimmed token that starts with \<open>tk_\<close>, sends it with the client metadata
  on every request, and closes the idle connections of its own HTTP client but never of the caller's. With the
  token left to the environment, it accepts and refuses exactly the tokens that the sandbox client does.\<close>

theorem workspace_client_sound:
  "(case NewWorkspaceClient getenv options of
      Inl e \<Rightarrow> True
    | Inr c \<Rightarrow> HasPrefix (wk_token c) ''tk_'' \<and> TrimSpace (wk_token c) = wk_token c \<and> wk_baseURL c \<noteq> [] \<and>
        map_of (ws_auth info version c h) ''authorization'' = Some (''Bearer '' @ wk_token c) \<and>
        map_of (ws_auth info version c h) ''x-tenki-client-family'' = Some ''go'' \<and>
        WorkspaceClient_Close c = (case wo_HTTPClient options of None \<Rightarrow> [OwnClient (30 * Second)] | Some hc \<Rightarrow> [])) \<and>
   (case NewWorkspaceClient getenv (options\<lparr>wo_AuthToken := []\<rparr>) of
      Inl e \<Rightarrow> New getenv derive handler [] = Inl (Sentinel (same_refusal e))
    | Inr c \<Rightarrow> (case New getenv derive handler [] of Inl e \<Rightarrow> False | Inr c' \<Rightarrow> ci_authToken c' = wk_token c))"
proof -
  have "NewWorkspaceClient getenv options = Inr c \<Longrightarrow>
      WorkspaceClient_Close c = (case wo_HTTPClient options of None \<Rightarrow> [OwnClient (30 * Second)] | Some hc \<Rightarrow> [])" for c
    using new_client [of getenv options c] by (simp add: WorkspaceClient_Close_def split: option.split)
  then show ?thesis
    using new_client [of getenv options] env_tokens_agree [of "options\<lparr>wo_AuthToken := []\<rparr>" getenv derive handler]
    by (cases "NewWorkspaceClient getenv options") (simp_all add: ws_auth_headers)
qed

end
