(* ===== verification/Procedures.thy ===== *)
theory Procedures
  imports Ssh Workspace
begin

text \<open>
  The generated RPC stubs (\<open>secrets.connect.go\<close>, \<open>sandbox.connect.go\<close>, \<open>ssh_gateway_client.connect.go\<close>): which URL a
  method of a client calls and how, and which method of the service its handler runs for a path. Each generated
  declaration is a row of a table. The identifiers of a service differ in one stem between fixed affixes: a constant
  \<open><Service><Stem>Procedure\<close>, a variable \<open><service><Stem>Handler\<close>; a row has the stem. The types of the messages are
  checked by the compiler and left out, and \<open>connect.NewClient\<close> and the handlers themselves are the library's.
\<close>

section \<open>Stubs\<close>

datatype call_kind = Unary | ServerStream | ClientStream | BidiStream

text \<open>
  The tables: constants with the last segment of their path (which starts with the name of the service), the fields
  of the client struct with constant and schema, the client's methods with field and kind, the handler variables
  with constant, method of the service, kind and schema, the cases of the \<open>switch\<close>, and the methods of the
  unimplemented handler with the name in their message.
\<close>

record service_stub =
  sb_name :: string
  sb_mount :: string
  sb_procedures :: "(string \<times> string) list"
  sb_fields :: "(string \<times> string \<times> string) list"
  sb_calls :: "(string \<times> string \<times> call_kind) list"
  sb_handlers :: "(string \<times> string \<times> string \<times> call_kind \<times> string) list"
  sb_switch :: "(string \<times> string) list"
  sb_unimplemented :: "(string \<times> string) list"

definition procedure_path :: "service_stub \<Rightarrow> string \<Rightarrow> string option" where
  "procedure_path st c = map_option (\<lambda>segment. ''/'' @ sb_name st @ ''/'' @ segment) (map_of (sb_procedures st) c)"

text \<open>The URL and the kind of a call of the client's method \<open>m\<close>, for the base URL of the constructor.\<close>

definition client_call :: "service_stub \<Rightarrow> string \<Rightarrow> string \<Rightarrow> (string \<times> call_kind) option" where
  "client_call st baseURL m =
     (case map_of (sb_calls st) m of
        None \<Rightarrow> None
      | Some (field, kind) \<Rightarrow>
          (case map_of (sb_fields st) field of
             None \<Rightarrow> None
           | Some (c, schema) \<Rightarrow> map_option (\<lambda>p. (trim_slashes baseURL @ p, kind)) (procedure_path st c)))"

text \<open>What the handler runs for the path of a request: the first case that matches, or nothing (not found).\<close>

definition serve_path :: "service_stub \<Rightarrow> string \<Rightarrow> (string \<times> call_kind) option" where
  "serve_path st path =
     (case List.find (\<lambda>(c, v). procedure_path st c = Some path) (sb_switch st) of
        None \<Rightarrow> None
      | Some (c, v) \<Rightarrow> map_option (\<lambda>(c', m, kind, schema). (m, kind)) (map_of (sb_handlers st) v))"

definition unimplemented :: "service_stub \<Rightarrow> string \<Rightarrow> go_error option" where
  "unimplemented st m = map_option (\<lambda>name.
     (let text = sb_name st @ ''.'' @ name @ '' is not implemented''
      in ConnectError CodeUnimplemented text text [] (Some (Plain text)))) (map_of (sb_unimplemented st) m)"

section \<open>Aligned tables\<close>

text \<open>
  A check that runs over the rows once: the tables list the methods in one order, under distinct names, and the rows of
  a method fit together.
\<close>

definition fitting :: "service_stub \<Rightarrow> bool" where
  "fitting st \<longleftrightarrow>
     sb_mount st = ''/'' @ sb_name st @ ''/'' \<and>
     map fst (sb_procedures st) = map snd (sb_procedures st) \<and>
     sb_fields st = map (\<lambda>((c, segment), (m, field, kind)). (field, c, m)) (zip (sb_procedures st) (sb_calls st)) \<and>
     map fst (sb_calls st) = map fst (sb_procedures st) \<and>
     sb_handlers st = map (\<lambda>(m, field, kind). (m, m, m, kind, m)) (sb_calls st) \<and>
     sb_switch st = sb_procedures st \<and> sb_unimplemented st = sb_procedures st"

definition aligned :: "service_stub \<Rightarrow> bool" where
  "aligned st \<longleftrightarrow>
     fitting st \<and> distinct (map fst (sb_procedures st)) \<and> distinct (map fst (sb_fields st))"

text \<open>What the stubs of a service are for: a client's call is served by the method of its name, in its kind.\<close>

definition well_routed :: "service_stub \<Rightarrow> string \<Rightarrow> string \<Rightarrow> bool" where
  "well_routed st baseURL m =
     (case client_call st baseURL m of
        None \<Rightarrow> False
      | Some (url, kind) \<Rightarrow>
          let path = drop (length (trim_slashes baseURL)) url
          in url = trim_slashes baseURL @ path \<and> HasPrefix path (sb_mount st) \<and> serve_path st path = Some (m, kind) \<and>
             (case unimplemented st m of None \<Rightarrow> False | Some e \<Rightarrow> CodeOf e = CodeUnimplemented))"

lemma aligned_tables:
  assumes "aligned st"
  shows "map fst (sb_calls st) = map fst (sb_procedures st)" and "map snd (sb_procedures st) = map fst (sb_procedures st)"
    and "distinct (map fst (sb_procedures st))" and "distinct (map fst (sb_fields st))"
    and "sb_fields st = map (\<lambda>((c, segment), (m, field, kind)). (field, c, m)) (zip (sb_procedures st) (sb_calls st))"
    and "sb_handlers st = map (\<lambda>(m, field, kind). (m, m, m, kind, m)) (sb_calls st)"
    and "sb_switch st = sb_procedures st" and "sb_unimplemented st = sb_procedures st"
    and "sb_mount st = ''/'' @ sb_name st @ ''/''"
  using assms unfolding aligned_def fitting_def by (metis, metis, blast+)

lemma aligned_path:
  assumes "aligned st"
  shows "procedure_path st c = Some p \<longleftrightarrow> c \<in> set (map fst (sb_calls st)) \<and> p = ''/'' @ sb_name st @ ''/'' @ c"
proof -
  have self: "v = d" if "(d, v) \<in> set (sb_procedures st)" for d v
    using bspec [OF aligned_tables(2) [OF assms, unfolded map_eq_conv] that] by simp
  have "map_of (sb_procedures st) c = Some v \<longleftrightarrow> c \<in> set (map fst (sb_procedures st)) \<and> v = c" for v
    using self aligned_tables(3) [OF assms] by (force simp: map_of_eq_Some_iff)
  then show ?thesis by (auto simp: procedure_path_def aligned_tables(1) [OF assms] simp del: set_map)
qed

lemma aligned_call:
  assumes al: "aligned st" and call: "(m, field, kind) \<in> set (sb_calls st)"
  shows "map_of (sb_calls st) m = Some (field, kind)" and "map_of (sb_fields st) field = Some (m, m)"
    and "map_of (sb_handlers st) m = Some (m, m, kind, m)" and "map_of (sb_unimplemented st) m = Some m"
proof -
  note t = aligned_tables [OF al]
  have m: "m \<in> set (map fst (sb_calls st))" using call by force
  show "map_of (sb_calls st) m = Some (field, kind)" using call t(1,3) by simp
  obtain i where i: "i < length (sb_calls st)" "sb_calls st ! i = (m, field, kind)"
    using call by (auto simp: in_set_conv_nth)
  have ip: "i < length (sb_procedures st)" using i(1) t(1) by (metis length_map)
  have "map fst (sb_calls st) ! i = map fst (sb_procedures st) ! i" "map snd (sb_procedures st) ! i = map fst (sb_procedures st) ! i"
    by (simp_all only: t(1,2))
  then have p: "sb_procedures st ! i = (m, m)" using i ip by (cases "sb_procedures st ! i") simp
  have "i < length (sb_fields st)" "sb_fields st ! i = (field, m, m)"
    using i ip p by (simp_all add: t(5))
  then show "map_of (sb_fields st) field = Some (m, m)" using t(4) by (metis map_of_is_SomeI nth_mem)
  have "(m, m, m, kind, m) \<in> set (sb_handlers st)" using call unfolding t(6) by force
  moreover have "map fst (sb_handlers st) = map fst (sb_calls st)" unfolding t(6) by (simp add: case_prod_beta')
  ultimately show "map_of (sb_handlers st) m = Some (m, m, kind, m)" using t(1,3) by simp
  have "(m, m) \<in> set (sb_procedures st)" using p ip by (metis nth_mem)
  then show "map_of (sb_unimplemented st) m = Some m" using t(3) by (simp add: t(8))
qed

lemma aligned_serves:
  assumes al: "aligned st" and call: "(m, field, kind) \<in> set (sb_calls st)"
  shows "serve_path st (''/'' @ sb_name st @ ''/'' @ m) = Some (m, kind)"
proof -
  note t = aligned_tables [OF al]
  let ?p = "''/'' @ sb_name st @ ''/'' @ m"
  have m: "m \<in> set (map fst (sb_calls st))" using call by force
  then have path: "procedure_path st m = Some ?p" by (simp add: aligned_path [OF al] del: set_map)
  obtain v where "(m, v) \<in> set (sb_procedures st)" using m t(1) by auto
  then have "List.find (\<lambda>(c, v). procedure_path st c = Some ?p) (sb_procedures st) \<noteq> None"
    using path by (auto simp: find_None_iff)
  then obtain c w where cw: "List.find (\<lambda>(c, v). procedure_path st c = Some ?p) (sb_procedures st) = Some (c, w)" by auto
  then have cin: "(c, w) \<in> set (sb_procedures st)" and cp: "procedure_path st c = Some ?p"
    by (auto simp: find_Some_iff in_set_conv_nth)
  have "w = c" using bspec [OF t(2) [unfolded map_eq_conv] cin] by simp
  moreover have "c = m" using cp by (simp add: aligned_path [OF al] del: set_map)
  ultimately show ?thesis using cw aligned_call(3) [OF al call] by (simp add: serve_path_def t(7))
qed

lemma aligned_routed:
  assumes al: "aligned st" and m: "m \<in> set (map fst (sb_calls st))"
  shows "well_routed st baseURL m"
proof -
  obtain field kind where call: "(m, field, kind) \<in> set (sb_calls st)" using m by auto
  have "procedure_path st m = Some (''/'' @ sb_name st @ ''/'' @ m)" using m by (simp add: aligned_path [OF al] del: set_map)
  then have "client_call st baseURL m = Some (trim_slashes baseURL @ ''/'' @ sb_name st @ ''/'' @ m, kind)"
    by (simp add: client_call_def aligned_call [OF al call])
  then show ?thesis using aligned_serves [OF al call] aligned_call(4) [OF al call]
    by (simp add: well_routed_def aligned_tables(9) [OF al] unimplemented_def HasPrefix_iff CodeOf_def as_connect_def Let_def)
qed

lemma aligned_only:
  assumes al: "aligned st" and "serve_path st path = Some r"
  shows "\<exists>m \<in> set (map fst (sb_calls st)). path = ''/'' @ sb_name st @ ''/'' @ m"
  using assms(2)
  by (auto simp: serve_path_def find_Some_iff aligned_path [OF al] simp del: set_map split: option.splits)

section \<open>WorkspaceSecretsService\<close>

definition secrets_procedures :: "(string \<times> string) list" where
  "secrets_procedures =
    [(''CreateSecretPolicy'', ''CreateSecretPolicy''), (''UpdateSecretPolicy'', ''UpdateSecretPolicy''),
    (''GetSecretPolicy'', ''GetSecretPolicy''), (''ListSecretPolicies'', ''ListSecretPolicies''),
    (''DeleteSecretPolicy'', ''DeleteSecretPolicy''), (''CreateSecret'', ''CreateSecret''),
    (''UpdateSecret'', ''UpdateSecret''), (''GetSecret'', ''GetSecret''), (''ListSecrets'', ''ListSecrets''),
    (''ListSecretRepositories'', ''ListSecretRepositories''), (''StartSecretImport'', ''StartSecretImport''),
    (''GetSecretImport'', ''GetSecretImport''), (''ListSecretVersions'', ''ListSecretVersions''),
    (''RevokeSecret'', ''RevokeSecret''), (''DeleteSecret'', ''DeleteSecret'')]"

definition secrets_fields :: "(string \<times> string \<times> string) list" where
  "secrets_fields =
    [(''createSecretPolicy'', ''CreateSecretPolicy'', ''CreateSecretPolicy''),
    (''updateSecretPolicy'', ''UpdateSecretPolicy'', ''UpdateSecretPolicy''),
    (''getSecretPolicy'', ''GetSecretPolicy'', ''GetSecretPolicy''),
    (''listSecretPolicies'', ''ListSecretPolicies'', ''ListSecretPolicies''),
    (''deleteSecretPolicy'', ''DeleteSecretPolicy'', ''DeleteSecretPolicy''),
    (''createSecret'', ''CreateSecret'', ''CreateSecret''), (''updateSecret'', ''UpdateSecret'', ''UpdateSecret''),
    (''getSecret'', ''GetSecret'', ''GetSecret''), (''listSecrets'', ''ListSecrets'', ''ListSecrets''),
    (''listSecretRepositories'', ''ListSecretRepositories'', ''ListSecretRepositories''),
    (''startSecretImport'', ''StartSecretImport'', ''StartSecretImport''),
    (''getSecretImport'', ''GetSecretImport'', ''GetSecretImport''),
    (''listSecretVersions'', ''ListSecretVersions'', ''ListSecretVersions''),
    (''revokeSecret'', ''RevokeSecret'', ''RevokeSecret''), (''deleteSecret'', ''DeleteSecret'', ''DeleteSecret'')]"

definition secrets_calls :: "(string \<times> string \<times> call_kind) list" where
  "secrets_calls =
    [(''CreateSecretPolicy'', ''createSecretPolicy'', Unary), (''UpdateSecretPolicy'', ''updateSecretPolicy'', Unary),
    (''GetSecretPolicy'', ''getSecretPolicy'', Unary), (''ListSecretPolicies'', ''listSecretPolicies'', Unary),
    (''DeleteSecretPolicy'', ''deleteSecretPolicy'', Unary), (''CreateSecret'', ''createSecret'', Unary),
    (''UpdateSecret'', ''updateSecret'', Unary), (''GetSecret'', ''getSecret'', Unary),
    (''ListSecrets'', ''listSecrets'', Unary), (''ListSecretRepositories'', ''listSecretRepositories'', Unary),
    (''StartSecretImport'', ''startSecretImport'', Unary), (''GetSecretImport'', ''getSecretImport'', Unary),
    (''ListSecretVersions'', ''listSecretVersions'', Unary), (''RevokeSecret'', ''revokeSecret'', Unary),
    (''DeleteSecret'', ''deleteSecret'', Unary)]"

definition secrets_handlers :: "(string \<times> string \<times> string \<times> call_kind \<times> string) list" where
  "secrets_handlers =
    [(''CreateSecretPolicy'', ''CreateSecretPolicy'', ''CreateSecretPolicy'', Unary, ''CreateSecretPolicy''),
    (''UpdateSecretPolicy'', ''UpdateSecretPolicy'', ''UpdateSecretPolicy'', Unary, ''UpdateSecretPolicy''),
    (''GetSecretPolicy'', ''GetSecretPolicy'', ''GetSecretPolicy'', Unary, ''GetSecretPolicy''),
    (''ListSecretPolicies'', ''ListSecretPolicies'', ''ListSecretPolicies'', Unary, ''ListSecretPolicies''),
    (''DeleteSecretPolicy'', ''DeleteSecretPolicy'', ''DeleteSecretPolicy'', Unary, ''DeleteSecretPolicy''),
    (''CreateSecret'', ''CreateSecret'', ''CreateSecret'', Unary, ''CreateSecret''),
    (''UpdateSecret'', ''UpdateSecret'', ''UpdateSecret'', Unary, ''UpdateSecret''),
    (''GetSecret'', ''GetSecret'', ''GetSecret'', Unary, ''GetSecret''),
    (''ListSecrets'', ''ListSecrets'', ''ListSecrets'', Unary, ''ListSecrets''),
    (''ListSecretRepositories'', ''ListSecretRepositories'', ''ListSecretRepositories'', Unary, ''ListSecretRepositories''),
    (''StartSecretImport'', ''StartSecretImport'', ''StartSecretImport'', Unary, ''StartSecretImport''),
    (''GetSecretImport'', ''GetSecretImport'', ''GetSecretImport'', Unary, ''GetSecretImport''),
    (''ListSecretVersions'', ''ListSecretVersions'', ''ListSecretVersions'', Unary, ''ListSecretVersions''),
    (''RevokeSecret'', ''RevokeSecret'', ''RevokeSecret'', Unary, ''RevokeSecret''),
    (''DeleteSecret'', ''DeleteSecret'', ''DeleteSecret'', Unary, ''DeleteSecret'')]"

definition secrets_switch :: "(string \<times> string) list" where
  "secrets_switch =
    [(''CreateSecretPolicy'', ''CreateSecretPolicy''), (''UpdateSecretPolicy'', ''UpdateSecretPolicy''),
    (''GetSecretPolicy'', ''GetSecretPolicy''), (''ListSecretPolicies'', ''ListSecretPolicies''),
    (''DeleteSecretPolicy'', ''DeleteSecretPolicy''), (''CreateSecret'', ''CreateSecret''),
    (''UpdateSecret'', ''UpdateSecret''), (''GetSecret'', ''GetSecret''), (''ListSecrets'', ''ListSecrets''),
    (''ListSecretRepositories'', ''ListSecretRepositories''), (''StartSecretImport'', ''StartSecretImport''),
    (''GetSecretImport'', ''GetSecretImport''), (''ListSecretVersions'', ''ListSecretVersions''),
    (''RevokeSecret'', ''RevokeSecret''), (''DeleteSecret'', ''DeleteSecret'')]"

definition secrets_unimplemented :: "(string \<times> string) list" where
  "secrets_unimplemented =
    [(''CreateSecretPolicy'', ''CreateSecretPolicy''), (''UpdateSecretPolicy'', ''UpdateSecretPolicy''),
    (''GetSecretPolicy'', ''GetSecretPolicy''), (''ListSecretPolicies'', ''ListSecretPolicies''),
    (''DeleteSecretPolicy'', ''DeleteSecretPolicy''), (''CreateSecret'', ''CreateSecret''),
    (''UpdateSecret'', ''UpdateSecret''), (''GetSecret'', ''GetSecret''), (''ListSecrets'', ''ListSecrets''),
    (''ListSecretRepositories'', ''ListSecretRepositories''), (''StartSecretImport'', ''StartSecretImport''),
    (''GetSecretImport'', ''GetSecretImport''), (''ListSecretVersions'', ''ListSecretVersions''),
    (''RevokeSecret'', ''RevokeSecret''), (''DeleteSecret'', ''DeleteSecret'')]"

definition secrets_stub :: service_stub where
  "secrets_stub = \<lparr>sb_name = ''tenki.cloud.workspace.v1beta1.WorkspaceSecretsService'', sb_mount = ''/tenki.cloud.workspace.v1beta1.WorkspaceSecretsService/'',
     sb_procedures = secrets_procedures,
     sb_fields = secrets_fields,
     sb_calls = secrets_calls,
     sb_handlers = secrets_handlers,
     sb_switch = secrets_switch,
     sb_unimplemented = secrets_unimplemented\<rparr>"

lemma secrets_aligned: "aligned secrets_stub"
  by code_simp

section \<open>SandboxSessionDataPlaneService\<close>

definition guest_procedures :: "(string \<times> string) list" where
  "guest_procedures =
    [(''Run'', ''Run''), (''Dial'', ''Dial''), (''HostPortTunnel'', ''HostPortTunnel''), (''ReadFile'', ''ReadFile''),
    (''WriteFile'', ''WriteFile''), (''ReadFileStream'', ''ReadFileStream''),
    (''WriteFileStream'', ''WriteFileStream''), (''Stat'', ''Stat''), (''Mkdir'', ''Mkdir''),
    (''Remove'', ''Remove''), (''List'', ''List'')]"

definition guest_fields :: "(string \<times> string \<times> string) list" where
  "guest_fields =
    [(''run'', ''Run'', ''Run''), (''dial'', ''Dial'', ''Dial''),
    (''hostPortTunnel'', ''HostPortTunnel'', ''HostPortTunnel''), (''readFile'', ''ReadFile'', ''ReadFile''),
    (''writeFile'', ''WriteFile'', ''WriteFile''), (''readFileStream'', ''ReadFileStream'', ''ReadFileStream''),
    (''writeFileStream'', ''WriteFileStream'', ''WriteFileStream''), (''stat'', ''Stat'', ''Stat''),
    (''mkdir'', ''Mkdir'', ''Mkdir''), (''remove'', ''Remove'', ''Remove''), (''list'', ''List'', ''List'')]"

definition guest_calls :: "(string \<times> string \<times> call_kind) list" where
  "guest_calls =
    [(''Run'', ''run'', BidiStream), (''Dial'', ''dial'', BidiStream),
    (''HostPortTunnel'', ''hostPortTunnel'', BidiStream), (''ReadFile'', ''readFile'', Unary),
    (''WriteFile'', ''writeFile'', Unary), (''ReadFileStream'', ''readFileStream'', ServerStream),
    (''WriteFileStream'', ''writeFileStream'', ClientStream), (''Stat'', ''stat'', Unary),
    (''Mkdir'', ''mkdir'', Unary), (''Remove'', ''remove'', Unary), (''List'', ''list'', Unary)]"

definition guest_handlers :: "(string \<times> string \<times> string \<times> call_kind \<times> string) list" where
  "guest_handlers =
    [(''Run'', ''Run'', ''Run'', BidiStream, ''Run''), (''Dial'', ''Dial'', ''Dial'', BidiStream, ''Dial''),
    (''HostPortTunnel'', ''HostPortTunnel'', ''HostPortTunnel'', BidiStream, ''HostPortTunnel''),
    (''ReadFile'', ''ReadFile'', ''ReadFile'', Unary, ''ReadFile''),
    (''WriteFile'', ''WriteFile'', ''WriteFile'', Unary, ''WriteFile''),
    (''ReadFileStream'', ''ReadFileStream'', ''ReadFileStream'', ServerStream, ''ReadFileStream''),
    (''WriteFileStream'', ''WriteFileStream'', ''WriteFileStream'', ClientStream, ''WriteFileStream''),
    (''Stat'', ''Stat'', ''Stat'', Unary, ''Stat''), (''Mkdir'', ''Mkdir'', ''Mkdir'', Unary, ''Mkdir''),
    (''Remove'', ''Remove'', ''Remove'', Unary, ''Remove''), (''List'', ''List'', ''List'', Unary, ''List'')]"

definition guest_switch :: "(string \<times> string) list" where
  "guest_switch =
    [(''Run'', ''Run''), (''Dial'', ''Dial''), (''HostPortTunnel'', ''HostPortTunnel''), (''ReadFile'', ''ReadFile''),
    (''WriteFile'', ''WriteFile''), (''ReadFileStream'', ''ReadFileStream''),
    (''WriteFileStream'', ''WriteFileStream''), (''Stat'', ''Stat''), (''Mkdir'', ''Mkdir''),
    (''Remove'', ''Remove''), (''List'', ''List'')]"

definition guest_unimplemented :: "(string \<times> string) list" where
  "guest_unimplemented =
    [(''Run'', ''Run''), (''Dial'', ''Dial''), (''HostPortTunnel'', ''HostPortTunnel''), (''ReadFile'', ''ReadFile''),
    (''WriteFile'', ''WriteFile''), (''ReadFileStream'', ''ReadFileStream''),
    (''WriteFileStream'', ''WriteFileStream''), (''Stat'', ''Stat''), (''Mkdir'', ''Mkdir''),
    (''Remove'', ''Remove''), (''List'', ''List'')]"

definition guest_stub :: service_stub where
  "guest_stub = \<lparr>sb_name = ''tenki.sandbox.v1.SandboxSessionDataPlaneService'', sb_mount = ''/tenki.sandbox.v1.SandboxSessionDataPlaneService/'',
     sb_procedures = guest_procedures,
     sb_fields = guest_fields,
     sb_calls = guest_calls,
     sb_handlers = guest_handlers,
     sb_switch = guest_switch,
     sb_unimplemented = guest_unimplemented\<rparr>"

lemma guest_aligned: "aligned guest_stub"
  by code_simp

section \<open>SSHGatewayClientService\<close>

definition gateway_procedures :: "(string \<times> string) list" where
  "gateway_procedures =
    [(''IssueSandboxSSHCert'', ''IssueSandboxSSHCert''), (''ListActiveSSHGateways'', ''ListActiveSSHGateways'')]"

definition gateway_fields :: "(string \<times> string \<times> string) list" where
  "gateway_fields =
    [(''issueSandboxSSHCert'', ''IssueSandboxSSHCert'', ''IssueSandboxSSHCert''),
    (''listActiveSSHGateways'', ''ListActiveSSHGateways'', ''ListActiveSSHGateways'')]"

definition gateway_calls :: "(string \<times> string \<times> call_kind) list" where
  "gateway_calls =
    [(''IssueSandboxSSHCert'', ''issueSandboxSSHCert'', Unary),
    (''ListActiveSSHGateways'', ''listActiveSSHGateways'', Unary)]"

definition gateway_handlers :: "(string \<times> string \<times> string \<times> call_kind \<times> string) list" where
  "gateway_handlers =
    [(''IssueSandboxSSHCert'', ''IssueSandboxSSHCert'', ''IssueSandboxSSHCert'', Unary, ''IssueSandboxSSHCert''),
    (''ListActiveSSHGateways'', ''ListActiveSSHGateways'', ''ListActiveSSHGateways'', Unary, ''ListActiveSSHGateways'')]"

definition gateway_switch :: "(string \<times> string) list" where
  "gateway_switch =
    [(''IssueSandboxSSHCert'', ''IssueSandboxSSHCert''), (''ListActiveSSHGateways'', ''ListActiveSSHGateways'')]"

definition gateway_unimplemented :: "(string \<times> string) list" where
  "gateway_unimplemented =
    [(''IssueSandboxSSHCert'', ''IssueSandboxSSHCert''), (''ListActiveSSHGateways'', ''ListActiveSSHGateways'')]"

definition gateway_stub :: service_stub where
  "gateway_stub = \<lparr>sb_name = ''tenki.sandbox.v1.SSHGatewayClientService'', sb_mount = ''/tenki.sandbox.v1.SSHGatewayClientService/'',
     sb_procedures = gateway_procedures,
     sb_fields = gateway_fields,
     sb_calls = gateway_calls,
     sb_handlers = gateway_handlers,
     sb_switch = gateway_switch,
     sb_unimplemented = gateway_unimplemented\<rparr>"

lemma gateway_aligned: "aligned gateway_stub"
  by code_simp

end
