(* ===== verification/ControlProcedures.thy ===== *)
theory ControlProcedures
  imports Procedures
begin

text \<open>
  The tables of the control plane's service, \<open>SandboxService\<close> of \<open>sandbox.connect.go\<close>, in pieces of at most 25
  declarations.
\<close>

section \<open>SandboxService\<close>

definition control_procedures_1 :: "(string \<times> string) list" where
  "control_procedures_1 =
    [(''GetTailnetDefaults'', ''GetTailnetDefaults''), (''SaveTailnetDefaults'', ''SaveTailnetDefaults''),
    (''ListTailnetRunnerStatuses'', ''ListTailnetRunnerStatuses''),
    (''SaveTailnetRunnerConfiguration'', ''SaveTailnetRunnerConfiguration''),
    (''ListTailnetRunnerConfigurations'', ''ListTailnetRunnerConfigurations''),
    (''SaveTailnetConnection'', ''SaveTailnetConnection''), (''ListTailnetConnections'', ''ListTailnetConnections''),
    (''TestTailnetConnection'', ''TestTailnetConnection''), (''CreateSession'', ''CreateSession''),
    (''CreateSessionCredential'', ''CreateSessionCredential''), (''GetSession'', ''GetSession''),
    (''GetSessionMetrics'', ''GetSessionMetrics''), (''WaitSession'', ''WaitSession''),
    (''ListSessions'', ''ListSessions''), (''ListWorkspaceSandboxes'', ''ListWorkspaceSandboxes''),
    (''UpdateSession'', ''UpdateSession''), (''CreateVolume'', ''CreateVolume''), (''GetVolume'', ''GetVolume''),
    (''ListVolumes'', ''ListVolumes''), (''UpdateVolume'', ''UpdateVolume''), (''DeleteVolume'', ''DeleteVolume''),
    (''ResizeVolume'', ''ResizeVolume''), (''AttachVolume'', ''AttachVolume''), (''DetachVolume'', ''DetachVolume''),
    (''ExecuteCommand'', ''ExecuteCommand'')]"

definition control_procedures_2 :: "(string \<times> string) list" where
  "control_procedures_2 =
    [(''StreamCommandOutput'', ''StreamCommandOutput''), (''GitOperation'', ''GitOperation''),
    (''PauseSession'', ''PauseSession''), (''ResumeSession'', ''ResumeSession''),
    (''TerminateSession'', ''TerminateSession''), (''TerminateSessions'', ''TerminateSessions''),
    (''ExtendSession'', ''ExtendSession''), (''GetArtifactUploadUrl'', ''GetArtifactUploadUrl''),
    (''GetArtifactDownloadUrl'', ''GetArtifactDownloadUrl''), (''ExposePort'', ''ExposePort''),
    (''OpenPreview'', ''OpenPreview''), (''TouchPreview'', ''TouchPreview''),
    (''ReportSessionActivity'', ''ReportSessionActivity''), (''UnexposePort'', ''UnexposePort''),
    (''ListExposedPorts'', ''ListExposedPorts''), (''CreatePreviewUrl'', ''CreatePreviewUrl''),
    (''DeletePreviewUrl'', ''DeletePreviewUrl''), (''BindPreviewUrl'', ''BindPreviewUrl''),
    (''UnbindPreviewUrl'', ''UnbindPreviewUrl''), (''ListPreviewUrls'', ''ListPreviewUrls''),
    (''GetPreviewUrl'', ''GetPreviewUrl''), (''ResolvePreviewToken'', ''ResolvePreviewToken''),
    (''UpdateSSHAuthorizedKeys'', ''UpdateSSHAuthorizedKeys''), (''CreateSnapshot'', ''CreateSnapshot''),
    (''ForkSession'', ''ForkSession'')]"

definition control_procedures_3 :: "(string \<times> string) list" where
  "control_procedures_3 =
    [(''GetSnapshot'', ''GetSnapshot''), (''GetSnapshotDownloadURL'', ''GetSnapshotDownloadURL''),
    (''ListSnapshots'', ''ListSnapshots''), (''ListSessionSnapshots'', ''ListSessionSnapshots''),
    (''ListDanglingSnapshots'', ''ListDanglingSnapshots''), (''ListWorkspaceSnapshots'', ''ListWorkspaceSnapshots''),
    (''GetWorkspaceSandboxUsage'', ''GetWorkspaceSandboxUsage''),
    (''GetWorkspacePreviewDomains'', ''GetWorkspacePreviewDomains''),
    (''UpdateWorkspacePreviewDomains'', ''UpdateWorkspacePreviewDomains''), (''UpdateSnapshot'', ''UpdateSnapshot''),
    (''DeleteSnapshot'', ''DeleteSnapshot''), (''CreateTemplate'', ''CreateTemplate''),
    (''GetTemplate'', ''GetTemplate''), (''ListTemplates'', ''ListTemplates''),
    (''UpdateTemplate'', ''UpdateTemplate''), (''DeleteTemplate'', ''DeleteTemplate''),
    (''BuildTemplate'', ''BuildTemplate''), (''CancelTemplateBuild'', ''CancelTemplateBuild''),
    (''GetTemplateBuild'', ''GetTemplateBuild''), (''ListActiveTemplateBuilds'', ''ListActiveTemplateBuilds''),
    (''ListTemplateBuilds'', ''ListTemplateBuilds''), (''DeleteTemplateBuild'', ''DeleteTemplateBuild''),
    (''PublishRegistryImage'', ''PublishRegistryImage''),
    (''SetRegistryImageVisibility'', ''SetRegistryImageVisibility''),
    (''DeleteRegistryImage'', ''DeleteRegistryImage'')]"

definition control_procedures_4 :: "(string \<times> string) list" where
  "control_procedures_4 =
    [(''DeleteRegistryImageVersion'', ''DeleteRegistryImageVersion''),
    (''ListRegistryImages'', ''ListRegistryImages''), (''GetRegistryImage'', ''GetRegistryImage''),
    (''ResolveRegistryRef'', ''ResolveRegistryRef''), (''ShareImage'', ''ShareImage''),
    (''RevokeRegistryShareGrant'', ''RevokeRegistryShareGrant''),
    (''ListRegistryShareGrants'', ''ListRegistryShareGrants''), (''UnshareRegistryImage'', ''UnshareRegistryImage''),
    (''CreateEgressPolicy'', ''CreateEgressPolicy''), (''UpdateEgressPolicy'', ''UpdateEgressPolicy''),
    (''GetEgressPolicy'', ''GetEgressPolicy''), (''ListEgressPolicies'', ''ListEgressPolicies''),
    (''DeleteEgressPolicy'', ''DeleteEgressPolicy''), (''WhoAmI'', ''WhoAmI''),
    (''ListCIRunnerSizes'', ''ListCIRunnerSizes'')]"

definition control_fields_1 :: "(string \<times> string \<times> string) list" where
  "control_fields_1 =
    [(''getTailnetDefaults'', ''GetTailnetDefaults'', ''GetTailnetDefaults''),
    (''saveTailnetDefaults'', ''SaveTailnetDefaults'', ''SaveTailnetDefaults''),
    (''listTailnetRunnerStatuses'', ''ListTailnetRunnerStatuses'', ''ListTailnetRunnerStatuses''),
    (''saveTailnetRunnerConfiguration'', ''SaveTailnetRunnerConfiguration'', ''SaveTailnetRunnerConfiguration''),
    (''listTailnetRunnerConfigurations'', ''ListTailnetRunnerConfigurations'', ''ListTailnetRunnerConfigurations''),
    (''saveTailnetConnection'', ''SaveTailnetConnection'', ''SaveTailnetConnection''),
    (''listTailnetConnections'', ''ListTailnetConnections'', ''ListTailnetConnections''),
    (''testTailnetConnection'', ''TestTailnetConnection'', ''TestTailnetConnection''),
    (''createSession'', ''CreateSession'', ''CreateSession''),
    (''createSessionCredential'', ''CreateSessionCredential'', ''CreateSessionCredential''),
    (''getSession'', ''GetSession'', ''GetSession''),
    (''getSessionMetrics'', ''GetSessionMetrics'', ''GetSessionMetrics''),
    (''waitSession'', ''WaitSession'', ''WaitSession''), (''listSessions'', ''ListSessions'', ''ListSessions''),
    (''listWorkspaceSandboxes'', ''ListWorkspaceSandboxes'', ''ListWorkspaceSandboxes''),
    (''updateSession'', ''UpdateSession'', ''UpdateSession''), (''createVolume'', ''CreateVolume'', ''CreateVolume''),
    (''getVolume'', ''GetVolume'', ''GetVolume''), (''listVolumes'', ''ListVolumes'', ''ListVolumes''),
    (''updateVolume'', ''UpdateVolume'', ''UpdateVolume''), (''deleteVolume'', ''DeleteVolume'', ''DeleteVolume''),
    (''resizeVolume'', ''ResizeVolume'', ''ResizeVolume''), (''attachVolume'', ''AttachVolume'', ''AttachVolume''),
    (''detachVolume'', ''DetachVolume'', ''DetachVolume''),
    (''executeCommand'', ''ExecuteCommand'', ''ExecuteCommand'')]"

definition control_fields_2 :: "(string \<times> string \<times> string) list" where
  "control_fields_2 =
    [(''streamCommandOutput'', ''StreamCommandOutput'', ''StreamCommandOutput''),
    (''gitOperation'', ''GitOperation'', ''GitOperation''), (''pauseSession'', ''PauseSession'', ''PauseSession''),
    (''resumeSession'', ''ResumeSession'', ''ResumeSession''),
    (''terminateSession'', ''TerminateSession'', ''TerminateSession''),
    (''terminateSessions'', ''TerminateSessions'', ''TerminateSessions''),
    (''extendSession'', ''ExtendSession'', ''ExtendSession''),
    (''getArtifactUploadUrl'', ''GetArtifactUploadUrl'', ''GetArtifactUploadUrl''),
    (''getArtifactDownloadUrl'', ''GetArtifactDownloadUrl'', ''GetArtifactDownloadUrl''),
    (''exposePort'', ''ExposePort'', ''ExposePort''), (''openPreview'', ''OpenPreview'', ''OpenPreview''),
    (''touchPreview'', ''TouchPreview'', ''TouchPreview''),
    (''reportSessionActivity'', ''ReportSessionActivity'', ''ReportSessionActivity''),
    (''unexposePort'', ''UnexposePort'', ''UnexposePort''),
    (''listExposedPorts'', ''ListExposedPorts'', ''ListExposedPorts''),
    (''createPreviewUrl'', ''CreatePreviewUrl'', ''CreatePreviewUrl''),
    (''deletePreviewUrl'', ''DeletePreviewUrl'', ''DeletePreviewUrl''),
    (''bindPreviewUrl'', ''BindPreviewUrl'', ''BindPreviewUrl''),
    (''unbindPreviewUrl'', ''UnbindPreviewUrl'', ''UnbindPreviewUrl''),
    (''listPreviewUrls'', ''ListPreviewUrls'', ''ListPreviewUrls''),
    (''getPreviewUrl'', ''GetPreviewUrl'', ''GetPreviewUrl''),
    (''resolvePreviewToken'', ''ResolvePreviewToken'', ''ResolvePreviewToken''),
    (''updateSSHAuthorizedKeys'', ''UpdateSSHAuthorizedKeys'', ''UpdateSSHAuthorizedKeys''),
    (''createSnapshot'', ''CreateSnapshot'', ''CreateSnapshot''), (''forkSession'', ''ForkSession'', ''ForkSession'')]"

definition control_fields_3 :: "(string \<times> string \<times> string) list" where
  "control_fields_3 =
    [(''getSnapshot'', ''GetSnapshot'', ''GetSnapshot''),
    (''getSnapshotDownloadURL'', ''GetSnapshotDownloadURL'', ''GetSnapshotDownloadURL''),
    (''listSnapshots'', ''ListSnapshots'', ''ListSnapshots''),
    (''listSessionSnapshots'', ''ListSessionSnapshots'', ''ListSessionSnapshots''),
    (''listDanglingSnapshots'', ''ListDanglingSnapshots'', ''ListDanglingSnapshots''),
    (''listWorkspaceSnapshots'', ''ListWorkspaceSnapshots'', ''ListWorkspaceSnapshots''),
    (''getWorkspaceSandboxUsage'', ''GetWorkspaceSandboxUsage'', ''GetWorkspaceSandboxUsage''),
    (''getWorkspacePreviewDomains'', ''GetWorkspacePreviewDomains'', ''GetWorkspacePreviewDomains''),
    (''updateWorkspacePreviewDomains'', ''UpdateWorkspacePreviewDomains'', ''UpdateWorkspacePreviewDomains''),
    (''updateSnapshot'', ''UpdateSnapshot'', ''UpdateSnapshot''),
    (''deleteSnapshot'', ''DeleteSnapshot'', ''DeleteSnapshot''),
    (''createTemplate'', ''CreateTemplate'', ''CreateTemplate''), (''getTemplate'', ''GetTemplate'', ''GetTemplate''),
    (''listTemplates'', ''ListTemplates'', ''ListTemplates''),
    (''updateTemplate'', ''UpdateTemplate'', ''UpdateTemplate''),
    (''deleteTemplate'', ''DeleteTemplate'', ''DeleteTemplate''),
    (''buildTemplate'', ''BuildTemplate'', ''BuildTemplate''),
    (''cancelTemplateBuild'', ''CancelTemplateBuild'', ''CancelTemplateBuild''),
    (''getTemplateBuild'', ''GetTemplateBuild'', ''GetTemplateBuild''),
    (''listActiveTemplateBuilds'', ''ListActiveTemplateBuilds'', ''ListActiveTemplateBuilds''),
    (''listTemplateBuilds'', ''ListTemplateBuilds'', ''ListTemplateBuilds''),
    (''deleteTemplateBuild'', ''DeleteTemplateBuild'', ''DeleteTemplateBuild''),
    (''publishRegistryImage'', ''PublishRegistryImage'', ''PublishRegistryImage''),
    (''setRegistryImageVisibility'', ''SetRegistryImageVisibility'', ''SetRegistryImageVisibility''),
    (''deleteRegistryImage'', ''DeleteRegistryImage'', ''DeleteRegistryImage'')]"

definition control_fields_4 :: "(string \<times> string \<times> string) list" where
  "control_fields_4 =
    [(''deleteRegistryImageVersion'', ''DeleteRegistryImageVersion'', ''DeleteRegistryImageVersion''),
    (''listRegistryImages'', ''ListRegistryImages'', ''ListRegistryImages''),
    (''getRegistryImage'', ''GetRegistryImage'', ''GetRegistryImage''),
    (''resolveRegistryRef'', ''ResolveRegistryRef'', ''ResolveRegistryRef''),
    (''shareImage'', ''ShareImage'', ''ShareImage''),
    (''revokeRegistryShareGrant'', ''RevokeRegistryShareGrant'', ''RevokeRegistryShareGrant''),
    (''listRegistryShareGrants'', ''ListRegistryShareGrants'', ''ListRegistryShareGrants''),
    (''unshareRegistryImage'', ''UnshareRegistryImage'', ''UnshareRegistryImage''),
    (''createEgressPolicy'', ''CreateEgressPolicy'', ''CreateEgressPolicy''),
    (''updateEgressPolicy'', ''UpdateEgressPolicy'', ''UpdateEgressPolicy''),
    (''getEgressPolicy'', ''GetEgressPolicy'', ''GetEgressPolicy''),
    (''listEgressPolicies'', ''ListEgressPolicies'', ''ListEgressPolicies''),
    (''deleteEgressPolicy'', ''DeleteEgressPolicy'', ''DeleteEgressPolicy''), (''whoAmI'', ''WhoAmI'', ''WhoAmI''),
    (''listCIRunnerSizes'', ''ListCIRunnerSizes'', ''ListCIRunnerSizes'')]"

definition control_calls_1 :: "(string \<times> string \<times> call_kind) list" where
  "control_calls_1 =
    [(''GetTailnetDefaults'', ''getTailnetDefaults'', Unary),
    (''SaveTailnetDefaults'', ''saveTailnetDefaults'', Unary),
    (''ListTailnetRunnerStatuses'', ''listTailnetRunnerStatuses'', Unary),
    (''SaveTailnetRunnerConfiguration'', ''saveTailnetRunnerConfiguration'', Unary),
    (''ListTailnetRunnerConfigurations'', ''listTailnetRunnerConfigurations'', Unary),
    (''SaveTailnetConnection'', ''saveTailnetConnection'', Unary),
    (''ListTailnetConnections'', ''listTailnetConnections'', Unary),
    (''TestTailnetConnection'', ''testTailnetConnection'', Unary), (''CreateSession'', ''createSession'', Unary),
    (''CreateSessionCredential'', ''createSessionCredential'', Unary), (''GetSession'', ''getSession'', Unary),
    (''GetSessionMetrics'', ''getSessionMetrics'', Unary), (''WaitSession'', ''waitSession'', ServerStream),
    (''ListSessions'', ''listSessions'', Unary), (''ListWorkspaceSandboxes'', ''listWorkspaceSandboxes'', Unary),
    (''UpdateSession'', ''updateSession'', Unary), (''CreateVolume'', ''createVolume'', Unary),
    (''GetVolume'', ''getVolume'', Unary), (''ListVolumes'', ''listVolumes'', Unary),
    (''UpdateVolume'', ''updateVolume'', Unary), (''DeleteVolume'', ''deleteVolume'', Unary),
    (''ResizeVolume'', ''resizeVolume'', Unary), (''AttachVolume'', ''attachVolume'', Unary),
    (''DetachVolume'', ''detachVolume'', Unary), (''ExecuteCommand'', ''executeCommand'', Unary)]"

definition control_calls_2 :: "(string \<times> string \<times> call_kind) list" where
  "control_calls_2 =
    [(''StreamCommandOutput'', ''streamCommandOutput'', ServerStream), (''GitOperation'', ''gitOperation'', Unary),
    (''PauseSession'', ''pauseSession'', Unary), (''ResumeSession'', ''resumeSession'', Unary),
    (''TerminateSession'', ''terminateSession'', Unary), (''TerminateSessions'', ''terminateSessions'', Unary),
    (''ExtendSession'', ''extendSession'', Unary), (''GetArtifactUploadUrl'', ''getArtifactUploadUrl'', Unary),
    (''GetArtifactDownloadUrl'', ''getArtifactDownloadUrl'', Unary), (''ExposePort'', ''exposePort'', Unary),
    (''OpenPreview'', ''openPreview'', Unary), (''TouchPreview'', ''touchPreview'', Unary),
    (''ReportSessionActivity'', ''reportSessionActivity'', Unary), (''UnexposePort'', ''unexposePort'', Unary),
    (''ListExposedPorts'', ''listExposedPorts'', Unary), (''CreatePreviewUrl'', ''createPreviewUrl'', Unary),
    (''DeletePreviewUrl'', ''deletePreviewUrl'', Unary), (''BindPreviewUrl'', ''bindPreviewUrl'', Unary),
    (''UnbindPreviewUrl'', ''unbindPreviewUrl'', Unary), (''ListPreviewUrls'', ''listPreviewUrls'', Unary),
    (''GetPreviewUrl'', ''getPreviewUrl'', Unary), (''ResolvePreviewToken'', ''resolvePreviewToken'', Unary),
    (''UpdateSSHAuthorizedKeys'', ''updateSSHAuthorizedKeys'', Unary),
    (''CreateSnapshot'', ''createSnapshot'', Unary), (''ForkSession'', ''forkSession'', Unary)]"

definition control_calls_3 :: "(string \<times> string \<times> call_kind) list" where
  "control_calls_3 =
    [(''GetSnapshot'', ''getSnapshot'', Unary), (''GetSnapshotDownloadURL'', ''getSnapshotDownloadURL'', Unary),
    (''ListSnapshots'', ''listSnapshots'', Unary), (''ListSessionSnapshots'', ''listSessionSnapshots'', Unary),
    (''ListDanglingSnapshots'', ''listDanglingSnapshots'', Unary),
    (''ListWorkspaceSnapshots'', ''listWorkspaceSnapshots'', Unary),
    (''GetWorkspaceSandboxUsage'', ''getWorkspaceSandboxUsage'', Unary),
    (''GetWorkspacePreviewDomains'', ''getWorkspacePreviewDomains'', Unary),
    (''UpdateWorkspacePreviewDomains'', ''updateWorkspacePreviewDomains'', Unary),
    (''UpdateSnapshot'', ''updateSnapshot'', Unary), (''DeleteSnapshot'', ''deleteSnapshot'', Unary),
    (''CreateTemplate'', ''createTemplate'', Unary), (''GetTemplate'', ''getTemplate'', Unary),
    (''ListTemplates'', ''listTemplates'', Unary), (''UpdateTemplate'', ''updateTemplate'', Unary),
    (''DeleteTemplate'', ''deleteTemplate'', Unary), (''BuildTemplate'', ''buildTemplate'', Unary),
    (''CancelTemplateBuild'', ''cancelTemplateBuild'', Unary), (''GetTemplateBuild'', ''getTemplateBuild'', Unary),
    (''ListActiveTemplateBuilds'', ''listActiveTemplateBuilds'', Unary),
    (''ListTemplateBuilds'', ''listTemplateBuilds'', Unary),
    (''DeleteTemplateBuild'', ''deleteTemplateBuild'', Unary),
    (''PublishRegistryImage'', ''publishRegistryImage'', Unary),
    (''SetRegistryImageVisibility'', ''setRegistryImageVisibility'', Unary),
    (''DeleteRegistryImage'', ''deleteRegistryImage'', Unary)]"

definition control_calls_4 :: "(string \<times> string \<times> call_kind) list" where
  "control_calls_4 =
    [(''DeleteRegistryImageVersion'', ''deleteRegistryImageVersion'', Unary),
    (''ListRegistryImages'', ''listRegistryImages'', Unary), (''GetRegistryImage'', ''getRegistryImage'', Unary),
    (''ResolveRegistryRef'', ''resolveRegistryRef'', Unary), (''ShareImage'', ''shareImage'', Unary),
    (''RevokeRegistryShareGrant'', ''revokeRegistryShareGrant'', Unary),
    (''ListRegistryShareGrants'', ''listRegistryShareGrants'', Unary),
    (''UnshareRegistryImage'', ''unshareRegistryImage'', Unary),
    (''CreateEgressPolicy'', ''createEgressPolicy'', Unary), (''UpdateEgressPolicy'', ''updateEgressPolicy'', Unary),
    (''GetEgressPolicy'', ''getEgressPolicy'', Unary), (''ListEgressPolicies'', ''listEgressPolicies'', Unary),
    (''DeleteEgressPolicy'', ''deleteEgressPolicy'', Unary), (''WhoAmI'', ''whoAmI'', Unary),
    (''ListCIRunnerSizes'', ''listCIRunnerSizes'', Unary)]"

definition control_handlers_1 :: "(string \<times> string \<times> string \<times> call_kind \<times> string) list" where
  "control_handlers_1 =
    [(''GetTailnetDefaults'', ''GetTailnetDefaults'', ''GetTailnetDefaults'', Unary, ''GetTailnetDefaults''),
    (''SaveTailnetDefaults'', ''SaveTailnetDefaults'', ''SaveTailnetDefaults'', Unary, ''SaveTailnetDefaults''),
    (''ListTailnetRunnerStatuses'', ''ListTailnetRunnerStatuses'', ''ListTailnetRunnerStatuses'', Unary, ''ListTailnetRunnerStatuses''),
    (''SaveTailnetRunnerConfiguration'', ''SaveTailnetRunnerConfiguration'', ''SaveTailnetRunnerConfiguration'', Unary, ''SaveTailnetRunnerConfiguration''),
    (''ListTailnetRunnerConfigurations'', ''ListTailnetRunnerConfigurations'', ''ListTailnetRunnerConfigurations'', Unary, ''ListTailnetRunnerConfigurations''),
    (''SaveTailnetConnection'', ''SaveTailnetConnection'', ''SaveTailnetConnection'', Unary, ''SaveTailnetConnection''),
    (''ListTailnetConnections'', ''ListTailnetConnections'', ''ListTailnetConnections'', Unary, ''ListTailnetConnections''),
    (''TestTailnetConnection'', ''TestTailnetConnection'', ''TestTailnetConnection'', Unary, ''TestTailnetConnection''),
    (''CreateSession'', ''CreateSession'', ''CreateSession'', Unary, ''CreateSession''),
    (''CreateSessionCredential'', ''CreateSessionCredential'', ''CreateSessionCredential'', Unary, ''CreateSessionCredential''),
    (''GetSession'', ''GetSession'', ''GetSession'', Unary, ''GetSession''),
    (''GetSessionMetrics'', ''GetSessionMetrics'', ''GetSessionMetrics'', Unary, ''GetSessionMetrics''),
    (''WaitSession'', ''WaitSession'', ''WaitSession'', ServerStream, ''WaitSession''),
    (''ListSessions'', ''ListSessions'', ''ListSessions'', Unary, ''ListSessions''),
    (''ListWorkspaceSandboxes'', ''ListWorkspaceSandboxes'', ''ListWorkspaceSandboxes'', Unary, ''ListWorkspaceSandboxes''),
    (''UpdateSession'', ''UpdateSession'', ''UpdateSession'', Unary, ''UpdateSession''),
    (''CreateVolume'', ''CreateVolume'', ''CreateVolume'', Unary, ''CreateVolume''),
    (''GetVolume'', ''GetVolume'', ''GetVolume'', Unary, ''GetVolume''),
    (''ListVolumes'', ''ListVolumes'', ''ListVolumes'', Unary, ''ListVolumes''),
    (''UpdateVolume'', ''UpdateVolume'', ''UpdateVolume'', Unary, ''UpdateVolume''),
    (''DeleteVolume'', ''DeleteVolume'', ''DeleteVolume'', Unary, ''DeleteVolume''),
    (''ResizeVolume'', ''ResizeVolume'', ''ResizeVolume'', Unary, ''ResizeVolume''),
    (''AttachVolume'', ''AttachVolume'', ''AttachVolume'', Unary, ''AttachVolume''),
    (''DetachVolume'', ''DetachVolume'', ''DetachVolume'', Unary, ''DetachVolume''),
    (''ExecuteCommand'', ''ExecuteCommand'', ''ExecuteCommand'', Unary, ''ExecuteCommand'')]"

definition control_handlers_2 :: "(string \<times> string \<times> string \<times> call_kind \<times> string) list" where
  "control_handlers_2 =
    [(''StreamCommandOutput'', ''StreamCommandOutput'', ''StreamCommandOutput'', ServerStream, ''StreamCommandOutput''),
    (''GitOperation'', ''GitOperation'', ''GitOperation'', Unary, ''GitOperation''),
    (''PauseSession'', ''PauseSession'', ''PauseSession'', Unary, ''PauseSession''),
    (''ResumeSession'', ''ResumeSession'', ''ResumeSession'', Unary, ''ResumeSession''),
    (''TerminateSession'', ''TerminateSession'', ''TerminateSession'', Unary, ''TerminateSession''),
    (''TerminateSessions'', ''TerminateSessions'', ''TerminateSessions'', Unary, ''TerminateSessions''),
    (''ExtendSession'', ''ExtendSession'', ''ExtendSession'', Unary, ''ExtendSession''),
    (''GetArtifactUploadUrl'', ''GetArtifactUploadUrl'', ''GetArtifactUploadUrl'', Unary, ''GetArtifactUploadUrl''),
    (''GetArtifactDownloadUrl'', ''GetArtifactDownloadUrl'', ''GetArtifactDownloadUrl'', Unary, ''GetArtifactDownloadUrl''),
    (''ExposePort'', ''ExposePort'', ''ExposePort'', Unary, ''ExposePort''),
    (''OpenPreview'', ''OpenPreview'', ''OpenPreview'', Unary, ''OpenPreview''),
    (''TouchPreview'', ''TouchPreview'', ''TouchPreview'', Unary, ''TouchPreview''),
    (''ReportSessionActivity'', ''ReportSessionActivity'', ''ReportSessionActivity'', Unary, ''ReportSessionActivity''),
    (''UnexposePort'', ''UnexposePort'', ''UnexposePort'', Unary, ''UnexposePort''),
    (''ListExposedPorts'', ''ListExposedPorts'', ''ListExposedPorts'', Unary, ''ListExposedPorts''),
    (''CreatePreviewUrl'', ''CreatePreviewUrl'', ''CreatePreviewUrl'', Unary, ''CreatePreviewUrl''),
    (''DeletePreviewUrl'', ''DeletePreviewUrl'', ''DeletePreviewUrl'', Unary, ''DeletePreviewUrl''),
    (''BindPreviewUrl'', ''BindPreviewUrl'', ''BindPreviewUrl'', Unary, ''BindPreviewUrl''),
    (''UnbindPreviewUrl'', ''UnbindPreviewUrl'', ''UnbindPreviewUrl'', Unary, ''UnbindPreviewUrl''),
    (''ListPreviewUrls'', ''ListPreviewUrls'', ''ListPreviewUrls'', Unary, ''ListPreviewUrls''),
    (''GetPreviewUrl'', ''GetPreviewUrl'', ''GetPreviewUrl'', Unary, ''GetPreviewUrl''),
    (''ResolvePreviewToken'', ''ResolvePreviewToken'', ''ResolvePreviewToken'', Unary, ''ResolvePreviewToken''),
    (''UpdateSSHAuthorizedKeys'', ''UpdateSSHAuthorizedKeys'', ''UpdateSSHAuthorizedKeys'', Unary, ''UpdateSSHAuthorizedKeys''),
    (''CreateSnapshot'', ''CreateSnapshot'', ''CreateSnapshot'', Unary, ''CreateSnapshot''),
    (''ForkSession'', ''ForkSession'', ''ForkSession'', Unary, ''ForkSession'')]"

definition control_handlers_3 :: "(string \<times> string \<times> string \<times> call_kind \<times> string) list" where
  "control_handlers_3 =
    [(''GetSnapshot'', ''GetSnapshot'', ''GetSnapshot'', Unary, ''GetSnapshot''),
    (''GetSnapshotDownloadURL'', ''GetSnapshotDownloadURL'', ''GetSnapshotDownloadURL'', Unary, ''GetSnapshotDownloadURL''),
    (''ListSnapshots'', ''ListSnapshots'', ''ListSnapshots'', Unary, ''ListSnapshots''),
    (''ListSessionSnapshots'', ''ListSessionSnapshots'', ''ListSessionSnapshots'', Unary, ''ListSessionSnapshots''),
    (''ListDanglingSnapshots'', ''ListDanglingSnapshots'', ''ListDanglingSnapshots'', Unary, ''ListDanglingSnapshots''),
    (''ListWorkspaceSnapshots'', ''ListWorkspaceSnapshots'', ''ListWorkspaceSnapshots'', Unary, ''ListWorkspaceSnapshots''),
    (''GetWorkspaceSandboxUsage'', ''GetWorkspaceSandboxUsage'', ''GetWorkspaceSandboxUsage'', Unary, ''GetWorkspaceSandboxUsage''),
    (''GetWorkspacePreviewDomains'', ''GetWorkspacePreviewDomains'', ''GetWorkspacePreviewDomains'', Unary, ''GetWorkspacePreviewDomains''),
    (''UpdateWorkspacePreviewDomains'', ''UpdateWorkspacePreviewDomains'', ''UpdateWorkspacePreviewDomains'', Unary, ''UpdateWorkspacePreviewDomains''),
    (''UpdateSnapshot'', ''UpdateSnapshot'', ''UpdateSnapshot'', Unary, ''UpdateSnapshot''),
    (''DeleteSnapshot'', ''DeleteSnapshot'', ''DeleteSnapshot'', Unary, ''DeleteSnapshot''),
    (''CreateTemplate'', ''CreateTemplate'', ''CreateTemplate'', Unary, ''CreateTemplate''),
    (''GetTemplate'', ''GetTemplate'', ''GetTemplate'', Unary, ''GetTemplate''),
    (''ListTemplates'', ''ListTemplates'', ''ListTemplates'', Unary, ''ListTemplates''),
    (''UpdateTemplate'', ''UpdateTemplate'', ''UpdateTemplate'', Unary, ''UpdateTemplate''),
    (''DeleteTemplate'', ''DeleteTemplate'', ''DeleteTemplate'', Unary, ''DeleteTemplate''),
    (''BuildTemplate'', ''BuildTemplate'', ''BuildTemplate'', Unary, ''BuildTemplate''),
    (''CancelTemplateBuild'', ''CancelTemplateBuild'', ''CancelTemplateBuild'', Unary, ''CancelTemplateBuild''),
    (''GetTemplateBuild'', ''GetTemplateBuild'', ''GetTemplateBuild'', Unary, ''GetTemplateBuild''),
    (''ListActiveTemplateBuilds'', ''ListActiveTemplateBuilds'', ''ListActiveTemplateBuilds'', Unary, ''ListActiveTemplateBuilds''),
    (''ListTemplateBuilds'', ''ListTemplateBuilds'', ''ListTemplateBuilds'', Unary, ''ListTemplateBuilds''),
    (''DeleteTemplateBuild'', ''DeleteTemplateBuild'', ''DeleteTemplateBuild'', Unary, ''DeleteTemplateBuild''),
    (''PublishRegistryImage'', ''PublishRegistryImage'', ''PublishRegistryImage'', Unary, ''PublishRegistryImage''),
    (''SetRegistryImageVisibility'', ''SetRegistryImageVisibility'', ''SetRegistryImageVisibility'', Unary, ''SetRegistryImageVisibility''),
    (''DeleteRegistryImage'', ''DeleteRegistryImage'', ''DeleteRegistryImage'', Unary, ''DeleteRegistryImage'')]"

definition control_handlers_4 :: "(string \<times> string \<times> string \<times> call_kind \<times> string) list" where
  "control_handlers_4 =
    [(''DeleteRegistryImageVersion'', ''DeleteRegistryImageVersion'', ''DeleteRegistryImageVersion'', Unary, ''DeleteRegistryImageVersion''),
    (''ListRegistryImages'', ''ListRegistryImages'', ''ListRegistryImages'', Unary, ''ListRegistryImages''),
    (''GetRegistryImage'', ''GetRegistryImage'', ''GetRegistryImage'', Unary, ''GetRegistryImage''),
    (''ResolveRegistryRef'', ''ResolveRegistryRef'', ''ResolveRegistryRef'', Unary, ''ResolveRegistryRef''),
    (''ShareImage'', ''ShareImage'', ''ShareImage'', Unary, ''ShareImage''),
    (''RevokeRegistryShareGrant'', ''RevokeRegistryShareGrant'', ''RevokeRegistryShareGrant'', Unary, ''RevokeRegistryShareGrant''),
    (''ListRegistryShareGrants'', ''ListRegistryShareGrants'', ''ListRegistryShareGrants'', Unary, ''ListRegistryShareGrants''),
    (''UnshareRegistryImage'', ''UnshareRegistryImage'', ''UnshareRegistryImage'', Unary, ''UnshareRegistryImage''),
    (''CreateEgressPolicy'', ''CreateEgressPolicy'', ''CreateEgressPolicy'', Unary, ''CreateEgressPolicy''),
    (''UpdateEgressPolicy'', ''UpdateEgressPolicy'', ''UpdateEgressPolicy'', Unary, ''UpdateEgressPolicy''),
    (''GetEgressPolicy'', ''GetEgressPolicy'', ''GetEgressPolicy'', Unary, ''GetEgressPolicy''),
    (''ListEgressPolicies'', ''ListEgressPolicies'', ''ListEgressPolicies'', Unary, ''ListEgressPolicies''),
    (''DeleteEgressPolicy'', ''DeleteEgressPolicy'', ''DeleteEgressPolicy'', Unary, ''DeleteEgressPolicy''),
    (''WhoAmI'', ''WhoAmI'', ''WhoAmI'', Unary, ''WhoAmI''),
    (''ListCIRunnerSizes'', ''ListCIRunnerSizes'', ''ListCIRunnerSizes'', Unary, ''ListCIRunnerSizes'')]"

definition control_switch_1 :: "(string \<times> string) list" where
  "control_switch_1 =
    [(''GetTailnetDefaults'', ''GetTailnetDefaults''), (''SaveTailnetDefaults'', ''SaveTailnetDefaults''),
    (''ListTailnetRunnerStatuses'', ''ListTailnetRunnerStatuses''),
    (''SaveTailnetRunnerConfiguration'', ''SaveTailnetRunnerConfiguration''),
    (''ListTailnetRunnerConfigurations'', ''ListTailnetRunnerConfigurations''),
    (''SaveTailnetConnection'', ''SaveTailnetConnection''), (''ListTailnetConnections'', ''ListTailnetConnections''),
    (''TestTailnetConnection'', ''TestTailnetConnection''), (''CreateSession'', ''CreateSession''),
    (''CreateSessionCredential'', ''CreateSessionCredential''), (''GetSession'', ''GetSession''),
    (''GetSessionMetrics'', ''GetSessionMetrics''), (''WaitSession'', ''WaitSession''),
    (''ListSessions'', ''ListSessions''), (''ListWorkspaceSandboxes'', ''ListWorkspaceSandboxes''),
    (''UpdateSession'', ''UpdateSession''), (''CreateVolume'', ''CreateVolume''), (''GetVolume'', ''GetVolume''),
    (''ListVolumes'', ''ListVolumes''), (''UpdateVolume'', ''UpdateVolume''), (''DeleteVolume'', ''DeleteVolume''),
    (''ResizeVolume'', ''ResizeVolume''), (''AttachVolume'', ''AttachVolume''), (''DetachVolume'', ''DetachVolume''),
    (''ExecuteCommand'', ''ExecuteCommand''), (''StreamCommandOutput'', ''StreamCommandOutput''),
    (''GitOperation'', ''GitOperation''), (''PauseSession'', ''PauseSession''),
    (''ResumeSession'', ''ResumeSession''), (''TerminateSession'', ''TerminateSession''),
    (''TerminateSessions'', ''TerminateSessions''), (''ExtendSession'', ''ExtendSession''),
    (''GetArtifactUploadUrl'', ''GetArtifactUploadUrl''), (''GetArtifactDownloadUrl'', ''GetArtifactDownloadUrl''),
    (''ExposePort'', ''ExposePort''), (''OpenPreview'', ''OpenPreview''), (''TouchPreview'', ''TouchPreview''),
    (''ReportSessionActivity'', ''ReportSessionActivity''), (''UnexposePort'', ''UnexposePort''),
    (''ListExposedPorts'', ''ListExposedPorts''), (''CreatePreviewUrl'', ''CreatePreviewUrl''),
    (''DeletePreviewUrl'', ''DeletePreviewUrl''), (''BindPreviewUrl'', ''BindPreviewUrl''),
    (''UnbindPreviewUrl'', ''UnbindPreviewUrl''), (''ListPreviewUrls'', ''ListPreviewUrls''),
    (''GetPreviewUrl'', ''GetPreviewUrl''), (''ResolvePreviewToken'', ''ResolvePreviewToken''),
    (''UpdateSSHAuthorizedKeys'', ''UpdateSSHAuthorizedKeys''), (''CreateSnapshot'', ''CreateSnapshot''),
    (''ForkSession'', ''ForkSession'')]"

definition control_switch_2 :: "(string \<times> string) list" where
  "control_switch_2 =
    [(''GetSnapshot'', ''GetSnapshot''), (''GetSnapshotDownloadURL'', ''GetSnapshotDownloadURL''),
    (''ListSnapshots'', ''ListSnapshots''), (''ListSessionSnapshots'', ''ListSessionSnapshots''),
    (''ListDanglingSnapshots'', ''ListDanglingSnapshots''), (''ListWorkspaceSnapshots'', ''ListWorkspaceSnapshots''),
    (''GetWorkspaceSandboxUsage'', ''GetWorkspaceSandboxUsage''),
    (''GetWorkspacePreviewDomains'', ''GetWorkspacePreviewDomains''),
    (''UpdateWorkspacePreviewDomains'', ''UpdateWorkspacePreviewDomains''), (''UpdateSnapshot'', ''UpdateSnapshot''),
    (''DeleteSnapshot'', ''DeleteSnapshot''), (''CreateTemplate'', ''CreateTemplate''),
    (''GetTemplate'', ''GetTemplate''), (''ListTemplates'', ''ListTemplates''),
    (''UpdateTemplate'', ''UpdateTemplate''), (''DeleteTemplate'', ''DeleteTemplate''),
    (''BuildTemplate'', ''BuildTemplate''), (''CancelTemplateBuild'', ''CancelTemplateBuild''),
    (''GetTemplateBuild'', ''GetTemplateBuild''), (''ListActiveTemplateBuilds'', ''ListActiveTemplateBuilds''),
    (''ListTemplateBuilds'', ''ListTemplateBuilds''), (''DeleteTemplateBuild'', ''DeleteTemplateBuild''),
    (''PublishRegistryImage'', ''PublishRegistryImage''),
    (''SetRegistryImageVisibility'', ''SetRegistryImageVisibility''),
    (''DeleteRegistryImage'', ''DeleteRegistryImage''),
    (''DeleteRegistryImageVersion'', ''DeleteRegistryImageVersion''),
    (''ListRegistryImages'', ''ListRegistryImages''), (''GetRegistryImage'', ''GetRegistryImage''),
    (''ResolveRegistryRef'', ''ResolveRegistryRef''), (''ShareImage'', ''ShareImage''),
    (''RevokeRegistryShareGrant'', ''RevokeRegistryShareGrant''),
    (''ListRegistryShareGrants'', ''ListRegistryShareGrants''), (''UnshareRegistryImage'', ''UnshareRegistryImage''),
    (''CreateEgressPolicy'', ''CreateEgressPolicy''), (''UpdateEgressPolicy'', ''UpdateEgressPolicy''),
    (''GetEgressPolicy'', ''GetEgressPolicy''), (''ListEgressPolicies'', ''ListEgressPolicies''),
    (''DeleteEgressPolicy'', ''DeleteEgressPolicy''), (''WhoAmI'', ''WhoAmI''),
    (''ListCIRunnerSizes'', ''ListCIRunnerSizes'')]"

definition control_unimplemented_1 :: "(string \<times> string) list" where
  "control_unimplemented_1 =
    [(''GetTailnetDefaults'', ''GetTailnetDefaults''), (''SaveTailnetDefaults'', ''SaveTailnetDefaults''),
    (''ListTailnetRunnerStatuses'', ''ListTailnetRunnerStatuses''),
    (''SaveTailnetRunnerConfiguration'', ''SaveTailnetRunnerConfiguration''),
    (''ListTailnetRunnerConfigurations'', ''ListTailnetRunnerConfigurations''),
    (''SaveTailnetConnection'', ''SaveTailnetConnection''), (''ListTailnetConnections'', ''ListTailnetConnections''),
    (''TestTailnetConnection'', ''TestTailnetConnection''), (''CreateSession'', ''CreateSession''),
    (''CreateSessionCredential'', ''CreateSessionCredential''), (''GetSession'', ''GetSession''),
    (''GetSessionMetrics'', ''GetSessionMetrics''), (''WaitSession'', ''WaitSession''),
    (''ListSessions'', ''ListSessions''), (''ListWorkspaceSandboxes'', ''ListWorkspaceSandboxes''),
    (''UpdateSession'', ''UpdateSession''), (''CreateVolume'', ''CreateVolume''), (''GetVolume'', ''GetVolume''),
    (''ListVolumes'', ''ListVolumes''), (''UpdateVolume'', ''UpdateVolume''), (''DeleteVolume'', ''DeleteVolume''),
    (''ResizeVolume'', ''ResizeVolume''), (''AttachVolume'', ''AttachVolume''), (''DetachVolume'', ''DetachVolume''),
    (''ExecuteCommand'', ''ExecuteCommand'')]"

definition control_unimplemented_2 :: "(string \<times> string) list" where
  "control_unimplemented_2 =
    [(''StreamCommandOutput'', ''StreamCommandOutput''), (''GitOperation'', ''GitOperation''),
    (''PauseSession'', ''PauseSession''), (''ResumeSession'', ''ResumeSession''),
    (''TerminateSession'', ''TerminateSession''), (''TerminateSessions'', ''TerminateSessions''),
    (''ExtendSession'', ''ExtendSession''), (''GetArtifactUploadUrl'', ''GetArtifactUploadUrl''),
    (''GetArtifactDownloadUrl'', ''GetArtifactDownloadUrl''), (''ExposePort'', ''ExposePort''),
    (''OpenPreview'', ''OpenPreview''), (''TouchPreview'', ''TouchPreview''),
    (''ReportSessionActivity'', ''ReportSessionActivity''), (''UnexposePort'', ''UnexposePort''),
    (''ListExposedPorts'', ''ListExposedPorts''), (''CreatePreviewUrl'', ''CreatePreviewUrl''),
    (''DeletePreviewUrl'', ''DeletePreviewUrl''), (''BindPreviewUrl'', ''BindPreviewUrl''),
    (''UnbindPreviewUrl'', ''UnbindPreviewUrl''), (''ListPreviewUrls'', ''ListPreviewUrls''),
    (''GetPreviewUrl'', ''GetPreviewUrl''), (''ResolvePreviewToken'', ''ResolvePreviewToken''),
    (''UpdateSSHAuthorizedKeys'', ''UpdateSSHAuthorizedKeys''), (''CreateSnapshot'', ''CreateSnapshot''),
    (''ForkSession'', ''ForkSession'')]"

definition control_unimplemented_3 :: "(string \<times> string) list" where
  "control_unimplemented_3 =
    [(''GetSnapshot'', ''GetSnapshot''), (''GetSnapshotDownloadURL'', ''GetSnapshotDownloadURL''),
    (''ListSnapshots'', ''ListSnapshots''), (''ListSessionSnapshots'', ''ListSessionSnapshots''),
    (''ListDanglingSnapshots'', ''ListDanglingSnapshots''), (''ListWorkspaceSnapshots'', ''ListWorkspaceSnapshots''),
    (''GetWorkspaceSandboxUsage'', ''GetWorkspaceSandboxUsage''),
    (''GetWorkspacePreviewDomains'', ''GetWorkspacePreviewDomains''),
    (''UpdateWorkspacePreviewDomains'', ''UpdateWorkspacePreviewDomains''), (''UpdateSnapshot'', ''UpdateSnapshot''),
    (''DeleteSnapshot'', ''DeleteSnapshot''), (''CreateTemplate'', ''CreateTemplate''),
    (''GetTemplate'', ''GetTemplate''), (''ListTemplates'', ''ListTemplates''),
    (''UpdateTemplate'', ''UpdateTemplate''), (''DeleteTemplate'', ''DeleteTemplate''),
    (''BuildTemplate'', ''BuildTemplate''), (''CancelTemplateBuild'', ''CancelTemplateBuild''),
    (''GetTemplateBuild'', ''GetTemplateBuild''), (''ListActiveTemplateBuilds'', ''ListActiveTemplateBuilds''),
    (''ListTemplateBuilds'', ''ListTemplateBuilds''), (''DeleteTemplateBuild'', ''DeleteTemplateBuild''),
    (''PublishRegistryImage'', ''PublishRegistryImage''),
    (''SetRegistryImageVisibility'', ''SetRegistryImageVisibility''),
    (''DeleteRegistryImage'', ''DeleteRegistryImage'')]"

definition control_unimplemented_4 :: "(string \<times> string) list" where
  "control_unimplemented_4 =
    [(''DeleteRegistryImageVersion'', ''DeleteRegistryImageVersion''),
    (''ListRegistryImages'', ''ListRegistryImages''), (''GetRegistryImage'', ''GetRegistryImage''),
    (''ResolveRegistryRef'', ''ResolveRegistryRef''), (''ShareImage'', ''ShareImage''),
    (''RevokeRegistryShareGrant'', ''RevokeRegistryShareGrant''),
    (''ListRegistryShareGrants'', ''ListRegistryShareGrants''), (''UnshareRegistryImage'', ''UnshareRegistryImage''),
    (''CreateEgressPolicy'', ''CreateEgressPolicy''), (''UpdateEgressPolicy'', ''UpdateEgressPolicy''),
    (''GetEgressPolicy'', ''GetEgressPolicy''), (''ListEgressPolicies'', ''ListEgressPolicies''),
    (''DeleteEgressPolicy'', ''DeleteEgressPolicy''), (''WhoAmI'', ''WhoAmI''),
    (''ListCIRunnerSizes'', ''ListCIRunnerSizes'')]"

definition control_stub :: service_stub where
  "control_stub = \<lparr>sb_name = ''tenki.sandbox.v1.SandboxService'', sb_mount = ''/tenki.sandbox.v1.SandboxService/'',
     sb_procedures = control_procedures_1 @ control_procedures_2 @ control_procedures_3 @ control_procedures_4,
     sb_fields = control_fields_1 @ control_fields_2 @ control_fields_3 @ control_fields_4,
     sb_calls = control_calls_1 @ control_calls_2 @ control_calls_3 @ control_calls_4,
     sb_handlers = control_handlers_1 @ control_handlers_2 @ control_handlers_3 @ control_handlers_4,
     sb_switch = control_switch_1 @ control_switch_2,
     sb_unimplemented = control_unimplemented_1 @ control_unimplemented_2 @ control_unimplemented_3 @ control_unimplemented_4\<rparr>"

lemma control_fitting: "fitting control_stub"
  by code_simp

lemma control_procedures_distinct: "distinct (map fst (sb_procedures control_stub))"
  by code_simp

lemma control_fields_distinct: "distinct (map fst (sb_fields control_stub))"
  by code_simp

lemma control_aligned: "aligned control_stub"
  by (simp only: aligned_def control_fitting control_procedures_distinct control_fields_distinct)

section \<open>All services\<close>

abbreviation rpc_stubs :: "service_stub list" where
  "rpc_stubs \<equiv> [control_stub, guest_stub, secrets_stub, gateway_stub]"

lemmas stubs_aligned = control_aligned guest_aligned secrets_aligned gateway_aligned

lemma all_routed: "aligned st \<Longrightarrow> list_all (\<lambda>(m, field, kind). well_routed st baseURL m) (sb_calls st)"
  using aligned_routed by (force simp: list_all_iff)

text \<open>The names of the services have no slash, so that the name can be read off a path.\<close>

fun service_of :: "string \<Rightarrow> string" where
  "service_of [] = []"
| "service_of (c # s) = takeWhile (\<lambda>d. d \<noteq> CHR ''/'') s"

lemma served_by_owner:
  assumes "aligned st" and "serve_path st path \<noteq> None" and "CHR ''/'' \<notin> set (sb_name st)"
  shows "sb_name st = service_of path"
proof -
  obtain m where "path = ''/'' @ sb_name st @ ''/'' @ m" using assms(1,2) aligned_only by blast
  moreover have "takeWhile (\<lambda>d. d \<noteq> CHR ''/'') (name @ CHR ''/'' # m) = name" if "CHR ''/'' \<notin> set name" for name
    using that by (induction name) auto
  ultimately show ?thesis using assms(3) by simp
qed

lemma one_owner:
  assumes "list_all aligned sts" and "list_all (\<lambda>st. CHR ''/'' \<notin> set (sb_name st)) sts" and "distinct (map sb_name sts)"
  shows "length (filter (\<lambda>st. serve_path st path \<noteq> None) sts) \<le> 1"
  using assms
proof (induction sts)
  case (Cons st sts)
  show ?case
  proof (cases "serve_path st path = None")
    case False
    then have st: "sb_name st = service_of path" using Cons.prems served_by_owner [of st path] by simp
    have "serve_path st' path = None" if "st' \<in> set sts" for st'
    proof (rule ccontr)
      assume "serve_path st' path \<noteq> None"
      then have "sb_name st' = sb_name st" using Cons.prems that served_by_owner [of st' path] st by (simp add: list_all_iff)
      then show False using Cons.prems(3) that by (metis distinct.simps(2) image_eqI list.simps(9) list.set_map)
    qed
    then have "filter (\<lambda>st. serve_path st path \<noteq> None) sts = []" by (simp add: filter_empty_conv)
    then show ?thesis by simp
  qed (use Cons in simp)
qed simp

lemma served_iff:
  assumes "aligned st"
  shows "(serve_path st path \<noteq> None) = (path \<in> set (map (\<lambda>(m, field, kind). ''/'' @ sb_name st @ ''/'' @ m) (sb_calls st)))"
  using aligned_only [OF assms] aligned_serves [OF assms] by force

lemma stub_names:
  "list_all (\<lambda>st. CHR ''/'' \<notin> set (sb_name st)) rpc_stubs" "distinct (map sb_name rpc_stubs)"
  by code_simp+

text \<open>C34: the generated stubs fit together, for every one of the 118 methods of the four services: with any base URL,
  the client's method calls a URL below it, with the path for which the service's handler runs the method of the same
  name in the same kind (unary, or streaming in one direction or both), a path under the prefix where the handler is
  mounted; a server that does not implement the method answers with the code that says so. A handler serves no other
  path, and no path is served by two services.\<close>

theorem procedures_served:
  "list_all (\<lambda>st. list_all (\<lambda>(m, field, kind). well_routed st baseURL m) (sb_calls st)) rpc_stubs \<and>
   list_all (\<lambda>st. (serve_path st path \<noteq> None) = (path \<in> set (map (\<lambda>(m, field, kind). ''/'' @ sb_name st @ ''/'' @ m) (sb_calls st))))
     rpc_stubs \<and>
   length (filter (\<lambda>st. serve_path st path \<noteq> None) rpc_stubs) \<le> 1 \<and>
   map (\<lambda>st. length (sb_calls st)) rpc_stubs = [90, 11, 15, 2]"
proof (intro conjI)
  show "list_all (\<lambda>st. list_all (\<lambda>(m, field, kind). well_routed st baseURL m) (sb_calls st)) rpc_stubs"
    by (simp only: list.pred_inject all_routed stubs_aligned)
  show "list_all (\<lambda>st. (serve_path st path \<noteq> None) =
      (path \<in> set (map (\<lambda>(m, field, kind). ''/'' @ sb_name st @ ''/'' @ m) (sb_calls st)))) rpc_stubs"
    by (simp only: list.pred_inject served_iff stubs_aligned)
  show "length (filter (\<lambda>st. serve_path st path \<noteq> None) rpc_stubs) \<le> 1"
    by (rule one_owner [OF _ stub_names]) (simp only: list.pred_inject stubs_aligned)
  show "map (\<lambda>st. length (sb_calls st)) rpc_stubs = [90, 11, 15, 2]"
    by code_simp
qed

end
