(* ===== verification/Spec2Isabelle.thy ===== *)
theory Spec2Isabelle
  imports TemplateJson DataPlaneSpec Resolve Lifetimes Commands Tunnel Templates ClientCalls Files Ssh SshClose GitOps Redact WorkspaceSpec
    ControlProcedures
begin

text \<open>
  A verification library for the Tenki sandbox SDK for Go (the module under \<open>src/sandbox\<close>; paths are relative to it).

  The program. A \<open>Client\<close> talks to a control plane: it creates, lists, forks and ends sandbox sessions, and manages
  their snapshots, volumes, templates, registry images, egress policies and preview URLs. A \<open>Session\<close> is a handle
  with two parts: a view of what the server last said, and a data plane, the direct connection to the guest over
  which commands, files, tunnels and connections run. The data plane has an endpoint, a short-lived credential
  bound to it, a goroutine that renews the credential, an RPC client bound to the endpoint, and a counted
  reference on an HTTP client that the sessions of a \<open>Client\<close> share. Most of what is hard is there: several
  goroutines change these fields under locks, answers arrive late, and a credential must never reach a host it
  was not issued for.

  Theories and the code they model.
  \<^item> \<open>Prelude\<close>, \<open>GoStrings\<close>: results, wrap-around of machine integers, maps as lists of pairs, options as functions on
    a configuration, and the string functions of the Go library that the SDK calls.
  \<^item> \<open>Errors\<close>, \<open>ErrorMap\<close> (\<open>errors.go\<close>): error values as trees with \<open>errors.Is\<close>, \<open>errors.As\<close> and \<open>Unwrap\<close>, and every
    branch of \<open>mapError\<close>. \<open>Resource_Limits\<close> (\<open>resources.go\<close>, \<open>disk.go\<close>, \<open>poll.go\<close>, \<open>result.go\<close>, \<open>pagination.go\<close>).
  \<^item> \<open>SecretFiles\<close>, \<open>TemplateSpec\<close>, \<open>TemplateValidate\<close>, \<open>TemplateJson\<close> (\<open>secret_files.go\<close>, \<open>template_spec.go\<close>): the recipe,
    its builder, its validation against a separate contract, and its authored JSON form.
  \<^item> \<open>Options\<close>, \<open>CreateRequest\<close> (\<open>options.go\<close>, \<open>sandbox.go\<close>, \<open>tailnet.go\<close>): one function per option, the constructor
    \<open>New\<close> and the whole request of \<open>Create\<close>.
  \<^item> \<open>Transport\<close>, \<open>ClientInfo\<close>, \<open>DataPlane\<close>, \<open>DataPlaneSafety\<close>, \<open>DataPlaneSpec\<close>, \<open>Resolve\<close>, \<open>Credential\<close>
    (\<open>data_plane.go\<close>, \<open>session.go\<close>): the pool of HTTP clients, the request headers, one function per critical section
    of the data plane, all its histories, the abstract machine they implement, the callers that share a resolution,
    and the renewal, the resolution and the interceptor.
  \<^item> \<open>SessionState\<close>, \<open>SessionWait\<close>, \<open>CreateWait\<close>, \<open>SessionOps\<close>, \<open>ServiceCalls\<close>, \<open>ClientCalls\<close> (\<open>session.go\<close>, \<open>sandbox.go\<close>,
    \<open>snapshot.go\<close>, \<open>volume.go\<close>, \<open>warning.go\<close>, \<open>preview_url.go\<close>, \<open>egress_policies.go\<close>, \<open>metrics.go\<close>, \<open>whoami.go\<close>,
    \<open>ssh_cert.go\<close>): the views, the polling waits, readiness, the operations of a handle over both of its parts with
    the array of its volume mounts, and the calls that keep no state.
  \<^item> \<open>Run\<close>, \<open>RunStream\<close>, \<open>Commands\<close> (\<open>run.go\<close>, \<open>stream.go\<close>, \<open>session.go\<close>): opening a run, its pumps and outcome, the
    stream with its copiers, and the two \<open>Exec\<close>. \<open>Tunnel\<close> (\<open>tunnel.go\<close>, \<open>dial.go\<close>): tunnels, their reconnection, \<open>Dial\<close>.
  \<^item> \<open>Lifetimes\<close> (\<open>data_plane.go\<close>, \<open>sandbox.go\<close>): the contexts of readiness budgets, the choice of transport, and the
    early connection. \<open>Ssh\<close>, \<open>SshClose\<close> (\<open>ssh.go\<close>): the gateway, the byte stream, and closing it under other calls.
  \<^item> \<open>RequestId\<close>, \<open>Workspace\<close>, \<open>WorkspaceSpec\<close> (\<open>workspace/client.go\<close>, \<open>workspace/secrets.go\<close>,
    \<open>workspace/policies.go\<close>): the workspace client, its request identifiers, secrets and policies, and their contract.
  \<^item> \<open>Procedures\<close>, \<open>ControlProcedures\<close> (\<open>secrets.connect.go\<close>, \<open>sandbox.connect.go\<close>,
    \<open>ssh_gateway_client.connect.go\<close>): the generated stubs of the four services as tables, and how they route a call.
  \<^item> \<open>Files\<close> (\<open>fs.go\<close>), \<open>GitOps\<close> (\<open>git.go\<close>), \<open>Redact\<close> (\<open>redact.go\<close>), \<open>Registry\<close> (\<open>registry.go\<close>),
    \<open>Templates\<close> (\<open>template.go\<close>).

  How the code corresponds. A struct is a record whose fields carry a prefix, a function of the code has its name,
  a method the name of its receiver where the bare name is taken. What another program decides (an answer of the
  server, the outcome of a send or a read, which timer fires) is an argument: a function for a call, and a list of
  observations, one per turn, for a loop. A loop that outlives its observations is \<open>None\<close>; the theorems about
  termination say that enough observations give a result, so no theorem holds by running out of them. Goroutines
  are a step relation with one step per critical section or synchronisation, and the theorems quantify over every
  reachable state. Times and durations are integers in nanoseconds, and 32 and 64 bit arithmetic wraps where the
  code can reach the bound. The Go library is modelled where its meaning matters (strings, paths, errors, \<open>io.Copy\<close>,
  \<open>io.Pipe\<close>, slices that share an array); \<open>url.Parse\<close>, \<open>fmt.Fprintf\<close> of a single value and the JSON lexer are arguments.

  What the lemmas show. The data plane: invariants of every history (the binding of the credential, the control of the
  renewal loops, the reference on the pool), the simulation of the abstract link, carried to whole handles in
  \<open>SessionOps\<close>, and one resolution for all callers, each of which returns. Commands: no output is lost in
  any interleaving, and a measure of the work left shows that \<open>Exec\<close> returns. Waits and retries: they
  return within their budget, and succeed only for what they wait for. Requests: what is sent has passed its checks,
  validation decides its contract, and a mutation of the workspace is sent once and can be replayed by its identifier;
  what a generated client calls is served by the method of its name. Closing: every call ends unless the peer stalls a
  write. Formats: round trips of the recipe and of egress policies. The interfaces are locales:
  \<open>field_option\<close>, \<open>client_pool\<close>, \<open>waiter\<close>, \<open>terminating\<close> and
  \<open>listing\<close>, each interpreted on the definitions of the code that provide it.

  Not modelled. The HTTP/2 and TLS machinery behind the transports (only I/O); the generated protobuf messages (the
  fields that the program uses are records here) and the bodies of \<open>connect\<close>; the interfaces that only
  give options their types; the conversion of floating point metrics, which are copied unchanged. The request of a
  probe is left out of \<open>Credential\<close>, whose resolution is that of one caller; \<open>Resolve\<close> has
  the callers that share one.
\<close>

section \<open>Listings\<close>

text \<open>C32: A listing succeeds exactly when the server serves it to its end, and then with the items of every page, each
  once and in the order of the pages: sessions, snapshots, volumes, templates, preview URLs and egress policies.\<close>

theorem listings_exact:
  "(Client_List list_sessions s opts = Some (Inr sessions) \<longleftrightarrow>
     (\<exists>ps. serves (\<lambda>s tok. list_sessions s (let cfg = apply_opts opts defaultListConfig
         in (lc_workspaceID cfg, automaticPageSize, tok, lc_tags cfg, lc_sticky cfg, lc_includeTerminated cfg))) s [] ps \<and>
       sessions = concat (map sessionsFromProto ps))) \<and>
   (ListSnapshots list_snapshots s opts = Some (Inr snapshots) \<longleftrightarrow>
     (\<exists>ps. serves (\<lambda>s tok. list_snapshots s (lc_workspaceID (apply_opts opts defaultListConfig), automaticPageSize, tok)) s [] ps \<and>
       snapshots = concat (map snapshotsFromProto ps))) \<and>
   (ListVolumes parse list_volumes s opts = Some (Inr volumes) \<longleftrightarrow>
     (\<exists>ps. serves (\<lambda>s tok. list_volumes s (lc_workspaceID (apply_opts opts defaultListConfig), automaticPageSize, tok)) s [] ps \<and>
       volumes = concat (map (volumesFromProto parse) ps))) \<and>
   (ListTemplates list_templates s opts = Some (Inr templates) \<longleftrightarrow>
     (\<exists>ps. serves (\<lambda>s tok. list_templates s (let cfg = apply_opts opts defaultListConfig
         in (lc_workspaceID cfg, automaticPageSize, tok, lc_tags cfg))) s [] ps \<and>
       templates = concat (map templatesFromProto ps))) \<and>
   (ListPreviewURLs list_urls s url_opts = Some (Inr urls) \<longleftrightarrow>
     (\<exists>ps. serves (\<lambda>s tok. list_urls s (let cfg = apply_opts url_opts no_preview_config
         in (automaticPageSize, tok, if_text (pc_workspaceID cfg), if_text (pc_sessionID cfg)))) s [] ps \<and>
       urls = concat (map (map previewURLFromProto) ps))) \<and>
   (ListEgressPolicies epoch list_policies s policy_opts = Some (Inr policies) \<longleftrightarrow>
     (\<exists>ps. serves (\<lambda>s cursor. list_policies s (egressPolicyWorkspace policy_opts, automaticPageSize, cursor)) s [] ps \<and>
       policies = concat (map (map (egressPolicyFromMessage epoch)) ps)))"
  by (intro conjI sessions.exact snapshots.exact volumes.exact templates.exact preview_urls.exact egress_policies.exact)

end
